(* ===== verification/LW_Prelude.thy ===== *)
theory LW_Prelude
  imports Main "HOL-Library.Word" "HOL-Library.Sublist"
begin

text \<open>
  Shared vocabulary of the LabWeaver development.

  \<^item> Fallible Rust functions return \<^typ>\<open>'e + 'a\<close>: \<^term>\<open>Inl e\<close> is \<^verbatim>\<open>Err(e)\<close>
    and \<^term>\<open>Inr v\<close> is \<^verbatim>\<open>Ok(v)\<close>.  The \<^verbatim>\<open>?\<close> operator is \<open>res_then\<close>,
    \<^verbatim>\<open>ok_or\<close> is \<open>ok_or\<close> and \<^verbatim>\<open>map_err\<close> is \<open>map_err\<close>.
  \<^item> Rust strings are their UTF-8 byte sequences, so \<^verbatim>\<open>len()\<close> is \<^const>\<open>length\<close> and
    \<^verbatim>\<open>bytes().all(p)\<close> is \<^const>\<open>list_all\<close>; the three character level
    operations the sources use (\<^verbatim>\<open>trim\<close>, \<^verbatim>\<open>is_control\<close>, \<^verbatim>\<open>chars().count()\<close>) are
    written out on the encoded bytes.
  \<^item> \<^verbatim>\<open>u64\<close>, \<^verbatim>\<open>u32\<close> and \<^verbatim>\<open>u8\<close> are words of that width, with
    \<^verbatim>\<open>checked_add\<close> as \<open>checked_add\<close>.
  \<^item> Instants are integers counting milliseconds; UUIDs are 128 bit words.
\<close>

section \<open>Results\<close>

named_theorems res_simps \<open>rewriting of Result chains to their success or failure condition\<close>

type_synonym ('e, 'a) result = "'e + 'a"

definition res_then :: "'e + 'a \<Rightarrow> ('a \<Rightarrow> 'e + 'b) \<Rightarrow> 'e + 'b" where
  "res_then r f = (case r of Inl e \<Rightarrow> Inl e | Inr v \<Rightarrow> f v)"

definition ok_or :: "'e \<Rightarrow> 'a option \<Rightarrow> 'e + 'a" where
  "ok_or e x = (case x of None \<Rightarrow> Inl e | Some v \<Rightarrow> Inr v)"

definition map_err :: "('e \<Rightarrow> 'f) \<Rightarrow> 'e + 'a \<Rightarrow> 'f + 'a" where
  "map_err h r = (case r of Inl e \<Rightarrow> Inl (h e) | Inr v \<Rightarrow> Inr v)"

definition is_ok :: "'e + 'a \<Rightarrow> bool" where
  "is_ok r = (case r of Inl _ \<Rightarrow> False | Inr _ \<Rightarrow> True)"

definition ensure_else :: "'e \<Rightarrow> bool \<Rightarrow> 'e + unit" where
  "ensure_else e c = (if c then Inr () else Inl e)"

fun res_all :: "('a \<Rightarrow> 'e + unit) \<Rightarrow> 'a list \<Rightarrow> 'e + unit" where
  "res_all f [] = Inr ()"
| "res_all f (x # xs) = res_then (f x) (\<lambda>_. res_all f xs)"

lemma res_then_simps [simp]:
  "res_then (Inl e) f = Inl e"
  "res_then (Inr v) f = f v"
  by (simp_all add: res_then_def)

lemma ok_or_simps [simp]:
  "ok_or e None = Inl e"
  "ok_or e (Some v) = Inr v"
  by (simp_all add: ok_or_def)

lemma map_err_simps [simp]:
  "map_err h (Inl e) = Inl (h e)"
  "map_err h (Inr v) = Inr v"
  by (simp_all add: map_err_def)

lemma is_ok_simps [simp]:
  "\<not> is_ok (Inl e)"
  "is_ok (Inr v)"
  by (simp_all add: is_ok_def)

lemma res_then_Inr [res_simps]:
  "res_then r f = Inr y \<longleftrightarrow> (\<exists>v. r = Inr v \<and> f v = Inr y)"
  by (cases r) auto

lemma ok_or_Inr [res_simps]: "ok_or e x = Inr y \<longleftrightarrow> x = Some y"
  by (cases x) auto

lemma map_err_Inr [res_simps]: "map_err h r = Inr y \<longleftrightarrow> r = Inr y"
  by (cases r) auto

lemma ensure_else_Inr [res_simps]: "ensure_else e c = Inr u \<longleftrightarrow> c"
  by (simp add: ensure_else_def)

lemma guard_Inr [res_simps]: "(if c then Inl e else r) = Inr y \<longleftrightarrow> \<not> c \<and> r = Inr y"
  by simp

lemma guard_Inr' [res_simps]: "(if c then r else Inl e) = Inr y \<longleftrightarrow> c \<and> r = Inr y"
  by simp

lemma is_ok_if: "is_ok (if c then a else b) = (if c then is_ok a else is_ok b)"
  by simp

lemma is_ok_iff: "is_ok r \<longleftrightarrow> (\<exists>v. r = Inr v)"
  by (cases r) auto

lemma res_all_Inr [res_simps]: "res_all f xs = Inr u \<longleftrightarrow> (\<forall>x \<in> set xs. f x = Inr ())"
  by (induction xs) (auto simp: res_then_Inr)

section \<open>Machine integers and time\<close>

type_synonym u64 = "64 word"
type_synonym u32 = "32 word"
type_synonym u16 = "16 word"
type_synonym u8 = "8 word"
type_synonym uuid = "128 word"
type_synonym timestamp = int

definition U64_LIMIT :: nat where
  "U64_LIMIT = 2 ^ 64"

definition checked_add :: "'w::len word \<Rightarrow> 'w word \<Rightarrow> 'w word option" where
  "checked_add a b = (if uint a + uint b < 2 ^ LENGTH('w) then Some (a + b) else None)"

definition saturating_add :: "'w::len word \<Rightarrow> 'w word \<Rightarrow> 'w word" where
  "saturating_add a b = (if uint a + uint b < 2 ^ LENGTH('w) then a + b else - 1)"

lemma uint_add_less: "uint a + uint b < 2 ^ LENGTH('w) \<longleftrightarrow> unat a + unat b < 2 ^ LENGTH('w)"
  for a b :: "'w::len word"
proof -
  have "uint a + uint b = int (unat a + unat b)" by simp
  then show ?thesis by (metis of_nat_less_numeral_power_cancel_iff)
qed

lemma checked_add_Some:
  "checked_add a b = Some c \<longleftrightarrow> c = a + b \<and> unat a + unat b < 2 ^ LENGTH('w)"
  for a :: "'w::len word"
  by (auto simp: checked_add_def uint_add_less)

lemma checked_add_unat:
  "checked_add a b = Some c \<Longrightarrow> unat c = unat a + unat b" for a :: "'w::len word"
  by (simp add: checked_add_Some unat_word_ariths)

lemma checked_add_1_less:
  "checked_add a 1 = Some c \<Longrightarrow> a < c" for a :: "'w::len word"
  using checked_add_unat [of a 1 c] by (simp add: word_less_nat_alt)

lemma checked_add_1_neq_0:
  "checked_add a 1 = Some c \<Longrightarrow> c \<noteq> 0" for a :: "'w::len word"
  using checked_add_1_less by force

lemma unat_plus_1: "a < b \<Longrightarrow> unat (a + 1) = Suc (unat a)" for a b :: "'w::len word"
proof -
  assume "a < b"
  moreover have "unat b < 2 ^ LENGTH('w)" by (rule unsigned_less)
  ultimately have "Suc (unat a) < 2 ^ LENGTH('w)"
    unfolding word_less_nat_alt by linarith
  then show ?thesis by (simp add: unat_word_ariths)
qed

section \<open>Strings\<close>

definition byte :: "char \<Rightarrow> nat" where
  "byte c = of_char c"

definition is_ascii_digit :: "char \<Rightarrow> bool" where
  "is_ascii_digit c \<longleftrightarrow> 48 \<le> byte c \<and> byte c \<le> 57"

definition is_ascii_uppercase :: "char \<Rightarrow> bool" where
  "is_ascii_uppercase c \<longleftrightarrow> 65 \<le> byte c \<and> byte c \<le> 90"

definition is_ascii_lowercase :: "char \<Rightarrow> bool" where
  "is_ascii_lowercase c \<longleftrightarrow> 97 \<le> byte c \<and> byte c \<le> 122"

definition is_ascii_alphanumeric :: "char \<Rightarrow> bool" where
  "is_ascii_alphanumeric c \<longleftrightarrow> is_ascii_digit c \<or> is_ascii_uppercase c \<or> is_ascii_lowercase c"

definition is_ascii_control :: "char \<Rightarrow> bool" where
  "is_ascii_control c \<longleftrightarrow> byte c < 32 \<or> byte c = 127"

definition is_ascii_hexdigit :: "char \<Rightarrow> bool" where
  "is_ascii_hexdigit c \<longleftrightarrow> is_ascii_digit c \<or> (65 \<le> byte c \<and> byte c \<le> 70) \<or> (97 \<le> byte c \<and> byte c \<le> 102)"

definition chars_count :: "string \<Rightarrow> nat" where
  "chars_count s = length (filter (\<lambda>c. \<not> (128 \<le> byte c \<and> byte c < 192)) s)"

fun has_control :: "string \<Rightarrow> bool" where
  "has_control [] \<longleftrightarrow> False"
| "has_control (c # cs) \<longleftrightarrow> is_ascii_control c
     \<or> (byte c = 194 \<and> (case cs of [] \<Rightarrow> False | d # _ \<Rightarrow> 128 \<le> byte d \<and> byte d \<le> 159))
     \<or> has_control cs"

definition ws_len :: "string \<Rightarrow> nat" where
  "ws_len s = (case map byte (take 3 s) of
      [] \<Rightarrow> 0
    | a # r \<Rightarrow>
        if 9 \<le> a \<and> a \<le> 13 \<or> a = 32 then 1
        else (case r of
            [] \<Rightarrow> 0
          | b # q \<Rightarrow>
              if a = 194 \<and> (b = 133 \<or> b = 160) then 2
              else (case q of
                  [] \<Rightarrow> 0
                | c # _ \<Rightarrow>
                    if (a = 225 \<and> b = 154 \<and> c = 128)
                       \<or> (a = 226 \<and> b = 128 \<and> (128 \<le> c \<and> c \<le> 138 \<or> c = 168 \<or> c = 169 \<or> c = 175))
                       \<or> (a = 226 \<and> b = 129 \<and> c = 159)
                       \<or> (a = 227 \<and> b = 128 \<and> c = 128)
                    then 3 else 0)))"

function trim_start :: "string \<Rightarrow> string" where
  "trim_start s = (if s = [] \<or> ws_len s = 0 then s else trim_start (drop (ws_len s) s))"
  by pat_completeness auto
termination
  by (relation "measure length") (auto simp: Suc_le_eq)

declare trim_start.simps [simp del]

definition is_blank :: "string \<Rightarrow> bool" where
  "is_blank s \<longleftrightarrow> trim_start s = []"

definition ends_with_ws :: "string \<Rightarrow> bool" where
  "ends_with_ws s \<longleftrightarrow>
     list_ex (\<lambda>n. n \<le> length s \<and> ws_len (drop (length s - n) s) = n) [1, 2, 3]"

definition is_trimmed :: "string \<Rightarrow> bool" where
  "is_trimmed s \<longleftrightarrow> ws_len s = 0 \<and> \<not> ends_with_ws s"

definition contains_ws :: "string \<Rightarrow> bool" where
  "contains_ws s \<longleftrightarrow> list_ex (\<lambda>n. ws_len (drop n s) > 0) [0..<length s]"

definition is_ascii_whitespace :: "char \<Rightarrow> bool" where
  "is_ascii_whitespace c \<longleftrightarrow> byte c \<in> {9, 10, 12, 13, 32}"

definition to_ascii_lowercase :: "string \<Rightarrow> string" where
  "to_ascii_lowercase s = map (\<lambda>c. if is_ascii_uppercase c then char_of (byte c + 32) else c) s"

definition to_ascii_uppercase :: "string \<Rightarrow> string" where
  "to_ascii_uppercase s = map (\<lambda>c. if is_ascii_lowercase c then char_of (byte c - 32) else c) s"

definition contains_str :: "string \<Rightarrow> string \<Rightarrow> bool" where
  "contains_str p s \<longleftrightarrow> list_ex (\<lambda>n. prefix p (drop n s)) [0..<Suc (length s)]"

fun str_less :: "string \<Rightarrow> string \<Rightarrow> bool" where
  "str_less _ [] \<longleftrightarrow> False"
| "str_less [] (_ # _) \<longleftrightarrow> True"
| "str_less (a # as) (b # bs) \<longleftrightarrow> byte a < byte b \<or> byte a = byte b \<and> str_less as bs"

fun split_on :: "char \<Rightarrow> string \<Rightarrow> string list" where
  "split_on d [] = [[]]"
| "split_on d (c # cs) =
     (if c = d then [] # split_on d cs
      else (case split_on d cs of [] \<Rightarrow> [[c]] | w # ws \<Rightarrow> (c # w) # ws))"

lemma trim_start_Nil [simp]: "trim_start [] = []"
  by (simp add: trim_start.simps)

lemma is_blank_Nil [simp]: "is_blank []"
  by (simp add: is_blank_def)

lemma not_blank_if_ws_len_0:
  "s \<noteq> [] \<Longrightarrow> ws_len s = 0 \<Longrightarrow> \<not> is_blank s"
  by (simp add: is_blank_def trim_start.simps)

lemma str_less_irrefl: "\<not> str_less s s"
  by (induction s) auto

lemma str_less_trans: "str_less a b \<Longrightarrow> str_less b c \<Longrightarrow> str_less a c"
proof (induction a b arbitrary: c rule: str_less.induct)
  case (2 b bs)
  then show ?case by (cases c) auto
next
  case (3 a as b bs)
  then show ?case by (cases c) auto
qed simp

lemma split_on_nonempty [simp]: "split_on d s \<noteq> []"
  by (induction s) (auto split: list.splits)

text \<open>JSON documents, as \<^verbatim>\<open>serde_json::Value\<close> has them.\<close>

datatype json = JNull | JBool bool | JNum int | JStr string | JArr "json list" | JObj "(string \<times> json) list"

section \<open>Lists as tables\<close>

text \<open>Length bounds are evaluated on binary numbers.\<close>

lemma length_code [code_unfold]:
  "(numeral n < length xs) = ((numeral n :: int) < int (length xs))"
  "(length xs < numeral n) = (int (length xs) < numeral n)"
  "(numeral n \<le> length xs) = ((numeral n :: int) \<le> int (length xs))"
  "(length xs \<le> numeral n) = (int (length xs) \<le> numeral n)"
  "(length xs = numeral n) = (int (length xs) = numeral n)"
  by simp_all

text \<open>
  A database table is the list of its rows.  \<open>upd_where\<close> is an
  \<^verbatim>\<open>UPDATE ... WHERE\<close>, \<^const>\<open>List.find\<close> a keyed \<^verbatim>\<open>SELECT\<close>.
\<close>

definition upd_where :: "('a \<Rightarrow> bool) \<Rightarrow> ('a \<Rightarrow> 'a) \<Rightarrow> 'a list \<Rightarrow> 'a list" where
  "upd_where p f xs = map (\<lambda>x. if p x then f x else x) xs"

lemma length_upd_where [simp]: "length (upd_where p f xs) = length xs"
  by (simp add: upd_where_def)

lemma upd_where_Nil [simp]: "upd_where p f [] = []"
  by (simp add: upd_where_def)

lemma upd_where_Cons [simp]:
  "upd_where p f (x # xs) = (if p x then f x else x) # upd_where p f xs"
  by (simp add: upd_where_def)

lemma set_upd_whereE:
  assumes "y \<in> set (upd_where p f xs)"
  obtains x where "x \<in> set xs" "p x" "y = f x" | "y \<in> set xs" "\<not> p y"
  using assms by (auto simp: upd_where_def split: if_splits)

lemma find_upd_where:
  assumes "\<And>x. q (f x) \<longleftrightarrow> q x" and "\<And>x. q x \<Longrightarrow> p x"
  shows "List.find q (upd_where p f xs) = map_option f (List.find q xs)"
  using assms by (induction xs) auto

lemma find_upd_where_other:
  assumes "\<And>x. p x \<Longrightarrow> \<not> q x \<and> \<not> q (f x)"
  shows "List.find q (upd_where p f xs) = List.find q xs"
  using assms by (induction xs) auto

lemma find_SomeD: "List.find p xs = Some x \<Longrightarrow> x \<in> set xs \<and> p x"
  by (induction xs) (auto split: if_splits)

lemma find_append:
  "List.find p (xs @ ys) = (case List.find p xs of None \<Rightarrow> List.find p ys | Some x \<Rightarrow> Some x)"
  by (induction xs) auto

section \<open>Reachable states of a machine\<close>

text \<open>
  Every component that is driven by a sequence of calls is a machine: its
  initial states and its steps.  The locale is the induction principle the
  components' invariants share.
\<close>

inductive reach :: "('s \<Rightarrow> bool) \<Rightarrow> ('s \<Rightarrow> 's \<Rightarrow> bool) \<Rightarrow> 's \<Rightarrow> bool"
  for init :: "'s \<Rightarrow> bool" and step :: "'s \<Rightarrow> 's \<Rightarrow> bool" where
  reach_init: "init s \<Longrightarrow> reach init step s"
| reach_step: "reach init step s \<Longrightarrow> step s t \<Longrightarrow> reach init step t"

locale invariant_machine =
  fixes init :: "'s \<Rightarrow> bool"
    and step :: "'s \<Rightarrow> 's \<Rightarrow> bool"
    and inv :: "'s \<Rightarrow> bool"
  assumes init_inv: "init s \<Longrightarrow> inv s"
    and step_inv: "inv s \<Longrightarrow> step s t \<Longrightarrow> inv t"
begin

lemma reach_inv: "reach init step s \<Longrightarrow> inv s"
  by (induction rule: reach.induct) (auto intro: init_inv step_inv)

lemma steps_inv: "step\<^sup>*\<^sup>* s t \<Longrightarrow> inv s \<Longrightarrow> inv t"
  by (induction rule: rtranclp_induct) (auto intro: step_inv)

end

text \<open>
  A versioned machine additionally carries a revision that every step raises
  by exactly one; the identity it versions never changes.
\<close>

locale versioned_machine = invariant_machine init step inv
  for init :: "'s \<Rightarrow> bool" and step :: "'s \<Rightarrow> 's \<Rightarrow> bool" and inv :: "'s \<Rightarrow> bool" +
  fixes version :: "'s \<Rightarrow> u64"
    and ident :: "'s \<Rightarrow> 'k"
  assumes step_version: "step s t \<Longrightarrow> unat (version t) = Suc (unat (version s))"
    and step_ident: "step s t \<Longrightarrow> ident t = ident s"
begin

lemma steps_version:
  "(step ^^ n) s t \<Longrightarrow> unat (version t) = unat (version s) + n \<and> ident t = ident s"
  by (induction n arbitrary: t) (auto simp: step_version step_ident)

lemma version_determines_distance:
  "(step ^^ n) s t \<Longrightarrow> (step ^^ m) s u \<Longrightarrow> version t = version u \<Longrightarrow> n = m"
  using steps_version [of n s t] steps_version [of m s u] by simp

lemma no_return: "step\<^sup>+\<^sup>+ s t \<Longrightarrow> version s < version t"
proof (induction rule: tranclp_induct)
  case (base t)
  then show ?case using step_version by (simp add: word_less_nat_alt)
next
  case (step t u)
  then show ?case using step_version [of t u] by (simp add: word_less_nat_alt)
qed

end

end
