(* ===== verification/Foundation.thy ===== *)
theory Foundation
  imports LW_Prelude
begin

text \<open>
  Shared scalars of \<^verbatim>\<open>crates/contracts/src/foundation.rs\<close>,
  \<^verbatim>\<open>diagnostic.rs\<close> and the header scalars of \<^verbatim>\<open>http.rs\<close>: revisions, stream
  sequences, relative paths, diagnostic codes, idempotency keys and strong
  entity tags.  The lemmas show that the printed forms parse back, that the
  canonical ones are the only accepted spelling, and that an accepted relative
  path resolves without leaving its root.
\<close>

named_theorems foundation_defs \<open>definitions of the scalar validators\<close>

section \<open>Revisions\<close>

datatype foundation_error =
    ZeroRevision
  | InvalidStreamSequence
  | InvalidTimestamp
  | UnsafePath string
  | InvalidJson string

type_synonym revision = u64

definition revision_new :: "u64 \<Rightarrow> foundation_error + revision" where
  "revision_new value = (if value = 0 then Inl ZeroRevision else Inr value)"

definition revision_next :: "revision \<Rightarrow> revision option" where
  "revision_next r = checked_add r 1"

definition revision_to_i64 :: "revision \<Rightarrow> int option" where
  "revision_to_i64 r = (if r > 0x7FFFFFFFFFFFFFFF then None else Some (sint r))"

definition revision_try_from :: "64 word \<Rightarrow> foundation_error + revision" where
  "revision_try_from value = (if sint value \<le> 0 then Inl ZeroRevision else Inr value)"

section \<open>Unsigned decimal printing and parsing\<close>

definition digit_char :: "nat \<Rightarrow> char" where
  "digit_char d = char_of (48 + d)"

definition digit_value :: "char \<Rightarrow> nat" where
  "digit_value c = byte c - 48"

function show_nat :: "nat \<Rightarrow> string" where
  "show_nat n = (if n < 10 then [digit_char n] else show_nat (n div 10) @ [digit_char (n mod 10)])"
  by pat_completeness auto
termination
  by (relation "measure id") auto

declare show_nat.simps [simp del]

definition digits_value :: "string \<Rightarrow> nat" where
  "digits_value s = foldl (\<lambda>a c. a * 10 + digit_value c) 0 s"

definition display_u64 :: "u64 \<Rightarrow> string" where
  "display_u64 w = show_nat (unat w)"

definition parse_u64 :: "string \<Rightarrow> u64 option" where
  "parse_u64 s =
     (let ds = (case s of c # cs \<Rightarrow> if c = CHR ''+'' then cs else s | [] \<Rightarrow> s)
      in if ds = [] \<or> \<not> list_all is_ascii_digit ds \<or> digits_value ds \<ge> 2 ^ 64 then None
         else Some (of_nat (digits_value ds)))"

section \<open>Stream sequences\<close>

definition stream_sequence_display :: "u64 \<Rightarrow> string" where
  "stream_sequence_display s = display_u64 s"

definition stream_sequence_from_str :: "string \<Rightarrow> foundation_error + u64" where
  "stream_sequence_from_str value =
     (if value = [] \<or> (length value > 1 \<and> hd value = CHR ''0'')
         \<or> \<not> list_all is_ascii_digit value
      then Inl InvalidStreamSequence
      else ok_or InvalidStreamSequence (parse_u64 value))"

section \<open>Relative paths\<close>

datatype path_rule = ExactFile string | DirectoryTree string

fun path_rule_path :: "path_rule \<Rightarrow> string" where
  "path_rule_path (ExactFile p) = p"
| "path_rule_path (DirectoryTree p) = p"

definition validate_relative_path :: "string \<Rightarrow> foundation_error + unit" where
  "validate_relative_path path =
     (if path = []
         \<or> length path > 1024
         \<or> prefix ''/'' path
         \<or> prefix [CHR 0x5C] path
         \<or> CHR 0x5C \<in> set path
         \<or> CHR 0x00 \<in> set path
         \<or> CHR ''*'' \<in> set path
         \<or> CHR ''?'' \<in> set path
         \<or> CHR ''['' \<in> set path
         \<or> CHR ''{'' \<in> set path
         \<or> list_ex (\<lambda>part. part = [] \<or> part = ''.'' \<or> part = ''..'') (split_on CHR ''/'' path)
         \<or> (length path \<ge> 2 \<and> path ! 1 = CHR '':'')
      then Inl (UnsafePath path)
      else Inr ())"

definition path_rule_validate :: "path_rule \<Rightarrow> foundation_error + unit" where
  "path_rule_validate r = validate_relative_path (path_rule_path r)"

text \<open>
  How a file system resolves a slash separated path below a directory: the
  reading an accepted path is protected against.
\<close>

definition posix_step :: "string list \<Rightarrow> string \<Rightarrow> string list" where
  "posix_step dir part =
     (if part = [] \<or> part = ''.'' then dir else if part = ''..'' then butlast dir else dir @ [part])"

definition posix_resolve :: "string list \<Rightarrow> string \<Rightarrow> string list" where
  "posix_resolve root path = foldl posix_step root (split_on CHR ''/'' path)"

section \<open>Diagnostic codes\<close>

definition is_diag_byte :: "char \<Rightarrow> bool" where
  "is_diag_byte c \<longleftrightarrow> is_ascii_uppercase c \<or> is_ascii_digit c \<or> c = CHR ''_''"

definition diagnostic_code_parse :: "string \<Rightarrow> string + string" where
  "diagnostic_code_parse value =
     (if length value < 4 \<or> length value > 96 \<or> \<not> prefix ''LW_'' value
         \<or> \<not> list_all is_diag_byte value
      then Inl value else Inr value)"

section \<open>HTTP header scalars\<close>

datatype http_contract_error =
    InvalidIdempotencyKey
  | WeakEtag
  | InvalidEtag
  | ConflictingSseCursor

definition idempotency_key_parse :: "string \<Rightarrow> http_contract_error + string" where
  "idempotency_key_parse value =
     (if \<not> (8 \<le> length value \<and> length value \<le> 128)
         \<or> \<not> list_all (\<lambda>b. is_ascii_alphanumeric b \<or> b \<in> set ''-_.:'') value
      then Inl InvalidIdempotencyKey else Inr value)"

definition strip_prefix :: "string \<Rightarrow> string \<Rightarrow> string option" where
  "strip_prefix p s = (if prefix p s then Some (drop (length p) s) else None)"

definition strip_suffix :: "string \<Rightarrow> string \<Rightarrow> string option" where
  "strip_suffix p s = (if suffix p s then Some (take (length s - length p) s) else None)"

definition strong_etag_header_value :: "revision \<Rightarrow> string" where
  "strong_etag_header_value r = [CHR 0x22] @ ''rev-'' @ display_u64 r @ [CHR 0x22]"

definition strong_etag_parse :: "string \<Rightarrow> http_contract_error + revision" where
  "strong_etag_parse value =
     (if prefix ''W/'' value then Inl WeakEtag
      else res_then
        (ok_or InvalidEtag
          (Option.bind (strip_prefix ([CHR 0x22] @ ''rev-'') value) (strip_suffix [CHR 0x22])))
        (\<lambda>raw. res_then (ok_or InvalidEtag (parse_u64 raw))
          (\<lambda>r. map_err (\<lambda>_. InvalidEtag) (revision_new r))))"

datatype sse_resume = Beginning | After u64

fun resolve_sse_resume :: "u64 option \<Rightarrow> u64 option \<Rightarrow> http_contract_error + sse_resume" where
  "resolve_sse_resume None None = Inr Beginning"
| "resolve_sse_resume (Some v) None = Inr (After v)"
| "resolve_sse_resume None (Some v) = Inr (After v)"
| "resolve_sse_resume (Some h) (Some q) =
     (if h = q then Inr (After h) else Inl ConflictingSseCursor)"

section \<open>Lemmas on revisions\<close>

lemma revision_next_Some:
  "revision_next r = Some r' \<longleftrightarrow> r' = r + 1 \<and> unat r' = unat r + 1"
proof -
  have "unat r + 1 < 2 ^ 64 \<longleftrightarrow> unat (r + 1) = unat r + 1"
    using unsigned_less [of "r + 1", where ?'a = nat] by (auto simp: unat_word_ariths)
  then show ?thesis
    by (auto simp: revision_next_def checked_add_Some)
qed

lemma revision_next_less: "revision_next r = Some r' \<Longrightarrow> r < r'"
  unfolding revision_next_Some word_less_nat_alt by linarith

lemma revision_next_neq: "revision_next r = Some r' \<Longrightarrow> r' \<noteq> r"
  using revision_next_less by blast

lemma revision_next_nonzero: "revision_next r = Some r' \<Longrightarrow> r' \<noteq> 0"
  using revision_next_less by force

lemma revision_next_unat: "revision_next r = Some r' \<Longrightarrow> unat r' = Suc (unat r)"
  unfolding revision_next_Some by linarith

section \<open>Lemmas on decimal numbers\<close>

lemma byte_digit_char [simp]: "d < 10 \<Longrightarrow> byte (digit_char d) = 48 + d"
  by (simp add: byte_def digit_char_def)

lemma digit_value_digit_char [simp]: "d < 10 \<Longrightarrow> digit_value (digit_char d) = d"
  by (simp add: digit_value_def)

lemma is_ascii_digit_digit_char [simp]: "d < 10 \<Longrightarrow> is_ascii_digit (digit_char d)"
  by (simp add: is_ascii_digit_def)

lemma digit_value_less: "is_ascii_digit c \<Longrightarrow> digit_value c < 10"
  by (auto simp: is_ascii_digit_def digit_value_def)

lemma digit_char_digit_value: "is_ascii_digit c \<Longrightarrow> digit_char (digit_value c) = c"
  by (simp add: is_ascii_digit_def digit_value_def digit_char_def byte_def)

lemma digits_value_snoc [simp]: "digits_value (s @ [c]) = digits_value s * 10 + digit_value c"
  by (simp add: digits_value_def)

lemma digits_value_Nil [simp]: "digits_value [] = 0"
  by (simp add: digits_value_def)

lemma show_nat_nonempty [simp]: "show_nat n \<noteq> []"
  by (subst show_nat.simps) simp

lemma show_nat_digits: "list_all is_ascii_digit (show_nat n)"
proof (induction n rule: show_nat.induct)
  case (1 n)
  then show ?case by (subst show_nat.simps) simp
qed

lemma digits_value_show_nat [simp]: "digits_value (show_nat n) = n"
proof (induction n rule: show_nat.induct)
  case (1 n)
  then show ?case
    by (subst show_nat.simps) (simp add: digits_value_def)
qed

lemma digit_char_0: "digit_char 0 = CHR ''0''"
  by code_simp

lemma digit_value_0: "digit_value CHR ''0'' = 0"
  by code_simp

lemma digit_value_eq_0: "is_ascii_digit c \<Longrightarrow> digit_value c = 0 \<longleftrightarrow> c = CHR ''0''"
  using digit_char_digit_value [of c] digit_char_0 digit_value_0 by metis

lemma digits_value_pos:
  "s \<noteq> [] \<Longrightarrow> list_all is_ascii_digit s \<Longrightarrow> hd s \<noteq> CHR ''0'' \<Longrightarrow> digits_value s > 0"
proof (induction s rule: rev_induct)
  case (snoc c s)
  show ?case
  proof (cases "s = []")
    case True
    then have "digit_value c \<noteq> 0" using snoc.prems digit_value_eq_0 by simp
    then show ?thesis using True by (simp add: digits_value_def)
  next
    case False
    then have "digits_value s > 0" using snoc by simp
    then show ?thesis by simp
  qed
qed simp

lemma show_nat_hd: "n > 0 \<Longrightarrow> hd (show_nat n) \<noteq> CHR ''0''"
proof (induction n rule: show_nat.induct)
  case (1 n)
  show ?case
  proof (cases "n < 10")
    case True
    then show ?thesis
      using 1 digit_value_digit_char [of n] digit_value_eq_0 [of "digit_char n"]
      by (subst show_nat.simps) auto
  next
    case False
    then show ?thesis using 1 by (subst show_nat.simps) (simp add: hd_append)
  qed
qed

lemma show_nat_digits_value:
  "s \<noteq> [] \<Longrightarrow> list_all is_ascii_digit s \<Longrightarrow> (length s > 1 \<Longrightarrow> hd s \<noteq> CHR ''0'')
   \<Longrightarrow> show_nat (digits_value s) = s"
proof (induction s rule: rev_induct)
  case (snoc c s)
  note c = digit_value_less [of c] digit_char_digit_value [of c]
  show ?case
  proof (cases "s = []")
    case True
    then show ?thesis using snoc.prems c by (subst show_nat.simps) (simp add: digits_value_def)
  next
    case False
    then have "digits_value s > 0"
      using snoc.prems by (intro digits_value_pos) (auto simp: hd_append Suc_lessI)
    moreover have "show_nat (digits_value s) = s"
      using snoc False by (auto simp: hd_append)
    ultimately show ?thesis using snoc.prems c by (subst show_nat.simps) simp
  qed
qed simp

lemma plus_not_digit [simp]: "\<not> is_ascii_digit CHR ''+''"
  by (simp add: is_ascii_digit_def byte_def)

lemma parse_u64_digits:
  "s \<noteq> [] \<Longrightarrow> list_all is_ascii_digit s \<Longrightarrow>
   parse_u64 s = (if digits_value s < 2 ^ 64 then Some (of_nat (digits_value s)) else None)"
  by (cases s) (auto simp: parse_u64_def Let_def)

lemma parse_display_u64: "parse_u64 (display_u64 w) = Some w"
  using unsigned_less [of w, where ?'a = nat] by (simp add: display_u64_def parse_u64_digits show_nat_digits)

lemma stream_sequence_from_str_Inr:
  "stream_sequence_from_str s = Inr w \<longleftrightarrow>
     s \<noteq> [] \<and> (length s > 1 \<longrightarrow> hd s \<noteq> CHR ''0'') \<and> list_all is_ascii_digit s
     \<and> digits_value s < 2 ^ 64 \<and> w = of_nat (digits_value s)"
  by (auto simp: stream_sequence_from_str_def parse_u64_digits)

text \<open>C23: a stream sequence cursor has exactly one accepted spelling: every
  printed cursor parses back to itself, and whatever parses to a cursor is the
  text printed for it.\<close>

theorem stream_sequence_round_trip:
  "stream_sequence_from_str s = Inr w \<longleftrightarrow> s = stream_sequence_display w"
proof
  assume "stream_sequence_from_str s = Inr w"
  then show "s = stream_sequence_display w"
    by (auto simp: stream_sequence_from_str_Inr stream_sequence_display_def display_u64_def
        unsigned_of_nat take_bit_nat_def show_nat_digits_value)
next
  assume s: "s = stream_sequence_display w"
  have "length (show_nat n) > 1 \<Longrightarrow> hd (show_nat n) \<noteq> CHR ''0''" for n
    by (cases "n = 0") (simp_all add: show_nat_hd show_nat.simps [of 0])
  then show "stream_sequence_from_str s = Inr w"
    using unsigned_less [of w, where ?'a = nat]
    by (simp add: s stream_sequence_from_str_Inr stream_sequence_display_def display_u64_def
        show_nat_digits)
qed

text \<open>C25: the revision validator printed in an HTTP entity tag parses back to the
  same revision, for every revision the platform can persist.\<close>

theorem strong_etag_round_trip:
  assumes "revision_new v = Inr r"
  shows "strong_etag_parse (strong_etag_header_value r) = Inr r"
proof -
  have "strip_prefix (CHR 0x22 # ''rev-'') (strong_etag_header_value r)
      = Some (display_u64 r @ [CHR 0x22])"
    by (simp add: strip_prefix_def strong_etag_header_value_def)
  moreover have "strip_suffix [CHR 0x22] (display_u64 r @ [CHR 0x22]) = Some (display_u64 r)"
    by (simp add: strip_suffix_def)
  moreover have "\<not> prefix ''W/'' (strong_etag_header_value r)"
    by (simp add: strong_etag_header_value_def)
  ultimately show ?thesis
    using assms
    by (auto simp: strong_etag_parse_def parse_display_u64 revision_new_def split: if_splits)
qed

theorem strong_etag_round_trip_witness:
  "revision_new 7 = Inr 7 \<and> strong_etag_parse (strong_etag_header_value 7) = Inr 7"
  using strong_etag_round_trip [of 7 7] by (simp add: revision_new_def)

lemma foldl_posix_step_normal:
  "list_all (\<lambda>p. p \<noteq> [] \<and> p \<noteq> ''.'' \<and> p \<noteq> ''..'') ps \<Longrightarrow> foldl posix_step d ps = d @ ps"
  by (induction ps arbitrary: d) (auto simp: posix_step_def)

text \<open>C24: an accepted relative path names exactly its own segments below any root
  directory: resolving it never steps out of the root, and no two segments are
  merged or dropped.\<close>

theorem validate_relative_path_confined:
  assumes "validate_relative_path p = Inr ()"
  shows "posix_resolve root p = root @ split_on CHR ''/'' p \<and> split_on CHR ''/'' p \<noteq> []"
proof -
  have "list_all (\<lambda>p. p \<noteq> [] \<and> p \<noteq> ''.'' \<and> p \<noteq> ''..'') (split_on CHR ''/'' p)"
    using assms by (simp add: validate_relative_path_def list_ex_iff list_all_iff split: if_splits)
  then show ?thesis
    by (simp add: posix_resolve_def foldl_posix_step_normal)
qed

theorem validate_relative_path_confined_witness:
  "validate_relative_path ''src/main.rs'' = Inr ()
   \<and> posix_resolve [''ws''] ''src/main.rs'' = [''ws'', ''src'', ''main.rs'']"
  using validate_relative_path_confined [of "''src/main.rs''" "[''ws'']"]
  by (simp add: validate_relative_path_def)

end
