(* ===== verification/Agent_Run.thy ===== *)
theory Agent_Run
  imports Foundation
begin

text \<open>
  The explicit state machine of one candidate-generating agent run,
  \<^verbatim>\<open>crates/agent-core/src/state_machine.rs\<close>.  A run is a record of its state, its
  automatic repair counter and its transition history; \<open>agent_run_apply\<close> and
  \<open>agent_run_apply_failure\<close> are its two mutating methods.  The lemmas show that
  the history replays to the state, that a run is bounded, and what must have
  happened before elevated validation runs and before a run completes.
\<close>

section \<open>Data\<close>

datatype agent_state =
    Parse
  | RetrieveCapabilities
  | Plan
  | Generate
  | SchemaValidate
  | PolicyValidate
  | ExecuteValidation
  | Verify
  | Repair
  | AwaitingExecutionApproval
  | AwaitingReleaseApproval
  | Completed
  | AgentFailed
  | AgentCancelled

fun agent_is_terminal :: "agent_state \<Rightarrow> bool" where
  "agent_is_terminal Completed = True"
| "agent_is_terminal AgentFailed = True"
| "agent_is_terminal AgentCancelled = True"
| "agent_is_terminal _ = False"

datatype agent_event =
    Parsed
  | CapabilitiesRetrieved
  | PlanCreated
  | CandidateGenerated
  | SchemaValid
  | SchemaInvalid
  | PolicyAllowed
  | ApprovalRequired
  | ValidationExecuted
  | VerificationPassed
  | VerificationFailed
  | RepairReady
  | TeacherApproved
  | TeacherRejected
  | CancelRun
  | FailureRecorded

datatype transition_outcome =
    Advanced
  | RepairBudgetExhausted
  | ApprovalHandedOff
  | OutcomeCancelled
  | FailedFast

fun outcome_diagnostic_code :: "transition_outcome \<Rightarrow> string option" where
  "outcome_diagnostic_code RepairBudgetExhausted = Some ''LW_AGENT_REPAIR_BUDGET_EXHAUSTED''"
| "outcome_diagnostic_code OutcomeCancelled = Some ''LW_AGENT_RUN_CANCELLED''"
| "outcome_diagnostic_code _ = None"

record transition_record =
  tr_sequence :: u64
  tr_from :: agent_state
  tr_event :: agent_event
  tr_to :: agent_state
  tr_outcome :: transition_outcome
  tr_diagnostic_code :: "string option"

record agent_run =
  run_id :: string
  run_state :: agent_state
  automatic_repairs :: u8
  history :: "transition_record list"

datatype agent_state_error =
    InvalidRunId
  | InvalidTransition agent_state agent_event
  | TransitionSequenceOverflow
  | InvalidFailureDiagnostic string

definition agent_error_diagnostic_code :: "agent_state_error \<Rightarrow> string" where
  "agent_error_diagnostic_code e = (case e of
      InvalidRunId \<Rightarrow> ''LW_AGENT_RUN_ID_INVALID''
    | InvalidTransition _ _ \<Rightarrow> ''LW_AGENT_TRANSITION_INVALID''
    | TransitionSequenceOverflow \<Rightarrow> ''LW_AGENT_TRANSITION_SEQUENCE_OVERFLOW''
    | InvalidFailureDiagnostic _ \<Rightarrow> ''LW_AGENT_FAILURE_DIAGNOSTIC_INVALID'')"

section \<open>Operations\<close>

definition MAX_AUTOMATIC_REPAIRS :: u8 where
  "MAX_AUTOMATIC_REPAIRS = 2"

definition agent_run_new :: "string \<Rightarrow> agent_state_error + agent_run" where
  "agent_run_new rid =
     (if is_blank rid then Inl InvalidRunId
      else Inr \<lparr> run_id = rid, run_state = Parse, automatic_repairs = 0, history = [] \<rparr>)"

definition is_stable_diagnostic :: "string \<Rightarrow> bool" where
  "is_stable_diagnostic value = (case strip_prefix ''LW_'' value of
      None \<Rightarrow> False
    | Some sfx \<Rightarrow> sfx \<noteq> [] \<and> list_all is_diag_byte sfx)"

definition agent_next ::
  "agent_state \<Rightarrow> u8 \<Rightarrow> agent_event \<Rightarrow> agent_state_error + (agent_state \<times> u8 \<times> transition_outcome)" where
  "agent_next st repairs event =
     (if event = CancelRun \<and> \<not> agent_is_terminal st then Inr (AgentCancelled, repairs, OutcomeCancelled)
      else (case (st, event) of
          (Parse, Parsed) \<Rightarrow> Inr (RetrieveCapabilities, repairs, Advanced)
        | (RetrieveCapabilities, CapabilitiesRetrieved) \<Rightarrow> Inr (Plan, repairs, Advanced)
        | (Plan, PlanCreated) \<Rightarrow> Inr (Generate, repairs, Advanced)
        | (Generate, CandidateGenerated) \<Rightarrow> Inr (SchemaValidate, repairs, Advanced)
        | (SchemaValidate, SchemaValid) \<Rightarrow> Inr (PolicyValidate, repairs, Advanced)
        | (SchemaValidate, SchemaInvalid) \<Rightarrow> Inr (Repair, repairs, Advanced)
        | (Verify, VerificationFailed) \<Rightarrow> Inr (Repair, repairs, Advanced)
        | (AwaitingExecutionApproval, TeacherRejected) \<Rightarrow> Inr (Repair, repairs, Advanced)
        | (AwaitingReleaseApproval, TeacherRejected) \<Rightarrow> Inr (Repair, repairs, Advanced)
        | (PolicyValidate, PolicyAllowed) \<Rightarrow> Inr (ExecuteValidation, repairs, Advanced)
        | (AwaitingExecutionApproval, TeacherApproved) \<Rightarrow> Inr (ExecuteValidation, repairs, Advanced)
        | (PolicyValidate, ApprovalRequired) \<Rightarrow> Inr (AwaitingExecutionApproval, repairs, Advanced)
        | (Verify, VerificationPassed) \<Rightarrow> Inr (AwaitingReleaseApproval, repairs, Advanced)
        | (ExecuteValidation, ValidationExecuted) \<Rightarrow> Inr (Verify, repairs, Advanced)
        | (Repair, RepairReady) \<Rightarrow>
            if repairs < MAX_AUTOMATIC_REPAIRS then Inr (Generate, repairs + 1, Advanced)
            else Inr (AgentFailed, repairs, RepairBudgetExhausted)
        | (AwaitingReleaseApproval, TeacherApproved) \<Rightarrow> Inr (Completed, repairs, ApprovalHandedOff)
        | _ \<Rightarrow> Inl (InvalidTransition st event)))"

definition commit_transition ::
  "agent_run \<Rightarrow> agent_event \<Rightarrow> agent_state \<Rightarrow> u8 \<Rightarrow> transition_outcome \<Rightarrow> string option
   \<Rightarrow> agent_state_error + (agent_run \<times> transition_record)" where
  "commit_transition run event next_state next_repairs outcome diagnostic_code =
     (if length (history run) + 1 < U64_LIMIT
      then let rec = \<lparr> tr_sequence = of_nat (length (history run)) + 1, tr_from = run_state run,
                       tr_event = event, tr_to = next_state, tr_outcome = outcome,
                       tr_diagnostic_code = diagnostic_code \<rparr>
           in Inr (run \<lparr> history := history run @ [rec], run_state := next_state,
                         automatic_repairs := next_repairs \<rparr>, rec)
      else Inl TransitionSequenceOverflow)"

definition agent_run_apply ::
  "agent_run \<Rightarrow> agent_event \<Rightarrow> agent_state_error + (agent_run \<times> transition_record)" where
  "agent_run_apply run event =
     res_then (agent_next (run_state run) (automatic_repairs run) event)
       (\<lambda>(next_state, next_repairs, outcome).
          commit_transition run event next_state next_repairs outcome (outcome_diagnostic_code outcome))"

definition agent_run_apply_failure ::
  "agent_run \<Rightarrow> string \<Rightarrow> agent_state_error + (agent_run \<times> transition_record)" where
  "agent_run_apply_failure run diagnostic_code =
     (if \<not> is_stable_diagnostic diagnostic_code then Inl (InvalidFailureDiagnostic diagnostic_code)
      else if agent_is_terminal (run_state run)
      then Inl (InvalidTransition (run_state run) FailureRecorded)
      else commit_transition run FailureRecorded AgentFailed (automatic_repairs run) FailedFast
             (Some diagnostic_code))"

section \<open>The machine\<close>

definition agent_init :: "agent_run \<Rightarrow> bool" where
  "agent_init run \<longleftrightarrow> (\<exists>rid. agent_run_new rid = Inr run)"

inductive agent_step :: "agent_run \<Rightarrow> agent_run \<Rightarrow> bool" where
  step_apply: "agent_run_apply run ev = Inr (run', rec) \<Longrightarrow> agent_step run run'"
| step_failure: "agent_run_apply_failure run code = Inr (run', rec) \<Longrightarrow> agent_step run run'"

abbreviation agent_reachable :: "agent_run \<Rightarrow> bool" where
  "agent_reachable \<equiv> reach agent_init agent_step"

definition replay1 :: "agent_state \<times> u8 \<Rightarrow> agent_event \<Rightarrow> agent_state \<times> u8" where
  "replay1 s ev =
     (if ev = FailureRecorded then (AgentFailed, snd s)
      else (case agent_next (fst s) (snd s) ev of
          Inl _ \<Rightarrow> s
        | Inr (st, repairs, _) \<Rightarrow> (st, repairs)))"

definition replay :: "agent_event list \<Rightarrow> agent_state \<times> u8" where
  "replay evs = foldl replay1 (Parse, 0) evs"

definition agent_edges :: "(agent_state \<times> agent_event \<times> agent_state) list" where
  "agent_edges =
     [(Parse, Parsed, RetrieveCapabilities),
      (RetrieveCapabilities, CapabilitiesRetrieved, Plan),
      (Plan, PlanCreated, Generate),
      (Generate, CandidateGenerated, SchemaValidate),
      (SchemaValidate, SchemaValid, PolicyValidate),
      (SchemaValidate, SchemaInvalid, Repair),
      (Verify, VerificationFailed, Repair),
      (AwaitingExecutionApproval, TeacherRejected, Repair),
      (AwaitingReleaseApproval, TeacherRejected, Repair),
      (PolicyValidate, PolicyAllowed, ExecuteValidation),
      (AwaitingExecutionApproval, TeacherApproved, ExecuteValidation),
      (PolicyValidate, ApprovalRequired, AwaitingExecutionApproval),
      (Verify, VerificationPassed, AwaitingReleaseApproval),
      (ExecuteValidation, ValidationExecuted, Verify),
      (AwaitingReleaseApproval, TeacherApproved, Completed)]"

fun agent_rank :: "agent_state \<Rightarrow> nat" where
  "agent_rank Parse = 0"
| "agent_rank RetrieveCapabilities = 1"
| "agent_rank Plan = 2"
| "agent_rank Generate = 3"
| "agent_rank SchemaValidate = 4"
| "agent_rank PolicyValidate = 5"
| "agent_rank AwaitingExecutionApproval = 6"
| "agent_rank ExecuteValidation = 7"
| "agent_rank Verify = 8"
| "agent_rank AwaitingReleaseApproval = 9"
| "agent_rank Repair = 10"
| "agent_rank _ = 11"

section \<open>Facts about single transitions\<close>

inductive_cases agent_stepE: "agent_step run run'"

lemma u8_repairs:
  "(r :: u8) < MAX_AUTOMATIC_REPAIRS \<Longrightarrow> unat (r + 1) = unat r + 1 \<and> r + 1 \<le> MAX_AUTOMATIC_REPAIRS"
proof -
  assume "r < MAX_AUTOMATIC_REPAIRS"
  then have "unat r < 2" by (simp add: MAX_AUTOMATIC_REPAIRS_def word_less_nat_alt)
  then show ?thesis
    by (simp add: MAX_AUTOMATIC_REPAIRS_def word_le_nat_alt unat_word_ariths)
qed

lemma agent_next_table:
  assumes "agent_next st r ev = Inr (st', r', oc)"
  shows "ev = CancelRun \<and> \<not> agent_is_terminal st \<and> st' = AgentCancelled \<and> r' = r
    \<or> (st, ev, st') \<in> set agent_edges \<and> r' = r
    \<or> st = Repair \<and> ev = RepairReady \<and> r < MAX_AUTOMATIC_REPAIRS \<and> st' = Generate \<and> r' = r + 1
    \<or> st = Repair \<and> ev = RepairReady \<and> st' = AgentFailed \<and> r' = r"
proof (cases "ev = CancelRun \<and> \<not> agent_is_terminal st")
  case True
  then show ?thesis using assms by (simp add: agent_next_def)
next
  case False
  with assms show ?thesis
    by (simp add: agent_next_def agent_edges_def
        split: agent_state.splits agent_event.splits if_splits)
qed

lemma agent_next_cases:
  assumes "agent_next st r ev = Inr (st', r', oc)"
  shows "\<not> agent_is_terminal st"
    and "r' = r \<and> agent_rank st < agent_rank st' \<or>
         st = Repair \<and> st' = Generate \<and> r < MAX_AUTOMATIC_REPAIRS \<and> r' = r + 1"
    and "ev \<noteq> FailureRecorded"
    and "st' = Completed \<longleftrightarrow> st = AwaitingReleaseApproval \<and> ev = TeacherApproved"
    and "st' = AwaitingReleaseApproval \<longleftrightarrow> st = Verify \<and> ev = VerificationPassed"
    and "st' = ExecuteValidation \<longleftrightarrow>
           st = PolicyValidate \<and> ev = PolicyAllowed \<or>
           st = AwaitingExecutionApproval \<and> ev = TeacherApproved"
    and "st' = AwaitingExecutionApproval \<longleftrightarrow> st = PolicyValidate \<and> ev = ApprovalRequired"
proof -
  have rank: "\<not> agent_is_terminal s \<Longrightarrow> agent_rank s < 11" for s
    by (cases s) auto
  note table = agent_next_table [OF assms, unfolded agent_edges_def]
  show "\<not> agent_is_terminal st" using table by auto
  show "r' = r \<and> agent_rank st < agent_rank st' \<or>
         st = Repair \<and> st' = Generate \<and> r < MAX_AUTOMATIC_REPAIRS \<and> r' = r + 1"
    using table rank [of st] by auto
  show "ev \<noteq> FailureRecorded" using table by auto
  show "st' = Completed \<longleftrightarrow> st = AwaitingReleaseApproval \<and> ev = TeacherApproved"
    using table by auto
  show "st' = AwaitingReleaseApproval \<longleftrightarrow> st = Verify \<and> ev = VerificationPassed"
    using table by auto
  show "st' = ExecuteValidation \<longleftrightarrow>
           st = PolicyValidate \<and> ev = PolicyAllowed \<or>
           st = AwaitingExecutionApproval \<and> ev = TeacherApproved"
    using table by auto
  show "st' = AwaitingExecutionApproval \<longleftrightarrow> st = PolicyValidate \<and> ev = ApprovalRequired"
    using table by auto
qed

lemma agent_next_Inl: "agent_next st r ev = Inl e \<Longrightarrow> e = InvalidTransition st ev"
  by (simp add: agent_next_def split: agent_state.splits agent_event.splits if_splits)

lemma commit_transition_Inr:
  "commit_transition run ev st r oc d = Inr (run', rec) \<longleftrightarrow>
     length (history run) + 1 < U64_LIMIT
     \<and> rec = \<lparr> tr_sequence = of_nat (length (history run)) + 1, tr_from = run_state run, tr_event = ev,
              tr_to = st, tr_outcome = oc, tr_diagnostic_code = d \<rparr>
     \<and> run' = run \<lparr> history := history run @ [rec], run_state := st, automatic_repairs := r \<rparr>"
  by (auto simp: commit_transition_def Let_def)

text \<open>Every step appends one record; the two kinds of step in one shape.\<close>

lemma agent_step_shape:
  assumes "agent_step run run'"
  obtains rec where "history run' = history run @ [rec]"
    and "tr_sequence rec = of_nat (length (history run)) + 1"
    and "tr_from rec = run_state run" and "tr_to rec = run_state run'"
    and "run_id run' = run_id run"
    and "\<not> agent_is_terminal (run_state run)"
    and "(\<exists>oc. agent_next (run_state run) (automatic_repairs run) (tr_event rec)
             = Inr (run_state run', automatic_repairs run', oc))
         \<or> (tr_event rec = FailureRecorded \<and> run_state run' = AgentFailed
            \<and> automatic_repairs run' = automatic_repairs run)"
  using assms
proof cases
  case (step_apply ev rec)
  then obtain st r oc where n: "agent_next (run_state run) (automatic_repairs run) ev = Inr (st, r, oc)"
    and c: "commit_transition run ev st r oc (outcome_diagnostic_code oc) = Inr (run', rec)"
    by (auto simp: agent_run_apply_def res_simps)
  show thesis
    using n c agent_next_cases(1) [OF n] by (intro that [of rec]) (auto simp: commit_transition_Inr)
next
  case (step_failure code rec)
  then show thesis
    by (intro that [of rec]) (auto simp: agent_run_apply_failure_def res_simps commit_transition_Inr)
qed

section \<open>Invariants\<close>

definition agent_inv :: "agent_run \<Rightarrow> bool" where
  "agent_inv run \<longleftrightarrow>
     map tr_sequence (history run) = map of_nat [1..<Suc (length (history run))]
     \<and> replay (map tr_event (history run)) = (run_state run, automatic_repairs run)
     \<and> automatic_repairs run \<le> MAX_AUTOMATIC_REPAIRS
     \<and> length (history run) \<le> agent_rank (run_state run) + 8 * unat (automatic_repairs run)"

lemma agent_init_inv: "agent_init run \<Longrightarrow> agent_inv run"
  by (auto simp: agent_init_def agent_run_new_def agent_inv_def replay_def res_simps)

lemma replay_snoc: "replay (evs @ [ev]) = replay1 (replay evs) ev"
  by (simp add: replay_def)

lemma agent_step_inv:
  assumes inv: "agent_inv run" and step: "agent_step run run'"
  shows "agent_inv run'"
proof -
  obtain rec where h: "history run' = history run @ [rec]"
    and sq: "tr_sequence rec = of_nat (length (history run)) + 1"
    and nt: "\<not> agent_is_terminal (run_state run)"
    and k: "(\<exists>oc. agent_next (run_state run) (automatic_repairs run) (tr_event rec)
             = Inr (run_state run', automatic_repairs run', oc))
         \<or> (tr_event rec = FailureRecorded \<and> run_state run' = AgentFailed
            \<and> automatic_repairs run' = automatic_repairs run)"
    using agent_step_shape [OF step] by metis
  have "replay1 (run_state run, automatic_repairs run) (tr_event rec)
        = (run_state run', automatic_repairs run')"
    using k by (auto simp: replay1_def dest: agent_next_cases(3))
  moreover have "agent_rank (run_state run) < 11"
    using nt by (cases "run_state run") auto
  moreover have "automatic_repairs run' = automatic_repairs run
        \<and> agent_rank (run_state run) < agent_rank (run_state run')
      \<or> run_state run = Repair \<and> run_state run' = Generate
        \<and> automatic_repairs run < MAX_AUTOMATIC_REPAIRS
        \<and> automatic_repairs run' = automatic_repairs run + 1"
    using k agent_next_cases(2) nt \<open>agent_rank (run_state run) < 11\<close> by fastforce
  ultimately show ?thesis
    using inv u8_repairs [of "automatic_repairs run"] h sq
    by (auto simp: agent_inv_def replay_snoc)
qed

interpretation agent: invariant_machine agent_init agent_step agent_inv
  by unfold_locales (auto intro: agent_init_inv agent_step_inv)

text \<open>Where the last transition of a reachable run came from.\<close>

definition last_two :: "agent_run \<Rightarrow> (agent_state \<times> agent_event) list" where
  "last_two run = map (\<lambda>r. (tr_from r, tr_event r)) (take 2 (rev (history run)))"

definition agent_provenance :: "agent_run \<Rightarrow> bool" where
  "agent_provenance run \<longleftrightarrow>
     (run_state run = AwaitingReleaseApproval \<longrightarrow>
        prefix [(Verify, VerificationPassed)] (last_two run))
     \<and> (run_state run = Completed \<longrightarrow>
        last_two run = [(AwaitingReleaseApproval, TeacherApproved), (Verify, VerificationPassed)])
     \<and> (run_state run = AwaitingExecutionApproval \<longrightarrow>
        prefix [(PolicyValidate, ApprovalRequired)] (last_two run))
     \<and> (run_state run = ExecuteValidation \<longrightarrow>
        prefix [(PolicyValidate, PolicyAllowed)] (last_two run)
        \<or> last_two run = [(AwaitingExecutionApproval, TeacherApproved), (PolicyValidate, ApprovalRequired)])"

lemma last_two_snoc:
  "history run' = history run @ [rec] \<Longrightarrow>
   last_two run' = (tr_from rec, tr_event rec) # take 1 (last_two run)"
  by (cases "rev (history run)") (auto simp: last_two_def numeral_2_eq_2)

lemma agent_step_provenance:
  assumes "agent_provenance run" and step: "agent_step run run'"
  shows "agent_provenance run'"
proof -
  obtain rec where h: "history run' = history run @ [rec]" and f: "tr_from rec = run_state run"
    and k: "(\<exists>oc. agent_next (run_state run) (automatic_repairs run) (tr_event rec)
             = Inr (run_state run', automatic_repairs run', oc))
         \<or> (tr_event rec = FailureRecorded \<and> run_state run' = AgentFailed
            \<and> automatic_repairs run' = automatic_repairs run)"
    using agent_step_shape [OF step] by metis
  show ?thesis
  proof (cases "\<exists>oc. agent_next (run_state run) (automatic_repairs run) (tr_event rec)
             = Inr (run_state run', automatic_repairs run', oc)")
    case True
    then obtain oc where n: "agent_next (run_state run) (automatic_repairs run) (tr_event rec)
             = Inr (run_state run', automatic_repairs run', oc)" ..
    show ?thesis
      using assms(1) f agent_next_cases(4,5,6,7) [OF n]
      by (cases "run_state run'") (auto simp: agent_provenance_def last_two_snoc [OF h] prefix_def)
  next
    case False
    then show ?thesis using k by (auto simp: agent_provenance_def)
  qed
qed

interpretation agent_prov: invariant_machine agent_init agent_step agent_provenance
proof unfold_locales
  show "agent_provenance run" if "agent_init run" for run
    using that by (auto simp: agent_init_def agent_run_new_def agent_provenance_def res_simps)
qed (rule agent_step_provenance)

lemma u64_limit_large: "27 + 1 < U64_LIMIT"
  by (simp add: U64_LIMIT_def)

text \<open>A driver that applies a list of events, for concrete runs.\<close>

fun run_events :: "agent_run \<Rightarrow> agent_event list \<Rightarrow> agent_state_error + agent_run" where
  "run_events run [] = Inr run"
| "run_events run (ev # evs) = res_then (agent_run_apply run ev) (\<lambda>(run', _). run_events run' evs)"

lemma run_events_reach:
  "agent_reachable run \<Longrightarrow> run_events run evs = Inr run' \<Longrightarrow> agent_reachable run'"
proof (induction evs arbitrary: run)
  case (Cons ev evs)
  then obtain run1 rec where "agent_run_apply run ev = Inr (run1, rec)" "run_events run1 evs = Inr run'"
    by (auto simp: res_simps)
  then show ?case using Cons by (meson agent_step.step_apply reach_step)
qed simp

definition approved_events :: "agent_event list" where
  "approved_events =
     [Parsed, CapabilitiesRetrieved, PlanCreated, CandidateGenerated, SchemaInvalid, RepairReady,
      CandidateGenerated, SchemaValid, ApprovalRequired, TeacherApproved, ValidationExecuted,
      VerificationPassed, TeacherApproved]"

definition approved_run :: agent_run where
  "approved_run = (case run_events \<lparr> run_id = ''r1'', run_state = Parse, automatic_repairs = 0, history = [] \<rparr>
      approved_events of Inr run \<Rightarrow> run | Inl _ \<Rightarrow> \<lparr> run_id = [], run_state = Parse, automatic_repairs = 0, history = [] \<rparr>)"

lemma approved_run_eq:
  "run_events \<lparr> run_id = ''r1'', run_state = Parse, automatic_repairs = 0, history = [] \<rparr> approved_events
     = Inr approved_run \<and> run_state approved_run = Completed \<and> length (history approved_run) = 13"
  by (simp add: approved_run_def approved_events_def agent_run_apply_def agent_next_def
      commit_transition_def U64_LIMIT_def MAX_AUTOMATIC_REPAIRS_def Let_def)

lemma approved_run_reachable: "agent_reachable approved_run"
proof -
  have "\<not> is_blank ''r1''"
    by (simp add: is_blank_def trim_start.simps ws_len_def byte_def)
  then have "agent_init \<lparr> run_id = ''r1'', run_state = Parse, automatic_repairs = 0, history = [] \<rparr>"
    by (auto simp: agent_init_def agent_run_new_def intro!: exI [of _ "''r1''"])
  then show ?thesis
    using run_events_reach [OF reach_init] approved_run_eq by blast
qed

section \<open>Properties\<close>

text \<open>C11: the transition history is complete evidence.  In every reachable run the
  records are numbered 1, 2, 3, ... and replaying their events from the initial
  state gives exactly the run's current state and repair counter.\<close>

theorem agent_history_replays:
  assumes "agent_reachable run"
  shows "map tr_sequence (history run) = map of_nat [1..<Suc (length (history run))]
    \<and> replay (map tr_event (history run)) = (run_state run, automatic_repairs run)"
  using agent.reach_inv [OF assms] by (simp add: agent_inv_def)

theorem agent_history_replays_witness:
  "agent_reachable approved_run
   \<and> fst (replay (map tr_event (history approved_run))) = Completed"
  using agent_history_replays [OF approved_run_reachable] approved_run_reachable approved_run_eq
  by simp

text \<open>C10: an agent run cannot go on for ever.  No reachable run has more than two
  automatic repairs or more than 27 transitions, so the sequence overflow error
  cannot occur.\<close>

theorem agent_run_bounded:
  assumes "agent_reachable run"
  shows "automatic_repairs run \<le> MAX_AUTOMATIC_REPAIRS \<and> length (history run) \<le> 27
    \<and> agent_run_apply run ev \<noteq> Inl TransitionSequenceOverflow"
proof -
  have inv: "agent_inv run" by (rule agent.reach_inv [OF assms])
  have "agent_rank (run_state run) \<le> 11" by (cases "run_state run") auto
  moreover have "unat (automatic_repairs run) \<le> 2"
    using inv by (simp add: agent_inv_def MAX_AUTOMATIC_REPAIRS_def word_le_nat_alt)
  ultimately have len: "length (history run) \<le> 27"
    using inv by (simp add: agent_inv_def)
  have "agent_next st r e \<noteq> Inl TransitionSequenceOverflow" for st r e
    using agent_next_Inl by force
  then have "agent_run_apply run ev \<noteq> Inl TransitionSequenceOverflow"
    using len u64_limit_large
    by (auto simp: agent_run_apply_def res_then_def commit_transition_def Let_def split: sum.splits)
  then show ?thesis using inv len by (simp add: agent_inv_def)
qed

theorem agent_run_bounded_witness:
  "agent_reachable approved_run
   \<and> agent_run_apply approved_run CancelRun \<noteq> Inl TransitionSequenceOverflow"
  using agent_run_bounded [OF approved_run_reachable] approved_run_reachable by blast

text \<open>C9: nothing is handed off without evidence and approval.  A reachable run is
  completed only if its last two transitions are the passed verification and the
  teacher's approval, and it executes validation only if policy allowed it or
  the teacher approved an execution that policy had asked approval for.\<close>

theorem agent_completion_requires_approval:
  assumes "agent_reachable run"
  shows "(run_state run = Completed \<longrightarrow>
       last_two run = [(AwaitingReleaseApproval, TeacherApproved), (Verify, VerificationPassed)])
    \<and> (run_state run = ExecuteValidation \<longrightarrow>
       prefix [(PolicyValidate, PolicyAllowed)] (last_two run)
       \<or> last_two run = [(AwaitingExecutionApproval, TeacherApproved), (PolicyValidate, ApprovalRequired)])"
  using agent_prov.reach_inv [OF assms] by (simp add: agent_provenance_def)

theorem agent_completion_requires_approval_witness:
  "agent_reachable approved_run \<and> run_state approved_run = Completed
   \<and> last_two approved_run = [(AwaitingReleaseApproval, TeacherApproved), (Verify, VerificationPassed)]"
  using agent_completion_requires_approval [OF approved_run_reachable] approved_run_reachable
    approved_run_eq by blast

end
