(* ===== verification/Env_Contract.thy ===== *)
theory Env_Contract
  imports Foundation
begin

text \<open>
  The environment aggregate of \<^verbatim>\<open>crates/contracts/src/environment.rs\<close>: states,
  operations, lease authorizations, the validators of the aggregate and of the
  resource handoff documents, the frozen transition matrix, and the admission
  checks other services apply to environment facts.
\<close>

named_theorems env_defs \<open>definitions of the environment contract\<close>

section \<open>States and operations\<close>

datatype environment_class = Experiment | Work

datatype runtime_kind = Container | VirtualMachine

datatype desired_environment_state = DesiredRunning | DesiredStopped | DesiredDeleted

datatype observed_environment_state =
    Requested
  | Validating
  | Building
  | Provisioning
  | Ready
  | Stopping
  | Stopped
  | Updating
  | Expiring
  | Deleting
  | Deleted
  | Failed

datatype environment_operation_kind =
    Create
  | Start
  | Stop
  | Restart
  | Reset
  | Retry
  | Cancel
  | Recover
  | Expire
  | Delete
  | Cleanup
  | Freeze

datatype operation_state =
    OpAccepted
  | OpRunning
  | OpCancelling
  | OpSucceeded
  | OpFailed
  | OpCancelled

record artifact_ref =
  ar_artifact_id :: uuid
  ar_store_binding :: string
  ar_object_version :: string
  ar_size_bytes :: u64
  ar_media_type :: string

datatype environment_reset_target =
    ExperimentBaseline uuid u64
  | WorkSnapshot artifact_ref revision
  | WorkConfiguration revision revision

record environment_lease_authorization =
  la_lease_id :: uuid
  la_lease_revision :: revision
  la_environment_id :: uuid
  la_course_id :: uuid
  la_owner_actor_id :: uuid
  la_capacity_binding :: string
  la_active_from :: timestamp
  la_expires_at :: timestamp

record environment_create_spec =
  cs_course_id :: uuid
  cs_owner_actor_id :: uuid
  cs_display_label :: string
  cs_class :: environment_class
  cs_runtime_kind :: runtime_kind
  cs_release_id :: uuid
  cs_release_version :: u64
  cs_provider_binding :: string
  cs_lease_id :: "uuid option"
  cs_capacity_binding :: "string option"
  cs_eligibility_expires_at :: timestamp

record environment_lifecycle_command =
  lc_environment_id :: uuid
  lc_kind :: environment_operation_kind
  lc_expected_revision :: revision
  lc_actor_id :: uuid
  lc_trace_id :: string
  lc_accepted_at :: timestamp
  lc_deadline_at :: timestamp
  lc_access_revocation_revision :: "revision option"
  lc_preserve_mutable_disk :: bool
  lc_max_attempts :: u32
  lc_reset_target :: "environment_reset_target option"

record environment_operation =
  eo_id :: uuid
  eo_kind :: environment_operation_kind
  eo_state :: operation_state
  eo_accepted_revision :: revision
  eo_attempt :: u32
  eo_provider_step :: u32
  eo_max_attempts :: u32
  eo_next_attempt_at :: timestamp
  eo_actor_id :: uuid
  eo_trace_id :: string
  eo_accepted_at :: timestamp
  eo_deadline_at :: timestamp
  eo_cleanup_started_at :: "timestamp option"
  eo_diagnostic_code :: "string option"
  eo_preserve_mutable_disk :: bool
  eo_access_revocation_revision :: "revision option"
  eo_retry_from_phase :: "observed_environment_state option"
  eo_reset_target :: "environment_reset_target option"
  eo_lease_authorization :: "environment_lease_authorization option"

datatype endpoint_protocol = Http | Https | Ssh

datatype endpoint_health = Pending | Healthy | Unhealthy | Removed

record environment_endpoint =
  ep_id :: uuid
  ep_protocol :: endpoint_protocol
  ep_revision :: revision
  ep_health :: endpoint_health
  ep_observed_at :: timestamp

record environment_instance =
  ei_id :: uuid
  ei_display_label :: string
  ei_course_id :: uuid
  ei_owner_id :: uuid
  ei_class :: environment_class
  ei_runtime_kind :: runtime_kind
  ei_release_id :: uuid
  ei_release_version :: u64
  ei_lease_id :: "uuid option"
  ei_capacity_binding :: "string option"
  ei_provider_binding :: string
  ei_desired_state :: desired_environment_state
  ei_observed_state :: observed_environment_state
  ei_revision :: revision
  ei_generation :: u64
  ei_observed_generation :: u64
  ei_operation :: environment_operation
  ei_eligibility_expires_at :: timestamp
  ei_endpoints :: "environment_endpoint list"
  ei_last_diagnostic_code :: "string option"
  ei_failed_phase :: "observed_environment_state option"
  ei_cleanup_evidence :: "artifact_ref option"

datatype environment_error =
    InvalidAggregate
  | ReadyWithoutHealthyEndpoint
  | CleanupEvidenceRequired
  | GrantRevocationRequired
  | LeaseRequired
  | FailedPhaseRequired
  | ResetTargetRequired
  | ResetTargetInvalid
  | LeaseAuthorizationRequired
  | LeaseAuthorizationInvalid
  | InvalidResourceHandoff
  | InvalidEnvTransition observed_environment_state observed_environment_state
  | OperationNotAllowed observed_environment_state environment_operation_kind
  | InvalidResolverConfiguration
  | EndpointEligibilityInvalid
  | ConsoleEligibilityInvalid
  | InvalidDiagnosticCode
  | InvalidOperationSnapshot
  | InvalidInventorySummary

section \<open>Aggregate validation\<close>

definition is_binding_byte :: "char \<Rightarrow> bool" where
  "is_binding_byte b \<longleftrightarrow> is_ascii_alphanumeric b \<or> b \<in> set ''-_.:''"

definition valid_binding :: "string \<Rightarrow> bool" where
  "valid_binding value \<longleftrightarrow> value \<noteq> [] \<and> length value \<le> 128 \<and> list_all is_binding_byte value"

definition validate_reset_target ::
  "environment_instance \<Rightarrow> environment_reset_target \<Rightarrow> environment_error + unit" where
  "validate_reset_target i target =
     ensure_else ResetTargetInvalid
       (case (ei_class i, target) of
          (Experiment, ExperimentBaseline rid rv) \<Rightarrow> rid = ei_release_id i \<and> rv = ei_release_version i
        | (Work, WorkSnapshot snap _) \<Rightarrow>
            \<not> is_blank (ar_store_binding snap) \<and> \<not> is_blank (ar_object_version snap)
            \<and> ar_size_bytes snap > 0 \<and> \<not> is_blank (ar_media_type snap)
        | (Work, WorkConfiguration _ _) \<Rightarrow> True
        | _ \<Rightarrow> False)"

definition instance_malformed :: "environment_instance \<Rightarrow> bool" where
  "instance_malformed i \<longleftrightarrow>
     (let op = ei_operation i in
      is_blank (ei_display_label i)
      \<or> chars_count (ei_display_label i) > 120
      \<or> has_control (ei_display_label i)
      \<or> ei_release_version i = 0
      \<or> is_blank (ei_provider_binding i)
      \<or> ei_generation i = 0
      \<or> ei_observed_generation i > ei_generation i
      \<or> eo_attempt op = 0
      \<or> eo_provider_step op = 0
      \<or> eo_max_attempts op < eo_attempt op
      \<or> eo_deadline_at op \<le> eo_accepted_at op
      \<or> eo_next_attempt_at op < eo_accepted_at op
      \<or> eo_next_attempt_at op > eo_deadline_at op
      \<or> (case eo_cleanup_started_at op of None \<Rightarrow> False | Some started_at \<Rightarrow>
           ei_desired_state i \<noteq> DesiredDeleted
           \<or> started_at < eo_accepted_at op \<or> started_at > eo_deadline_at op)
      \<or> eo_trace_id op = []
      \<or> length (eo_trace_id op) > 128
      \<or> \<not> list_all is_binding_byte (eo_trace_id op))"

definition diagnostic_ok :: "string option \<Rightarrow> bool" where
  "diagnostic_ok code = (case code of None \<Rightarrow> True | Some c \<Rightarrow> is_ok (diagnostic_code_parse c))"

definition lease_reference_ok :: "environment_instance \<Rightarrow> environment_error + unit" where
  "lease_reference_ok i = (case ei_class i of
      Experiment \<Rightarrow>
        if ei_lease_id i \<noteq> None \<or> ei_capacity_binding i \<noteq> None then Inl InvalidAggregate else Inr ()
    | Work \<Rightarrow>
        if ei_lease_id i = None
           \<or> (case ei_capacity_binding i of None \<Rightarrow> True | Some b \<Rightarrow> \<not> valid_binding b)
        then Inl LeaseRequired else Inr ())"

definition authorization_mismatch ::
  "environment_instance \<Rightarrow> environment_lease_authorization \<Rightarrow> bool" where
  "authorization_mismatch i a \<longleftrightarrow>
     ei_class i \<noteq> Work
     \<or> Some (la_lease_id a) \<noteq> ei_lease_id i
     \<or> la_environment_id a \<noteq> ei_id i
     \<or> la_course_id a \<noteq> ei_course_id i
     \<or> la_owner_actor_id a \<noteq> ei_owner_id i
     \<or> Some (la_capacity_binding a) \<noteq> ei_capacity_binding i
     \<or> la_active_from a \<ge> la_expires_at a"

definition operation_policy :: "environment_operation \<Rightarrow> environment_error + unit" where
  "operation_policy op =
     (if eo_kind op = Restart then ensure_else InvalidAggregate (eo_preserve_mutable_disk op)
      else if eo_kind op = Reset then
        ensure_else GrantRevocationRequired
          (\<not> eo_preserve_mutable_disk op \<and> eo_access_revocation_revision op \<noteq> None)
      else if eo_kind op \<in> {Stop, Cancel, Expire, Delete, Cleanup} then
        ensure_else GrantRevocationRequired (eo_access_revocation_revision op \<noteq> None)
      else Inr ())"

definition ready_unhealthy :: "environment_instance \<Rightarrow> bool" where
  "ready_unhealthy i \<longleftrightarrow>
     ei_observed_generation i \<noteq> ei_generation i
     \<or> ei_endpoints i = []
     \<or> list_ex (\<lambda>e. ep_health e \<noteq> Healthy \<or> ep_revision e \<noteq> ei_revision i) (ei_endpoints i)"

definition instance_validate :: "environment_instance \<Rightarrow> environment_error + unit" where
  "instance_validate i =
     (let op = ei_operation i in
      if instance_malformed i then Inl InvalidAggregate
      else if \<not> diagnostic_ok (ei_last_diagnostic_code i) \<or> \<not> diagnostic_ok (eo_diagnostic_code op)
      then Inl InvalidDiagnosticCode
      else res_then (lease_reference_ok i) (\<lambda>_.
      if (ei_observed_state i = Failed) \<noteq> (ei_failed_phase i \<noteq> None) then Inl FailedPhaseRequired
      else if (eo_kind op \<in> {Retry, Recover}) \<noteq> (eo_retry_from_phase op \<noteq> None)
      then Inl FailedPhaseRequired
      else if (eo_kind op = Reset) \<noteq> (eo_reset_target op \<noteq> None) then Inl ResetTargetRequired
      else res_then (case eo_reset_target op of None \<Rightarrow> Inr () | Some t \<Rightarrow> validate_reset_target i t) (\<lambda>_.
      if (case eo_lease_authorization op of None \<Rightarrow> False | Some a \<Rightarrow> authorization_mismatch i a)
      then Inl LeaseAuthorizationInvalid
      else res_then (operation_policy op) (\<lambda>_.
      if ei_observed_state i = Ready \<and> ready_unhealthy i then Inl ReadyWithoutHealthyEndpoint
      else if ei_observed_state i = Deleted \<and> ei_cleanup_evidence i = None
      then Inl CleanupEvidenceRequired
      else Inr ()))))"

abbreviation valid_instance :: "environment_instance \<Rightarrow> bool" where
  "valid_instance i \<equiv> instance_validate i = Inr ()"

section \<open>The frozen transition matrix\<close>

fun transition_allowed :: "observed_environment_state \<Rightarrow> observed_environment_state list" where
  "transition_allowed Requested = [Validating, Failed, Deleting]"
| "transition_allowed Validating = [Building, Failed, Deleting]"
| "transition_allowed Building = [Provisioning, Failed, Deleting]"
| "transition_allowed Provisioning = [Ready, Stopped, Failed, Deleting]"
| "transition_allowed Ready = [Provisioning, Stopping, Updating, Expiring, Deleting, Failed]"
| "transition_allowed Stopping = [Stopped, Failed, Deleting]"
| "transition_allowed Expiring = [Stopped, Failed, Deleting]"
| "transition_allowed Stopped = [Provisioning, Ready, Expiring, Deleting, Failed]"
| "transition_allowed Updating = [Ready, Failed, Deleting]"
| "transition_allowed Failed =
     [Validating, Building, Provisioning, Stopping, Updating, Expiring, Deleting]"
| "transition_allowed Deleting = [Deleted, Failed]"
| "transition_allowed Deleted = []"

definition ensure_transition ::
  "observed_environment_state \<Rightarrow> observed_environment_state \<Rightarrow> environment_error + unit" where
  "ensure_transition from to = ensure_else (InvalidEnvTransition from to) (to \<in> set (transition_allowed from))"

fun operation_allowed :: "observed_environment_state \<Rightarrow> environment_operation_kind \<Rightarrow> bool" where
  "operation_allowed st Create = (st = Requested)"
| "operation_allowed st Start = (st = Stopped)"
| "operation_allowed st Stop = (st = Ready)"
| "operation_allowed st Freeze = (st = Ready)"
| "operation_allowed st Restart = (st \<in> {Ready, Stopped, Failed})"
| "operation_allowed st Reset = (st \<in> {Ready, Stopped, Failed})"
| "operation_allowed st Retry = (st = Failed)"
| "operation_allowed st Recover = (st = Failed)"
| "operation_allowed st Cancel = (st \<notin> {Deleted, Deleting})"
| "operation_allowed st Expire = (st \<in> {Ready, Stopped, Failed})"
| "operation_allowed st Delete = (st \<noteq> Deleted)"
| "operation_allowed st Cleanup = (st \<in> {Expiring, Deleting, Failed})"

definition ensure_operation_allowed ::
  "observed_environment_state \<Rightarrow> environment_operation_kind \<Rightarrow> environment_error + unit" where
  "ensure_operation_allowed st operation =
     ensure_else (OperationNotAllowed st operation) (operation_allowed st operation)"

section \<open>What a valid aggregate guarantees\<close>

lemma valid_instance_iff:
  "valid_instance i \<longleftrightarrow>
     \<not> instance_malformed i
     \<and> diagnostic_ok (ei_last_diagnostic_code i)
     \<and> diagnostic_ok (eo_diagnostic_code (ei_operation i))
     \<and> lease_reference_ok i = Inr ()
     \<and> (ei_observed_state i = Failed \<longleftrightarrow> ei_failed_phase i \<noteq> None)
     \<and> (eo_kind (ei_operation i) \<in> {Retry, Recover} \<longleftrightarrow> eo_retry_from_phase (ei_operation i) \<noteq> None)
     \<and> (eo_kind (ei_operation i) = Reset \<longleftrightarrow> eo_reset_target (ei_operation i) \<noteq> None)
     \<and> (\<forall>t. eo_reset_target (ei_operation i) = Some t \<longrightarrow> validate_reset_target i t = Inr ())
     \<and> (\<forall>a. eo_lease_authorization (ei_operation i) = Some a \<longrightarrow> \<not> authorization_mismatch i a)
     \<and> operation_policy (ei_operation i) = Inr ()
     \<and> (ei_observed_state i = Ready \<longrightarrow> \<not> ready_unhealthy i)
     \<and> (ei_observed_state i = Deleted \<longrightarrow> ei_cleanup_evidence i \<noteq> None)"
  unfolding instance_validate_def Let_def res_simps
  by (cases "eo_reset_target (ei_operation i)"; cases "eo_lease_authorization (ei_operation i)") auto

lemma valid_attempt:
  assumes "valid_instance i"
  shows "eo_attempt (ei_operation i) \<noteq> 0 \<and> eo_attempt (ei_operation i) \<le> eo_max_attempts (ei_operation i)"
  using assms by (auto simp: valid_instance_iff instance_malformed_def Let_def not_less)

lemma valid_generation:
  assumes "valid_instance i"
  shows "ei_observed_generation i \<le> ei_generation i"
  using assms by (auto simp: valid_instance_iff instance_malformed_def Let_def not_less)

lemma valid_ready:
  assumes "valid_instance i" and "ei_observed_state i = Ready"
  shows "ei_endpoints i \<noteq> []
    \<and> (\<forall>e \<in> set (ei_endpoints i). ep_health e = Healthy \<and> ep_revision e = ei_revision i)
    \<and> ei_observed_generation i = ei_generation i"
  using assms by (auto simp: valid_instance_iff ready_unhealthy_def list_ex_iff)

lemma valid_failed: "valid_instance i \<Longrightarrow> ei_observed_state i = Failed \<longleftrightarrow> ei_failed_phase i \<noteq> None"
  by (simp add: valid_instance_iff)

lemma ensure_transition_Inr [res_simps]:
  "ensure_transition a b = Inr u \<longleftrightarrow> b \<in> set (transition_allowed a)"
  by (simp add: ensure_transition_def res_simps)

lemma ensure_operation_allowed_Inr [res_simps]:
  "ensure_operation_allowed a k = Inr u \<longleftrightarrow> operation_allowed a k"
  by (simp add: ensure_operation_allowed_def res_simps)

end
