(* ===== verification/Env_Lifecycle.thy ===== *)
theory Env_Lifecycle
  imports Env_Contract
begin

text \<open>
  The environment lifecycle of \<^verbatim>\<open>services/environment-service/src/lifecycle.rs\<close>:
  accepting a command, applying a provider observation, a retry, a failure and
  the timeout cleanup, each a function from the current aggregate to the next
  one or an error.
\<close>

section \<open>Errors and observations\<close>

datatype lifecycle_error =
    RevisionConflict
  | RevisionOverflow
  | GenerationOverflow
  | ProviderStepOverflow
  | CommandInvalid
  | OperationActive
  | OperationMismatch
  | RetryExhausted
  | RetryTimeInvalid
  | DiagnosticInvalid
  | ProviderObservationInvalid
  | EligibilityExpired
  | Contract environment_error

record provider_observation =
  po_next_state :: observed_environment_state
  po_endpoints :: "environment_endpoint list"
  po_cleanup_evidence :: "artifact_ref option"
  po_operation_complete :: bool

abbreviation active_states :: "operation_state set" where
  "active_states \<equiv> {OpAccepted, OpRunning, OpCancelling}"

abbreviation terminal_states :: "operation_state set" where
  "terminal_states \<equiv> {OpSucceeded, OpFailed, OpCancelled}"

section \<open>Helpers\<close>

definition ensure_current_operation ::
  "environment_instance \<Rightarrow> uuid \<Rightarrow> lifecycle_error + unit" where
  "ensure_current_operation current operation_id =
     (if eo_id (ei_operation current) \<noteq> operation_id
         \<or> eo_state (ei_operation current) \<in> terminal_states
      then Inl OperationMismatch else Inr ())"

definition validate_diagnostic_code :: "string \<Rightarrow> lifecycle_error + unit" where
  "validate_diagnostic_code code =
     res_then (map_err (\<lambda>_. DiagnosticInvalid) (diagnostic_code_parse code)) (\<lambda>_. Inr ())"

definition transition_matches_operation ::
  "environment_operation_kind \<Rightarrow> observed_environment_state \<Rightarrow> observed_environment_state \<Rightarrow> bool" where
  "transition_matches_operation kind from to \<longleftrightarrow>
     (kind \<in> {Create, Retry, Recover} \<and> from = Requested \<and> to = Validating)
     \<or> (kind \<in> {Create, Retry, Recover, Reset} \<and> from = Validating \<and> to = Building)
     \<or> (kind \<in> {Create, Retry, Recover, Reset} \<and> from = Building \<and> to = Provisioning)
     \<or> (kind \<in> {Create, Retry, Recover, Start, Restart, Reset} \<and> from = Provisioning
        \<and> to \<in> {Provisioning, Ready, Stopped})
     \<or> (kind = Start \<and> from = Stopped \<and> to \<in> {Provisioning, Ready})
     \<or> (kind = Stop \<and> from = Stopping \<and> to = Stopped)
     \<or> (kind \<in> {Freeze, Retry, Recover} \<and> from = Updating \<and> to = Ready)
     \<or> (kind = Expire \<and> from = Expiring \<and> to \<in> {Stopped, Deleting})
     \<or> (kind = Expire \<and> from = Stopped \<and> to = Deleting)
     \<or> (kind \<in> {Retry, Recover} \<and> from \<in> {Stopping, Expiring} \<and> to \<in> {Stopped, Deleting})
     \<or> (from = Deleting \<and> to = Deleted)"

fun is_target :: "desired_environment_state \<Rightarrow> observed_environment_state \<Rightarrow> bool" where
  "is_target DesiredRunning st = (st = Ready)"
| "is_target DesiredStopped st = (st = Stopped)"
| "is_target DesiredDeleted st = (st = Deleted)"

definition validate_provider_observation ::
  "environment_instance \<Rightarrow> provider_observation \<Rightarrow> lifecycle_error + unit" where
  "validate_provider_observation current obs =
     (let kind = eo_kind (ei_operation current);
          from = ei_observed_state current;
          to = po_next_state obs;
          target = is_target (ei_desired_state current) to;
          is_expire_cleanup_checkpoint =
            (kind = Expire \<and> from = Expiring \<and> to = Stopped \<and> \<not> po_operation_complete obs);
          is_steady_state = (to \<in> {Ready, Stopped, Deleted})
      in if \<not> transition_matches_operation kind from to then Inl ProviderObservationInvalid
         else if (is_steady_state \<and> \<not> target \<and> \<not> is_expire_cleanup_checkpoint)
                 \<or> po_operation_complete obs \<noteq> target
         then Inl ProviderObservationInvalid
         else Inr ())"

definition increments_generation :: "environment_operation_kind \<Rightarrow> bool" where
  "increments_generation kind \<longleftrightarrow> kind \<noteq> Freeze"

definition invalidates_endpoints :: "environment_operation_kind \<Rightarrow> bool" where
  "invalidates_endpoints kind \<longleftrightarrow>
     kind \<in> {Stop, Restart, Reset, Cancel, Expire, Delete, Cleanup, Freeze}"

fun desired_state ::
  "environment_instance \<Rightarrow> environment_operation_kind \<Rightarrow> desired_environment_state" where
  "desired_state current Start = DesiredRunning"
| "desired_state current Restart = DesiredRunning"
| "desired_state current Stop = DesiredStopped"
| "desired_state current Cancel = DesiredDeleted"
| "desired_state current Expire = DesiredDeleted"
| "desired_state current Delete = DesiredDeleted"
| "desired_state current Cleanup = DesiredDeleted"
| "desired_state current _ = ei_desired_state current"

fun retry_resume_state ::
  "observed_environment_state \<Rightarrow> lifecycle_error + observed_environment_state" where
  "retry_resume_state Requested = Inr Validating"
| "retry_resume_state Validating = Inr Validating"
| "retry_resume_state Building = Inr Building"
| "retry_resume_state Provisioning = Inr Provisioning"
| "retry_resume_state Ready = Inr Provisioning"
| "retry_resume_state Stopped = Inr Provisioning"
| "retry_resume_state Stopping = Inr Stopping"
| "retry_resume_state Updating = Inr Updating"
| "retry_resume_state Expiring = Inr Expiring"
| "retry_resume_state Deleting = Inr Deleting"
| "retry_resume_state Deleted = Inl CommandInvalid"
| "retry_resume_state Failed = Inl CommandInvalid"

definition accepted_next ::
  "environment_instance \<Rightarrow> environment_operation_kind \<Rightarrow> lifecycle_error + observed_environment_state" where
  "accepted_next current kind = (case kind of
      Stop \<Rightarrow> Inr Stopping
    | Reset \<Rightarrow> Inr (if ei_observed_state current = Failed then Validating else Provisioning)
    | Restart \<Rightarrow> Inr Provisioning
    | Retry \<Rightarrow> res_then (ok_or CommandInvalid (ei_failed_phase current)) retry_resume_state
    | Recover \<Rightarrow> res_then (ok_or CommandInvalid (ei_failed_phase current)) retry_resume_state
    | Cancel \<Rightarrow> Inr Deleting
    | Delete \<Rightarrow> Inr Deleting
    | Expire \<Rightarrow> Inr Expiring
    | Cleanup \<Rightarrow> Inr Deleting
    | Freeze \<Rightarrow> Inr Updating
    | _ \<Rightarrow> Inr (ei_observed_state current))"

definition accepted_observed_state ::
  "environment_instance \<Rightarrow> environment_operation_kind \<Rightarrow> lifecycle_error + observed_environment_state" where
  "accepted_observed_state current kind =
     res_then (accepted_next current kind) (\<lambda>next.
       if next \<noteq> ei_observed_state current
       then res_then (map_err Contract (ensure_transition (ei_observed_state current) next)) (\<lambda>_. Inr next)
       else Inr next)"

definition validate_lease_authorization ::
  "environment_instance \<Rightarrow> environment_lease_authorization option \<Rightarrow> timestamp \<Rightarrow> lifecycle_error + unit" where
  "validate_lease_authorization current authorization authority_now =
     res_then (ok_or (Contract LeaseAuthorizationRequired) authorization) (\<lambda>a.
       if Some (la_lease_id a) \<noteq> ei_lease_id current
          \<or> la_environment_id a \<noteq> ei_id current
          \<or> la_course_id a \<noteq> ei_course_id current
          \<or> la_owner_actor_id a \<noteq> ei_owner_id current
          \<or> Some (la_capacity_binding a) \<noteq> ei_capacity_binding current
          \<or> la_active_from a > authority_now
          \<or> la_expires_at a \<le> authority_now
       then Inl (Contract LeaseAuthorizationInvalid)
       else Inr ())"

section \<open>Accepting a command\<close>

abbreviation destructive_kinds :: "environment_operation_kind set" where
  "destructive_kinds \<equiv> {Cancel, Expire, Delete, Cleanup}"

abbreviation leased_kinds :: "environment_operation_kind set" where
  "leased_kinds \<equiv> {Start, Retry, Recover, Reset}"

definition command_malformed :: "environment_lifecycle_command \<Rightarrow> bool" where
  "command_malformed command \<longleftrightarrow>
     \<not> (1 \<le> lc_max_attempts command \<and> lc_max_attempts command \<le> 100)
     \<or> lc_deadline_at command \<le> lc_accepted_at command
     \<or> lc_trace_id command = []
     \<or> length (lc_trace_id command) > 128
     \<or> \<not> list_all is_binding_byte (lc_trace_id command)
     \<or> (lc_kind command = Reset) \<noteq> (lc_reset_target command \<noteq> None)"

definition command_guards ::
  "environment_instance \<Rightarrow> environment_lifecycle_command \<Rightarrow> environment_lease_authorization option
   \<Rightarrow> timestamp \<Rightarrow> lifecycle_error + observed_environment_state option" where
  "command_guards current command lease_authorization authority_now =
     res_then (map_err Contract (instance_validate current)) (\<lambda>_.
     if ei_id current \<noteq> lc_environment_id command \<or> ei_revision current \<noteq> lc_expected_revision command
     then Inl RevisionConflict
     else if command_malformed command then Inl CommandInvalid
     else if lc_kind command \<in> leased_kinds \<and> ei_eligibility_expires_at current \<le> authority_now
     then Inl EligibilityExpired
     else if eo_state (ei_operation current) \<in> active_states \<and> lc_kind command \<notin> destructive_kinds
     then Inl OperationActive
     else if ei_desired_state current = DesiredDeleted
             \<and> lc_kind command \<notin> {Delete, Cleanup, Retry, Recover}
     then Inl CommandInvalid
     else res_then (map_err Contract (ensure_operation_allowed (ei_observed_state current) (lc_kind command))) (\<lambda>_.
     if ei_endpoints current \<noteq> [] \<and> lc_kind command \<notin> {Create, Start}
        \<and> lc_access_revocation_revision command = None
     then Inl (Contract GrantRevocationRequired)
     else res_then
       (if lc_kind command \<in> {Retry, Recover}
        then res_then (ok_or CommandInvalid (ei_failed_phase current)) (\<lambda>p. Inr (Some p))
        else Inr None) (\<lambda>retry_from_phase.
     res_then
       (if ei_class current = Work \<and> lc_kind command \<in> leased_kinds
        then validate_lease_authorization current lease_authorization authority_now
        else if lease_authorization \<noteq> None then Inl CommandInvalid
        else Inr ()) (\<lambda>_.
     Inr retry_from_phase))))"

definition fence_endpoint :: "environment_operation_kind \<Rightarrow> environment_endpoint \<Rightarrow> environment_endpoint" where
  "fence_endpoint kind e =
     e \<lparr> ep_health := (if kind \<in> destructive_kinds then Removed else Unhealthy) \<rparr>"

definition accepted_operation ::
  "environment_lifecycle_command \<Rightarrow> uuid \<Rightarrow> revision \<Rightarrow> observed_environment_state option
   \<Rightarrow> environment_lease_authorization option \<Rightarrow> environment_operation" where
  "accepted_operation command operation_id accepted_revision retry_from_phase lease_authorization =
     \<lparr> eo_id = operation_id,
       eo_kind = lc_kind command,
       eo_state = (if lc_kind command = Cancel then OpCancelling else OpAccepted),
       eo_accepted_revision = accepted_revision,
       eo_attempt = 1,
       eo_provider_step = 1,
       eo_max_attempts = lc_max_attempts command,
       eo_next_attempt_at = lc_accepted_at command,
       eo_actor_id = lc_actor_id command,
       eo_trace_id = lc_trace_id command,
       eo_accepted_at = lc_accepted_at command,
       eo_deadline_at = lc_deadline_at command,
       eo_cleanup_started_at = None,
       eo_diagnostic_code = None,
       eo_preserve_mutable_disk = lc_preserve_mutable_disk command,
       eo_access_revocation_revision = lc_access_revocation_revision command,
       eo_retry_from_phase = retry_from_phase,
       eo_reset_target = lc_reset_target command,
       eo_lease_authorization = lease_authorization \<rparr>"

definition planned_instance ::
  "environment_instance \<Rightarrow> environment_lifecycle_command \<Rightarrow> uuid \<Rightarrow> environment_lease_authorization option
   \<Rightarrow> observed_environment_state option \<Rightarrow> revision \<Rightarrow> observed_environment_state \<Rightarrow> u64
   \<Rightarrow> environment_instance" where
  "planned_instance current command operation_id lease_authorization retry_from_phase rv observed generation =
     current \<lparr>
       ei_revision := rv,
       ei_desired_state := desired_state current (lc_kind command),
       ei_observed_state := observed,
       ei_generation := generation,
       ei_endpoints :=
         (if invalidates_endpoints (lc_kind command)
          then map (fence_endpoint (lc_kind command)) (ei_endpoints current)
          else ei_endpoints current),
       ei_last_diagnostic_code := None,
       ei_failed_phase := None,
       ei_operation := accepted_operation command operation_id rv retry_from_phase lease_authorization \<rparr>"

definition plan_command_authorized ::
  "environment_instance \<Rightarrow> environment_lifecycle_command \<Rightarrow> uuid \<Rightarrow> environment_lease_authorization option
   \<Rightarrow> timestamp \<Rightarrow> lifecycle_error + environment_instance" where
  "plan_command_authorized current command operation_id lease_authorization authority_now =
     res_then (command_guards current command lease_authorization authority_now) (\<lambda>retry_from_phase.
     res_then (ok_or RevisionOverflow (revision_next (ei_revision current))) (\<lambda>rv.
     res_then (accepted_observed_state current (lc_kind command)) (\<lambda>observed.
     res_then
       (if increments_generation (lc_kind command)
        then ok_or GenerationOverflow (checked_add (ei_generation current) 1)
        else Inr (ei_generation current)) (\<lambda>generation.
     let planned = planned_instance current command operation_id lease_authorization
                     retry_from_phase rv observed generation
     in res_then (map_err Contract (instance_validate planned)) (\<lambda>_. Inr planned)))))"

definition plan_command ::
  "environment_instance \<Rightarrow> environment_lifecycle_command \<Rightarrow> uuid \<Rightarrow> lifecycle_error + environment_instance" where
  "plan_command current command operation_id =
     plan_command_authorized current command operation_id None (lc_accepted_at command)"

section \<open>Provider results\<close>

definition preserving_cleanup_failure ::
  "environment_instance \<Rightarrow> provider_observation \<Rightarrow> bool" where
  "preserving_cleanup_failure current obs \<longleftrightarrow>
     po_operation_complete obs \<and> po_next_state obs = Deleted
     \<and> eo_cleanup_started_at (ei_operation current) \<noteq> None
     \<and> eo_diagnostic_code (ei_operation current) \<noteq> None"

definition observed_operation_state ::
  "environment_instance \<Rightarrow> provider_observation \<Rightarrow> operation_state" where
  "observed_operation_state current obs =
     (if preserving_cleanup_failure current obs then OpFailed
      else if po_operation_complete obs \<and> eo_kind (ei_operation current) = Cancel then OpCancelled
      else if po_operation_complete obs then OpSucceeded
      else OpRunning)"

definition observed_instance ::
  "environment_instance \<Rightarrow> provider_observation \<Rightarrow> revision \<Rightarrow> u32 \<Rightarrow> environment_instance" where
  "observed_instance current obs rv step =
     (let keep = preserving_cleanup_failure current obs in
      current \<lparr>
        ei_revision := rv,
        ei_observed_state := po_next_state obs,
        ei_endpoints := po_endpoints obs,
        ei_cleanup_evidence := po_cleanup_evidence obs,
        ei_last_diagnostic_code := (if keep then ei_last_diagnostic_code current else None),
        ei_observed_generation :=
          (if po_operation_complete obs then ei_generation current else ei_observed_generation current),
        ei_operation := (ei_operation current) \<lparr>
          eo_state := observed_operation_state current obs,
          eo_provider_step := step,
          eo_diagnostic_code := (if keep then eo_diagnostic_code (ei_operation current) else None) \<rparr> \<rparr>)"

definition apply_provider_observation ::
  "environment_instance \<Rightarrow> uuid \<Rightarrow> provider_observation \<Rightarrow> lifecycle_error + environment_instance" where
  "apply_provider_observation current operation_id obs =
     res_then (map_err Contract (instance_validate current)) (\<lambda>_.
     res_then (ensure_current_operation current operation_id) (\<lambda>_.
     res_then (validate_provider_observation current obs) (\<lambda>_.
     res_then
       (if ei_observed_state current \<noteq> po_next_state obs
        then map_err Contract (ensure_transition (ei_observed_state current) (po_next_state obs))
        else Inr ()) (\<lambda>_.
     res_then (ok_or RevisionOverflow (revision_next (ei_revision current))) (\<lambda>rv.
     res_then
       (if po_operation_complete obs then Inr (eo_provider_step (ei_operation current))
        else ok_or ProviderStepOverflow (checked_add (eo_provider_step (ei_operation current)) 1)) (\<lambda>step.
     let updated = observed_instance current obs rv step
     in res_then (map_err (\<lambda>_. ProviderObservationInvalid) (instance_validate updated))
          (\<lambda>_. Inr updated)))))))"

definition provider_timeout_code :: string where
  "provider_timeout_code = ''LW_ENVIRONMENT_PROVIDER_TIMEOUT''"

definition timeout_instance ::
  "environment_instance \<Rightarrow> timestamp \<Rightarrow> timestamp \<Rightarrow> revision \<Rightarrow> u64 \<Rightarrow> u32 \<Rightarrow> environment_instance" where
  "timeout_instance current cleanup_started_at cleanup_deadline_at rv generation step =
     current \<lparr>
       ei_revision := rv,
       ei_generation := generation,
       ei_desired_state := DesiredDeleted,
       ei_observed_state := Deleting,
       ei_operation := (ei_operation current) \<lparr>
         eo_state := OpCancelling,
         eo_attempt := 1,
         eo_provider_step := step,
         eo_next_attempt_at := cleanup_started_at,
         eo_deadline_at := cleanup_deadline_at,
         eo_cleanup_started_at := Some cleanup_started_at,
         eo_diagnostic_code := Some provider_timeout_code \<rparr>,
       ei_last_diagnostic_code := Some provider_timeout_code,
       ei_endpoints := map (\<lambda>e. e \<lparr> ep_health := Removed \<rparr>) (ei_endpoints current) \<rparr>"

definition begin_timeout_cleanup ::
  "environment_instance \<Rightarrow> timestamp \<Rightarrow> timestamp \<Rightarrow> lifecycle_error + environment_instance" where
  "begin_timeout_cleanup current cleanup_started_at cleanup_deadline_at =
     res_then (ensure_current_operation current (eo_id (ei_operation current))) (\<lambda>_.
     if cleanup_started_at < eo_accepted_at (ei_operation current)
        \<or> cleanup_deadline_at \<le> cleanup_started_at
     then Inl RetryTimeInvalid
     else if ei_endpoints current \<noteq> [] \<and> eo_access_revocation_revision (ei_operation current) = None
     then Inl (Contract GrantRevocationRequired)
     else res_then
       (if ei_observed_state current \<noteq> Deleting
        then map_err Contract (ensure_transition (ei_observed_state current) Deleting) else Inr ()) (\<lambda>_.
     res_then (ok_or RevisionOverflow (revision_next (ei_revision current))) (\<lambda>rv.
     res_then
       (if ei_desired_state current \<noteq> DesiredDeleted
        then ok_or GenerationOverflow (checked_add (ei_generation current) 1)
        else Inr (ei_generation current)) (\<lambda>generation.
     res_then (ok_or ProviderStepOverflow (checked_add (eo_provider_step (ei_operation current)) 1)) (\<lambda>step.
     let updated = timeout_instance current cleanup_started_at cleanup_deadline_at rv generation step
     in res_then (map_err Contract (instance_validate updated)) (\<lambda>_. Inr updated))))))"

definition retried_instance ::
  "environment_instance \<Rightarrow> string \<Rightarrow> timestamp \<Rightarrow> revision \<Rightarrow> environment_instance" where
  "retried_instance current diagnostic_code next_attempt_at rv =
     current \<lparr>
       ei_revision := rv,
       ei_operation := (ei_operation current) \<lparr>
         eo_attempt := eo_attempt (ei_operation current) + 1,
         eo_next_attempt_at := next_attempt_at,
         eo_state := OpAccepted,
         eo_diagnostic_code := Some diagnostic_code \<rparr>,
       ei_last_diagnostic_code := Some diagnostic_code \<rparr>"

definition apply_retry ::
  "environment_instance \<Rightarrow> uuid \<Rightarrow> string \<Rightarrow> timestamp \<Rightarrow> lifecycle_error + environment_instance" where
  "apply_retry current operation_id diagnostic_code next_attempt_at =
     res_then (ensure_current_operation current operation_id) (\<lambda>_.
     res_then (validate_diagnostic_code diagnostic_code) (\<lambda>_.
     if eo_attempt (ei_operation current) \<ge> eo_max_attempts (ei_operation current)
     then Inl RetryExhausted
     else if next_attempt_at \<le> eo_next_attempt_at (ei_operation current)
             \<or> next_attempt_at > eo_deadline_at (ei_operation current)
     then Inl RetryTimeInvalid
     else res_then (ok_or RevisionOverflow (revision_next (ei_revision current))) (\<lambda>rv.
     let updated = retried_instance current diagnostic_code next_attempt_at rv
     in res_then (map_err Contract (instance_validate updated)) (\<lambda>_. Inr updated))))"

definition failed_instance :: "environment_instance \<Rightarrow> string \<Rightarrow> revision \<Rightarrow> environment_instance" where
  "failed_instance current diagnostic_code rv =
     current \<lparr>
       ei_revision := rv,
       ei_observed_state := Failed,
       ei_failed_phase := Some (ei_observed_state current),
       ei_operation := (ei_operation current) \<lparr>
         eo_state := OpFailed,
         eo_diagnostic_code := Some diagnostic_code \<rparr>,
       ei_last_diagnostic_code := Some diagnostic_code,
       ei_endpoints := map (\<lambda>e. e \<lparr> ep_health := Unhealthy \<rparr>) (ei_endpoints current) \<rparr>"

definition apply_provider_failure ::
  "environment_instance \<Rightarrow> uuid \<Rightarrow> string \<Rightarrow> lifecycle_error + environment_instance" where
  "apply_provider_failure current operation_id diagnostic_code =
     res_then (ensure_current_operation current operation_id) (\<lambda>_.
     res_then (validate_diagnostic_code diagnostic_code) (\<lambda>_.
     res_then
       (if ei_observed_state current \<noteq> Failed
        then map_err Contract (ensure_transition (ei_observed_state current) Failed) else Inr ()) (\<lambda>_.
     res_then (ok_or RevisionOverflow (revision_next (ei_revision current))) (\<lambda>rv.
     let updated = failed_instance current diagnostic_code rv
     in res_then (map_err Contract (instance_validate updated)) (\<lambda>_. Inr updated)))))"

section \<open>Inversion of the operations\<close>

lemma ensure_current_operation_Inr [res_simps]:
  "ensure_current_operation i oid = Inr u \<longleftrightarrow>
     eo_id (ei_operation i) = oid \<and> eo_state (ei_operation i) \<notin> terminal_states"
  by (auto simp: ensure_current_operation_def)

lemma not_terminal_active: "s \<notin> terminal_states \<longleftrightarrow> s \<in> active_states"
  by (cases s) auto

lemma planE:
  assumes "plan_command_authorized current command oid auth now = Inr planned"
  obtains phase rv obs gen where
    "command_guards current command auth now = Inr phase"
    "revision_next (ei_revision current) = Some rv"
    "accepted_observed_state current (lc_kind command) = Inr obs"
    "planned = planned_instance current command oid auth phase rv obs gen"
    "valid_instance planned"
  using assms by (auto simp: plan_command_authorized_def res_simps Let_def)

lemma guardsD:
  assumes "command_guards current command auth now = Inr phase"
  shows "valid_instance current"
    and "ei_id current = lc_environment_id command"
    and "ei_revision current = lc_expected_revision command"
    and "\<not> command_malformed command"
    and "lc_kind command \<in> leased_kinds \<Longrightarrow> now < ei_eligibility_expires_at current"
    and "lc_kind command \<notin> destructive_kinds \<Longrightarrow> eo_state (ei_operation current) \<in> terminal_states"
    and "ei_desired_state current = DesiredDeleted \<Longrightarrow> lc_kind command \<in> {Delete, Cleanup, Retry, Recover}"
    and "operation_allowed (ei_observed_state current) (lc_kind command)"
    and "ei_endpoints current \<noteq> [] \<Longrightarrow> lc_kind command \<notin> {Create, Start} \<Longrightarrow>
         lc_access_revocation_revision command \<noteq> None"
    and "phase = (if lc_kind command \<in> {Retry, Recover} then ei_failed_phase current else None)"
    and "if ei_class current = Work \<and> lc_kind command \<in> leased_kinds
         then validate_lease_authorization current auth now = Inr () else auth = None"
proof -
  note g = assms [unfolded command_guards_def res_simps]
  show "valid_instance current" "ei_id current = lc_environment_id command"
    "ei_revision current = lc_expected_revision command" "\<not> command_malformed command"
    "operation_allowed (ei_observed_state current) (lc_kind command)"
    using g by auto
  show "lc_kind command \<in> leased_kinds \<Longrightarrow> now < ei_eligibility_expires_at current"
    using g by auto
  show "lc_kind command \<notin> destructive_kinds \<Longrightarrow> eo_state (ei_operation current) \<in> terminal_states"
    using g not_terminal_active [of "eo_state (ei_operation current)"] by auto
  show "ei_desired_state current = DesiredDeleted \<Longrightarrow> lc_kind command \<in> {Delete, Cleanup, Retry, Recover}"
    using g by auto
  show "ei_endpoints current \<noteq> [] \<Longrightarrow> lc_kind command \<notin> {Create, Start} \<Longrightarrow>
         lc_access_revocation_revision command \<noteq> None"
    using g by auto
  show "phase = (if lc_kind command \<in> {Retry, Recover} then ei_failed_phase current else None)"
    using g by (cases "lc_kind command \<in> {Retry, Recover}") (auto simp: res_simps)
  show "if ei_class current = Work \<and> lc_kind command \<in> leased_kinds
         then validate_lease_authorization current auth now = Inr () else auth = None"
    using g by (auto split: if_splits)
qed

lemma observationE:
  assumes "apply_provider_observation current oid obs = Inr updated"
  obtains rv step where
    "valid_instance current" "eo_id (ei_operation current) = oid"
    "eo_state (ei_operation current) \<in> active_states"
    "validate_provider_observation current obs = Inr ()"
    "po_next_state obs = ei_observed_state current
     \<or> po_next_state obs \<in> set (transition_allowed (ei_observed_state current))"
    "revision_next (ei_revision current) = Some rv"
    "updated = observed_instance current obs rv step"
    "valid_instance updated"
  using assms not_terminal_active [of "eo_state (ei_operation current)"]
  by (auto simp: apply_provider_observation_def res_simps Let_def split: if_splits)

lemma timeoutE:
  assumes "begin_timeout_cleanup current started deadline = Inr updated"
  obtains rv gen step where
    "eo_state (ei_operation current) \<in> active_states"
    "ei_observed_state current = Deleting \<or> Deleting \<in> set (transition_allowed (ei_observed_state current))"
    "ei_endpoints current = [] \<or> eo_access_revocation_revision (ei_operation current) \<noteq> None"
    "revision_next (ei_revision current) = Some rv"
    "updated = timeout_instance current started deadline rv gen step"
    "valid_instance updated"
  using assms not_terminal_active [of "eo_state (ei_operation current)"]
  by (auto simp: begin_timeout_cleanup_def res_simps Let_def split: if_splits)

lemma retryE:
  assumes "apply_retry current oid code next = Inr updated"
  obtains rv where
    "eo_id (ei_operation current) = oid"
    "eo_state (ei_operation current) \<in> active_states"
    "eo_attempt (ei_operation current) < eo_max_attempts (ei_operation current)"
    "eo_next_attempt_at (ei_operation current) < next" "next \<le> eo_deadline_at (ei_operation current)"
    "revision_next (ei_revision current) = Some rv"
    "updated = retried_instance current code next rv"
    "valid_instance updated"
  using assms not_terminal_active [of "eo_state (ei_operation current)"]
  by (auto simp: apply_retry_def res_simps Let_def not_le)

lemma failureE:
  assumes "apply_provider_failure current oid code = Inr updated"
  obtains rv where
    "eo_id (ei_operation current) = oid"
    "eo_state (ei_operation current) \<in> active_states"
    "ei_observed_state current = Failed \<or> Failed \<in> set (transition_allowed (ei_observed_state current))"
    "revision_next (ei_revision current) = Some rv"
    "updated = failed_instance current code rv"
    "valid_instance updated"
  using assms not_terminal_active [of "eo_state (ei_operation current)"]
  by (auto simp: apply_provider_failure_def res_simps Let_def split: if_splits)

end
