(* ===== verification/Env_Machine.thy ===== *)
theory Env_Machine
  imports Env_Lifecycle
begin

text \<open>
  The environment lifecycle as a machine: created aggregates and the five
  lifecycle operations as steps.  The phase invariant ties the operation kind to
  the observed state; with it the machine's safety properties hold in every
  reachable aggregate.
\<close>

section \<open>The phase invariant\<close>

text \<open>
  The observed states an operation of each kind may be in while it is active,
  and what a finished operation leaves behind.
\<close>

fun active_phases :: "environment_operation_kind \<Rightarrow> observed_environment_state list" where
  "active_phases Create = [Requested, Validating, Building, Provisioning, Deleting]"
| "active_phases Start = [Stopped, Provisioning, Deleting]"
| "active_phases Stop = [Stopping, Deleting]"
| "active_phases Restart = [Provisioning, Deleting]"
| "active_phases Reset = [Validating, Building, Provisioning, Deleting]"
| "active_phases Retry = [Validating, Building, Provisioning, Stopping, Updating, Expiring, Deleting]"
| "active_phases Recover = [Validating, Building, Provisioning, Stopping, Updating, Expiring, Deleting]"
| "active_phases Expire = [Expiring, Stopped, Deleting]"
| "active_phases Freeze = [Updating, Deleting]"
| "active_phases Cancel = [Deleting]"
| "active_phases Delete = [Deleting]"
| "active_phases Cleanup = [Deleting]"

definition phase_inv :: "environment_instance \<Rightarrow> bool" where
  "phase_inv i \<longleftrightarrow>
     (let op = ei_operation i; st = ei_observed_state i in
      (eo_state op \<in> active_states \<and> st \<in> set (active_phases (eo_kind op)))
      \<or> (eo_state op = OpFailed \<and> st = Failed
         \<and> (case ei_failed_phase i of None \<Rightarrow> False | Some p \<Rightarrow> p \<in> set (active_phases (eo_kind op))))
      \<or> (eo_state op \<in> terminal_states \<and> st \<in> {Ready, Stopped, Deleted}
         \<and> is_target (ei_desired_state i) st \<and> (st \<noteq> Deleted \<longrightarrow> eo_state op = OpSucceeded)))"

definition env_inv :: "environment_instance \<Rightarrow> bool" where
  "env_inv i \<longleftrightarrow> valid_instance i \<and> phase_inv i"

lemma phase_inv_active:
  "phase_inv i \<Longrightarrow> eo_state (ei_operation i) \<in> active_states \<Longrightarrow>
   ei_observed_state i \<in> set (active_phases (eo_kind (ei_operation i)))"
  by (auto simp: phase_inv_def Let_def)

lemma accepted_phase:
  assumes "accepted_observed_state i k = Inr st" and "operation_allowed (ei_observed_state i) k"
  shows "st \<in> set (active_phases k)"
proof -
  have n: "accepted_next i k = Inr st"
    using assms(1) by (auto simp: accepted_observed_state_def res_simps split: if_splits)
  have r: "retry_resume_state p = Inr q \<Longrightarrow> q \<in> set (active_phases Retry)" for p q
    by (cases p) auto
  show ?thesis
    using n assms(2) by (cases k) (auto simp: accepted_next_def res_simps dest!: r split: if_splits)
qed

lemma accepted_step:
  assumes "accepted_observed_state i k = Inr st"
  shows "st = ei_observed_state i \<or> st \<in> set (transition_allowed (ei_observed_state i))"
  using assms by (auto simp: accepted_observed_state_def res_simps split: if_splits)

lemma plan_phase_inv:
  assumes "plan_command_authorized i cmd oid auth now = Inr j"
  shows "phase_inv j"
  using assms
proof (rule planE)
  fix phase rv obs gen
  assume a: "command_guards i cmd auth now = Inr phase" "accepted_observed_state i (lc_kind cmd) = Inr obs"
    "j = planned_instance i cmd oid auth phase rv obs gen"
  have "obs \<in> set (active_phases (lc_kind cmd))"
    using accepted_phase [OF a(2) guardsD(8) [OF a(1)]] .
  then show ?thesis
    by (simp add: a(3) phase_inv_def planned_instance_def accepted_operation_def)
qed

lemma observation_next:
  assumes "validate_provider_observation i obs = Inr ()"
    and "ei_observed_state i \<in> set (active_phases (eo_kind (ei_operation i)))"
  shows "if po_operation_complete obs
     then po_next_state obs \<in> {Ready, Stopped, Deleted} \<and> is_target (ei_desired_state i) (po_next_state obs)
          \<and> (po_next_state obs \<noteq> Deleted \<longrightarrow> eo_kind (ei_operation i) \<noteq> Cancel)
     else po_next_state obs \<in> set (active_phases (eo_kind (ei_operation i)))"
proof -
  let ?k = "eo_kind (ei_operation i)" and ?f = "ei_observed_state i" and ?t = "po_next_state obs"
  have m: "transition_matches_operation ?k ?f ?t"
    and c: "po_operation_complete obs = is_target (ei_desired_state i) ?t"
    and s: "?t \<in> {Ready, Stopped, Deleted} \<Longrightarrow> is_target (ei_desired_state i) ?t
            \<or> ?k = Expire \<and> ?f = Expiring \<and> ?t = Stopped"
    using assms(1) by (auto simp: validate_provider_observation_def Let_def split: if_splits)
  show ?thesis
  proof (cases "po_operation_complete obs")
    case True
    moreover have "?t \<in> {Ready, Stopped, Deleted}"
      using True c by (cases "ei_desired_state i") auto
    moreover have "?t \<noteq> Deleted \<longrightarrow> ?k \<noteq> Cancel"
      using m assms(2) by (cases ?k) (auto simp: transition_matches_operation_def)
    ultimately show ?thesis using c by simp
  next
    case False
    with c have nt: "\<not> is_target (ei_desired_state i) ?t" by simp
    have "?t \<in> set (active_phases ?k)"
      using m s nt assms(2) by (cases ?k) (auto simp: transition_matches_operation_def)
    then show ?thesis using False by simp
  qed
qed

lemma observation_phase_inv:
  assumes "apply_provider_observation i oid obs = Inr j" and "phase_inv i"
  shows "phase_inv j"
  using assms(1)
proof (rule observationE)
  fix rv step
  assume a: "eo_state (ei_operation i) \<in> active_states" "validate_provider_observation i obs = Inr ()"
    "j = observed_instance i obs rv step"
  from observation_next [OF a(2) phase_inv_active [OF assms(2) a(1)]] show ?thesis
    by (auto simp: a(3) phase_inv_def observed_instance_def observed_operation_state_def
        preserving_cleanup_failure_def Let_def split: if_splits)
qed

lemma timeout_phase_inv:
  assumes "begin_timeout_cleanup i started deadline = Inr j"
  shows "phase_inv j"
proof -
  have "Deleting \<in> set (active_phases k)" for k by (cases k) auto
  then show ?thesis
    using assms by (elim timeoutE) (simp add: phase_inv_def timeout_instance_def)
qed

lemma retry_phase_inv:
  assumes "apply_retry i oid code next = Inr j" and "phase_inv i"
  shows "phase_inv j"
  using assms(1)
proof (rule retryE)
  fix rv
  assume "eo_state (ei_operation i) \<in> active_states" "j = retried_instance i code next rv"
  with phase_inv_active [OF assms(2)] show ?thesis
    by (simp add: phase_inv_def retried_instance_def)
qed

lemma failure_phase_inv:
  assumes "apply_provider_failure i oid code = Inr j" and "phase_inv i"
  shows "phase_inv j"
  using assms(1)
proof (rule failureE)
  fix rv
  assume "eo_state (ei_operation i) \<in> active_states" "j = failed_instance i code rv"
  with phase_inv_active [OF assms(2)] show ?thesis
    by (simp add: phase_inv_def failed_instance_def)
qed
section \<open>The lifecycle machine\<close>

definition invalid_create_aggregate :: "environment_instance \<Rightarrow> bool" where
  "invalid_create_aggregate i \<longleftrightarrow>
     (let op = ei_operation i in
      eo_kind op \<noteq> Create
      \<or> eo_state op \<noteq> OpAccepted
      \<or> ei_desired_state i \<noteq> DesiredRunning
      \<or> ei_observed_state i \<noteq> Requested
      \<or> ei_revision i \<noteq> 1
      \<or> ei_generation i \<noteq> 1
      \<or> ei_observed_generation i \<noteq> 0
      \<or> eo_accepted_revision op \<noteq> ei_revision i
      \<or> eo_attempt op \<noteq> 1
      \<or> eo_provider_step op \<noteq> 1
      \<or> eo_next_attempt_at op \<noteq> eo_accepted_at op
      \<or> eo_cleanup_started_at op \<noteq> None
      \<or> eo_diagnostic_code op \<noteq> None
      \<or> eo_access_revocation_revision op \<noteq> None
      \<or> eo_retry_from_phase op \<noteq> None
      \<or> eo_reset_target op \<noteq> None
      \<or> eo_preserve_mutable_disk op
      \<or> (ei_class i = Work \<and> eo_lease_authorization op = None)
      \<or> ei_endpoints i \<noteq> []
      \<or> ei_last_diagnostic_code i \<noteq> None
      \<or> ei_failed_phase i \<noteq> None
      \<or> ei_cleanup_evidence i \<noteq> None)"

definition env_init :: "environment_instance \<Rightarrow> bool" where
  "env_init i \<longleftrightarrow> valid_instance i \<and> \<not> invalid_create_aggregate i"

inductive lifecycle_step :: "environment_instance \<Rightarrow> environment_instance \<Rightarrow> bool" where
  step_plan: "plan_command_authorized i command oid auth now = Inr j \<Longrightarrow> lifecycle_step i j"
| step_observation: "apply_provider_observation i oid obs = Inr j \<Longrightarrow> lifecycle_step i j"
| step_timeout: "begin_timeout_cleanup i started deadline = Inr j \<Longrightarrow> lifecycle_step i j"
| step_retry: "apply_retry i oid code next = Inr j \<Longrightarrow> lifecycle_step i j"
| step_provider_failure: "apply_provider_failure i oid code = Inr j \<Longrightarrow> lifecycle_step i j"

inductive_cases lifecycle_stepE: "lifecycle_step i j"

abbreviation lifecycle_reachable :: "environment_instance \<Rightarrow> bool" where
  "lifecycle_reachable \<equiv> reach env_init lifecycle_step"

definition same_binding :: "environment_instance \<Rightarrow> environment_instance \<Rightarrow> bool" where
  "same_binding i j \<longleftrightarrow>
     ei_id j = ei_id i \<and> ei_display_label j = ei_display_label i \<and> ei_course_id j = ei_course_id i
     \<and> ei_owner_id j = ei_owner_id i \<and> ei_class j = ei_class i \<and> ei_runtime_kind j = ei_runtime_kind i
     \<and> ei_release_id j = ei_release_id i \<and> ei_release_version j = ei_release_version i
     \<and> ei_lease_id j = ei_lease_id i \<and> ei_capacity_binding j = ei_capacity_binding i
     \<and> ei_provider_binding j = ei_provider_binding i
     \<and> ei_eligibility_expires_at j = ei_eligibility_expires_at i"

lemmas instance_defs =
  planned_instance_def observed_instance_def timeout_instance_def retried_instance_def failed_instance_def

lemma desired_deleted_kinds:
  "k \<in> {Delete, Cleanup, Retry, Recover} \<Longrightarrow> ei_desired_state i = DesiredDeleted \<Longrightarrow>
   desired_state i k = DesiredDeleted"
  by auto

text \<open>The facts every step of the lifecycle has in common.\<close>

lemma lifecycle_step_facts:
  assumes "lifecycle_step i j"
  shows "revision_next (ei_revision i) = Some (ei_revision j)
    \<and> valid_instance j
    \<and> same_binding i j
    \<and> (ei_observed_state j = ei_observed_state i
       \<or> ei_observed_state j \<in> set (transition_allowed (ei_observed_state i)))
    \<and> (ei_desired_state i = DesiredDeleted \<longrightarrow> ei_desired_state j = DesiredDeleted)"
  using assms
proof cases
  case (step_plan command oid auth now)
  then show ?thesis
  proof (rule planE)
    fix phase rv obs gen
    assume a: "command_guards i command auth now = Inr phase" "revision_next (ei_revision i) = Some rv"
      "accepted_observed_state i (lc_kind command) = Inr obs"
      "j = planned_instance i command oid auth phase rv obs gen" "valid_instance j"
    show ?thesis
      using a accepted_step [OF a(3)] guardsD(7) [OF a(1)] desired_deleted_kinds
      by (simp add: instance_defs same_binding_def)
  qed
next
  case (step_observation oid obs)
  then show ?thesis
    by (elim observationE) (simp add: instance_defs same_binding_def Let_def)
next
  case (step_timeout started deadline)
  then show ?thesis
    by (elim timeoutE) (auto simp: instance_defs same_binding_def)
next
  case (step_retry oid code "next")
  then show ?thesis
    by (elim retryE) (simp add: instance_defs same_binding_def)
next
  case (step_provider_failure oid code)
  then show ?thesis
    by (elim failureE) (auto simp: instance_defs same_binding_def)
qed

lemma lifecycle_step_phase_inv: "lifecycle_step i j \<Longrightarrow> phase_inv i \<Longrightarrow> phase_inv j"
  by (auto elim!: lifecycle_stepE intro: plan_phase_inv observation_phase_inv timeout_phase_inv
      retry_phase_inv failure_phase_inv)

lemma env_init_inv: "env_init i \<Longrightarrow> env_inv i"
  by (auto simp: env_init_def env_inv_def invalid_create_aggregate_def phase_inv_def Let_def)

lemma lifecycle_step_inv: "env_inv i \<Longrightarrow> lifecycle_step i j \<Longrightarrow> env_inv j"
  using lifecycle_step_facts lifecycle_step_phase_inv by (auto simp: env_inv_def)

interpretation env: versioned_machine env_init lifecycle_step env_inv ei_revision ei_id
proof unfold_locales
  show "unat (ei_revision j) = Suc (unat (ei_revision i))" if "lifecycle_step i j" for i j
    using lifecycle_step_facts [OF that] revision_next_unat by blast
  show "ei_id j = ei_id i" if "lifecycle_step i j" for i j
    using lifecycle_step_facts [OF that] by (simp add: same_binding_def)
qed (auto intro: env_init_inv lifecycle_step_inv)

lemma deleted_no_operation: "\<not> operation_allowed Deleted k"
  by (cases k) auto

lemma deleted_not_active: "Deleted \<notin> set (active_phases k)"
  by (cases k) auto

lemma deleted_no_step:
  assumes "env_inv i" "ei_observed_state i = Deleted"
  shows "\<not> lifecycle_step i j"
proof
  assume "lifecycle_step i j"
  moreover have "eo_state (ei_operation i) \<notin> active_states"
    using assms deleted_not_active phase_inv_active [of i] by (auto simp: env_inv_def)
  moreover have "plan_command_authorized i cmd oid auth now \<noteq> Inr j" for cmd oid auth now
    using guardsD(8) [of i cmd auth now] deleted_no_operation assms(2) by (auto elim!: planE)
  ultimately show False
    by (auto elim!: lifecycle_stepE elim: observationE timeoutE retryE failureE)
qed
section \<open>Concrete runs\<close>

text \<open>A driver over lists of calls, and an environment that boots to ready.\<close>

datatype env_call =
    CallPlan environment_lifecycle_command uuid "environment_lease_authorization option" timestamp
  | CallObservation provider_observation
  | CallTimeout timestamp timestamp
  | CallRetry string timestamp
  | CallFailure string

fun env_call_apply :: "environment_instance \<Rightarrow> env_call \<Rightarrow> lifecycle_error + environment_instance" where
  "env_call_apply i (CallPlan cmd oid auth now) = plan_command_authorized i cmd oid auth now"
| "env_call_apply i (CallObservation obs) = apply_provider_observation i (eo_id (ei_operation i)) obs"
| "env_call_apply i (CallTimeout s d) = begin_timeout_cleanup i s d"
| "env_call_apply i (CallRetry c t) = apply_retry i (eo_id (ei_operation i)) c t"
| "env_call_apply i (CallFailure c) = apply_provider_failure i (eo_id (ei_operation i)) c"

fun env_calls :: "environment_instance \<Rightarrow> env_call list \<Rightarrow> lifecycle_error + environment_instance" where
  "env_calls i [] = Inr i"
| "env_calls i (c # cs) = res_then (env_call_apply i c) (\<lambda>j. env_calls j cs)"

lemma env_call_step: "env_call_apply i c = Inr j \<Longrightarrow> lifecycle_step i j"
  by (cases c) (auto intro: lifecycle_step.intros)

lemma env_calls_reach: "lifecycle_reachable i \<Longrightarrow> env_calls i cs = Inr j \<Longrightarrow> lifecycle_reachable j"
proof (induction cs arbitrary: i)
  case (Cons c cs)
  then obtain k where "env_call_apply i c = Inr k" "env_calls k cs = Inr j"
    by (auto simp: res_simps)
  then show ?case using Cons by (meson env_call_step reach_step)
qed simp

definition demo_create :: environment_instance where
  "demo_create =
     \<lparr> ei_id = 1, ei_display_label = ''lab'', ei_course_id = 2, ei_owner_id = 3, ei_class = Experiment,
       ei_runtime_kind = Container, ei_release_id = 4, ei_release_version = 1, ei_lease_id = None,
       ei_capacity_binding = None, ei_provider_binding = ''k8s'', ei_desired_state = DesiredRunning,
       ei_observed_state = Requested, ei_revision = 1, ei_generation = 1, ei_observed_generation = 0,
       ei_operation =
         \<lparr> eo_id = 9, eo_kind = Create, eo_state = OpAccepted, eo_accepted_revision = 1, eo_attempt = 1,
           eo_provider_step = 1, eo_max_attempts = 3, eo_next_attempt_at = 0, eo_actor_id = 3,
           eo_trace_id = ''t1'', eo_accepted_at = 0, eo_deadline_at = 1000, eo_cleanup_started_at = None,
           eo_diagnostic_code = None, eo_preserve_mutable_disk = False,
           eo_access_revocation_revision = None, eo_retry_from_phase = None, eo_reset_target = None,
           eo_lease_authorization = None \<rparr>,
       ei_eligibility_expires_at = 5000, ei_endpoints = [], ei_last_diagnostic_code = None,
       ei_failed_phase = None, ei_cleanup_evidence = None \<rparr>"


definition demo_obs :: "observed_environment_state \<Rightarrow> env_call" where
  "demo_obs st = CallObservation \<lparr> po_next_state = st, po_endpoints = [], po_cleanup_evidence = None,
     po_operation_complete = False \<rparr>"

definition demo_ready_obs :: "revision \<Rightarrow> env_call" where
  "demo_ready_obs rv = CallObservation \<lparr> po_next_state = Ready,
     po_endpoints = [\<lparr> ep_id = 7, ep_protocol = Http, ep_revision = rv, ep_health = Healthy, ep_observed_at = 5 \<rparr>],
     po_cleanup_evidence = None, po_operation_complete = True \<rparr>"

definition demo_command :: "environment_operation_kind \<Rightarrow> revision \<Rightarrow> environment_lifecycle_command" where
  "demo_command kind rv = \<lparr> lc_environment_id = 1, lc_kind = kind, lc_expected_revision = rv,
     lc_actor_id = 3, lc_trace_id = ''t2'', lc_accepted_at = 10, lc_deadline_at = 2000,
     lc_access_revocation_revision = Some 1, lc_preserve_mutable_disk = False, lc_max_attempts = 3,
     lc_reset_target = None \<rparr>"

definition demo_boot :: "env_call list" where
  "demo_boot = [demo_obs Validating, demo_obs Building, demo_obs Provisioning, demo_ready_obs 5]"

definition demo_ready :: environment_instance where
  "demo_ready = demo_create \<lparr> ei_observed_state := Ready, ei_revision := 5, ei_observed_generation := 1,
     ei_operation := (ei_operation demo_create) \<lparr> eo_state := OpSucceeded, eo_provider_step := 4 \<rparr>,
     ei_endpoints := [\<lparr> ep_id = 7, ep_protocol = Http, ep_revision = 5, ep_health = Healthy, ep_observed_at = 5 \<rparr>] \<rparr>"

lemma demo_ready_calls:
  "env_init demo_create" "env_calls demo_create demo_boot = Inr demo_ready"
  "ei_observed_state demo_ready = Ready" "ei_revision demo_ready = 5"
  by (code_simp, code_simp) (simp_all add: demo_ready_def)

section \<open>Properties\<close>

text \<open>C1: every aggregate the lifecycle can reach is well formed and its operation
  and observed state fit together: an active operation is in a phase of its
  kind, a failed one records the phase it failed in, and a finished one has
  brought the environment to the desired steady state.\<close>

theorem lifecycle_invariant:
  assumes "lifecycle_reachable i"
  shows "valid_instance i \<and> phase_inv i"
  using env.reach_inv [OF assms] by (simp add: env_inv_def)

lemma demo_create_reachable: "lifecycle_reachable demo_create"
  using demo_ready_calls(1) by (rule reach_init)

lemma demo_ready_reachable: "lifecycle_reachable demo_ready"
  using env_calls_reach [OF demo_create_reachable demo_ready_calls(2)] .

theorem lifecycle_invariant_witness:
  "lifecycle_reachable demo_ready \<and> valid_instance demo_ready \<and> phase_inv demo_ready"
  using lifecycle_invariant [OF demo_ready_reachable] demo_ready_reachable by simp

text \<open>C3: one lifecycle step raises the revision by exactly one, keeps the identity
  and every immutable binding of the environment, moves the observed state only
  along the frozen transition matrix, and never takes back an accepted
  deletion.\<close>

theorem lifecycle_step_frame:
  assumes "lifecycle_step i j"
  shows "unat (ei_revision j) = unat (ei_revision i) + 1 \<and> same_binding i j
    \<and> (ei_observed_state j = ei_observed_state i
       \<or> ensure_transition (ei_observed_state i) (ei_observed_state j) = Inr ())
    \<and> (ei_desired_state i = DesiredDeleted \<longrightarrow> ei_desired_state j = DesiredDeleted)"
  using lifecycle_step_facts [OF assms] revision_next_unat by (simp add: res_simps)

definition demo_deleting :: environment_instance where
  "demo_deleting = (case plan_command_authorized demo_ready (demo_command Delete 5) 12 None 10 of
     Inr i \<Rightarrow> i | Inl _ \<Rightarrow> demo_create)"

lemma demo_deleting_eq:
  "plan_command_authorized demo_ready (demo_command Delete 5) 12 None 10 = Inr demo_deleting"
  by code_simp

theorem lifecycle_step_frame_witness:
  "lifecycle_step demo_ready demo_deleting
   \<and> unat (ei_revision demo_deleting) = unat (ei_revision demo_ready) + 1"
  using lifecycle_step_frame [OF step_plan [OF demo_deleting_eq]] step_plan [OF demo_deleting_eq]
  by simp

text \<open>C4: Deleted is final.  No command is accepted and no provider result is
  applied to a reachable environment that has been deleted.\<close>

theorem deleted_is_final:
  assumes "lifecycle_reachable i" and "ei_observed_state i = Deleted"
  shows "\<not> lifecycle_step i j"
  by (rule deleted_no_step [OF env.reach_inv [OF assms(1)] assms(2)])

definition demo_deleted :: environment_instance where
  "demo_deleted = (case env_calls demo_deleting [CallObservation \<lparr> po_next_state = Deleted,
       po_endpoints = [], po_cleanup_evidence = Some \<lparr> ar_artifact_id = 21, ar_store_binding = ''s'',
       ar_object_version = ''v'', ar_size_bytes = 1, ar_media_type = ''m'' \<rparr>,
       po_operation_complete = True \<rparr>] of Inr i \<Rightarrow> i | Inl _ \<Rightarrow> demo_create)"

lemma demo_deleted_state: "ei_observed_state demo_deleted = Deleted"
  by code_simp

lemma demo_deleted_reachable: "lifecycle_reachable demo_deleted"
proof -
  have "lifecycle_reachable demo_deleting"
    using reach_step [OF demo_ready_reachable step_plan [OF demo_deleting_eq]] .
  then show ?thesis
    using env_calls_reach demo_create_reachable
    by (auto simp: demo_deleted_def simp del: env_calls.simps split: sum.split)
qed

theorem deleted_is_final_witness:
  "ei_observed_state demo_deleted = Deleted \<and> \<not> lifecycle_step demo_deleted demo_ready"
  using deleted_is_final [OF demo_deleted_reachable demo_deleted_state] demo_deleted_state by simp

text \<open>C5: a ready environment really is usable and settled: its operation has
  succeeded, running is what was asked for, and it has at least one endpoint,
  all of them healthy and stamped with the current revision.\<close>

theorem ready_is_settled:
  assumes "lifecycle_reachable i" and "ei_observed_state i = Ready"
  shows "eo_state (ei_operation i) = OpSucceeded \<and> ei_desired_state i = DesiredRunning
    \<and> ei_observed_generation i = ei_generation i \<and> ei_endpoints i \<noteq> []
    \<and> (\<forall>e \<in> set (ei_endpoints i). ep_health e = Healthy \<and> ep_revision e = ei_revision i)"
proof -
  have inv: "valid_instance i" "phase_inv i"
    using env.reach_inv [OF assms(1)] by (simp_all add: env_inv_def)
  have "Ready \<notin> set (active_phases k)" for k by (cases k) auto
  then have "eo_state (ei_operation i) = OpSucceeded \<and> is_target (ei_desired_state i) Ready"
    using inv(2) assms(2) by (auto simp: phase_inv_def Let_def)
  moreover have "is_target d Ready \<Longrightarrow> d = DesiredRunning" for d
    by (cases d) auto
  ultimately show ?thesis
    using valid_ready [OF inv(1) assms(2)] by blast
qed

theorem ready_is_settled_witness:
  "ei_observed_state demo_ready = Ready \<and> eo_state (ei_operation demo_ready) = OpSucceeded"
  using ready_is_settled [OF demo_ready_reachable demo_ready_calls(3)] demo_ready_calls(3) by simp



end
