(* ===== verification/Env_Reconciler.thy ===== *)
theory Env_Reconciler
  imports Env_Machine
begin

text \<open>
  The reconciler of \<^verbatim>\<open>services/environment-service/src/reconciler.rs\<close>: the provider
  registry, the choice of the next action, one provider call, and the worker's
  decision on its result.  A provider is a parameter: any function from the
  action and the aggregate to a reply.  The store calls around the decision are
  in \<^verbatim>\<open>Env_Store\<close>.  Durations are integers counting nanoseconds.

  Clock addition is the documented behaviour of the time library and is a
  parameter \<open>ts_add\<close>: milliseconds added to an instant, or \<^const>\<open>None\<close> when the
  result is out of the library's range.
\<close>

section \<open>Actions, failures and the registry\<close>

datatype reconcile_action =
    ActValidate
  | ActBuild
  | ActProvision
  | ActObserve
  | ActStart
  | ActStop
  | ActRestart
  | ActReset
  | ActConfigure
  | ActCleanup

datatype provider_failure_code =
    Unavailable
  | Transient
  | Rejected
  | ObservationInvalid
  | CleanupFailed

record provider_failure =
  pf_code :: provider_failure_code
  pf_retryable :: bool

fun failure_diagnostic_code :: "provider_failure_code \<Rightarrow> string" where
  "failure_diagnostic_code Unavailable = ''LW_ENVIRONMENT_PROVIDER_UNAVAILABLE''"
| "failure_diagnostic_code Transient = ''LW_ENVIRONMENT_PROVIDER_TRANSIENT''"
| "failure_diagnostic_code Rejected = ''LW_ENVIRONMENT_PROVIDER_REJECTED''"
| "failure_diagnostic_code ObservationInvalid = ''LW_ENVIRONMENT_PROVIDER_OBSERVATION_INVALID''"
| "failure_diagnostic_code CleanupFailed = ''LW_ENVIRONMENT_PROVIDER_CLEANUP_FAILED''"

datatype reconcile_error =
    InvalidProviderRegistry
  | ProviderUnavailable
  | InvalidTimeout
  | ProviderTimeout
  | OperationTerminal
  | NoAction
  | ProviderErr provider_failure

fun reconcile_diagnostic_code :: "reconcile_error \<Rightarrow> string" where
  "reconcile_diagnostic_code InvalidProviderRegistry = ''LW_ENVIRONMENT_PROVIDER_REGISTRY_INVALID''"
| "reconcile_diagnostic_code ProviderUnavailable = ''LW_ENVIRONMENT_PROVIDER_UNAVAILABLE''"
| "reconcile_diagnostic_code InvalidTimeout = ''LW_ENVIRONMENT_PROVIDER_TIMEOUT_INVALID''"
| "reconcile_diagnostic_code ProviderTimeout = ''LW_ENVIRONMENT_PROVIDER_TIMEOUT''"
| "reconcile_diagnostic_code OperationTerminal = ''LW_ENVIRONMENT_OPERATION_TERMINAL''"
| "reconcile_diagnostic_code NoAction = ''LW_ENVIRONMENT_RECONCILE_ACTION_INVALID''"
| "reconcile_diagnostic_code (ProviderErr f) = failure_diagnostic_code (pf_code f)"

fun reconcile_retryable :: "reconcile_error \<Rightarrow> bool" where
  "reconcile_retryable ProviderUnavailable = True"
| "reconcile_retryable ProviderTimeout = True"
| "reconcile_retryable (ProviderErr f) = pf_retryable f"
| "reconcile_retryable _ = False"

datatype provider_reply =
    ReplyTimeout
  | ReplyErr provider_failure
  | ReplyOk provider_observation

type_synonym environment_provider = "reconcile_action \<Rightarrow> environment_instance \<Rightarrow> provider_reply"

type_synonym provider_registry = "string \<rightharpoonup> environment_provider"

definition registry_register ::
  "provider_registry \<Rightarrow> string \<Rightarrow> environment_provider \<Rightarrow> reconcile_error + provider_registry" where
  "registry_register registry binding provider =
     (if is_blank binding \<or> registry binding \<noteq> None then Inl InvalidProviderRegistry
      else Inr (registry(binding \<mapsto> provider)))"

definition registry_resolve :: "provider_registry \<Rightarrow> string \<Rightarrow> reconcile_error + environment_provider" where
  "registry_resolve registry binding = ok_or ProviderUnavailable (registry binding)"

section \<open>The next action and one provider call\<close>

definition next_action :: "environment_instance \<Rightarrow> timestamp \<Rightarrow> reconcile_error + reconcile_action" where
  "next_action i now =
     (let op = ei_operation i; kind = eo_kind op; st = ei_observed_state i in
      if eo_state op \<in> terminal_states then Inl OperationTerminal
      else if now > eo_deadline_at op \<and> st = Deleting then Inr ActCleanup
      else if (kind \<in> {Create, Retry, Recover} \<and> st \<in> {Requested, Validating})
              \<or> (kind = Reset \<and> st = Validating) then Inr ActValidate
      else if kind \<in> {Create, Retry, Recover, Reset} \<and> st = Building then Inr ActBuild
      else if kind \<in> {Retry, Recover} \<and> st = Provisioning
              \<and> eo_retry_from_phase op = Some Stopped \<and> ei_desired_state i = DesiredRunning
      then Inr ActStart
      else if kind \<in> {Create, Retry, Recover} \<and> st = Provisioning then Inr ActProvision
      else if kind = Start \<and> st = Stopped then Inr ActStart
      else if (kind \<in> {Stop, Retry, Recover} \<and> st = Stopping)
              \<or> (kind \<in> {Expire, Retry, Recover} \<and> st = Expiring) then Inr ActStop
      else if kind = Restart \<and> st = Provisioning then Inr ActRestart
      else if kind = Reset \<and> st = Provisioning then Inr ActReset
      else if kind \<in> {Retry, Recover} \<and> st = Updating then Inr ActConfigure
      else if (kind = Expire \<and> st = Stopped) \<or> st = Deleting then Inr ActCleanup
      else if st \<in> {Provisioning, Updating} then Inr ActObserve
      else Inl NoAction)"

definition execute_once ::
  "provider_registry \<Rightarrow> environment_instance \<Rightarrow> timestamp \<Rightarrow> reconcile_error + provider_observation" where
  "execute_once registry i now =
     res_then (next_action i now) (\<lambda>action.
     res_then (registry_resolve registry (ei_provider_binding i)) (\<lambda>provider.
     case provider action i of
       ReplyTimeout \<Rightarrow> Inl ProviderTimeout
     | ReplyErr f \<Rightarrow> Inl (ProviderErr f)
     | ReplyOk obs \<Rightarrow> Inr obs))"

section \<open>The worker\<close>

type_synonym duration = int

abbreviation ns_per_ms :: int where "ns_per_ms \<equiv> 1000000"
abbreviation ns_per_s :: int where "ns_per_s \<equiv> 1000000000"
abbreviation five_minutes :: int where "five_minutes \<equiv> 300000000000"

definition is_millisecond_duration :: "duration \<Rightarrow> bool" where
  "is_millisecond_duration d \<longleftrightarrow> d mod ns_per_s mod ns_per_ms = 0"

definition DURATION_LIMIT :: int where
  "DURATION_LIMIT = 2 ^ 64 * ns_per_s"

definition duration_checked :: "int \<Rightarrow> duration option" where
  "duration_checked d = (if 0 \<le> d \<and> d < DURATION_LIMIT then Some d else None)"

record reconcile_config =
  rc_provider_timeout :: duration
  rc_lease_duration :: duration
  rc_retry_delay :: duration

datatype worker_error =
    InvalidConfiguration
  | ClockOverflow
  | WorkerLifecycle lifecycle_error

definition reconciler_new :: "duration \<Rightarrow> reconcile_error + duration" where
  "reconciler_new provider_timeout =
     (if provider_timeout = 0 \<or> provider_timeout > five_minutes then Inl InvalidTimeout
      else Inr provider_timeout)"

definition reconcile_worker_new ::
  "duration \<Rightarrow> duration \<Rightarrow> duration \<Rightarrow> worker_error + reconcile_config" where
  "reconcile_worker_new provider_timeout lease_duration retry_delay =
     res_then (ok_or InvalidConfiguration (duration_checked (provider_timeout + ns_per_s))) (\<lambda>minimum_lease.
       if lease_duration = 0
          \<or> lease_duration > five_minutes
          \<or> retry_delay = 0
          \<or> retry_delay > five_minutes
          \<or> lease_duration < minimum_lease
          \<or> \<not> is_millisecond_duration lease_duration
          \<or> \<not> is_millisecond_duration retry_delay
          \<or> \<not> is_millisecond_duration provider_timeout
       then Inl InvalidConfiguration
       else Inr \<lparr> rc_provider_timeout = provider_timeout, rc_lease_duration = lease_duration,
                  rc_retry_delay = retry_delay \<rparr>)"

type_synonym clock_add = "timestamp \<Rightarrow> int \<Rightarrow> timestamp option"

definition add_duration :: "clock_add \<Rightarrow> timestamp \<Rightarrow> duration \<Rightarrow> worker_error + timestamp" where
  "add_duration ts_add ts d =
     (if d \<ge> 2 ^ 63 * ns_per_s \<or> d mod ns_per_ms \<noteq> 0 then Inl ClockOverflow
      else ok_or ClockOverflow (ts_add ts (d div ns_per_ms)))"

definition cleanup_deadline ::
  "clock_add \<Rightarrow> reconcile_config \<Rightarrow> timestamp \<Rightarrow> u32 \<Rightarrow> worker_error + timestamp" where
  "cleanup_deadline ts_add cfg now max_attempts =
     res_then (ok_or ClockOverflow (duration_checked (rc_provider_timeout cfg * uint max_attempts))) (\<lambda>provider_budget.
     res_then (ok_or ClockOverflow
         (duration_checked (rc_retry_delay cfg * (if max_attempts = 0 then 0 else uint max_attempts - 1)))) (\<lambda>retry_budget.
     res_then (ok_or ClockOverflow
         (Option.bind (duration_checked (provider_budget + retry_budget))
            (\<lambda>d. duration_checked (d + ns_per_s)))) (\<lambda>cleanup_budget.
     add_duration ts_add now cleanup_budget)))"

definition set_next_attempt :: "environment_instance \<Rightarrow> timestamp \<Rightarrow> environment_instance" where
  "set_next_attempt i t =
     i \<lparr> ei_operation := (ei_operation i) \<lparr> eo_next_attempt_at := t \<rparr> \<rparr>"

definition defer_non_terminal_observation ::
  "clock_add \<Rightarrow> environment_instance \<Rightarrow> timestamp \<Rightarrow> duration \<Rightarrow> worker_error + environment_instance" where
  "defer_non_terminal_observation ts_add i now retry_delay =
     (if eo_state (ei_operation i) \<in> terminal_states then Inr i
      else res_then (add_duration ts_add now retry_delay) (\<lambda>next_attempt_at.
        let updated = set_next_attempt i (min next_attempt_at (eo_deadline_at (ei_operation i)))
        in res_then
             (map_err (\<lambda>_. WorkerLifecycle ProviderObservationInvalid) (instance_validate updated))
             (\<lambda>_. Inr updated)))"

datatype worker_outcome =
    Idle
  | AdvancedTo observed_environment_state bool
  | RetryScheduled u32
  | FailedWith string

definition observation_invalid_code :: string where
  "observation_invalid_code = ''LW_ENVIRONMENT_PROVIDER_OBSERVATION_INVALID''"

definition accept_observation ::
  "clock_add \<Rightarrow> reconcile_config \<Rightarrow> environment_instance \<Rightarrow> timestamp \<Rightarrow> provider_observation
   \<Rightarrow> worker_error + (environment_instance \<times> worker_outcome)" where
  "accept_observation ts_add cfg i now obs =
     (case apply_provider_observation i (eo_id (ei_operation i)) obs of
        Inl ProviderObservationInvalid \<Rightarrow>
          res_then (map_err WorkerLifecycle
              (apply_provider_failure i (eo_id (ei_operation i)) observation_invalid_code))
            (\<lambda>updated. Inr (updated, FailedWith observation_invalid_code))
      | Inl e \<Rightarrow> Inl (WorkerLifecycle e)
      | Inr updated \<Rightarrow>
          res_then (defer_non_terminal_observation ts_add updated now (rc_retry_delay cfg)) (\<lambda>deferred.
            Inr (deferred, AdvancedTo (ei_observed_state deferred)
                             (eo_state (ei_operation deferred) \<in> terminal_states))))"

definition accept_failure ::
  "clock_add \<Rightarrow> reconcile_config \<Rightarrow> environment_instance \<Rightarrow> timestamp \<Rightarrow> reconcile_error
   \<Rightarrow> worker_error + (environment_instance \<times> worker_outcome)" where
  "accept_failure ts_add cfg i now err =
     (let op = ei_operation i;
          code = reconcile_diagnostic_code err;
          give_up = res_then (map_err WorkerLifecycle (apply_provider_failure i (eo_id op) code))
                      (\<lambda>updated. Inr (updated, FailedWith code))
      in if reconcile_retryable err \<and> eo_attempt op < eo_max_attempts op
         then res_then (add_duration ts_add now (rc_retry_delay cfg)) (\<lambda>retry_at.
                if retry_at \<le> eo_deadline_at op
                then res_then (map_err WorkerLifecycle (apply_retry i (eo_id op) code retry_at))
                       (\<lambda>updated. Inr (updated, RetryScheduled (eo_attempt (ei_operation updated))))
                else give_up)
         else give_up)"

definition reconcile_leased ::
  "clock_add \<Rightarrow> reconcile_config \<Rightarrow> provider_registry \<Rightarrow> environment_instance \<Rightarrow> timestamp
   \<Rightarrow> worker_error + (environment_instance \<times> worker_outcome)" where
  "reconcile_leased ts_add cfg registry i now =
     (if now > eo_deadline_at (ei_operation i) \<and> eo_cleanup_started_at (ei_operation i) = None
      then res_then (cleanup_deadline ts_add cfg now (eo_max_attempts (ei_operation i))) (\<lambda>deadline.
           res_then (map_err WorkerLifecycle (begin_timeout_cleanup i now deadline)) (\<lambda>updated.
           Inr (updated, AdvancedTo (ei_observed_state updated) False)))
      else (case execute_once registry i now of
          Inr obs \<Rightarrow> accept_observation ts_add cfg i now obs
        | Inl err \<Rightarrow> accept_failure ts_add cfg i now err))"

section \<open>The next action\<close>

lemma next_action_total:
  assumes "phase_inv i" and "eo_state (ei_operation i) \<in> active_states"
  shows "is_ok (next_action i now)"
proof -
  have "eo_state (ei_operation i) \<notin> terminal_states"
    using assms(2) not_terminal_active by blast
  then show ?thesis
    using phase_inv_active [OF assms]
    by (cases "eo_kind (ei_operation i)"; cases "ei_observed_state i")
      (simp_all add: next_action_def Let_def is_ok_if)
qed

section \<open>Preservation\<close>

lemma set_next_attempt_simps [simp]:
  "ei_observed_state (set_next_attempt i t) = ei_observed_state i"
  "ei_revision (set_next_attempt i t) = ei_revision i"
  "ei_id (set_next_attempt i t) = ei_id i"
  "eo_state (ei_operation (set_next_attempt i t)) = eo_state (ei_operation i)"
  "eo_kind (ei_operation (set_next_attempt i t)) = eo_kind (ei_operation i)"
  "eo_id (ei_operation (set_next_attempt i t)) = eo_id (ei_operation i)"
  "eo_attempt (ei_operation (set_next_attempt i t)) = eo_attempt (ei_operation i)"
  "eo_max_attempts (ei_operation (set_next_attempt i t)) = eo_max_attempts (ei_operation i)"
  "phase_inv (set_next_attempt i t) = phase_inv i"
  by (simp_all add: set_next_attempt_def phase_inv_def Let_def cong: option.case_cong)

lemma deferE:
  assumes "defer_non_terminal_observation ts_add i now d = Inr j"
  obtains "j = i" | t where "j = set_next_attempt i t" "valid_instance j"
  using assms
  by (auto simp: defer_non_terminal_observation_def res_simps Let_def split: if_splits)

lemma accept_observationE:
  assumes "accept_observation ts_add cfg i now obs = Inr (j, oc)"
  shows "(\<exists>k t. lifecycle_step i k \<and> (j = k \<or> j = set_next_attempt k t \<and> valid_instance j))
    \<and> (\<forall>n. oc \<noteq> RetryScheduled n)"
proof (cases "apply_provider_observation i (eo_id (ei_operation i)) obs")
  case (Inl e)
  then have e: "e = ProviderObservationInvalid"
    using assms by (cases e) (auto simp: accept_observation_def)
  with Inl assms have
    "apply_provider_failure i (eo_id (ei_operation i)) observation_invalid_code = Inr j"
    "oc = FailedWith observation_invalid_code"
    by (auto simp: accept_observation_def res_simps)
  then show ?thesis using step_provider_failure by blast
next
  case (Inr k)
  then have "defer_non_terminal_observation ts_add k now (rc_retry_delay cfg) = Inr j"
    and oc: "\<forall>n. oc \<noteq> RetryScheduled n"
    using assms by (auto simp: accept_observation_def res_simps)
  then have "j = k \<or> (\<exists>t. j = set_next_attempt k t \<and> valid_instance j)"
    by (auto elim: deferE)
  then show ?thesis using step_observation [OF Inr] oc by blast
qed

lemma accept_failureE:
  assumes "accept_failure ts_add cfg i now err = Inr (j, oc)"
  obtains code where "apply_provider_failure i (eo_id (ei_operation i)) code = Inr j" "oc = FailedWith code"
  | code t where "apply_retry i (eo_id (ei_operation i)) code t = Inr j"
      "oc = RetryScheduled (eo_attempt (ei_operation j))"
  using assms
  by (auto simp: accept_failure_def res_simps Let_def split: if_splits)

lemma reconcile_leased_step:
  assumes "reconcile_leased ts_add cfg registry i now = Inr (j, oc)"
  obtains k t where "lifecycle_step i k" "j = k \<or> j = set_next_attempt k t \<and> valid_instance j"
proof (cases "now > eo_deadline_at (ei_operation i) \<and> eo_cleanup_started_at (ei_operation i) = None")
  case True
  then show thesis
    using assms by (auto simp: reconcile_leased_def res_simps intro!: that step_timeout)
next
  case False
  show thesis
  proof (cases "execute_once registry i now")
    case (Inl e)
    then have "accept_failure ts_add cfg i now e = Inr (j, oc)"
      using assms False by (simp add: reconcile_leased_def)
    then show thesis
      by (elim accept_failureE) (auto intro: that step_provider_failure step_retry)
  next
    case (Inr obs)
    then have "accept_observation ts_add cfg i now obs = Inr (j, oc)"
      using assms False by (simp add: reconcile_leased_def)
    then show thesis using accept_observationE that by blast
  qed
qed

lemma reconcile_leased_inv:
  assumes "reconcile_leased ts_add cfg registry i now = Inr (j, oc)" and "env_inv i"
  shows "env_inv j" and "unat (ei_revision j) = Suc (unat (ei_revision i))" and "ei_id j = ei_id i"
proof -
  obtain k t where k: "lifecycle_step i k" "j = k \<or> j = set_next_attempt k t \<and> valid_instance j"
    using reconcile_leased_step [OF assms(1)] .
  have "env_inv k" by (rule lifecycle_step_inv [OF assms(2) k(1)])
  then show "env_inv j" using k(2) by (auto simp: env_inv_def)
  show "unat (ei_revision j) = Suc (unat (ei_revision i))" "ei_id j = ei_id i"
    using env.step_version [OF k(1)] env.step_ident [OF k(1)] k(2) by auto
qed

section \<open>Retries are bounded\<close>

definition retried :: "clock_add \<Rightarrow> reconcile_config \<Rightarrow> provider_registry \<Rightarrow> environment_instance
  \<Rightarrow> environment_instance \<Rightarrow> bool" where
  "retried ts_add cfg registry i j \<longleftrightarrow>
     (\<exists>now n. reconcile_leased ts_add cfg registry i now = Inr (j, RetryScheduled n))"

lemma retried_attempt:
  assumes "retried ts_add cfg registry i j"
  shows "unat (eo_attempt (ei_operation j)) = Suc (unat (eo_attempt (ei_operation i)))
    \<and> eo_max_attempts (ei_operation j) = eo_max_attempts (ei_operation i)
    \<and> eo_attempt (ei_operation j) \<le> eo_max_attempts (ei_operation j)
    \<and> eo_id (ei_operation j) = eo_id (ei_operation i)"
proof -
  obtain now n where r: "reconcile_leased ts_add cfg registry i now = Inr (j, RetryScheduled n)"
    using assms by (auto simp: retried_def)
  then obtain e where "accept_failure ts_add cfg i now e = Inr (j, RetryScheduled n)"
    by (auto simp: reconcile_leased_def res_simps split: if_splits sum.splits dest!: accept_observationE)
  then obtain code t where "apply_retry i (eo_id (ei_operation i)) code t = Inr j"
    by (elim accept_failureE) auto
  then show ?thesis
  proof (rule retryE)
    fix rv
    assume lt: "eo_attempt (ei_operation i) < eo_max_attempts (ei_operation i)"
      and j: "j = retried_instance i code t rv" "valid_instance j"
    have "unat (eo_attempt (ei_operation i) + 1) = Suc (unat (eo_attempt (ei_operation i)))"
      using lt by (rule unat_plus_1)
    then show ?thesis using valid_attempt [OF j(2)] by (simp add: j(1) retried_instance_def)
  qed
qed

lemma retried_chain:
  "(retried ts_add cfg registry ^^ n) i j \<Longrightarrow>
   unat (eo_attempt (ei_operation j)) = unat (eo_attempt (ei_operation i)) + n
   \<and> eo_max_attempts (ei_operation j) = eo_max_attempts (ei_operation i)
   \<and> (n > 0 \<longrightarrow> eo_attempt (ei_operation j) \<le> eo_max_attempts (ei_operation j))"
proof (induction n arbitrary: j)
  case (Suc n)
  then obtain k where "(retried ts_add cfg registry ^^ n) i k" "retried ts_add cfg registry k j"
    by auto
  then show ?case using Suc.IH retried_attempt by fastforce
qed simp
section \<open>Validity of the updated aggregates\<close>

definition same_request :: "environment_operation \<Rightarrow> environment_operation \<Rightarrow> bool" where
  "same_request a b \<longleftrightarrow>
     eo_kind b = eo_kind a \<and> eo_preserve_mutable_disk b = eo_preserve_mutable_disk a
     \<and> eo_access_revocation_revision b = eo_access_revocation_revision a
     \<and> eo_retry_from_phase b = eo_retry_from_phase a \<and> eo_reset_target b = eo_reset_target a
     \<and> eo_lease_authorization b = eo_lease_authorization a \<and> eo_trace_id b = eo_trace_id a
     \<and> eo_accepted_at b = eo_accepted_at a \<and> eo_max_attempts b = eo_max_attempts a"

lemma valid_update:
  assumes v: "valid_instance i" and b: "same_binding i j"
    and r: "same_request (ei_operation i) (ei_operation j)"
    and m: "\<not> instance_malformed j"
    and d: "diagnostic_ok (ei_last_diagnostic_code j)" "diagnostic_ok (eo_diagnostic_code (ei_operation j))"
    and f: "ei_observed_state j = Failed \<longleftrightarrow> ei_failed_phase j \<noteq> None"
    and rd: "ei_observed_state j = Ready \<Longrightarrow> \<not> ready_unhealthy j"
    and dl: "ei_observed_state j = Deleted \<Longrightarrow> ei_cleanup_evidence j \<noteq> None"
  shows "valid_instance j"
proof -
  have "lease_reference_ok j = lease_reference_ok i"
    "validate_reset_target j = validate_reset_target i"
    "authorization_mismatch j = authorization_mismatch i"
    using b unfolding same_binding_def lease_reference_ok_def validate_reset_target_def [abs_def]
      authorization_mismatch_def [abs_def]
    by (elim conjE, simp only:)+
  moreover have "operation_policy (ei_operation j) = operation_policy (ei_operation i)"
    using r unfolding operation_policy_def same_request_def by (elim conjE, simp only:)
  ultimately show ?thesis
    using v r m d f rd dl unfolding valid_instance_iff same_request_def by simp
qed

lemma well_formed_parts:
  assumes "valid_instance i"
  shows "\<not> is_blank (ei_display_label i)" "\<not> chars_count (ei_display_label i) > 120"
    "\<not> has_control (ei_display_label i)" "ei_release_version i \<noteq> 0" "\<not> is_blank (ei_provider_binding i)"
    "ei_generation i \<noteq> 0" "eo_provider_step (ei_operation i) \<noteq> 0"
    "eo_accepted_at (ei_operation i) < eo_deadline_at (ei_operation i)"
    "eo_accepted_at (ei_operation i) \<le> eo_next_attempt_at (ei_operation i)"
    "eo_next_attempt_at (ei_operation i) \<le> eo_deadline_at (ei_operation i)"
    "eo_trace_id (ei_operation i) \<noteq> []" "\<not> length (eo_trace_id (ei_operation i)) > 128"
    "list_all is_binding_byte (eo_trace_id (ei_operation i))"
    "eo_cleanup_started_at (ei_operation i) = Some s \<Longrightarrow> ei_desired_state i = DesiredDeleted
       \<and> eo_accepted_at (ei_operation i) \<le> s \<and> s \<le> eo_deadline_at (ei_operation i)"
  using assms by (simp_all add: valid_instance_iff instance_malformed_def Let_def not_less not_le)

lemma well_formed_update:
  assumes v: "valid_instance i" and b: "same_binding i j"
    and r: "same_request (ei_operation i) (ei_operation j)"
    and g: "ei_generation i \<le> ei_generation j" "ei_observed_generation j \<le> ei_generation j"
    and a: "eo_attempt (ei_operation j) \<noteq> 0" "eo_attempt (ei_operation j) \<le> eo_max_attempts (ei_operation j)"
    and p: "eo_provider_step (ei_operation j) \<noteq> 0"
    and t: "eo_accepted_at (ei_operation j) < eo_deadline_at (ei_operation j)"
      "eo_accepted_at (ei_operation j) \<le> eo_next_attempt_at (ei_operation j)"
      "eo_next_attempt_at (ei_operation j) \<le> eo_deadline_at (ei_operation j)"
    and c: "\<And>s. eo_cleanup_started_at (ei_operation j) = Some s \<Longrightarrow> ei_desired_state j = DesiredDeleted
       \<and> eo_accepted_at (ei_operation j) \<le> s \<and> s \<le> eo_deadline_at (ei_operation j)"
  shows "\<not> instance_malformed j"
proof -
  have "ei_generation j \<noteq> 0"
    using g(1) well_formed_parts(6) [OF v] by auto
  moreover have "\<not> (case eo_cleanup_started_at (ei_operation j) of None \<Rightarrow> False | Some s \<Rightarrow>
      ei_desired_state j \<noteq> DesiredDeleted \<or> s < eo_accepted_at (ei_operation j)
      \<or> s > eo_deadline_at (ei_operation j))"
    using c by (auto split: option.split)
  ultimately show ?thesis
    using well_formed_parts [OF v] b r g a p t
    by (simp add: instance_malformed_def Let_def same_binding_def same_request_def not_less not_le)
qed

lemma word_max_1: "a \<noteq> 0 \<Longrightarrow> a \<le> b \<Longrightarrow> 1 \<le> b" for a b :: "'w::len word"
  by (metis inc_le order_trans word_neq_0_conv add_0)

lemma timeout_instance_valid:
  assumes v: "valid_instance i" and nf: "ei_observed_state i \<noteq> Failed"
    and t: "eo_accepted_at (ei_operation i) \<le> s" "s < d"
    and g: "ei_generation i \<le> gen" and st: "step \<noteq> 0"
    and code: "diagnostic_ok (Some provider_timeout_code)"
  shows "valid_instance (timeout_instance i s d rv gen step)" (is "valid_instance ?j")
proof (rule valid_update [OF v])
  show b: "same_binding i ?j" by (simp add: same_binding_def timeout_instance_def)
  show r: "same_request (ei_operation i) (ei_operation ?j)"
    by (simp add: same_request_def timeout_instance_def)
  show "\<not> instance_malformed ?j"
    using valid_attempt [OF v] valid_generation [OF v] g st t
    by (intro well_formed_update [OF v b r]) (auto simp: timeout_instance_def intro: word_max_1)
  show "ei_observed_state ?j = Failed \<longleftrightarrow> ei_failed_phase ?j \<noteq> None"
    using valid_failed [OF v] nf by (simp add: timeout_instance_def)
qed (simp_all add: timeout_instance_def code)

lemma retried_instance_valid:
  assumes v: "valid_instance i" and code: "diagnostic_ok (Some c)"
    and lt: "eo_attempt (ei_operation i) < eo_max_attempts (ei_operation i)"
    and t: "eo_next_attempt_at (ei_operation i) < t" "t \<le> eo_deadline_at (ei_operation i)"
    and rd: "ei_observed_state i \<notin> {Ready, Deleted}"
  shows "valid_instance (retried_instance i c t rv)" (is "valid_instance ?j")
proof (rule valid_update [OF v])
  show b: "same_binding i ?j" by (simp add: same_binding_def retried_instance_def)
  show r: "same_request (ei_operation i) (ei_operation ?j)"
    by (simp add: same_request_def retried_instance_def)
  have "eo_attempt (ei_operation i) + 1 \<noteq> 0"
    using unat_plus_1 [OF lt] by (metis nat.distinct(1) unsigned_0)
  then show "\<not> instance_malformed ?j"
    using valid_generation [OF v] well_formed_parts(7-10,14) [OF v] t lt inc_le [OF lt]
    by (intro well_formed_update [OF v b r]) (auto simp: retried_instance_def)
  show "ei_observed_state ?j = Failed \<longleftrightarrow> ei_failed_phase ?j \<noteq> None"
    using valid_failed [OF v] by (simp add: retried_instance_def)
qed (use rd in \<open>simp_all add: retried_instance_def code\<close>)

lemma failed_instance_valid:
  assumes v: "valid_instance i" and code: "diagnostic_ok (Some c)"
  shows "valid_instance (failed_instance i c rv)" (is "valid_instance ?j")
proof (rule valid_update [OF v])
  show b: "same_binding i ?j" by (simp add: same_binding_def failed_instance_def)
  show r: "same_request (ei_operation i) (ei_operation ?j)"
    by (simp add: same_request_def failed_instance_def)
  show "\<not> instance_malformed ?j"
    using valid_generation [OF v] valid_attempt [OF v] well_formed_parts(7-10,14) [OF v]
    by (intro well_formed_update [OF v b r]) (auto simp: failed_instance_def)
qed (simp_all add: failed_instance_def code)

lemma set_next_attempt_valid:
  assumes v: "valid_instance i"
    and t: "eo_accepted_at (ei_operation i) \<le> t" "t \<le> eo_deadline_at (ei_operation i)"
  shows "valid_instance (set_next_attempt i t)" (is "valid_instance ?j")
proof (rule valid_update [OF v])
  show b: "same_binding i ?j" by (simp add: same_binding_def set_next_attempt_def)
  show r: "same_request (ei_operation i) (ei_operation ?j)"
    by (simp add: same_request_def set_next_attempt_def)
  show "\<not> instance_malformed ?j"
    using valid_generation [OF v] valid_attempt [OF v] well_formed_parts(7-10,14) [OF v] t
    by (intro well_formed_update [OF v b r]) (auto simp: set_next_attempt_def)
qed (use v in \<open>auto simp: set_next_attempt_def valid_instance_iff ready_unhealthy_def\<close>)


lemma provider_timeout_code_ok: "diagnostic_ok (Some provider_timeout_code)"
  by code_simp

lemma observation_invalid_code_ok: "diagnostic_ok (Some observation_invalid_code)"
  by code_simp

lemma failure_code_ok: "diagnostic_ok (Some (failure_diagnostic_code c))"
proof -
  have "list_all (\<lambda>c. diagnostic_ok (Some (failure_diagnostic_code c)))
    [Unavailable, Transient, Rejected, ObservationInvalid, CleanupFailed]"
    by code_simp
  then show ?thesis by (cases c) simp_all
qed

lemma reconcile_code_ok: "diagnostic_ok (Some (reconcile_diagnostic_code e))"
proof -
  have "list_all (\<lambda>e. diagnostic_ok (Some (reconcile_diagnostic_code e)))
    [InvalidProviderRegistry, ProviderUnavailable, InvalidTimeout, ProviderTimeout, OperationTerminal, NoAction]"
    by code_simp
  then show ?thesis by (cases e) (simp_all add: failure_code_ok del: failure_diagnostic_code.simps)
qed

lemma validate_diagnostic_code_Inr:
  "diagnostic_ok (Some c) \<Longrightarrow> validate_diagnostic_code c = Inr ()"
  by (auto simp: diagnostic_ok_def validate_diagnostic_code_def is_ok_iff)
section \<open>The worker always has a decision\<close>

definition config_ok :: "reconcile_config \<Rightarrow> bool" where
  "config_ok cfg \<longleftrightarrow>
     0 < rc_provider_timeout cfg \<and> rc_provider_timeout cfg \<le> five_minutes
     \<and> 0 < rc_retry_delay cfg \<and> rc_retry_delay cfg \<le> five_minutes
     \<and> rc_provider_timeout cfg mod ns_per_ms = 0 \<and> rc_retry_delay cfg mod ns_per_ms = 0"

lemma is_millisecond_iff: "is_millisecond_duration d \<longleftrightarrow> d mod ns_per_ms = 0"
  by (simp add: is_millisecond_duration_def mod_mod_cancel)

lemma new_config_ok:
  assumes "reconciler_new pt = Inr pt" "reconcile_worker_new pt ld rd = Inr cfg" "0 \<le> pt" "0 \<le> rd"
  shows "config_ok cfg"
  using assms
  by (auto simp: reconciler_new_def reconcile_worker_new_def res_simps config_ok_def is_millisecond_iff
      split: if_splits)

definition total_clock :: "clock_add \<Rightarrow> bool" where
  "total_clock ts_add \<longleftrightarrow> (\<forall>t d. ts_add t d = Some (t + d))"

lemma add_duration_total:
  assumes "total_clock ts_add" "0 \<le> d" "d < 2 ^ 63 * ns_per_s" "d mod ns_per_ms = 0"
  shows "add_duration ts_add t d = Inr (t + d div ns_per_ms)"
  using assms by (simp add: add_duration_def total_clock_def)

lemma retry_delay_total:
  assumes "total_clock ts_add" "config_ok cfg"
  shows "\<exists>t. add_duration ts_add now (rc_retry_delay cfg) = Inr t \<and> now < t"
proof -
  have "rc_retry_delay cfg div ns_per_ms > 0"
    using assms(2) by (auto simp: config_ok_def)
  then show ?thesis
    using assms by (intro exI [of _ "now + rc_retry_delay cfg div ns_per_ms"])
      (auto simp: config_ok_def intro!: add_duration_total)
qed

lemma duration_product:
  fixes d n :: int
  assumes "0 \<le> d" "d \<le> five_minutes" "d mod ns_per_ms = 0" "0 \<le> n" "n < 4294967296"
  shows "0 \<le> d * n" "d * n \<le> five_minutes * 4294967296" "d * n mod ns_per_ms = 0"
proof -
  have "d * n \<le> five_minutes * n" using assms by (intro mult_right_mono) auto
  also have "\<dots> \<le> five_minutes * 4294967296" using assms by simp
  finally show "d * n \<le> five_minutes * 4294967296" .
  show "0 \<le> d * n" using assms by simp
  show "d * n mod ns_per_ms = 0" using assms(3) by (metis dvd_mult2 mod_eq_0_iff_dvd)
qed

lemma duration_checked_small:
  "0 \<le> d \<Longrightarrow> d \<le> 2 * (five_minutes * 4294967296) + ns_per_s \<Longrightarrow> duration_checked d = Some d"
  by (simp add: duration_checked_def DURATION_LIMIT_def)

lemma cleanup_deadline_total:
  assumes c: "total_clock ts_add" "config_ok cfg"
  shows "\<exists>d. cleanup_deadline ts_add cfg now m = Inr d \<and> now < d"
proof -
  define n where "n = (if m = 0 then 0 else uint m - 1)"
  define P where "P = rc_provider_timeout cfg * uint m"
  define R where "R = rc_retry_delay cfg * n"
  have m: "0 \<le> uint m" "uint m < 4294967296"
    using uint_bounded [of m] by simp_all
  moreover have "m = 0 \<or> 0 < uint m"
    using m(1) uint_0_iff [of m] by linarith
  ultimately have n: "0 \<le> n" "n < 4294967296" by (auto simp: n_def)
  have P: "0 \<le> P" "P \<le> five_minutes * 4294967296" "P mod ns_per_ms = 0"
    unfolding P_def using duration_product [of "rc_provider_timeout cfg" "uint m"] m c(2)
    by (simp_all add: config_ok_def)
  have R: "0 \<le> R" "R \<le> five_minutes * 4294967296" "R mod ns_per_ms = 0"
    unfolding R_def using duration_product [of "rc_retry_delay cfg" n] n c(2)
    by (simp_all add: config_ok_def)
  have "(P + R + ns_per_s) mod ns_per_ms = 0"
    using P(3) R(3) unfolding mod_eq_0_iff_dvd by (intro dvd_add) simp_all
  then have "add_duration ts_add now (P + R + ns_per_s) = Inr (now + (P + R + ns_per_s) div ns_per_ms)"
    using P R by (intro add_duration_total [OF c(1)]) simp_all
  moreover have "duration_checked P = Some P" "duration_checked R = Some R"
    "duration_checked (P + R) = Some (P + R)" "duration_checked (P + R + ns_per_s) = Some (P + R + ns_per_s)"
    using P R by (simp_all add: duration_checked_small)
  ultimately have "cleanup_deadline ts_add cfg now m = Inr (now + (P + R + ns_per_s) div ns_per_ms)"
    by (simp add: cleanup_deadline_def flip: n_def P_def R_def)
  moreover have "0 < (P + R + ns_per_s) div ns_per_ms"
    using P R by (simp add: pos_imp_zdiv_pos_iff)
  ultimately show ?thesis by auto
qed

definition headroom :: "environment_instance \<Rightarrow> bool" where
  "headroom i \<longleftrightarrow> revision_next (ei_revision i) \<noteq> None \<and> checked_add (ei_generation i) 1 \<noteq> None
     \<and> checked_add (eo_provider_step (ei_operation i)) 1 \<noteq> None"

lemma active_phase_exits:
  assumes "st \<in> set (active_phases k)"
  shows "st \<notin> {Ready, Deleted, Failed}" "Failed \<in> set (transition_allowed st)"
    "st = Deleting \<or> Deleting \<in> set (transition_allowed st)"
  using assms by (cases k; auto)+

lemma observation_transition:
  "transition_matches_operation k f t \<Longrightarrow> f = t \<or> t \<in> set (transition_allowed f)"
  by (auto simp: transition_matches_operation_def)

lemma failure_total:
  assumes "env_inv i" "eo_state (ei_operation i) \<in> active_states" "headroom i" "diagnostic_ok (Some c)"
  shows "\<exists>j. apply_provider_failure i (eo_id (ei_operation i)) c = Inr j"
proof -
  have v: "valid_instance i" and ph: "ei_observed_state i \<in> set (active_phases (eo_kind (ei_operation i)))"
    using assms phase_inv_active by (auto simp: env_inv_def)
  obtain rv where "revision_next (ei_revision i) = Some rv"
    using assms(3) by (auto simp: headroom_def)
  then show ?thesis
    using assms(2) active_phase_exits [OF ph] failed_instance_valid [OF v assms(4)]
      validate_diagnostic_code_Inr [OF assms(4)] not_terminal_active [of "eo_state (ei_operation i)"]
    by (auto simp: apply_provider_failure_def ensure_current_operation_def ensure_transition_def
        ensure_else_def)
qed

lemma retry_total:
  assumes "env_inv i" "eo_state (ei_operation i) \<in> active_states" "headroom i" "diagnostic_ok (Some c)"
    and "eo_attempt (ei_operation i) < eo_max_attempts (ei_operation i)"
    and "eo_next_attempt_at (ei_operation i) < t" "t \<le> eo_deadline_at (ei_operation i)"
  shows "\<exists>j. apply_retry i (eo_id (ei_operation i)) c t = Inr j"
proof -
  have v: "valid_instance i" and ph: "ei_observed_state i \<in> set (active_phases (eo_kind (ei_operation i)))"
    using assms phase_inv_active by (auto simp: env_inv_def)
  obtain rv where "revision_next (ei_revision i) = Some rv"
    using assms(3) by (auto simp: headroom_def)
  moreover have "valid_instance (retried_instance i c t rv)"
    using active_phase_exits(1) [OF ph] by (intro retried_instance_valid [OF v assms(4-7)]) auto
  ultimately show ?thesis
    using assms(2,5-7) validate_diagnostic_code_Inr [OF assms(4)]
      not_terminal_active [of "eo_state (ei_operation i)"]
    by (auto simp: apply_retry_def ensure_current_operation_def)
qed

lemma timeout_total:
  assumes "env_inv i" "eo_state (ei_operation i) \<in> active_states" "headroom i"
    and "ei_endpoints i = [] \<or> eo_access_revocation_revision (ei_operation i) \<noteq> None"
    and "eo_accepted_at (ei_operation i) \<le> s" "s < d"
  shows "\<exists>j. begin_timeout_cleanup i s d = Inr j"
proof -
  have v: "valid_instance i" and ph: "ei_observed_state i \<in> set (active_phases (eo_kind (ei_operation i)))"
    using assms phase_inv_active by (auto simp: env_inv_def)
  obtain rv gen step where o: "revision_next (ei_revision i) = Some rv"
    "checked_add (ei_generation i) 1 = Some gen"
    "checked_add (eo_provider_step (ei_operation i)) 1 = Some step"
    using assms(3) by (auto simp: headroom_def)
  have "valid_instance (timeout_instance i s d rv g step)" if "ei_generation i \<le> g" for g
    using active_phase_exits(1) [OF ph] assms(5,6) checked_add_1_neq_0 [OF o(3)] that
    by (intro timeout_instance_valid [OF v]) (auto simp: provider_timeout_code_ok)
  then have "valid_instance (timeout_instance i s d rv gen step)"
    "valid_instance (timeout_instance i s d rv (ei_generation i) step)"
    using checked_add_1_less [OF o(2)] by auto
  then show ?thesis
    using assms(2,4-6) o active_phase_exits(3) [OF ph] not_terminal_active [of "eo_state (ei_operation i)"]
    by (auto simp: begin_timeout_cleanup_def ensure_current_operation_def ensure_transition_def
        ensure_else_def)
qed

lemma observation_total:
  assumes "env_inv i" "eo_state (ei_operation i) \<in> active_states" "headroom i"
    and "apply_provider_observation i (eo_id (ei_operation i)) obs \<noteq> Inl ProviderObservationInvalid"
  obtains rv step where
    "apply_provider_observation i (eo_id (ei_operation i)) obs = Inr (observed_instance i obs rv step)"
    "valid_instance (observed_instance i obs rv step)"
proof -
  have v: "valid_instance i" using assms(1) by (simp add: env_inv_def)
  obtain rv st where o: "revision_next (ei_revision i) = Some rv"
    "checked_add (eo_provider_step (ei_operation i)) 1 = Some st"
    using assms(3) by (auto simp: headroom_def)
  let ?st = "if po_operation_complete obs then eo_provider_step (ei_operation i) else st"
  have c: "ensure_current_operation i (eo_id (ei_operation i)) = Inr ()"
    using assms(2) not_terminal_active [of "eo_state (ei_operation i)"]
    by (simp add: ensure_current_operation_def)
  have w: "validate_provider_observation i obs = Inr ()"
    using assms(4) v c
    by (auto simp: apply_provider_observation_def validate_provider_observation_def Let_def split: if_splits)
  then have "ei_observed_state i = po_next_state obs
      \<or> ensure_transition (ei_observed_state i) (po_next_state obs) = Inr ()"
    using observation_transition
    by (auto simp: validate_provider_observation_def Let_def res_simps split: if_splits)
  then have r: "apply_provider_observation i (eo_id (ei_operation i)) obs =
      res_then (map_err (\<lambda>_. ProviderObservationInvalid) (instance_validate (observed_instance i obs rv ?st)))
        (\<lambda>_. Inr (observed_instance i obs rv ?st))"
    using v c w o by (auto simp: apply_provider_observation_def Let_def)
  moreover have "valid_instance (observed_instance i obs rv ?st)"
    using assms(4) r by (cases "instance_validate (observed_instance i obs rv ?st)") auto
  ultimately show thesis by (intro that [of rv ?st]) simp_all
qed

lemma accept_observation_total:
  assumes "env_inv i" "eo_state (ei_operation i) \<in> active_states" "headroom i"
    and c: "total_clock ts_add" "config_ok cfg" and due: "eo_next_attempt_at (ei_operation i) \<le> now"
  shows "\<exists>r. accept_observation ts_add cfg i now obs = Inr r"
proof (cases "apply_provider_observation i (eo_id (ei_operation i)) obs = Inl ProviderObservationInvalid")
  case True
  then show ?thesis
    using failure_total [OF assms(1-3) observation_invalid_code_ok] by (auto simp: accept_observation_def)
next
  case False
  obtain rv step where a:
    "apply_provider_observation i (eo_id (ei_operation i)) obs = Inr (observed_instance i obs rv step)"
    "valid_instance (observed_instance i obs rv step)"
    using observation_total [OF assms(1-3) False] .
  let ?j = "observed_instance i obs rv step"
  obtain t where t: "add_duration ts_add now (rc_retry_delay cfg) = Inr t" "now < t"
    using retry_delay_total [OF c] by blast
  have "eo_accepted_at (ei_operation ?j) \<le> min t (eo_deadline_at (ei_operation ?j))"
    using well_formed_parts(8,9) [of i] assms(1) due t(2)
    by (auto simp: observed_instance_def Let_def env_inv_def)
  then have "valid_instance (set_next_attempt ?j (min t (eo_deadline_at (ei_operation ?j))))"
    by (intro set_next_attempt_valid [OF a(2)]) auto
  then show ?thesis
    using a(1) t(1) by (simp add: accept_observation_def defer_non_terminal_observation_def)
qed

lemma accept_failure_total:
  assumes "env_inv i" "eo_state (ei_operation i) \<in> active_states" "headroom i"
    and c: "total_clock ts_add" "config_ok cfg" and due: "eo_next_attempt_at (ei_operation i) \<le> now"
  shows "\<exists>r. accept_failure ts_add cfg i now e = Inr r"
proof -
  obtain t where t: "add_duration ts_add now (rc_retry_delay cfg) = Inr t" "now < t"
    using retry_delay_total [OF c] by blast
  obtain j where j: "apply_provider_failure i (eo_id (ei_operation i)) (reconcile_diagnostic_code e) = Inr j"
    using failure_total [OF assms(1-3) reconcile_code_ok] by blast
  show ?thesis
  proof (cases "reconcile_retryable e \<and> eo_attempt (ei_operation i) < eo_max_attempts (ei_operation i)
      \<and> t \<le> eo_deadline_at (ei_operation i)")
    case True
    then obtain k where "apply_retry i (eo_id (ei_operation i)) (reconcile_diagnostic_code e) t = Inr k"
      using retry_total [OF assms(1-3) reconcile_code_ok, of t] due t(2) by auto
    then show ?thesis using True t(1) by (simp add: accept_failure_def)
  next
    case False
    then show ?thesis using j t(1) by (auto simp: accept_failure_def Let_def)
  qed
qed

lemma reconcile_leased_total:
  assumes i: "env_inv i" "eo_state (ei_operation i) \<in> active_states" "headroom i"
    and c: "total_clock ts_add" "config_ok cfg" and due: "eo_next_attempt_at (ei_operation i) \<le> now"
    and fence: "ei_endpoints i = [] \<or> eo_access_revocation_revision (ei_operation i) \<noteq> None"
  shows "\<exists>r. reconcile_leased ts_add cfg registry i now = Inr r"
proof (cases "now > eo_deadline_at (ei_operation i) \<and> eo_cleanup_started_at (ei_operation i) = None")
  case True
  obtain d where d: "cleanup_deadline ts_add cfg now (eo_max_attempts (ei_operation i)) = Inr d" "now < d"
    using cleanup_deadline_total [OF c] by blast
  moreover obtain j where "begin_timeout_cleanup i now d = Inr j"
    using timeout_total [OF i fence _ d(2)] due well_formed_parts(9) [of i] i(1)
    by (auto simp: env_inv_def)
  ultimately show ?thesis using True by (simp add: reconcile_leased_def)
next
  case False
  then have "reconcile_leased ts_add cfg registry i now =
      (case execute_once registry i now of
          Inr obs \<Rightarrow> accept_observation ts_add cfg i now obs
        | Inl err \<Rightarrow> accept_failure ts_add cfg i now err)"
    by (auto simp: reconcile_leased_def)
  then show ?thesis
    using accept_observation_total [OF i c due] accept_failure_total [OF i c due]
    by (auto split: sum.splits)
qed

section \<open>Properties\<close>

text \<open>C7: the reconciler always knows what to do.  In every reachable environment
  whose operation is still active, an action is selected; the error for a
  missing action is unreachable.\<close>

theorem next_action_exists:
  assumes "lifecycle_reachable i" and "eo_state (ei_operation i) \<in> active_states"
  shows "\<exists>a. next_action i now = Inr a"
  using next_action_total [OF _ assms(2)] env.reach_inv [OF assms(1)]
  by (simp add: env_inv_def is_ok_iff)

theorem next_action_exists_witness:
  "eo_state (ei_operation demo_deleting) = OpAccepted \<and> (\<exists>a. next_action demo_deleting 20 = Inr a)"
proof -
  have "lifecycle_reachable demo_deleting"
    using reach_step [OF demo_ready_reachable step_plan [OF demo_deleting_eq]] .
  moreover have "eo_state (ei_operation demo_deleting) = OpAccepted" by code_simp
  ultimately show ?thesis using next_action_exists [of demo_deleting 20] by simp
qed


definition demo_config :: reconcile_config where
  "demo_config = \<lparr> rc_provider_timeout = 1000000000, rc_lease_duration = 3000000000,
     rc_retry_delay = 1000000 \<rparr>"


text \<open>C8: retries are bounded.  However the provider behaves, an operation is
  rescheduled fewer times in a row than its maximum number of attempts.\<close>

theorem retries_bounded:
  assumes "valid_instance i" and "(retried ts_add cfg registry ^^ n) i j"
  shows "n < unat (eo_max_attempts (ei_operation i))"
proof -
  have a: "unat (eo_attempt (ei_operation i)) > 0"
    "unat (eo_attempt (ei_operation i)) \<le> unat (eo_max_attempts (ei_operation i))"
    using valid_attempt [OF assms(1)] by (simp_all add: word_le_nat_alt unat_gt_0)
  show ?thesis
    using retried_chain [OF assms(2)] a by (cases "n = 0") (auto simp: word_le_nat_alt)
qed

theorem retries_bounded_witness:
  "\<exists>j. (retried (\<lambda>t d. Some (t + d)) demo_config Map.empty ^^ 1) demo_create j
     \<and> 1 < unat (eo_max_attempts (ei_operation demo_create))"
proof -
  have "case reconcile_leased (\<lambda>t d. Some (t + d)) demo_config Map.empty demo_create 5 of
      Inr (_, RetryScheduled _) \<Rightarrow> True | _ \<Rightarrow> False"
    by code_simp
  then have "\<exists>j n. reconcile_leased (\<lambda>t d. Some (t + d)) demo_config Map.empty demo_create 5
      = Inr (j, RetryScheduled n)"
    by (auto split: sum.splits worker_outcome.splits) (metis worker_outcome.exhaust)
  then obtain j where "retried (\<lambda>t d. Some (t + d)) demo_config Map.empty demo_create j"
    unfolding retried_def by blast
  then have "(retried (\<lambda>t d. Some (t + d)) demo_config Map.empty ^^ 1) demo_create j"
    by (simp add: relcompp_apply)
  moreover have "valid_instance demo_create"
    using demo_ready_calls(1) by (simp add: env_init_def)
  ultimately show ?thesis using retries_bounded by blast
qed

end
