(* ===== verification/Env_Completion.thy ===== *)
theory Env_Completion
  imports Env_Reconciler
begin

text \<open>
  What the reconciler achieves with a provider that always succeeds.  The
  interface \<open>completing_provider\<close> is the reply table both built-in providers
  implement (\<^verbatim>\<open>ContainerProvider::execute\<close> and \<^verbatim>\<open>KubeVirtProvider::execute\<close>) when
  their backend is healthy.  Inside it the operations split in two: those that
  reach their target in at most four reconcile steps, and those no run of the
  worker ever completes because the reply table and the observation check of
  \<^verbatim>\<open>lifecycle.rs\<close> disagree.
\<close>

section \<open>The reply table of a healthy provider\<close>

definition plain_observation :: "observed_environment_state \<Rightarrow> bool \<Rightarrow> provider_observation" where
  "plain_observation next_state complete = \<lparr> po_next_state = next_state, po_endpoints = [],
     po_cleanup_evidence = None, po_operation_complete = complete \<rparr>"

definition ready_with :: "environment_endpoint \<Rightarrow> provider_observation" where
  "ready_with e = \<lparr> po_next_state = Ready, po_endpoints = [e], po_cleanup_evidence = None, po_operation_complete = True \<rparr>"

definition deleted_with :: "artifact_ref \<Rightarrow> provider_observation" where
  "deleted_with ev = \<lparr> po_next_state = Deleted, po_endpoints = [], po_cleanup_evidence = Some ev,
     po_operation_complete = True \<rparr>"

definition rejected_reply :: provider_reply where
  "rejected_reply = ReplyErr \<lparr> pf_code = Rejected, pf_retryable = False \<rparr>"

definition healthy_reply ::
  "environment_endpoint \<Rightarrow> artifact_ref \<Rightarrow> reconcile_action \<Rightarrow> observed_environment_state \<Rightarrow> provider_reply" where
  "healthy_reply e ev action st =
     (if action = ActCleanup \<and> st = Deleting then ReplyOk (deleted_with ev)
      else if action = ActValidate \<and> st = Requested then ReplyOk (plain_observation Validating False)
      else if action = ActValidate \<and> st = Validating then ReplyOk (plain_observation Building False)
      else if action = ActBuild \<and> st = Building then ReplyOk (plain_observation Provisioning False)
      else if action \<in> {ActProvision, ActReset} \<and> st = Provisioning then ReplyOk (ready_with e)
      else if action = ActObserve then ReplyOk (ready_with e)
      else if action = ActStart \<and> st = Stopped then ReplyOk (ready_with e)
      else if action = ActRestart \<and> st = Provisioning then ReplyOk (ready_with e)
      else if action = ActStop \<and> st \<in> {Stopping, Expiring} then ReplyOk (plain_observation Stopped True)
      else rejected_reply)"

section \<open>Operations the table can finish\<close>

definition resumes_stopped :: "environment_instance \<Rightarrow> bool" where
  "resumes_stopped i \<longleftrightarrow> eo_kind (ei_operation i) \<in> {Retry, Recover} \<and> eo_retry_from_phase (ei_operation i) = Some Stopped"

definition serviceable :: "environment_instance \<Rightarrow> bool" where
  "serviceable i \<longleftrightarrow> (case ei_observed_state i of
      Deleting \<Rightarrow> ei_desired_state i = DesiredDeleted
    | Stopping \<Rightarrow> ei_desired_state i = DesiredStopped
    | Stopped \<Rightarrow> eo_kind (ei_operation i) = Start \<and> ei_desired_state i = DesiredRunning
    | Updating \<Rightarrow> eo_kind (ei_operation i) = Freeze \<and> ei_desired_state i = DesiredRunning
    | Expiring \<Rightarrow> ei_desired_state i = DesiredStopped
    | _ \<Rightarrow> ei_desired_state i = DesiredRunning \<and> \<not> resumes_stopped i)"

fun phase_rank :: "observed_environment_state \<Rightarrow> nat" where
  "phase_rank Requested = 4"
| "phase_rank Validating = 3"
| "phase_rank Building = 2"
| "phase_rank _ = 1"

text \<open>The answer the table gives to the next action of an active operation.\<close>

definition table_answer :: "environment_endpoint \<Rightarrow> artifact_ref \<Rightarrow> environment_instance \<Rightarrow> timestamp \<Rightarrow> provider_reply option" where
  "table_answer e ev i now = (case next_action i now of
      Inl _ \<Rightarrow> None | Inr a \<Rightarrow> Some (healthy_reply e ev a (ei_observed_state i)))"

lemma not_terminal_if_active: "st \<in> active_states \<Longrightarrow> st \<notin> terminal_states"
  using not_terminal_active by blast

lemmas table_defs = table_answer_def next_action_def healthy_reply_def plain_observation_def ready_with_def
  deleted_with_def rejected_reply_def Let_def

lemma is_target_transient [simp]:
  "st \<in> {Validating, Building, Provisioning} \<Longrightarrow> \<not> is_target d st"
  by (cases d) auto

lemma early_answer:
  assumes "eo_state (ei_operation i) \<in> active_states" "now \<le> eo_deadline_at (ei_operation i)"
    and "ei_observed_state i \<in> set (active_phases (eo_kind (ei_operation i)))"
    and "ei_observed_state i \<in> {Requested, Validating, Building}"
  obtains st where "table_answer e ev i now = Some (ReplyOk (plain_observation st False))"
    "validate_provider_observation i (plain_observation st False) = Inr ()"
    "Suc (phase_rank st) = phase_rank (ei_observed_state i)" "st \<in> {Validating, Building, Provisioning}"
proof -
  have n: "eo_state (ei_operation i) \<notin> terminal_states" by (rule not_terminal_if_active [OF assms(1)])
  define st where "st = (if ei_observed_state i = Requested then Validating
      else if ei_observed_state i = Validating then Building else Provisioning)"
  have "table_answer e ev i now = Some (ReplyOk (plain_observation st False))
    \<and> validate_provider_observation i (plain_observation st False) = Inr ()"
    using assms(3)
    apply (cases "eo_kind (ei_operation i)"; simp; (elim disjE)?)
    using n assms(2,4)
    by (simp_all add: st_def table_defs validate_provider_observation_def transition_matches_operation_def)
  then show ?thesis using that assms(4) by (auto simp: st_def)
qed

lemma last_answer:
  assumes "eo_state (ei_operation i) \<in> active_states" "now \<le> eo_deadline_at (ei_operation i)"
    and "ei_observed_state i \<in> set (active_phases (eo_kind (ei_operation i)))"
    and "ei_observed_state i \<notin> {Requested, Validating, Building}"
  shows "if serviceable i
    then \<exists>obs. table_answer e ev i now = Some (ReplyOk obs) \<and> validate_provider_observation i obs = Inr ()
           \<and> obs \<in> {ready_with e, plain_observation Stopped True, deleted_with ev}
    else table_answer e ev i now = Some rejected_reply
         \<or> (\<exists>obs. table_answer e ev i now = Some (ReplyOk obs)
               \<and> validate_provider_observation i obs = Inl ProviderObservationInvalid)"
proof -
  have n: "eo_state (ei_operation i) \<notin> terminal_states" by (rule not_terminal_if_active [OF assms(1)])
  show ?thesis
    using assms(3)
    apply (cases "eo_kind (ei_operation i)"; simp; (elim disjE)?)
    using n assms(2,4)
    by (cases "ei_desired_state i"; simp_all add: table_defs validate_provider_observation_def transition_matches_operation_def
          serviceable_def resumes_stopped_def)+
qed

section \<open>Accepted observations\<close>

lemma observed_instance_valid:
  assumes v: "valid_instance i" and nf: "ei_observed_state i \<noteq> Failed" "po_next_state obs \<noteq> Failed"
    and st: "step \<noteq> 0"
    and rd: "po_next_state obs = Ready \<Longrightarrow> \<not> ready_unhealthy (observed_instance i obs rv step)"
    and dl: "po_next_state obs = Deleted \<Longrightarrow> po_cleanup_evidence obs \<noteq> None"
  shows "valid_instance (observed_instance i obs rv step)" (is "valid_instance ?j")
proof (rule valid_update [OF v])
  show b: "same_binding i ?j" by (simp add: same_binding_def observed_instance_def Let_def)
  show r: "same_request (ei_operation i) (ei_operation ?j)"
    by (simp add: same_request_def observed_instance_def Let_def)
  show "\<not> instance_malformed ?j"
    using valid_generation [OF v] valid_attempt [OF v] well_formed_parts(7-10,14) [OF v] st
    by (intro well_formed_update [OF v b r]) (auto simp: observed_instance_def Let_def)
  show "ei_observed_state ?j = Failed \<longleftrightarrow> ei_failed_phase ?j \<noteq> None"
    using valid_failed [OF v] nf by (simp add: observed_instance_def Let_def)
  show "diagnostic_ok (ei_last_diagnostic_code ?j)" "diagnostic_ok (eo_diagnostic_code (ei_operation ?j))"
    using v by (auto simp: observed_instance_def Let_def valid_instance_iff diagnostic_ok_def)
qed (use rd dl in \<open>simp_all add: observed_instance_def Let_def\<close>)

lemma observation_accepted:
  assumes i: "env_inv i" "eo_state (ei_operation i) \<in> active_states" "headroom i"
    and o: "validate_provider_observation i obs = Inr ()" "po_next_state obs \<noteq> Failed"
    and rd: "\<And>rv step. revision_next (ei_revision i) = Some rv \<Longrightarrow> po_next_state obs = Ready
        \<Longrightarrow> \<not> ready_unhealthy (observed_instance i obs rv step)"
    and dl: "po_next_state obs = Deleted \<Longrightarrow> po_cleanup_evidence obs \<noteq> None"
  obtains rv step where "apply_provider_observation i (eo_id (ei_operation i)) obs = Inr (observed_instance i obs rv step)"
    "valid_instance (observed_instance i obs rv step)" "revision_next (ei_revision i) = Some rv"
    "step = (if po_operation_complete obs then eo_provider_step (ei_operation i) else eo_provider_step (ei_operation i) + 1)"
proof -
  have v: "valid_instance i" and ph: "ei_observed_state i \<in> set (active_phases (eo_kind (ei_operation i)))"
    using i phase_inv_active by (auto simp: env_inv_def)
  obtain rv st where s: "revision_next (ei_revision i) = Some rv"
    "checked_add (eo_provider_step (ei_operation i)) 1 = Some st"
    using i(3) by (auto simp: headroom_def)
  let ?st = "if po_operation_complete obs then eo_provider_step (ei_operation i) else st"
  have "?st \<noteq> 0" using well_formed_parts(7) [OF v] checked_add_1_neq_0 [OF s(2)] by simp
  then have u: "valid_instance (observed_instance i obs rv ?st)"
    using observed_instance_valid [OF v _ o(2) _ rd [OF s(1)] dl] active_phase_exits(1) [OF ph] by auto
  have "ei_observed_state i = po_next_state obs
      \<or> ensure_transition (ei_observed_state i) (po_next_state obs) = Inr ()"
    using o(1) observation_transition
    by (auto simp: validate_provider_observation_def Let_def res_simps split: if_splits)
  then have "apply_provider_observation i (eo_id (ei_operation i)) obs = Inr (observed_instance i obs rv ?st)"
    using v o(1) s u i(2) not_terminal_active [of "eo_state (ei_operation i)"]
    by (auto simp: apply_provider_observation_def Let_def ensure_current_operation_def)
  moreover have "st = eo_provider_step (ei_operation i) + 1" using s(2) by (simp add: checked_add_Some)
  ultimately show ?thesis using that u s(1) by auto
qed

section \<open>The interface\<close>

definition admissible :: "environment_instance \<Rightarrow> timestamp \<Rightarrow> bool" where
  "admissible i now \<longleftrightarrow> eo_next_attempt_at (ei_operation i) \<le> now \<and> now \<le> eo_deadline_at (ei_operation i)"

definition worker_step ::
  "clock_add \<Rightarrow> reconcile_config \<Rightarrow> provider_registry \<Rightarrow> environment_instance \<Rightarrow> environment_instance \<Rightarrow> bool" where
  "worker_step ts_add cfg registry i j \<longleftrightarrow>
     (\<exists>now oc. admissible i now \<and> reconcile_leased ts_add cfg registry i now = Inr (j, oc))"

definition room_for :: "nat \<Rightarrow> environment_instance \<Rightarrow> bool" where
  "room_for n i \<longleftrightarrow> unat (ei_revision i) + n < 2 ^ 64 \<and> unat (eo_provider_step (ei_operation i)) + n < 2 ^ 32
     \<and> checked_add (ei_generation i) 1 \<noteq> None"

lemma checked_add_1_room:
  fixes a :: "'w::len word"
  assumes "unat a + n < 2 ^ LENGTH('w)" "0 < n"
  shows "checked_add a 1 = Some (a + 1)" "unat (a + 1) = Suc (unat a)"
proof -
  show c: "checked_add a 1 = Some (a + 1)" using assms by (simp add: checked_add_Some)
  show "unat (a + 1) = Suc (unat a)" using checked_add_unat [OF c] by simp
qed

lemma room_for_headroom: "room_for n i \<Longrightarrow> 0 < n \<Longrightarrow> headroom i"
  using checked_add_1_room(1) [of "ei_revision i" n]
    checked_add_1_room(1) [of "eo_provider_step (ei_operation i)" n]
  by (simp add: room_for_def headroom_def revision_next_def)

lemma terminal_no_worker_step:
  assumes "eo_state (ei_operation i) \<in> terminal_states"
  shows "\<not> worker_step ts_add cfg registry i j"
proof
  assume "worker_step ts_add cfg registry i j"
  then obtain now oc where s: "admissible i now" "reconcile_leased ts_add cfg registry i now = Inr (j, oc)"
    by (auto simp: worker_step_def)
  have "execute_once registry i now = Inl OperationTerminal"
    using assms by (simp add: execute_once_def next_action_def Let_def)
  then have "accept_failure ts_add cfg i now OperationTerminal = Inr (j, oc)"
    using s by (simp add: reconcile_leased_def admissible_def)
  then show False
    using assms
    by (elim accept_failureE)
      (auto simp: apply_provider_failure_def apply_retry_def ensure_current_operation_def res_simps)
qed

locale completing_provider =
  fixes ok :: "environment_instance \<Rightarrow> bool"
    and prov :: environment_provider
    and endpoint :: "environment_instance \<Rightarrow> revision \<Rightarrow> environment_endpoint"
    and evidence :: artifact_ref
  assumes reply: "ok i \<Longrightarrow> revision_next (ei_revision i) = Some rv
      \<Longrightarrow> prov a i = healthy_reply (endpoint i rv) evidence a (ei_observed_state i)"
    and endpoint_fresh: "ep_health (endpoint i rv) = Healthy" "ep_revision (endpoint i rv) = rv"
    and stable: "ok i \<Longrightarrow> same_binding i j \<Longrightarrow> ok j"
begin

definition driven :: "clock_add \<Rightarrow> reconcile_config \<Rightarrow> provider_registry \<Rightarrow> environment_instance \<Rightarrow> bool" where
  "driven ts_add cfg registry i \<longleftrightarrow> total_clock ts_add \<and> config_ok cfg \<and> ok i
     \<and> registry (ei_provider_binding i) = Some prov \<and> env_inv i"

lemma execute_table:
  assumes "ok i" "registry (ei_provider_binding i) = Some prov" "revision_next (ei_revision i) = Some rv"
  shows "table_answer (endpoint i rv) evidence i now = Some (ReplyOk obs) \<Longrightarrow> execute_once registry i now = Inr obs"
    and "table_answer (endpoint i rv) evidence i now = Some rejected_reply \<Longrightarrow>
      execute_once registry i now = Inl (ProviderErr \<lparr> pf_code = Rejected, pf_retryable = False \<rparr>)"
  using assms reply [OF assms(1,3)]
  by (auto simp: execute_once_def registry_resolve_def table_answer_def rejected_reply_def split: sum.splits)

lemma run_of_answer:
  assumes d: "driven ts_add cfg registry i" and adm: "admissible i now"
    and ex: "execute_once registry i now = Inr obs"
  shows "reconcile_leased ts_add cfg registry i now = accept_observation ts_add cfg i now obs"
  using adm ex by (simp add: reconcile_leased_def admissible_def)

lemma early_step:
  assumes d: "driven ts_add cfg registry i" and act: "eo_state (ei_operation i) \<in> active_states"
    and room: "room_for (Suc n) i" and adm: "admissible i now"
    and st: "ei_observed_state i \<in> {Requested, Validating, Building}"
  obtains j oc where "reconcile_leased ts_add cfg registry i now = Inr (j, oc)" "driven ts_add cfg registry j"
    "eo_state (ei_operation j) \<in> active_states" "room_for n j" "serviceable j = serviceable i"
    "Suc (phase_rank (ei_observed_state j)) = phase_rank (ei_observed_state i)"
proof -
  have ph: "ei_observed_state i \<in> set (active_phases (eo_kind (ei_operation i)))"
    and i: "env_inv i" and c: "total_clock ts_add" "config_ok cfg" and okr: "ok i" "registry (ei_provider_binding i) = Some prov"
    using d phase_inv_active [OF _ act] by (auto simp: driven_def env_inv_def)
  have hr: "headroom i" using room_for_headroom [OF room] by simp
  then obtain rv0 where rv0: "revision_next (ei_revision i) = Some rv0" by (auto simp: headroom_def)
  obtain st where a: "table_answer (endpoint i rv0) evidence i now = Some (ReplyOk (plain_observation st False))"
    "validate_provider_observation i (plain_observation st False) = Inr ()"
    "Suc (phase_rank st) = phase_rank (ei_observed_state i)" "st \<in> {Validating, Building, Provisioning}"
    using early_answer [OF act _ ph st, of now] adm by (auto simp: admissible_def)
  have run: "reconcile_leased ts_add cfg registry i now = accept_observation ts_add cfg i now (plain_observation st False)"
    by (rule run_of_answer [OF d adm execute_table(1) [where i = i and registry = registry, OF okr rv0 a(1)]])
  obtain rv step where o: "apply_provider_observation i (eo_id (ei_operation i)) (plain_observation st False)
      = Inr (observed_instance i (plain_observation st False) rv step)"
    "revision_next (ei_revision i) = Some rv" "step = eo_provider_step (ei_operation i) + 1"
    by (rule observation_accepted [OF i act hr a(2)]) (use a(4) in \<open>auto simp: plain_observation_def\<close>)
  let ?k = "observed_instance i (plain_observation st False) rv step"
  obtain j oc where j: "accept_observation ts_add cfg i now (plain_observation st False) = Inr (j, oc)"
    using accept_observation_total [OF i act hr c, of now "plain_observation st False"] adm
    by (auto simp: admissible_def)
  have k: "eo_state (ei_operation ?k) = OpRunning" "ei_observed_state ?k = st"
    using a(4) by (auto simp: observed_instance_def Let_def observed_operation_state_def
        preserving_cleanup_failure_def plain_observation_def)
  obtain t where jk: "j = set_next_attempt ?k t"
    using j o(1) k(1) by (auto simp: accept_observation_def defer_non_terminal_observation_def res_simps Let_def)
  have inv: "env_inv j" using reconcile_leased_inv(1) [of ts_add cfg registry i now j oc] run j i by simp
  have sb: "same_binding i j"
    by (simp add: jk same_binding_def set_next_attempt_def observed_instance_def Let_def)
  have rm: "room_for n j"
    using room checked_add_1_room(2) [of "ei_revision i" "Suc n"] checked_add_1_room(2) [of "eo_provider_step (ei_operation i)" "Suc n"]
      revision_next_unat [OF o(2)] o(3)
    by (simp add: room_for_def jk set_next_attempt_def observed_instance_def Let_def)
  have sv: "serviceable j = serviceable i"
    using a(4) st k(2) by (auto simp: serviceable_def resumes_stopped_def jk set_next_attempt_def observed_instance_def
        plain_observation_def Let_def)
  show ?thesis
    by (rule that [OF run [unfolded j] _ _ rm sv])
      (use a(3) k jk inv sb okr c stable [OF okr(1) sb] in \<open>auto simp: driven_def same_binding_def\<close>)
qed

lemma late_step:
  assumes d: "driven ts_add cfg registry i" and act: "eo_state (ei_operation i) \<in> active_states"
    and room: "headroom i" and adm: "admissible i now"
    and st: "ei_observed_state i \<notin> {Requested, Validating, Building}"
  obtains j oc where "reconcile_leased ts_add cfg registry i now = Inr (j, oc)"
    "if serviceable i then eo_state (ei_operation j) \<in> terminal_states \<and> is_target (ei_desired_state j) (ei_observed_state j)
     else eo_state (ei_operation j) = OpFailed \<and> ei_observed_state j = Failed"
proof -
  have ph: "ei_observed_state i \<in> set (active_phases (eo_kind (ei_operation i)))"
    and i: "env_inv i" and c: "total_clock ts_add" "config_ok cfg" and okr: "ok i" "registry (ei_provider_binding i) = Some prov"
    using d phase_inv_active [OF _ act] by (auto simp: driven_def env_inv_def)
  obtain rv0 where rv0: "revision_next (ei_revision i) = Some rv0" using room by (auto simp: headroom_def)
  have due: "eo_next_attempt_at (ei_operation i) \<le> now" "now \<le> eo_deadline_at (ei_operation i)"
    using adm by (simp_all add: admissible_def)
  note ex = execute_table [where i = i and registry = registry, OF okr rv0]
  note ans = last_answer [OF act due(2) ph st, of "endpoint i rv0" evidence]
  show ?thesis
  proof (cases "serviceable i")
    case True
    with ans obtain obs where a: "table_answer (endpoint i rv0) evidence i now = Some (ReplyOk obs)"
      "validate_provider_observation i obs = Inr ()"
      "obs \<in> {ready_with (endpoint i rv0), plain_observation Stopped True, deleted_with evidence}" by auto
    have cmp: "po_operation_complete obs" "po_next_state obs \<noteq> Failed"
      "po_next_state obs = Deleted \<Longrightarrow> po_cleanup_evidence obs \<noteq> None"
      using a(3) by (auto simp: ready_with_def plain_observation_def deleted_with_def)
    have rd: "\<not> ready_unhealthy (observed_instance i obs rv step)"
      if "revision_next (ei_revision i) = Some rv" "po_next_state obs = Ready" for rv step
      using a(3) that rv0 endpoint_fresh
      by (auto simp: ready_with_def plain_observation_def deleted_with_def observed_instance_def Let_def ready_unhealthy_def)
    obtain rv step where o: "apply_provider_observation i (eo_id (ei_operation i)) obs = Inr (observed_instance i obs rv step)"
      by (rule observation_accepted [OF i act room a(2) cmp(2) rd cmp(3)]) auto
    let ?k = "observed_instance i obs rv step"
    have t: "eo_state (ei_operation ?k) \<in> terminal_states"
      using cmp(1) by (auto simp: observed_instance_def Let_def observed_operation_state_def)
    have tg: "is_target (ei_desired_state ?k) (ei_observed_state ?k)"
      using a(2) cmp(1) by (auto simp: validate_provider_observation_def Let_def observed_instance_def split: if_splits)
    have "reconcile_leased ts_add cfg registry i now = Inr (?k, AdvancedTo (ei_observed_state ?k) True)"
      unfolding run_of_answer [OF d adm ex(1) [OF a(1)]] using o t
      by (simp add: accept_observation_def defer_non_terminal_observation_def)
    then show ?thesis using that t tg True by simp
  next
    case False
    have failed: "eo_state (ei_operation j) = OpFailed \<and> ei_observed_state j = Failed"
      if "apply_provider_failure i (eo_id (ei_operation i)) code = Inr j" for j code
      using that by (elim failureE) (auto simp: failed_instance_def)
    from False ans consider (rej) "table_answer (endpoint i rv0) evidence i now = Some rejected_reply"
      | (inv) obs where "table_answer (endpoint i rv0) evidence i now = Some (ReplyOk obs)"
          "validate_provider_observation i obs = Inl ProviderObservationInvalid" by auto
    then show ?thesis
    proof cases
      case rej
      let ?e = "ProviderErr \<lparr> pf_code = Rejected, pf_retryable = False \<rparr>"
      obtain j where j: "apply_provider_failure i (eo_id (ei_operation i)) (reconcile_diagnostic_code ?e) = Inr j"
        using failure_total [OF i act room reconcile_code_ok] by blast
      have "reconcile_leased ts_add cfg registry i now = accept_failure ts_add cfg i now ?e"
        using ex(2) [OF rej] due by (simp add: reconcile_leased_def)
      also have "\<dots> = Inr (j, FailedWith (reconcile_diagnostic_code ?e))"
        using j by (simp add: accept_failure_def Let_def del: reconcile_diagnostic_code.simps)
      finally show ?thesis using that failed [OF j] False by simp
    next
      case inv
      obtain j where j: "apply_provider_failure i (eo_id (ei_operation i)) observation_invalid_code = Inr j"
        using failure_total [OF i act room observation_invalid_code_ok] by blast
      have "apply_provider_observation i (eo_id (ei_operation i)) obs = Inl ProviderObservationInvalid"
        using inv(2) i act not_terminal_active [of "eo_state (ei_operation i)"]
        by (auto simp: apply_provider_observation_def env_inv_def ensure_current_operation_def)
      then have "reconcile_leased ts_add cfg registry i now = Inr (j, FailedWith observation_invalid_code)"
        unfolding run_of_answer [OF d adm ex(1) [OF inv(1)]] using j by (simp add: accept_observation_def)
      then show ?thesis using that failed [OF j] False by simp
    qed
  qed
qed

text \<open>A serviceable operation reaches its target in as many steps as its phase is
  away from it.\<close>

lemma completes:
  assumes "driven ts_add cfg registry i" "eo_state (ei_operation i) \<in> active_states"
    and "serviceable i" "room_for (phase_rank (ei_observed_state i)) i"
  shows "\<exists>j. (worker_step ts_add cfg registry ^^ phase_rank (ei_observed_state i)) i j
    \<and> eo_state (ei_operation j) \<in> terminal_states \<and> is_target (ei_desired_state j) (ei_observed_state j)"
  using assms
proof (induction "phase_rank (ei_observed_state i)" arbitrary: i)
  case 0
  then show ?case by (cases "ei_observed_state i") auto
next
  case (Suc n)
  have adm: "admissible i (eo_next_attempt_at (ei_operation i))"
    using well_formed_parts(10) [of i] Suc.prems(1) by (simp add: admissible_def driven_def env_inv_def)
  show ?case
  proof (cases "ei_observed_state i \<in> {Requested, Validating, Building}")
    case True
    have room: "room_for (Suc n) i" using Suc.prems(4) Suc.hyps(2) by simp
    obtain j oc where j: "reconcile_leased ts_add cfg registry i (eo_next_attempt_at (ei_operation i)) = Inr (j, oc)"
      "driven ts_add cfg registry j" "eo_state (ei_operation j) \<in> active_states" "room_for n j"
      "serviceable j = serviceable i" "Suc (phase_rank (ei_observed_state j)) = phase_rank (ei_observed_state i)"
      using early_step [OF Suc.prems(1,2) room adm True] by blast
    have n: "n = phase_rank (ei_observed_state j)" using j(6) Suc.hyps(2) by simp
    obtain k where k: "(worker_step ts_add cfg registry ^^ n) j k" "eo_state (ei_operation k) \<in> terminal_states"
      "is_target (ei_desired_state k) (ei_observed_state k)"
      using Suc.hyps(1) [OF n j(2,3)] j(4,5) Suc.prems(3) n by auto
    have "worker_step ts_add cfg registry i j" using j(1) adm by (auto simp: worker_step_def)
    then have "(worker_step ts_add cfg registry ^^ Suc n) i k" using k(1) by (rule relpowp_Suc_I2)
    then show ?thesis using k(2,3) Suc.hyps(2) by (auto simp del: relpowp.simps)
  next
    case False
    have hr: "headroom i" using room_for_headroom [OF Suc.prems(4)] Suc.hyps(2) by simp
    obtain j oc where j: "reconcile_leased ts_add cfg registry i (eo_next_attempt_at (ei_operation i)) = Inr (j, oc)"
      "eo_state (ei_operation j) \<in> terminal_states" "is_target (ei_desired_state j) (ei_observed_state j)"
      by (rule late_step [OF Suc.prems(1,2) hr adm False]) (use Suc.prems(3) in auto)
    have "phase_rank (ei_observed_state i) = 1" using False by (cases "ei_observed_state i") auto
    moreover have "worker_step ts_add cfg registry i j" using j(1) adm by (auto simp: worker_step_def)
    ultimately show ?thesis using j(2,3) by (auto simp: eq_OO simp del: insert_iff)
  qed
qed

text \<open>An operation that is not serviceable never completes, whenever the worker runs.\<close>

lemma never_completes_step:
  assumes "driven ts_add cfg registry i" "eo_state (ei_operation i) \<in> active_states" "\<not> serviceable i"
    and "room_for (Suc n) i" "worker_step ts_add cfg registry i j"
  shows "eo_state (ei_operation j) = OpFailed \<and> ei_observed_state j = Failed
    \<or> driven ts_add cfg registry j \<and> eo_state (ei_operation j) \<in> active_states \<and> \<not> serviceable j \<and> room_for n j"
proof -
  obtain now oc where s: "admissible i now" "reconcile_leased ts_add cfg registry i now = Inr (j, oc)"
    using assms(5) by (auto simp: worker_step_def)
  show ?thesis
  proof (cases "ei_observed_state i \<in> {Requested, Validating, Building}")
    case True
    then show ?thesis using early_step [OF assms(1,2,4) s(1)] s(2) assms(3) by (metis Inr_inject Pair_inject)
  next
    case False
    then show ?thesis
      using late_step [OF assms(1,2) room_for_headroom [OF assms(4)] s(1)] s(2) assms(3)
      by (metis Inr_inject Pair_inject zero_less_Suc)
  qed
qed

lemma never_completes:
  assumes "(worker_step ts_add cfg registry ^^ n) i j" "driven ts_add cfg registry i"
    and "eo_state (ei_operation i) \<in> active_states" "\<not> serviceable i" "room_for n i"
  shows "eo_state (ei_operation j) \<notin> {OpSucceeded, OpCancelled}"
  using assms
proof (induction n arbitrary: i)
  case 0
  then show ?case by auto
next
  case (Suc n)
  obtain k where k: "worker_step ts_add cfg registry i k" "(worker_step ts_add cfg registry ^^ n) k j"
    using Suc.prems(1) by (rule relpowp_Suc_E2)
  from never_completes_step [OF Suc.prems(2-5) k(1)] show ?case
  proof
    assume f: "eo_state (ei_operation k) = OpFailed \<and> ei_observed_state k = Failed"
    have "n = 0"
    proof (rule ccontr)
      assume "n \<noteq> 0"
      then obtain m where "n = Suc m" by (cases n) auto
      then obtain l where "worker_step ts_add cfg registry k l" using k(2) by (blast elim: relpowp_Suc_E2)
      then show False using terminal_no_worker_step [of k ts_add cfg registry l] f by simp
    qed
    then have "j = k" using k(2) by simp
    then show ?thesis using f by simp
  qed (use Suc.IH k(2) in auto)
qed

end

end
