(* ===== verification/Persistence.thy ===== *)
theory Persistence
  imports Foundation
begin

text \<open>
  The durable ledgers of \<^verbatim>\<open>crates/persistence-sqlx\<close>: SHA-256 digests
  (\<^verbatim>\<open>sha256.rs\<close>), the idempotency ledger, the transactional outbox and the
  inbox with its per aggregate watermarks (\<^verbatim>\<open>ledger.rs\<close>).  A table is the
  list of its rows and the constraints the migrations declare on it
  (\<^verbatim>\<open>PRIMARY KEY\<close>, \<^verbatim>\<open>UNIQUE\<close>) are checked by the inserts.  An operation returns
  the new table; an error stands for the rollback of the caller's transaction.

  The lemmas show that a digest has one spelling, that a key is reserved at most
  once and every replay returns the stored result, and that the inbox turns any
  delivery of events (lost, repeated, out of order, rolled back) into the exact
  sequence 1, 2, 3, ... of every aggregate.
\<close>

section \<open>Digests\<close>

type_synonym sha256 = "u8 list"

datatype sha256_error = InvalidSha256 | CanonicalJson string

definition hex_char :: "nat \<Rightarrow> char" where
  "hex_char n = char_of (if n < 10 then 48 + n else 87 + n)"

definition hex_value :: "char \<Rightarrow> nat" where
  "hex_value c = (if is_ascii_digit c then byte c - 48 else if byte c \<le> 70 then byte c - 55 else byte c - 87)"

definition sha256_display :: "sha256 \<Rightarrow> string" where
  "sha256_display d = concat (map (\<lambda>b. [hex_char (unat b div 16), hex_char (unat b mod 16)]) d)"

fun hex_bytes :: "string \<Rightarrow> u8 list" where
  "hex_bytes (a # b # r) = of_nat (hex_value a * 16 + hex_value b) # hex_bytes r"
| "hex_bytes _ = []"

definition sha256_from_str :: "string \<Rightarrow> sha256_error + sha256" where
  "sha256_from_str s =
     (if length s \<noteq> 64 \<or> \<not> list_all is_ascii_hexdigit s then Inl InvalidSha256
      else if list_ex is_ascii_uppercase s then Inl InvalidSha256
      else Inr (hex_bytes s))"

section \<open>Persistence errors and domains\<close>

datatype persistence_error =
    PersistCatalog string
  | PersistConfiguration string
  | PersistIdentityMismatch string
  | AttemptReused
  | ReleaseBlocked string
  | PersistDatabase
  | PersistReport string

fun persistence_diagnostic_code :: "persistence_error \<Rightarrow> string" where
  "persistence_diagnostic_code (PersistCatalog _) = ''DB_MIGRATION_CATALOG_INVALID''"
| "persistence_diagnostic_code (PersistConfiguration _) = ''DB_MIGRATION_CONFIGURATION_INVALID''"
| "persistence_diagnostic_code (PersistIdentityMismatch _) = ''DB_MIGRATION_IDENTITY_MISMATCH''"
| "persistence_diagnostic_code AttemptReused = ''DB_MIGRATION_ATTEMPT_REUSED''"
| "persistence_diagnostic_code (ReleaseBlocked _) = ''DB_MIGRATION_RELEASE_BLOCKED''"
| "persistence_diagnostic_code PersistDatabase = ''DB_MIGRATION_DATABASE_FAILED''"
| "persistence_diagnostic_code (PersistReport _) = ''DB_MIGRATION_REPORT_FAILED''"

definition validate_token :: "string \<Rightarrow> string \<Rightarrow> persistence_error + unit" where
  "validate_token label val =
     (if is_blank val \<or> length val > 512 \<or> has_control val
      then Inl (PersistConfiguration (label @ '' is empty, oversized, or contains control characters''))
      else Inr ())"

section \<open>The idempotency ledger\<close>

datatype 'v idempotency_decision = IdemReserved | IdemReplay 'v | IdemConflict | IdemInProgress

record 'v idem_row =
  ir_operation :: string
  ir_key :: string
  ir_request_sha256 :: string
  ir_state :: string
  ir_result :: "'v option"

definition idem_match :: "string \<Rightarrow> string \<Rightarrow> 'v idem_row \<Rightarrow> bool" where
  "idem_match operation key r \<longleftrightarrow> ir_operation r = operation \<and> ir_key r = key"

definition idem_reserve ::
  "string \<Rightarrow> string \<Rightarrow> sha256 \<Rightarrow> 'v idem_row list \<Rightarrow> persistence_error + ('v idempotency_decision \<times> 'v idem_row list)" where
  "idem_reserve operation key request_hash rows =
     res_then (validate_token ''operation'' operation) (\<lambda>_.
     res_then (validate_token ''idempotency key'' key) (\<lambda>_.
       case List.find (idem_match operation key) rows of
         None \<Rightarrow> Inr (IdemReserved, rows @ [\<lparr> ir_operation = operation, ir_key = key,
             ir_request_sha256 = sha256_display request_hash, ir_state = ''in_progress'', ir_result = None \<rparr>])
       | Some r \<Rightarrow>
           (if ir_request_sha256 r \<noteq> sha256_display request_hash then Inr (IdemConflict, rows)
            else if ir_state r = ''completed''
            then (case ir_result r of None \<Rightarrow> Inl PersistDatabase | Some v \<Rightarrow> Inr (IdemReplay v, rows))
            else Inr (IdemInProgress, rows))))"

definition idem_complete ::
  "string \<Rightarrow> string \<Rightarrow> 'v \<Rightarrow> 'v idem_row list \<Rightarrow> persistence_error + 'v idem_row list" where
  "idem_complete operation key res rows =
     (let hit = (\<lambda>r. idem_match operation key r \<and> ir_state r = ''in_progress'') in
      if length (filter hit rows) \<noteq> 1
      then Inl (PersistIdentityMismatch ''idempotency reservation is absent or already completed'')
      else Inr (upd_where hit (\<lambda>r. r \<lparr> ir_state := ''completed'', ir_result := Some res \<rparr>) rows))"

section \<open>The outbox\<close>

record 'p outbox_event =
  ox_event_id :: uuid
  ox_subject :: string
  ox_event_type :: string
  ox_aggregate_id :: uuid
  ox_aggregate_sequence :: int
  ox_payload :: 'p
  ox_payload_sha256 :: string
  ox_created_at :: timestamp
  ox_published_at :: "timestamp option"

definition I64_MAX :: int where
  "I64_MAX = 9223372036854775807"

definition outbox_enqueue ::
  "timestamp \<Rightarrow> uuid \<Rightarrow> string \<Rightarrow> string \<Rightarrow> uuid \<Rightarrow> u64 \<Rightarrow> 'p \<Rightarrow> sha256
   \<Rightarrow> 'p outbox_event list \<Rightarrow> persistence_error + 'p outbox_event list" where
  "outbox_enqueue now event_id subject event_type aggregate_id sequence payload payload_hash rows =
     (if sequence = 0 then Inl (PersistConfiguration ''Outbox sequence must be non-zero'')
      else res_then (validate_token ''subject'' subject) (\<lambda>_.
           res_then (validate_token ''event type'' event_type) (\<lambda>_.
           if uint sequence > I64_MAX then Inl (PersistConfiguration ''Outbox sequence exceeds BIGINT'')
           else if list_ex (\<lambda>r. ox_event_id r = event_id
                  \<or> ox_aggregate_id r = aggregate_id \<and> ox_aggregate_sequence r = uint sequence) rows
           then Inl PersistDatabase
           else Inr (rows @ [\<lparr> ox_event_id = event_id, ox_subject = subject, ox_event_type = event_type,
                  ox_aggregate_id = aggregate_id, ox_aggregate_sequence = uint sequence,
                  ox_payload = payload, ox_payload_sha256 = sha256_display payload_hash,
                  ox_created_at = now, ox_published_at = None \<rparr>]))))"

definition outbox_before :: "'p outbox_event \<Rightarrow> 'p outbox_event \<Rightarrow> bool" where
  "outbox_before a b \<longleftrightarrow> ox_created_at a < ox_created_at b
     \<or> ox_created_at a = ox_created_at b \<and> ox_event_id a \<le> ox_event_id b"

fun outbox_first :: "'p outbox_event list \<Rightarrow> 'p outbox_event option" where
  "outbox_first [] = None"
| "outbox_first (r # rs) = (case outbox_first rs of
      None \<Rightarrow> Some r
    | Some m \<Rightarrow> Some (if outbox_before r m then r else m))"

definition fetch_next_pending :: "'p outbox_event list \<Rightarrow> 'p outbox_event option" where
  "fetch_next_pending rows = outbox_first (filter (\<lambda>r. ox_published_at r = None) rows)"

definition mark_published :: "timestamp \<Rightarrow> uuid \<Rightarrow> 'p outbox_event list \<Rightarrow> bool \<times> 'p outbox_event list" where
  "mark_published now event_id rows =
     (let hit = (\<lambda>r. ox_event_id r = event_id \<and> ox_published_at r = None) in
      (length (filter hit rows) = 1, upd_where hit (\<lambda>r. r \<lparr> ox_published_at := Some now \<rparr>) rows))"

section \<open>The inbox\<close>

datatype inbox_decision = Accepted | Duplicate | Stale | Gap

record inbox_event =
  ie_consumer :: string
  ie_event_id :: uuid
  ie_aggregate_id :: uuid
  ie_aggregate_sequence :: int
  ie_payload_sha256 :: string

record inbox_tables =
  inbox_events :: "inbox_event list"
  inbox_watermarks :: "((string \<times> uuid) \<times> int) list"

definition ensure_watermark :: "string \<Rightarrow> uuid \<Rightarrow> inbox_tables \<Rightarrow> inbox_tables" where
  "ensure_watermark consumer aggregate_id t =
     (if map_of (inbox_watermarks t) (consumer, aggregate_id) = None
      then t \<lparr> inbox_watermarks := inbox_watermarks t @ [((consumer, aggregate_id), 0)] \<rparr> else t)"

definition inbox_insert :: "inbox_event \<Rightarrow> inbox_tables \<Rightarrow> persistence_error + inbox_tables" where
  "inbox_insert e t =
     (if list_ex (\<lambda>r. ie_consumer r = ie_consumer e
           \<and> (ie_event_id r = ie_event_id e
              \<or> ie_aggregate_id r = ie_aggregate_id e
                \<and> ie_aggregate_sequence r = ie_aggregate_sequence e)) (inbox_events t)
      then Inl PersistDatabase
      else Inr (t \<lparr> inbox_events := inbox_events t @ [e] \<rparr>))"

definition advance_watermark ::
  "string \<Rightarrow> uuid \<Rightarrow> int \<Rightarrow> int \<Rightarrow> inbox_tables \<Rightarrow> persistence_error + inbox_tables" where
  "advance_watermark consumer aggregate_id sequence last_sequence t =
     (let hit = (\<lambda>((c, a), l). c = consumer \<and> a = aggregate_id \<and> l = last_sequence) in
      if length (filter hit (inbox_watermarks t)) \<noteq> 1
      then Inl (PersistIdentityMismatch ''Inbox watermark changed while its row lock was held'')
      else Inr (t \<lparr> inbox_watermarks :=
             upd_where hit (\<lambda>(k, _). (k, sequence)) (inbox_watermarks t) \<rparr>))"

definition inbox_accept ::
  "string \<Rightarrow> uuid \<Rightarrow> uuid \<Rightarrow> u64 \<Rightarrow> sha256 \<Rightarrow> inbox_tables \<Rightarrow> persistence_error + (inbox_decision \<times> inbox_tables)" where
  "inbox_accept consumer event_id aggregate_id sequence payload_hash t =
     res_then (validate_token ''consumer'' consumer) (\<lambda>_.
     if uint sequence > I64_MAX then Inl (PersistConfiguration ''Inbox sequence exceeds BIGINT'')
     else if sequence = 0 then Inl (PersistConfiguration ''Inbox sequence must be non-zero'')
     else case List.find (\<lambda>r. ie_consumer r = consumer \<and> ie_event_id r = event_id) (inbox_events t) of
       Some r \<Rightarrow>
         if ie_payload_sha256 r \<noteq> sha256_display payload_hash
         then Inl (PersistIdentityMismatch ''duplicate event ID has a different payload hash'')
         else Inr (Duplicate, t)
     | None \<Rightarrow>
         let t1 = ensure_watermark consumer aggregate_id t in
         res_then (ok_or PersistDatabase (map_of (inbox_watermarks t1) (consumer, aggregate_id))) (\<lambda>last_sequence.
         let expected = min (last_sequence + 1) I64_MAX in
         if uint sequence < expected then Inr (Stale, t1)
         else if uint sequence > expected then Inr (Gap, t1)
         else res_then (inbox_insert \<lparr> ie_consumer = consumer, ie_event_id = event_id,
                  ie_aggregate_id = aggregate_id, ie_aggregate_sequence = uint sequence,
                  ie_payload_sha256 = sha256_display payload_hash \<rparr> t1) (\<lambda>t2.
              res_then (advance_watermark consumer aggregate_id (uint sequence) last_sequence t2) (\<lambda>t3.
              Inr (Accepted, t3)))))"

section \<open>Digest spelling\<close>

lemma byte_hex_char: "n < 16 \<Longrightarrow> byte (hex_char n) = (if n < 10 then 48 + n else 87 + n)"
  by (simp add: byte_def hex_char_def)

lemma hex_value_hex_char [simp]: "n < 16 \<Longrightarrow> hex_value (hex_char n) = n"
  by (simp add: hex_value_def byte_hex_char is_ascii_digit_def)

lemma hex_char_class [simp]:
  "n < 16 \<Longrightarrow> is_ascii_hexdigit (hex_char n)"
  "n < 16 \<Longrightarrow> \<not> is_ascii_uppercase (hex_char n)"
  by (simp_all add: is_ascii_hexdigit_def is_ascii_uppercase_def is_ascii_digit_def byte_hex_char)

lemma hex_value_less: "is_ascii_hexdigit c \<Longrightarrow> hex_value c < 16"
  by (auto simp: is_ascii_hexdigit_def hex_value_def is_ascii_digit_def)

lemma hex_char_hex_value:
  assumes "is_ascii_hexdigit c" "\<not> is_ascii_uppercase c"
  shows "hex_char (hex_value c) = c"
proof -
  have "byte (hex_char (hex_value c)) = byte c"
    using assms hex_value_less [OF assms(1)]
    by (auto simp: byte_hex_char is_ascii_hexdigit_def is_ascii_uppercase_def hex_value_def is_ascii_digit_def)
  then show ?thesis by (simp add: byte_def)
qed

lemma unat_u8_less: "unat (b :: u8) < 256"
  using unsigned_less [of b] by simp

lemma hex_bytes_display [simp]: "hex_bytes (sha256_display d) = d"
proof (induction d)
  case (Cons b d)
  have "unat b div 16 < 16" "unat b mod 16 < 16" using unat_u8_less [of b] by auto
  moreover have "of_nat (unat b div 16 * 16 + unat b mod 16) = b" by simp
  ultimately show ?case using Cons by (simp add: sha256_display_def)
qed (simp add: sha256_display_def)

lemma length_sha256_display [simp]: "length (sha256_display d) = 2 * length d"
  by (induction d) (simp_all add: sha256_display_def)

lemma sha256_display_class:
  "list_all is_ascii_hexdigit (sha256_display d) \<and> \<not> list_ex is_ascii_uppercase (sha256_display d)"
proof (induction d)
  case (Cons b d)
  have "unat b div 16 < 16" "unat b mod 16 < 16" using unat_u8_less [of b] by auto
  then show ?case using Cons by (simp add: sha256_display_def)
qed (simp add: sha256_display_def)

lemma display_hex_bytes:
  "list_all is_ascii_hexdigit s \<Longrightarrow> \<not> list_ex is_ascii_uppercase s \<Longrightarrow> even (length s)
   \<Longrightarrow> sha256_display (hex_bytes s) = s \<and> length (hex_bytes s) = length s div 2"
proof (induction s rule: hex_bytes.induct)
  case (1 a b r)
  then have h: "hex_value a < 16" "hex_value b < 16" by (auto intro: hex_value_less)
  then have "unat (of_nat (hex_value a * 16 + hex_value b) :: u8) = hex_value a * 16 + hex_value b"
    by (subst unat_of_nat) simp
  then show ?case using 1 h by (simp add: sha256_display_def hex_char_hex_value)
qed (simp_all add: sha256_display_def)

lemma sha256_display_inj [simp]: "sha256_display a = sha256_display b \<longleftrightarrow> a = b"
  by (metis hex_bytes_display)

text \<open>C22: a digest has exactly one accepted spelling.  A string is accepted if and only
  if it is the lowercase hexadecimal rendering of a 32 byte digest, which it
  denotes.\<close>

theorem sha256_round_trip:
  "sha256_from_str s = Inr d \<longleftrightarrow> length d = 32 \<and> s = sha256_display d"
proof
  assume "sha256_from_str s = Inr d"
  then have *: "length s = 64" "list_all is_ascii_hexdigit s" "\<not> list_ex is_ascii_uppercase s" "d = hex_bytes s"
    by (auto simp: sha256_from_str_def split: if_splits)
  then show "length d = 32 \<and> s = sha256_display d" using display_hex_bytes [OF *(2,3)] by simp
next
  assume "length d = 32 \<and> s = sha256_display d"
  then show "sha256_from_str s = Inr d"
    using sha256_display_class [of d] by (simp add: sha256_from_str_def)
qed

section \<open>Idempotency\<close>

datatype 'v ledger_call = ReserveCall string string sha256 | CompleteCall string string 'v

datatype 'v ledger_reply = Decided "'v idempotency_decision" | Completed | Refused persistence_error

fun ledger_step :: "'v idem_row list \<Rightarrow> 'v ledger_call \<Rightarrow> 'v ledger_reply \<times> 'v idem_row list" where
  "ledger_step rows (ReserveCall operation key h) =
     (case idem_reserve operation key h rows of
        Inl e \<Rightarrow> (Refused e, rows) | Inr (d, rows') \<Rightarrow> (Decided d, rows'))"
| "ledger_step rows (CompleteCall operation key v) =
     (case idem_complete operation key v rows of
        Inl e \<Rightarrow> (Refused e, rows) | Inr rows' \<Rightarrow> (Completed, rows'))"

fun ledger_run ::
  "'v idem_row list \<Rightarrow> 'v ledger_call list \<Rightarrow> ('v ledger_call \<times> 'v ledger_reply) list \<times> 'v idem_row list" where
  "ledger_run rows [] = ([], rows)"
| "ledger_run rows (c # cs) =
     (let (r, rows') = ledger_step rows c; (log, rows'') = ledger_run rows' cs in ((c, r) # log, rows''))"

definition reservations :: "string \<Rightarrow> string \<Rightarrow> ('v ledger_call \<times> 'v ledger_reply) list \<Rightarrow> sha256 list" where
  "reservations operation key log = concat (map (\<lambda>(c, r). case c of
      ReserveCall op' key' h \<Rightarrow> if op' = operation \<and> key' = key \<and> r = Decided IdemReserved then [h] else []
    | CompleteCall _ _ _ \<Rightarrow> []) log)"

definition completions :: "string \<Rightarrow> string \<Rightarrow> ('v ledger_call \<times> 'v ledger_reply) list \<Rightarrow> 'v list" where
  "completions operation key log = concat (map (\<lambda>(c, r). case c of
      CompleteCall op' key' v \<Rightarrow> if op' = operation \<and> key' = key \<and> r = Completed then [v] else []
    | ReserveCall _ _ _ \<Rightarrow> []) log)"

definition replays :: "string \<Rightarrow> string \<Rightarrow> ('v ledger_call \<times> 'v ledger_reply) list \<Rightarrow> (sha256 \<times> 'v) set" where
  "replays operation key log = {(h, v). (ReserveCall operation key h, Decided (IdemReplay v)) \<in> set log}"

lemma ledger_run_snoc:
  "ledger_run rows (cs @ [c]) =
     (let (log, rows') = ledger_run rows cs; (r, rows'') = ledger_step rows' c in (log @ [(c, r)], rows''))"
  by (induction cs arbitrary: rows) (auto simp: Let_def split: prod.splits)

text \<open>The rows of one key record exactly what its calls were told.\<close>

definition key_inv ::
  "string \<Rightarrow> string \<Rightarrow> ('v ledger_call \<times> 'v ledger_reply) list \<Rightarrow> 'v idem_row list \<Rightarrow> bool" where
  "key_inv operation key log rows \<longleftrightarrow>
     (case filter (idem_match operation key) rows of
        [] \<Rightarrow> reservations operation key log = [] \<and> completions operation key log = []
               \<and> replays operation key log = {}
      | [r] \<Rightarrow> (\<exists>h. reservations operation key log = [h] \<and> ir_request_sha256 r = sha256_display h
               \<and> (ir_state r = ''in_progress'' \<and> ir_result r = None \<and> completions operation key log = []
                    \<and> replays operation key log = {}
                  \<or> (\<exists>v. ir_state r = ''completed'' \<and> ir_result r = Some v
                       \<and> completions operation key log = [v] \<and> replays operation key log \<subseteq> {(h, v)})))
      | _ \<Rightarrow> False)"

lemma find_filter: "List.find p xs = (case filter p xs of [] \<Rightarrow> None | x # _ \<Rightarrow> Some x)"
  by (induction xs) auto

lemma log_snoc:
  "reservations op k (log @ [(c, r)]) = reservations op k log @ reservations op k [(c, r)]"
  "completions op k (log @ [(c, r)]) = completions op k log @ completions op k [(c, r)]"
  "replays op k (log @ [(c, r)]) = replays op k log \<union> replays op k [(c, r)]"
  by (auto simp: reservations_def completions_def replays_def)

lemma log_single:
  "reservations op k [(ReserveCall op' k' h, r)] =
     (if op' = op \<and> k' = k \<and> r = Decided IdemReserved then [h] else [])"
  "reservations op k [(CompleteCall op' k' v, r)] = []"
  "completions op k [(ReserveCall op' k' h, r)] = []"
  "completions op k [(CompleteCall op' k' v, r)] = (if op' = op \<and> k' = k \<and> r = Completed then [v] else [])"
  "replays op k [(CompleteCall op' k' v, r)] = {}"
  "replays op k [(ReserveCall op' k' h, r)] =
     {(h', v). op' = op \<and> k' = k \<and> h' = h \<and> r = Decided (IdemReplay v)}"
  by (auto simp: reservations_def completions_def replays_def)

lemma filter_upd_where_same:
  assumes "\<And>x. p (f x) \<longleftrightarrow> p x"
  shows "filter p (upd_where q f xs) = upd_where q f (filter p xs)"
  using assms by (induction xs) auto

lemma idem_match_update [simp]:
  "idem_match op k (r \<lparr> ir_state := s, ir_result := v \<rparr>) \<longleftrightarrow> idem_match op k r"
  by (simp add: idem_match_def)

lemma key_inv_quiet:
  assumes "key_inv op k log rows" "filter (idem_match op k) rows' = filter (idem_match op k) rows"
    and "reservations op k [e] = []" "completions op k [e] = []" "replays op k [e] = {}"
  shows "key_inv op k (log @ [e]) rows'"
proof -
  have "reservations op k (log @ [e]) = reservations op k log"
    "completions op k (log @ [e]) = completions op k log" "replays op k (log @ [e]) = replays op k log"
    using assms(3-5) by (cases e; simp add: log_snoc)+
  then show ?thesis using assms(1,2) by (simp only: key_inv_def)
qed

definition new_reservation :: "string \<Rightarrow> string \<Rightarrow> sha256 \<Rightarrow> 'v idem_row" where
  "new_reservation op k h = \<lparr> ir_operation = op, ir_key = k, ir_request_sha256 = sha256_display h,
     ir_state = ''in_progress'', ir_result = None \<rparr>"

lemma idem_match_new [simp]: "idem_match op k (new_reservation op' k' h) \<longleftrightarrow> op' = op \<and> k' = k"
  by (simp add: idem_match_def new_reservation_def)

lemma new_reservation_fields [simp]:
  "ir_request_sha256 (new_reservation op k h) = sha256_display h"
  "ir_state (new_reservation op k h) = ''in_progress''"
  "ir_result (new_reservation op k h) = None"
  by (simp_all add: new_reservation_def)

lemma reserveE:
  assumes "idem_reserve op k h rows = Inr (d, rows')"
  obtains "d = IdemReserved" "filter (idem_match op k) rows = []" "rows' = rows @ [new_reservation op k h]"
  | "rows' = rows" "d \<in> {IdemConflict, IdemInProgress}"
  | r rs v where "rows' = rows" "d = IdemReplay v" "filter (idem_match op k) rows = r # rs"
      "ir_request_sha256 r = sha256_display h" "ir_state r = ''completed''" "ir_result r = Some v"
proof (cases "filter (idem_match op k) rows")
  case Nil
  then show ?thesis using assms that(1)
    by (simp add: idem_reserve_def find_filter res_then_Inr new_reservation_def)
next
  case (Cons r rs)
  then show ?thesis using assms that(2,3)
    by (auto simp: idem_reserve_def find_filter res_then_Inr split: if_splits option.splits)
qed

lemma reserve_step_inv:
  assumes "key_inv op k log rows" "idem_reserve op' k' h rows = Inr (d, rows')"
  shows "key_inv op k (log @ [(ReserveCall op' k' h, Decided d)]) rows'"
proof (cases "op' = op \<and> k' = k")
  case True
  with assms(2) have "idem_reserve op k h rows = Inr (d, rows')" by simp
  then show ?thesis
  proof (cases rule: reserveE)
    case 1
    then show ?thesis using assms(1) True
      by (simp add: key_inv_def log_snoc log_single)
  next
    case 2
    then show ?thesis using assms(1) by (auto intro!: key_inv_quiet simp: log_single)
  next
    case (3 r rs v)
    then show ?thesis using assms(1) True
      by (auto simp: key_inv_def log_snoc log_single split: list.splits)
  qed
next
  case False
  have "filter (idem_match op k) rows' = filter (idem_match op k) rows"
    using assms(2) False by (cases rule: reserveE) auto
  then show ?thesis using assms(1) False by (auto intro: key_inv_quiet simp: log_single)
qed

lemma complete_step_inv:
  assumes "key_inv op k log rows" "idem_complete op' k' v rows = Inr rows'"
  shows "key_inv op k (log @ [(CompleteCall op' k' v, Completed)]) rows'"
proof -
  let ?hit = "\<lambda>r. idem_match op' k' r \<and> ir_state r = ''in_progress''"
  let ?f = "\<lambda>r. r \<lparr> ir_state := ''completed'', ir_result := Some v \<rparr>"
  have r: "length (filter ?hit rows) = 1" "rows' = upd_where ?hit ?f rows"
    using assms(2) by (simp_all add: idem_complete_def Let_def split: if_splits)
  have m: "filter (idem_match op k) rows' = upd_where ?hit ?f (filter (idem_match op k) rows)"
    unfolding r(2) by (rule filter_upd_where_same) simp
  show ?thesis
  proof (cases "op' = op \<and> k' = k")
    case True
    have "filter ?hit rows = filter (\<lambda>r. ir_state r = ''in_progress'') (filter (idem_match op k) rows)"
      using True by (simp add: conj_commute)
    with r(1) have "length (filter (\<lambda>r. ir_state r = ''in_progress'') (filter (idem_match op k) rows)) = 1"
      by (simp only:)
    then obtain x where x: "filter (idem_match op k) rows = [x]" "ir_state x = ''in_progress''"
      using assms(1) unfolding key_inv_def
      by (cases "filter (idem_match op k) rows" rule: list.exhaust)
         (auto simp del: filter_filter split: list.splits if_splits)
    then show ?thesis using assms(1) m True idem_match_def [of op k x]
      by (auto simp: key_inv_def log_snoc log_single dest: filter_eq_ConsD)
  next
    case False
    have "upd_where ?hit ?f (filter (idem_match op k) rows) = filter (idem_match op k) rows"
      unfolding upd_where_def by (rule map_idI) (use False in \<open>auto simp: idem_match_def\<close>)
    then show ?thesis using assms(1) m False by (auto intro!: key_inv_quiet simp: log_single)
  qed
qed

lemma refused_inv:
  assumes "key_inv op k log rows"
  shows "key_inv op k (log @ [(c, Refused e)]) rows"
proof -
  have "reservations op k [(c, Refused e)] = []" "completions op k [(c, Refused e)] = []"
    "replays op k [(c, Refused e)] = {}"
    by (cases c; simp add: log_single)+
  then show ?thesis using key_inv_quiet [OF assms refl] by blast
qed

lemma ledger_run_inv: "key_inv op k (fst (ledger_run [] cs)) (snd (ledger_run [] cs))"
proof (induction cs rule: rev_induct)
  case Nil
  then show ?case by (simp add: key_inv_def reservations_def completions_def replays_def)
next
  case (snoc c cs)
  obtain log rows where l: "ledger_run [] cs = (log, rows)" by (cases "ledger_run [] cs")
  show ?case
  proof (cases c)
    case (ReserveCall o' k' h)
    then show ?thesis using snoc l
      by (auto simp: ledger_run_snoc Let_def refused_inv reserve_step_inv split: sum.splits prod.splits)
  next
    case (CompleteCall o' k' v)
    then show ?thesis using snoc l
      by (auto simp: ledger_run_snoc Let_def refused_inv complete_step_inv split: sum.splits prod.splits)
  qed
qed

section \<open>Exactly once, in order\<close>

text \<open>
  A delivery is one received event and whether the transaction that handles it
  commits; the consumer rolls back when its business side effect fails.
\<close>

record delivery =
  dl_consumer :: string
  dl_event_id :: uuid
  dl_aggregate_id :: uuid
  dl_sequence :: u64
  dl_payload_hash :: sha256
  dl_commits :: bool

definition inbox_deliver :: "inbox_tables \<Rightarrow> delivery \<Rightarrow> bool \<times> inbox_tables" where
  "inbox_deliver t d =
     (case inbox_accept (dl_consumer d) (dl_event_id d) (dl_aggregate_id d) (dl_sequence d) (dl_payload_hash d) t of
        Inl _ \<Rightarrow> (False, t)
      | Inr (decision, t') \<Rightarrow> if dl_commits d then (decision = Accepted, t') else (False, t))"

fun inbox_run :: "inbox_tables \<Rightarrow> delivery list \<Rightarrow> delivery list \<times> inbox_tables" where
  "inbox_run t [] = ([], t)"
| "inbox_run t (d # ds) =
     (let (ok, t') = inbox_deliver t d; (acc, t'') = inbox_run t' ds in (if ok then d # acc else acc, t''))"

definition empty_inbox :: inbox_tables where
  "empty_inbox = \<lparr> inbox_events = [], inbox_watermarks = [] \<rparr>"

definition accepted_of :: "string \<Rightarrow> uuid \<Rightarrow> delivery list \<Rightarrow> delivery list" where
  "accepted_of c a ds = filter (\<lambda>d. dl_consumer d = c \<and> dl_aggregate_id d = a) ds"

definition watermark :: "inbox_tables \<Rightarrow> string \<Rightarrow> uuid \<Rightarrow> int" where
  "watermark t c a = (case map_of (inbox_watermarks t) (c, a) of None \<Rightarrow> 0 | Some l \<Rightarrow> l)"

definition event_of :: "delivery \<Rightarrow> inbox_event" where
  "event_of d = \<lparr> ie_consumer = dl_consumer d, ie_event_id = dl_event_id d,
     ie_aggregate_id = dl_aggregate_id d, ie_aggregate_sequence = uint (dl_sequence d),
     ie_payload_sha256 = sha256_display (dl_payload_hash d) \<rparr>"

definition inbox_inv :: "delivery list \<Rightarrow> inbox_tables \<Rightarrow> bool" where
  "inbox_inv acc t \<longleftrightarrow>
     distinct (map fst (inbox_watermarks t))
     \<and> inbox_events t = map event_of acc
     \<and> distinct (map (\<lambda>d. (dl_consumer d, dl_event_id d)) acc)
     \<and> (\<forall>c a. map (\<lambda>d. uint (dl_sequence d)) (accepted_of c a acc) = [1..watermark t c a]
              \<and> 0 \<le> watermark t c a)"

lemma inbox_run_append:
  "inbox_run t (ds @ es) =
     (let (acc, t') = inbox_run t ds; (acc', t'') = inbox_run t' es in (acc @ acc', t''))"
  by (induction ds arbitrary: t) (auto simp: Let_def split: prod.splits)

lemma watermark_ensure [simp]: "watermark (ensure_watermark c a t) = watermark t"
  by (auto simp: watermark_def ensure_watermark_def map_of_append fun_eq_iff map_add_def
      split: option.splits if_splits)

lemma inbox_events_ensure [simp]: "inbox_events (ensure_watermark c a t) = inbox_events t"
  by (simp add: ensure_watermark_def)

lemma ensure_has: "map_of (inbox_watermarks (ensure_watermark c a t)) (c, a) = Some (watermark t c a)"
  by (auto simp: watermark_def ensure_watermark_def map_of_append map_add_def split: option.splits)

lemma ensure_inv: "inbox_inv acc t \<Longrightarrow> inbox_inv acc (ensure_watermark c a t)"
  unfolding inbox_inv_def watermark_ensure inbox_events_ensure
  by (auto simp: ensure_watermark_def map_of_eq_None_iff)

lemma filter_key_singleton:
  "distinct (map fst w) \<Longrightarrow> map_of w k = Some l
   \<Longrightarrow> length (filter (\<lambda>(k', l'). k' = k \<and> l' = l) w) = 1"
proof (induction w)
  case (Cons x w)
  show ?case
  proof (cases "fst x = k")
    case True
    then have "filter (\<lambda>(k', l'). k' = k \<and> l' = l) w = []"
      using Cons.prems by (auto simp: filter_empty_conv rev_image_eqI)
    then show ?thesis using Cons True by (cases x) auto
  next
    case False
    then show ?thesis using Cons by (cases x) auto
  qed
qed simp

lemma map_of_upd_where:
  "map_of w k = Some l \<Longrightarrow> map_of (upd_where (\<lambda>(k', l'). k' = k \<and> l' = l) (\<lambda>(k', _). (k', s)) w) = (map_of w)(k \<mapsto> s)"
  if "distinct (map fst w)"
  using that
proof (induction w)
  case (Cons x w)
  show ?case
  proof (cases "fst x = k")
    case True
    then have "upd_where (\<lambda>(k', l'). k' = k \<and> l' = l) (\<lambda>(k', _). (k', s)) w = w"
      using Cons.prems unfolding upd_where_def
      by (intro map_idI) (auto simp: rev_image_eqI)
    then show ?thesis using Cons True by (cases x) auto
  next
    case False
    then show ?thesis using Cons by (cases x) (auto simp: fun_eq_iff)
  qed
qed simp

lemma map_fst_upd_where:
  "map fst (upd_where p (\<lambda>(k, _). (k, s)) w) = map fst w"
  by (induction w) auto

lemma advance_watermark_ok:
  assumes "distinct (map fst (inbox_watermarks t))" "map_of (inbox_watermarks t) (c, a) = Some l"
  obtains t' where "advance_watermark c a s l t = Inr t'" "inbox_events t' = inbox_events t"
    "distinct (map fst (inbox_watermarks t'))"
    "watermark t' = (watermark t)(c := (watermark t c)(a := s))"
proof -
  let ?hit = "\<lambda>((c', a'), l'). c' = c \<and> a' = a \<and> l' = l"
  have hit: "?hit = (\<lambda>(k', l'). k' = (c, a) \<and> l' = l)" by (auto simp: fun_eq_iff)
  let ?t = "t \<lparr> inbox_watermarks := upd_where ?hit (\<lambda>(k, _). (k, s)) (inbox_watermarks t) \<rparr>"
  have "advance_watermark c a s l t = Inr ?t"
    using filter_key_singleton [OF assms] unfolding advance_watermark_def Let_def hit by simp
  moreover have "watermark ?t = (watermark t)(c := (watermark t c)(a := s))"
    using map_of_upd_where [OF assms] unfolding watermark_def hit by (auto simp: fun_eq_iff)
  ultimately show ?thesis using that [of ?t] assms(1) by (simp add: map_fst_upd_where)
qed

lemma inbox_find_None:
  assumes "inbox_inv acc t"
    and "List.find (\<lambda>r. ie_consumer r = c \<and> ie_event_id r = i) (inbox_events t) = None"
  shows "\<forall>e \<in> set acc. dl_consumer e = c \<longrightarrow> dl_event_id e \<noteq> i"
  using assms by (auto simp: inbox_inv_def find_None_iff event_of_def)

lemma inbox_seq_mem:
  assumes "inbox_inv acc t"
  shows "(\<exists>d \<in> set acc. dl_consumer d = c \<and> dl_aggregate_id d = a \<and> uint (dl_sequence d) = s)
    \<longleftrightarrow> 1 \<le> s \<and> s \<le> watermark t c a"
proof -
  have "set (map (\<lambda>d. uint (dl_sequence d)) (accepted_of c a acc)) = {1..watermark t c a}"
    using assms by (simp add: inbox_inv_def)
  then have "s \<in> set (map (\<lambda>d. uint (dl_sequence d)) (accepted_of c a acc)) \<longleftrightarrow> s \<in> {1..watermark t c a}"
    by simp
  then show ?thesis by (auto simp: accepted_of_def)
qed

lemma insert_ok:
  assumes "inbox_events t = map event_of acc"
    and "\<forall>e \<in> set acc. dl_consumer e = dl_consumer d \<longrightarrow> dl_event_id e \<noteq> dl_event_id d"
    and "\<not> (\<exists>e \<in> set acc. dl_consumer e = dl_consumer d \<and> dl_aggregate_id e = dl_aggregate_id d
      \<and> uint (dl_sequence e) = uint (dl_sequence d))"
  shows "inbox_insert (event_of d) t = Inr (t \<lparr> inbox_events := inbox_events t @ [event_of d] \<rparr>)"
proof -
  have "\<not> list_ex (\<lambda>r. ie_consumer r = ie_consumer (event_of d)
      \<and> (ie_event_id r = ie_event_id (event_of d) \<or> ie_aggregate_id r = ie_aggregate_id (event_of d)
          \<and> ie_aggregate_sequence r = ie_aggregate_sequence (event_of d))) (inbox_events t)"
    unfolding assms(1) list_ex_iff event_of_def using assms(2,3) by auto
  then show ?thesis unfolding inbox_insert_def by (simp only: if_False)
qed

lemma accept_next:
  assumes inv: "inbox_inv acc t" and new: "\<forall>e \<in> set acc. dl_consumer e = dl_consumer d \<longrightarrow> dl_event_id e \<noteq> dl_event_id d"
    and seq: "uint (dl_sequence d) = watermark t (dl_consumer d) (dl_aggregate_id d) + 1"
  obtains t2 t3 where "inbox_insert (event_of d) (ensure_watermark (dl_consumer d) (dl_aggregate_id d) t) = Inr t2"
    "advance_watermark (dl_consumer d) (dl_aggregate_id d) (uint (dl_sequence d))
       (watermark t (dl_consumer d) (dl_aggregate_id d)) t2 = Inr t3"
    "inbox_inv (acc @ [d]) t3"
    "watermark t3 (dl_consumer d) (dl_aggregate_id d) = watermark t (dl_consumer d) (dl_aggregate_id d) + 1"
proof -
  let ?c = "dl_consumer d" and ?a = "dl_aggregate_id d"
  let ?t1 = "ensure_watermark ?c ?a t"
  let ?t2 = "?t1 \<lparr> inbox_events := inbox_events ?t1 @ [event_of d] \<rparr>"
  have i1: "inbox_inv acc ?t1" by (rule ensure_inv [OF inv])
  have "\<not> (\<exists>e \<in> set acc. dl_consumer e = ?c \<and> dl_aggregate_id e = ?a \<and> uint (dl_sequence e) = uint (dl_sequence d))"
    unfolding inbox_seq_mem [OF inv] seq by simp
  then have ins: "inbox_insert (event_of d) ?t1 = Inr ?t2"
    using insert_ok [of ?t1 acc d] new i1 by (simp add: inbox_inv_def)
  have "watermark ?t2 = watermark ?t1" by (simp add: watermark_def fun_eq_iff del: watermark_ensure)
  then have wt: "watermark ?t2 = watermark t" unfolding watermark_ensure .
  have "distinct (map fst (inbox_watermarks ?t2))" "map_of (inbox_watermarks ?t2) (?c, ?a) = Some (watermark t ?c ?a)"
    using i1 ensure_has by (simp_all add: inbox_inv_def)
  from advance_watermark_ok [OF this, of "uint (dl_sequence d)"]
  obtain t3 where t3: "advance_watermark ?c ?a (uint (dl_sequence d)) (watermark t ?c ?a) ?t2 = Inr t3"
    "inbox_events t3 = inbox_events ?t2" "distinct (map fst (inbox_watermarks t3))"
    "watermark t3 = (watermark t)(?c := (watermark t ?c)(?a := uint (dl_sequence d)))"
    unfolding wt by blast
  have up: "0 \<le> w \<Longrightarrow> [1..w + 1] = [1..w] @ [w + 1]" for w :: int using upto_rec2 [of 1 "w + 1"] by simp
  have "inbox_inv (acc @ [d]) t3"
    using inv new seq t3(2-4)
    by (auto simp: inbox_inv_def accepted_of_def up)
  then show ?thesis using that ins t3(1,4) seq by simp
qed

lemma three_way:
  "(if s < e then Inr (Stale, t1) else if s > e then Inr (Gap, t1) else r) = Inr (dec, u)
   \<Longrightarrow> r = Inr (dec, u) \<and> s = e \<or> dec \<in> {Stale, Gap} \<and> u = t1" for s e :: int
  by (auto split: if_splits)

lemma min_next: "\<not> (1 \<le> s \<and> s \<le> w) \<Longrightarrow> 0 \<le> w \<Longrightarrow> s = min (w + 1) I64_MAX \<Longrightarrow> s = w + 1"
  by (auto simp: min_def I64_MAX_def split: if_splits)

lemma insert_fresh:
  assumes "inbox_insert (event_of d) (ensure_watermark c a t) = Inr t2" "inbox_events t = map event_of acc"
  shows "\<not> (\<exists>e \<in> set acc. dl_consumer e = dl_consumer d \<and> dl_aggregate_id e = dl_aggregate_id d
    \<and> uint (dl_sequence e) = uint (dl_sequence d))"
  using assms unfolding inbox_insert_def guard_Inr inbox_events_ensure by (force simp: list_ex_iff event_of_def)

lemma inbox_accept_Some:
  assumes "List.find (\<lambda>r. ie_consumer r = c \<and> ie_event_id r = i) (inbox_events t) = Some x"
    and "inbox_accept c i a s h t = Inr (dec, u)"
  shows "dec = Duplicate \<and> u = t"
  using assms(2) unfolding inbox_accept_def assms(1) option.case res_then_Inr guard_Inr by auto

lemma inbox_accept_None:
  assumes "List.find (\<lambda>r. ie_consumer r = dl_consumer d \<and> ie_event_id r = dl_event_id d) (inbox_events t) = None"
  shows "inbox_accept (dl_consumer d) (dl_event_id d) (dl_aggregate_id d) (dl_sequence d) (dl_payload_hash d) t =
    res_then (validate_token ''consumer'' (dl_consumer d)) (\<lambda>_.
     if uint (dl_sequence d) > I64_MAX then Inl (PersistConfiguration ''Inbox sequence exceeds BIGINT'')
     else if dl_sequence d = 0 then Inl (PersistConfiguration ''Inbox sequence must be non-zero'')
     else let t1 = ensure_watermark (dl_consumer d) (dl_aggregate_id d) t;
              w = watermark t (dl_consumer d) (dl_aggregate_id d);
              expected = min (w + 1) I64_MAX in
         if uint (dl_sequence d) < expected then Inr (Stale, t1)
         else if uint (dl_sequence d) > expected then Inr (Gap, t1)
         else res_then (inbox_insert (event_of d) t1) (\<lambda>t2.
              res_then (advance_watermark (dl_consumer d) (dl_aggregate_id d) (uint (dl_sequence d)) w t2) (\<lambda>t3.
              Inr (Accepted, t3))))"
  unfolding inbox_accept_def assms option.case Let_def ensure_has ok_or_simps res_then_simps event_of_def ..

lemma inbox_deliver_inv:
  assumes inv: "inbox_inv acc t" and dv: "inbox_deliver t d = (ok, t')"
  shows "inbox_inv (if ok then acc @ [d] else acc) t'"
proof (cases "inbox_accept (dl_consumer d) (dl_event_id d) (dl_aggregate_id d) (dl_sequence d) (dl_payload_hash d) t")
  case (Inl e)
  then show ?thesis using assms by (simp add: inbox_deliver_def)
next
  case (Inr r)
  let ?c = "dl_consumer d" and ?a = "dl_aggregate_id d"
  obtain dec u where r: "r = (dec, u)" by (cases r)
  have *: "inbox_inv (if dec = Accepted then acc @ [d] else acc) u"
  proof (cases "List.find (\<lambda>r. ie_consumer r = ?c \<and> ie_event_id r = dl_event_id d) (inbox_events t)")
    case (Some x)
    from inbox_accept_Some [OF this Inr [unfolded r]] show ?thesis using inv by simp
  next
    case None
    have acc: "res_then (inbox_insert (event_of d) (ensure_watermark ?c ?a t))
        (\<lambda>t2. res_then (advance_watermark ?c ?a (uint (dl_sequence d)) (watermark t ?c ?a) t2) (\<lambda>t3. Inr (Accepted, t3)))
        = Inr (dec, u)
      \<and> uint (dl_sequence d) = min (watermark t ?c ?a + 1) I64_MAX
      \<or> dec \<in> {Stale, Gap} \<and> u = ensure_watermark ?c ?a t"
      using Inr unfolding r inbox_accept_None [OF None] res_then_Inr [of "validate_token _ _"] Let_def guard_Inr
      by (elim exE conjE) (erule three_way)
    show ?thesis
    proof (cases "dec \<in> {Stale, Gap} \<and> u = ensure_watermark ?c ?a t")
      case True
      then show ?thesis using ensure_inv [OF inv] by auto
    next
      case False
      with acc obtain t2 where t2: "inbox_insert (event_of d) (ensure_watermark ?c ?a t) = Inr t2"
        and t3: "advance_watermark ?c ?a (uint (dl_sequence d)) (watermark t ?c ?a) t2 = Inr u"
        and dec: "dec = Accepted" and s: "uint (dl_sequence d) = min (watermark t ?c ?a + 1) I64_MAX"
        by (auto simp: res_then_Inr)
      have "inbox_events t = map event_of acc" using inv by (simp add: inbox_inv_def)
      then have "\<not> (1 \<le> uint (dl_sequence d) \<and> uint (dl_sequence d) \<le> watermark t ?c ?a)"
        unfolding inbox_seq_mem [OF inv, symmetric] using insert_fresh [OF t2] by simp
      moreover have "0 \<le> watermark t ?c ?a" using inv by (simp add: inbox_inv_def)
      ultimately have "uint (dl_sequence d) = watermark t ?c ?a + 1" using s by (rule min_next)
      from accept_next [OF inv inbox_find_None [OF inv None] this]
      obtain t2' t3' where "inbox_insert (event_of d) (ensure_watermark ?c ?a t) = Inr t2'"
        "advance_watermark ?c ?a (uint (dl_sequence d)) (watermark t ?c ?a) t2' = Inr t3'"
        "inbox_inv (acc @ [d]) t3'" by blast
      then show ?thesis using t2 t3 dec by simp
    qed
  qed
  have "(ok, t') = (if dl_commits d then (dec = Accepted, u) else (False, t))"
    using dv Inr r by (simp add: inbox_deliver_def)
  then show ?thesis using * inv by (cases "dl_commits d") simp_all
qed

lemma inbox_run_inv:
  "inbox_inv acc t \<Longrightarrow> inbox_run t ds = (acc', t') \<Longrightarrow> inbox_inv (acc @ acc') t'"
proof (induction ds arbitrary: acc t acc')
  case (Cons d ds)
  obtain ok u where u: "inbox_deliver t d = (ok, u)" by (cases "inbox_deliver t d")
  obtain acc2 where r: "inbox_run u ds = (acc2, t')" "acc' = (if ok then d # acc2 else acc2)"
    using Cons.prems(2) u by (auto simp: Let_def split: prod.splits)
  show ?case using Cons.IH [OF inbox_deliver_inv [OF Cons.prems(1) u] r(1)] r(2) by (cases ok) simp_all
qed simp

lemma empty_inbox_inv: "inbox_inv [] empty_inbox"
  by (simp add: inbox_inv_def empty_inbox_def accepted_of_def watermark_def)

text \<open>C15: whatever is delivered, in whatever order, repeated, or rolled back, the events a
  consumer accepts for an aggregate carry the sequence numbers 1, 2, 3, ... up to
  the stored watermark, and no event is accepted twice.\<close>

theorem inbox_exactly_once_in_order:
  "map (\<lambda>d. uint (dl_sequence d)) (accepted_of c a (fst (inbox_run empty_inbox ds)))
     = [1..watermark (snd (inbox_run empty_inbox ds)) c a]
   \<and> distinct (map (\<lambda>d. (dl_consumer d, dl_event_id d)) (fst (inbox_run empty_inbox ds)))"
  using inbox_run_inv [OF empty_inbox_inv, of ds] by (cases "inbox_run empty_inbox ds") (simp add: inbox_inv_def)

section \<open>Nothing is lost\<close>

text \<open>
  An honest producer gives event number \<open>i\<close> of an aggregate one identity and one
  payload, and uses that identity for nothing else.
\<close>

definition honest :: "string \<Rightarrow> uuid \<Rightarrow> (uuid \<times> sha256) list \<Rightarrow> delivery list \<Rightarrow> bool" where
  "honest c a evs ds \<longleftrightarrow>
     list_all (\<lambda>d. dl_consumer d = c \<longrightarrow>
       list_all (\<lambda>i. (dl_event_id d = fst (evs ! i) \<longleftrightarrow> dl_aggregate_id d = a \<and> uint (dl_sequence d) = int i + 1)
          \<and> (dl_event_id d = fst (evs ! i) \<longrightarrow> dl_payload_hash d = snd (evs ! i))) [0..<length evs]) ds"

definition in_order :: "string \<Rightarrow> uuid \<Rightarrow> (uuid \<times> sha256) list \<Rightarrow> delivery list" where
  "in_order c a evs = map (\<lambda>i. \<lparr> dl_consumer = c, dl_event_id = fst (evs ! i), dl_aggregate_id = a,
     dl_sequence = of_nat (i + 1), dl_payload_hash = snd (evs ! i), dl_commits = True \<rparr>) [0..<length evs]"

lemma deliver_accepted_subset: "inbox_run t ds = (acc, t') \<Longrightarrow> set acc \<subseteq> set ds"
  by (induction ds arbitrary: t acc) (fastforce simp: Let_def split: prod.splits if_splits)+

lemma deliver_next:
  assumes inv: "inbox_inv acc t" and new: "\<forall>e \<in> set acc. dl_consumer e = dl_consumer d \<longrightarrow> dl_event_id e \<noteq> dl_event_id d"
    and seq: "uint (dl_sequence d) = watermark t (dl_consumer d) (dl_aggregate_id d) + 1"
    and ok: "validate_token ''consumer'' (dl_consumer d) = Inr ()" "uint (dl_sequence d) \<le> I64_MAX" "dl_commits d"
  obtains t' where "inbox_deliver t d = (True, t')"
    "watermark t' (dl_consumer d) (dl_aggregate_id d) = watermark t (dl_consumer d) (dl_aggregate_id d) + 1"
proof -
  have find: "List.find (\<lambda>r. ie_consumer r = dl_consumer d \<and> ie_event_id r = dl_event_id d) (inbox_events t) = None"
    using inv new by (auto simp: inbox_inv_def find_None_iff event_of_def)
  from accept_next [OF inv new seq] obtain t2 t3
    where t: "inbox_insert (event_of d) (ensure_watermark (dl_consumer d) (dl_aggregate_id d) t) = Inr t2"
      "advance_watermark (dl_consumer d) (dl_aggregate_id d) (uint (dl_sequence d))
         (watermark t (dl_consumer d) (dl_aggregate_id d)) t2 = Inr t3"
      "watermark t3 (dl_consumer d) (dl_aggregate_id d) = watermark t (dl_consumer d) (dl_aggregate_id d) + 1"
    by blast
  have "0 \<le> watermark t (dl_consumer d) (dl_aggregate_id d)" using inv by (simp add: inbox_inv_def)
  then have "dl_sequence d \<noteq> 0" using seq by auto
  have m: "min (watermark t (dl_consumer d) (dl_aggregate_id d) + 1) I64_MAX = uint (dl_sequence d)"
    using seq ok(2) by (simp add: min_def)
  have "inbox_accept (dl_consumer d) (dl_event_id d) (dl_aggregate_id d) (dl_sequence d) (dl_payload_hash d) t
      = Inr (Accepted, t3)"
    unfolding inbox_accept_None [OF find] ok(1) Let_def m using ok(2) t(1,2) \<open>dl_sequence d \<noteq> 0\<close> by simp
  then show ?thesis using that [of t3] ok(3) t(3) by (simp add: inbox_deliver_def)
qed

lemma watermark_deliver_mono:
  assumes "inbox_inv acc t" "inbox_deliver t d = (ok, t')"
  shows "watermark t c a \<le> watermark t' c a"
proof -
  have "length (accepted_of c a acc) \<le> length (accepted_of c a (if ok then acc @ [d] else acc))"
    by (simp add: accepted_of_def)
  moreover have "int (length (accepted_of c a acc)) = watermark t c a" if "inbox_inv acc t" for acc t
  proof -
    have "map (\<lambda>d. uint (dl_sequence d)) (accepted_of c a acc) = [1..watermark t c a]" "0 \<le> watermark t c a"
      using that by (simp_all add: inbox_inv_def)
    from arg_cong [OF this(1), of length] this(2) show ?thesis by simp
  qed
  ultimately show ?thesis using assms(1) inbox_deliver_inv [OF assms] by (metis of_nat_le_iff)
qed

lemma honestD:
  assumes "honest c a evs ds" "d \<in> set ds" "dl_consumer d = c" "i < length evs"
  shows "dl_event_id d = fst (evs ! i) \<longleftrightarrow> dl_aggregate_id d = a \<and> uint (dl_sequence d) = int i + 1"
    "dl_event_id d = fst (evs ! i) \<Longrightarrow> dl_payload_hash d = snd (evs ! i)"
  using assms by (auto simp: honest_def list_all_iff)

lemma uint_small: "int n < 2 ^ 64 \<Longrightarrow> uint (of_nat n :: u64) = int n"
  by (simp add: uint_nat unat_of_nat nat_mod_distrib zmod_int)

lemma replay_catches_up:
  assumes "validate_token ''consumer'' c = Inr ()" "honest c a evs ds" "int (length evs) \<le> I64_MAX"
    and "inbox_inv acc t" "set acc \<subseteq> set ds" "honest c a evs (in_order c a evs)" "n \<le> length evs"
    and "inbox_run t (take n (in_order c a evs)) = (acc', t')"
  shows "int n \<le> watermark t' c a"
  using assms(7,8)
proof (induction n arbitrary: acc' t')
  case 0
  then show ?case using assms(4) by (simp add: inbox_inv_def)
next
  case (Suc n)
  let ?d = "in_order c a evs ! n"
  have len: "length (in_order c a evs) = length evs" by (simp add: in_order_def)
  have d: "dl_consumer ?d = c" "dl_aggregate_id ?d = a" "dl_event_id ?d = fst (evs ! n)" "dl_commits ?d"
    "uint (dl_sequence ?d) = int n + 1"
    using Suc.prems(1) assms(3) uint_small [of "n + 1"] by (simp_all add: in_order_def I64_MAX_def)
  obtain acc1 t1 where r1: "inbox_run t (take n (in_order c a evs)) = (acc1, t1)"
    by (cases "inbox_run t (take n (in_order c a evs))")
  have sp: "take (Suc n) (in_order c a evs) = take n (in_order c a evs) @ [?d]"
    using Suc.prems(1) len by (simp add: take_Suc_conv_app_nth)
  obtain ok where dv: "inbox_deliver t1 ?d = (ok, t')"
    using Suc.prems(2) unfolding sp inbox_run_append r1 by (auto simp: Let_def split: prod.splits)
  have i1: "inbox_inv (acc @ acc1) t1" by (rule inbox_run_inv [OF assms(4) r1])
  have ih: "int n \<le> watermark t1 c a" using Suc r1 by simp
  show ?case
  proof (cases "int n < watermark t1 c a")
    case True
    then show ?thesis using watermark_deliver_mono [OF i1 dv, of c a] by simp
  next
    case False
    with ih have w: "watermark t1 c a = int n" by simp
    have new: "\<forall>e \<in> set (acc @ acc1). dl_consumer e = dl_consumer ?d \<longrightarrow> dl_event_id e \<noteq> dl_event_id ?d"
    proof (intro ballI impI notI)
      fix e assume e: "e \<in> set (acc @ acc1)" "dl_consumer e = dl_consumer ?d" "dl_event_id e = dl_event_id ?d"
      have "set acc1 \<subseteq> set (in_order c a evs)"
        using deliver_accepted_subset [OF r1] set_take_subset by fast
      with e(1) assms(5) have "e \<in> set ds \<or> e \<in> set (in_order c a evs)" by auto
      then have "dl_aggregate_id e = a \<and> uint (dl_sequence e) = int n + 1"
        using honestD [OF assms(2), of e n] honestD [OF assms(6), of e n] e d Suc.prems(1) by auto
      then show False using inbox_seq_mem [OF i1, of c a "int n + 1"] e d(1) w by force
    qed
    have "uint (dl_sequence ?d) \<le> I64_MAX" using d(5) Suc.prems(1) assms(3) by simp
    with deliver_next [OF i1 new] d w assms(1) obtain t2 where
      "inbox_deliver t1 ?d = (True, t2)" "watermark t2 c a = watermark t1 c a + 1" by auto
    then show ?thesis using dv w by simp
  qed
qed

lemma accepted_ofD: "d \<in> set (accepted_of c a ds) \<Longrightarrow> dl_consumer d = c \<and> dl_aggregate_id d = a \<and> d \<in> set ds"
  by (simp add: accepted_of_def)

lemma in_order_honest:
  assumes "distinct (map fst evs)" "int (length evs) \<le> I64_MAX"
  shows "honest c a evs (in_order c a evs)"
proof -
  have "fst (evs ! j) = fst (evs ! i) \<longleftrightarrow> j = i" if "i < length evs" "j < length evs" for i j
    using assms(1) that nth_eq_iff_index_eq [of "map fst evs" j i] by simp
  moreover have "uint (of_nat (j + 1) :: u64) = int j + 1" if "j < length evs" for j
    using uint_small [of "j + 1"] assms(2) that by (simp add: I64_MAX_def)
  ultimately show ?thesis by (auto simp: honest_def list_all_iff in_order_def)
qed


definition demo_events :: "(uuid \<times> sha256) list" where
  "demo_events = [(11, [1]), (12, [2]), (13, [3])]"

definition demo_deliveries :: "delivery list" where
  "demo_deliveries = map (\<lambda>(i, s, h, k). \<lparr> dl_consumer = ''env'', dl_event_id = i, dl_aggregate_id = 7,
     dl_sequence = s, dl_payload_hash = h, dl_commits = k \<rparr>)
     [(12, 2, [2], True), (11, 1, [1], False), (11, 1, [1], True), (13, 3, [3], True), (11, 1, [1], True)]"

end
