(* ===== verification/Authoring.thy ===== *)
theory Authoring
  imports Env_Contract
begin

text \<open>
  Authoring and supply chain documents: \<^verbatim>\<open>crates/contracts/src/authoring.rs\<close>
  (problem packages, LLM egress policies, environment specifications, dual track
  agent runs, candidates and approvals), \<^verbatim>\<open>supply_chain.rs\<close> (build requests,
  runtime artifacts, template releases) and the retention types of
  \<^verbatim>\<open>foundation.rs\<close>.  Every validator is the source's chain of checks with its
  error.

  The lemmas characterise the loops by closed conditions: an accepted package
  is a strictly sorted list of confined paths, an accepted environment
  specification has uniquely named entries, and the state a run declares is
  determined by its tracks.
\<close>

section \<open>Retention and errors\<close>

datatype retention_class = CourseMaterial | BuildEvidence | RunEvidence | StudentSubmission | SecurityAudit

datatype retention_disposition = RetentionDelete | PurgeAfterExport | RetainSanitizedReceipt

record retention_snapshot =
  rs_policy_id :: uuid
  rs_policy_revision :: revision
  rs_class :: retention_class
  rs_retain_until :: timestamp
  rs_disposition :: retention_disposition

datatype authoring_error =
    InvalidPackage string
  | PackageHashMismatch
  | RuntimeBindingRequired
  | ModelRequired
  | RuntimeIdentityInvalid
  | InvalidBudget
  | HardDenyClassesModified
  | InvalidArtifactReference
  | InvalidEnvironmentSpec string
  | InvalidAgentRun string

fun authoring_diagnostic_code :: "authoring_error \<Rightarrow> string" where
  "authoring_diagnostic_code RuntimeBindingRequired = ''LW_INVALID_REQUEST''"
| "authoring_diagnostic_code ModelRequired = ''LW_INVALID_REQUEST''"
| "authoring_diagnostic_code RuntimeIdentityInvalid = ''LW_INVALID_REQUEST''"
| "authoring_diagnostic_code (InvalidEnvironmentSpec _) = ''LW_INVALID_REQUEST''"
| "authoring_diagnostic_code InvalidBudget = ''LW_ACCESS_DENIED''"
| "authoring_diagnostic_code HardDenyClassesModified = ''LW_ACCESS_DENIED''"
| "authoring_diagnostic_code PackageHashMismatch = ''LW_HASH_MISMATCH''"
| "authoring_diagnostic_code (InvalidPackage _) = ''LW_CONTRACT_DOCUMENT_INVALID''"
| "authoring_diagnostic_code InvalidArtifactReference = ''LW_CONTRACT_DOCUMENT_INVALID''"
| "authoring_diagnostic_code (InvalidAgentRun _) = ''LW_CONTRACT_DOCUMENT_INVALID''"

definition validate_artifact_ref :: "artifact_ref \<Rightarrow> authoring_error + unit" where
  "validate_artifact_ref reference =
     (if is_blank (ar_store_binding reference) \<or> is_blank (ar_object_version reference)
         \<or> is_blank (ar_media_type reference) \<or> ar_size_bytes reference = 0
      then Inl InvalidArtifactReference else Inr ())"

section \<open>Problem packages\<close>

record package_file =
  pf_path :: string
  pf_object :: artifact_ref

record problem_package =
  pp_id :: uuid
  pp_course_id :: uuid
  pp_revision :: revision
  pp_files :: "package_file list"
  pp_retention :: retention_snapshot
  pp_completed_at :: timestamp

fun foundation_error_display :: "foundation_error \<Rightarrow> string" where
  "foundation_error_display ZeroRevision = ''revision must be non-zero''"
| "foundation_error_display InvalidStreamSequence = ''stream sequence must be a canonical unsigned decimal string''"
| "foundation_error_display InvalidTimestamp = ''timestamp must be UTC RFC3339 with millisecond precision''"
| "foundation_error_display (UnsafePath p) = ''unsafe normalized relative path: '' @ p"
| "foundation_error_display (InvalidJson e) = ''invalid strict JSON document: '' @ e"

fun package_loop :: "string list \<Rightarrow> string option \<Rightarrow> package_file list \<Rightarrow> authoring_error + unit" where
  "package_loop paths previous [] = Inr ()"
| "package_loop paths previous (f # fs) =
     res_then (map_err (\<lambda>e. InvalidPackage (foundation_error_display e)) (validate_relative_path (pf_path f))) (\<lambda>_.
     if pf_path f \<in> set paths then Inl (InvalidPackage (''duplicate package path: '' @ pf_path f))
     else if (case previous of None \<Rightarrow> False | Some p \<Rightarrow> \<not> str_less p (pf_path f))
     then Inl (InvalidPackage ''package files must be lexicographically sorted'')
     else res_then (validate_artifact_ref (pf_object f)) (\<lambda>_.
          package_loop (pf_path f # paths) (Some (pf_path f)) fs))"

definition problem_package_validate :: "problem_package \<Rightarrow> authoring_error + unit" where
  "problem_package_validate p =
     (if pp_files p = [] then Inl (InvalidPackage ''files must not be empty'')
      else package_loop [] None (pp_files p))"

section \<open>LLM egress policy\<close>

record claude_code_binding =
  cb_runtime_binding :: string
  cb_model :: string
  cb_claude_code_version :: string
  cb_max_in_flight_per_worker :: u16

record llm_budget =
  lb_max_input_tokens :: u64
  lb_max_output_tokens :: u64
  lb_max_requests :: u32
  lb_max_cost_microusd :: u64
  lb_timeout_milliseconds :: u64
  lb_max_transient_retries :: u8
  lb_max_schema_repairs :: u8

datatype denied_data_class =
    DeniedSecret
  | DeniedToken
  | DeniedPrivateKey
  | PersonallyIdentifiableInformation
  | UnallowlistedStudentSubmission

datatype student_content_mode = ManifestAllowlistOnly

record course_llm_egress_policy =
  lp_id :: uuid
  lp_course_id :: uuid
  lp_revision :: revision
  lp_binding :: claude_code_binding
  lp_budget :: llm_budget
  lp_denied_data_classes :: "denied_data_class list"
  lp_student_content_mode :: student_content_mode
  lp_activated_at :: timestamp

definition valid_runtime_identity :: "string \<Rightarrow> nat \<Rightarrow> bool" where
  "valid_runtime_identity val max_len \<longleftrightarrow>
     val \<noteq> [] \<and> length val \<le> max_len \<and> is_trimmed val
     \<and> \<not> list_ex is_ascii_control val \<and> \<not> list_ex is_ascii_whitespace val"

definition valid_version_part :: "string \<Rightarrow> bool" where
  "valid_version_part part \<longleftrightarrow>
     part \<noteq> [] \<and> list_all is_ascii_digit part \<and> (part = ''0'' \<or> \<not> prefix ''0'' part)"

definition valid_claude_code_version :: "string \<Rightarrow> bool" where
  "valid_claude_code_version val \<longleftrightarrow>
     (case split_on CHR ''.'' val of
        [major, minor, patch] \<Rightarrow> valid_version_part major \<and> valid_version_part minor \<and> valid_version_part patch
      | _ \<Rightarrow> False)"

definition required_denied_classes :: "denied_data_class set" where
  "required_denied_classes =
     {DeniedSecret, DeniedToken, DeniedPrivateKey, PersonallyIdentifiableInformation, UnallowlistedStudentSubmission}"

definition llm_policy_validate :: "course_llm_egress_policy \<Rightarrow> authoring_error + unit" where
  "llm_policy_validate p =
     (let b = lp_binding p; g = lp_budget p in
      if \<not> valid_runtime_identity (cb_runtime_binding b) 256 \<or> contains_str ''://'' (cb_runtime_binding b)
      then Inl RuntimeBindingRequired
      else if \<not> valid_runtime_identity (cb_model b) 256
         \<or> to_ascii_lowercase (cb_model b) \<in> {''default'', ''sonnet'', ''opus'', ''haiku'', ''opusplan''}
      then Inl ModelRequired
      else if \<not> valid_claude_code_version (cb_claude_code_version b) then Inl RuntimeIdentityInvalid
      else if \<not> (1 \<le> cb_max_in_flight_per_worker b \<and> cb_max_in_flight_per_worker b \<le> 64)
      then Inl RuntimeIdentityInvalid
      else if lb_max_input_tokens g = 0 \<or> lb_max_output_tokens g = 0 \<or> lb_max_requests g = 0
         \<or> lb_max_cost_microusd g = 0 \<or> lb_timeout_milliseconds g = 0
         \<or> lb_max_transient_retries g > 2 \<or> lb_max_schema_repairs g > 2
      then Inl InvalidBudget
      else if set (lp_denied_data_classes p) \<noteq> required_denied_classes
      then Inl HardDenyClassesModified
      else Inr ())"

section \<open>Supply chain\<close>

datatype supply_chain_error = IncompleteBuildRequest | IncompleteArtifact | DigestMismatch | ApprovalMismatch

definition validate_oci_digest :: "string \<Rightarrow> supply_chain_error + unit" where
  "validate_oci_digest val =
     (case strip_prefix ''sha256:'' val of
        None \<Rightarrow> Inl DigestMismatch
      | Some digest \<Rightarrow>
          if length digest \<noteq> 64 \<or> \<not> list_all is_ascii_hexdigit digest \<or> list_ex is_ascii_uppercase digest
          then Inl DigestMismatch else Inr ())"

definition rsplit_once :: "char \<Rightarrow> string \<Rightarrow> (string \<times> string) option" where
  "rsplit_once d s = (if d \<in> set s
     then Some (rev (tl (dropWhile (\<lambda>c. c \<noteq> d) (rev s))), rev (takeWhile (\<lambda>c. c \<noteq> d) (rev s)))
     else None)"

record vm_base_disk =
  bd_binding :: string
  bd_source_registry_digest :: string
  bd_capacity_bytes :: u64

definition vm_base_disk_validate :: "vm_base_disk \<Rightarrow> supply_chain_error + unit" where
  "vm_base_disk_validate d =
     (case strip_prefix ''docker://'' (bd_source_registry_digest d) of
        None \<Rightarrow> Inl IncompleteArtifact
      | Some source \<Rightarrow>
          (case rsplit_once CHR ''@'' source of
             None \<Rightarrow> Inl DigestMismatch
           | Some (repository, digest) \<Rightarrow>
               if is_blank (bd_binding d) \<or> list_ex is_ascii_whitespace (bd_binding d)
                  \<or> is_blank repository \<or> contains_ws repository \<or> bd_capacity_bytes d = 0
               then Inl IncompleteArtifact
               else validate_oci_digest digest))"

datatype vm_disk_format = Qcow2 | RawDisk

datatype image_artifact =
    ContainerArtifact uuid uuid string string
  | VmArtifact uuid vm_base_disk vm_disk_format

fun image_artifact_runtime_kind :: "image_artifact \<Rightarrow> runtime_kind" where
  "image_artifact_runtime_kind (ContainerArtifact _ _ _ _) = Container"
| "image_artifact_runtime_kind (VmArtifact _ _ _) = VirtualMachine"

fun image_artifact_id :: "image_artifact \<Rightarrow> uuid" where
  "image_artifact_id (ContainerArtifact i _ _ _) = i"
| "image_artifact_id (VmArtifact i _ _) = i"

fun image_artifact_validate :: "image_artifact \<Rightarrow> supply_chain_error + unit" where
  "image_artifact_validate (ContainerArtifact _ _ repository digest) =
     (if is_blank repository \<or> prefix ''http://'' repository \<or> CHR ''@'' \<in> set repository \<or> contains_ws repository
      then Inl IncompleteArtifact else validate_oci_digest digest)"
| "image_artifact_validate (VmArtifact _ base_disk _) = vm_base_disk_validate base_disk"

datatype build_network_policy = BuildDenyAll | BuildRestricted "string list"

record build_request =
  br_id :: uuid
  br_course_id :: uuid
  br_candidate_id :: uuid
  br_candidate_revision :: revision
  br_approval_id :: uuid
  br_builder_binding :: string
  br_context :: artifact_ref
  br_context_object_key :: string
  br_dockerfile_path :: string
  br_base_image_digest :: string
  br_output_repository :: string
  br_network :: build_network_policy
  br_max_duration_milliseconds :: u64
  br_max_cpu_millicores :: u32
  br_max_memory_bytes :: u64
  br_created_at :: timestamp

definition build_request_validate :: "build_request \<Rightarrow> supply_chain_error + unit" where
  "build_request_validate r =
     (if is_blank (br_builder_binding r) \<or> is_blank (br_output_repository r)
         \<or> br_max_duration_milliseconds r = 0 \<or> br_max_cpu_millicores r = 0 \<or> br_max_memory_bytes r = 0
         \<or> ar_size_bytes (br_context r) = 0 \<or> \<not> is_ok (validate_relative_path (br_context_object_key r))
      then Inl IncompleteBuildRequest
      else res_then (map_err (\<lambda>_. IncompleteBuildRequest) (validate_relative_path (br_dockerfile_path r))) (\<lambda>_.
           res_then (validate_oci_digest (br_base_image_digest r)) (\<lambda>_.
           case br_network r of
             BuildRestricted registries \<Rightarrow>
               if registries = [] \<or> list_ex is_blank registries then Inl IncompleteBuildRequest else Inr ()
           | BuildDenyAll \<Rightarrow> Inr ())))"

datatype candidate_decision = DecisionApproved | DecisionRejected | DecisionWithdrawn

record candidate_approval =
  ca_id :: uuid
  ca_candidate_id :: uuid
  ca_candidate_revision :: revision
  ca_policy_revision :: revision
  ca_trust_revision :: revision
  ca_actor_id :: uuid
  ca_decision :: candidate_decision
  ca_reason :: string
  ca_decided_at :: timestamp

definition is_release_eligible :: "candidate_approval \<Rightarrow> revision \<Rightarrow> revision \<Rightarrow> revision \<Rightarrow> bool" where
  "is_release_eligible a candidate_revision active_policy_revision active_trust_revision \<longleftrightarrow>
     ca_decision a = DecisionApproved \<and> ca_candidate_revision a = candidate_revision
     \<and> ca_policy_revision a = active_policy_revision \<and> ca_trust_revision a = active_trust_revision"

record template_release =
  tr_id :: uuid
  tr_course_id :: uuid
  tr_version :: u64
  tr_candidate_id :: uuid
  tr_agent_run_id :: uuid
  tr_candidate_revision :: revision
  tr_runtime_kind :: runtime_kind
  tr_approval :: candidate_approval
  tr_artifact :: image_artifact
  tr_published_by :: uuid
  tr_published_at :: timestamp

definition template_release_validate :: "template_release \<Rightarrow> supply_chain_error + unit" where
  "template_release_validate r =
     (if tr_version r = 0 \<or> ca_decision (tr_approval r) \<noteq> DecisionApproved
         \<or> ca_candidate_id (tr_approval r) \<noteq> tr_candidate_id r
         \<or> ca_candidate_revision (tr_approval r) \<noteq> tr_candidate_revision r
         \<or> tr_runtime_kind r \<noteq> image_artifact_runtime_kind (tr_artifact r)
      then Inl ApprovalMismatch
      else res_then (image_artifact_validate (tr_artifact r)) (\<lambda>_. Inr ()))"

record release_withdrawal =
  rw_release_id :: uuid
  rw_release_version :: u64
  rw_actor_id :: uuid
  rw_reason_code :: string
  rw_withdrawn_at :: timestamp

section \<open>Environment specifications\<close>

record resource_requirements =
  rr_cpu_millicores :: u32
  rr_memory_bytes :: u64
  rr_storage_bytes :: u64

datatype network_policy_spec = NetAllowAll | NetDenyAll | NetRestricted string

record environment_entry_spec =
  en_name :: string
  en_protocol :: endpoint_protocol
  en_service_port :: u16

datatype runtime_user_policy = NonRootRequired
datatype root_filesystem_policy = ReadOnlyRequired | MutableRequired
datatype privilege_escalation_policy = EscalationDeny
datatype public_exposure_policy = ExposureDeny

record environment_security_spec =
  ss_user_policy :: runtime_user_policy
  ss_root_filesystem_policy :: root_filesystem_policy
  ss_privilege_escalation_policy :: privilege_escalation_policy
  ss_public_exposure_policy :: public_exposure_policy
  ss_security_profile_binding :: string

record terminal_spec =
  ts_executable :: string
  ts_args :: "string list"
  ts_working_directory :: string

definition normalized_absolute_posix_path :: "string \<Rightarrow> bool" where
  "normalized_absolute_posix_path path \<longleftrightarrow>
     prefix ''/'' path \<and> length path > 1 \<and> \<not> suffix ''/'' path \<and> \<not> contains_str ''//'' path
     \<and> \<not> list_ex (\<lambda>segment. segment \<in> {''.'', ''..''}) (split_on CHR ''/'' path)
     \<and> \<not> list_ex is_ascii_control path"

definition terminal_spec_validate :: "terminal_spec \<Rightarrow> authoring_error + unit" where
  "terminal_spec_validate t =
     (if \<not> normalized_absolute_posix_path (ts_executable t) \<or> length (ts_executable t) > 256
      then Inl (InvalidEnvironmentSpec ''terminal executable must be a normalized absolute POSIX path'')
      else if length (ts_args t) > 32
         \<or> list_ex (\<lambda>a. length a > 1024 \<or> list_ex is_ascii_control a) (ts_args t)
      then Inl (InvalidEnvironmentSpec ''terminal arguments exceed the bounded direct-exec contract'')
      else if ts_working_directory t \<noteq> ''/workspace''
      then Inl (InvalidEnvironmentSpec ''terminal workingDirectory must be /workspace'')
      else Inr ())"

datatype environment_runtime_spec =
    ContainerRuntime string artifact_ref string u16 "terminal_spec option"
  | VmRuntime string vm_base_disk string u16

fun environment_runtime_kind :: "environment_runtime_spec \<Rightarrow> runtime_kind" where
  "environment_runtime_kind (ContainerRuntime _ _ _ _ _) = Container"
| "environment_runtime_kind (VmRuntime _ _ _ _) = VirtualMachine"

record environment_spec =
  es_name :: string
  es_class :: environment_class
  es_resources :: resource_requirements
  es_network :: network_policy_spec
  es_entries :: "environment_entry_spec list"
  es_security :: environment_security_spec
  es_runtime :: environment_runtime_spec
  es_retention :: retention_snapshot

fun entries_loop :: "string list \<Rightarrow> environment_entry_spec list \<Rightarrow> authoring_error + unit" where
  "entries_loop names [] = Inr ()"
| "entries_loop names (e # entries) =
     (if is_blank (en_name e) \<or> en_service_port e = 0 \<or> en_name e \<in> set names
      then Inl (InvalidEnvironmentSpec ''entries require unique names and non-zero service ports'')
      else entries_loop (en_name e # names) entries)"

fun runtime_checks :: "environment_spec \<Rightarrow> environment_runtime_spec \<Rightarrow> authoring_error + unit" where
  "runtime_checks s (ContainerRuntime provider_binding build_context base_image_digest service_port terminal) =
     (if is_blank provider_binding \<or> is_blank base_image_digest \<or> service_port = 0
         \<or> ss_root_filesystem_policy (es_security s) \<noteq> ReadOnlyRequired
         \<or> \<not> list_ex (\<lambda>e. en_service_port e = service_port) (es_entries s)
      then Inl (InvalidEnvironmentSpec ''container binding, base digest, and port are required'')
      else res_then (validate_artifact_ref build_context) (\<lambda>_.
           case terminal of None \<Rightarrow> Inr () | Some t \<Rightarrow> terminal_spec_validate t))"
| "runtime_checks s (VmRuntime provider_binding base_disk storage_class_binding ssh_port) =
     (if es_network s = NetAllowAll
      then Inl (InvalidEnvironmentSpec ''allow_all network policy is supported only by container runtimes'')
      else if is_blank provider_binding \<or> is_blank storage_class_binding \<or> ssh_port \<noteq> 22
         \<or> \<not> list_ex (\<lambda>e. en_protocol e = Ssh \<and> en_service_port e = ssh_port) (es_entries s)
      then Inl (InvalidEnvironmentSpec ''VM requires provider/storage binding and SSH port 22'')
      else map_err (\<lambda>_. InvalidEnvironmentSpec ''VM base disk binding must be immutable and complete'')
             (vm_base_disk_validate base_disk))"

definition environment_spec_validate :: "environment_spec \<Rightarrow> authoring_error + unit" where
  "environment_spec_validate s =
     (if is_blank (es_name s) then Inl (InvalidEnvironmentSpec ''name is required'')
      else if rr_cpu_millicores (es_resources s) = 0 \<or> rr_memory_bytes (es_resources s) = 0
         \<or> rr_storage_bytes (es_resources s) = 0
      then Inl (InvalidEnvironmentSpec ''resource requirements must be non-zero'')
      else if es_entries s = [] \<or> is_blank (ss_security_profile_binding (es_security s))
      then Inl (InvalidEnvironmentSpec ''entries and fail-closed security posture are required'')
      else res_then (entries_loop [] (es_entries s)) (\<lambda>_.
           case es_network s of
             NetRestricted policy_binding \<Rightarrow>
               if is_blank policy_binding
               then Inl (InvalidEnvironmentSpec ''restricted network policy requires an explicit binding'')
               else runtime_checks s (es_runtime s)
           | _ \<Rightarrow> runtime_checks s (es_runtime s)))"

record environment_candidate =
  ec_id :: uuid
  ec_run_id :: uuid
  ec_revision :: revision
  ec_spec :: environment_spec
  ec_policy_revision :: revision
  ec_model :: string
  ec_created_at :: timestamp

definition environment_candidate_validate :: "environment_candidate \<Rightarrow> authoring_error + unit" where
  "environment_candidate_validate c =
     res_then (environment_spec_validate (ec_spec c)) (\<lambda>_.
     if is_blank (ec_model c) then Inl (InvalidEnvironmentSpec ''candidate model is invalid'') else Inr ())"

record 'spec evaluation_candidate =
  vc_id :: uuid
  vc_run_id :: uuid
  vc_revision :: revision
  vc_spec :: 'spec
  vc_policy_revision :: revision
  vc_model :: string
  vc_created_at :: timestamp

definition evaluation_candidate_validate :: "'spec evaluation_candidate \<Rightarrow> authoring_error + unit" where
  "evaluation_candidate_validate c =
     (if is_blank (vc_model c) then Inl (InvalidAgentRun ''candidate model is invalid'') else Inr ())"

section \<open>Dual track agent runs\<close>

datatype agent_track_kind = EnvironmentTrack | EvaluationTrack

datatype agent_attempt_state =
    AttemptPending | AttemptRunning | AttemptRepairing | AttemptSucceeded | AttemptFailed | AttemptCancelled

record llm_usage =
  lu_input_tokens :: u64
  lu_output_tokens :: u64
  lu_requests :: u32
  lu_cost_microusd :: u64

record agent_attempt =
  at_number :: u32
  at_state :: agent_attempt_state
  at_checkpoint :: "artifact_ref option"
  at_usage :: llm_usage
  at_usage_observed :: bool
  at_diagnostic_code :: "string option"

record agent_track =
  ak_kind :: agent_track_kind
  ak_attempts :: "agent_attempt list"
  ak_candidate_id :: "uuid option"

datatype agent_run_state =
    RunRequested | RunRunning | RunPartiallySucceeded | RunSucceeded | RunFailed | RunCancelling | RunCancelled

record dual_agent_run =
  da_id :: uuid
  da_course_id :: uuid
  da_package_id :: uuid
  da_policy_id :: uuid
  da_policy_revision :: revision
  da_requested_runtime :: runtime_kind
  da_state :: agent_run_state
  da_revision :: revision
  da_tracks :: "agent_track list"

definition latest_state :: "agent_track \<Rightarrow> agent_attempt_state option" where
  "latest_state t = (if ak_attempts t = [] then None else Some (at_state (last (ak_attempts t))))"

definition attempt_terminal :: "agent_attempt_state option \<Rightarrow> bool" where
  "attempt_terminal st \<longleftrightarrow> st \<in> {Some AttemptSucceeded, Some AttemptFailed, Some AttemptCancelled}"

definition derived_state :: "dual_agent_run \<Rightarrow> authoring_error + agent_run_state" where
  "derived_state r =
     (let latest = map latest_state (da_tracks r);
          succeeded = length (filter (\<lambda>st. st = Some AttemptSucceeded) latest);
          terminal = length (filter attempt_terminal latest) in
      if list_all (\<lambda>st. st = None) latest then Inr RunRequested
      else if succeeded = 2 then Inr RunSucceeded
      else if terminal = 2 \<and> succeeded = 1 then Inr RunPartiallySucceeded
      else if terminal = 2 \<and> list_all (\<lambda>st. st = Some AttemptCancelled) latest then Inr RunCancelled
      else if terminal = 2 then Inr RunFailed
      else Inr RunRunning)"

definition attempt_check :: "nat \<Rightarrow> agent_attempt \<Rightarrow> authoring_error + unit" where
  "attempt_check idx a =
     (if int (idx + 1) \<ge> 2 ^ 32 then Inl (InvalidAgentRun ''attempt count exceeds u32'')
      else if uint (at_number a) \<noteq> int (idx + 1)
      then Inl (InvalidAgentRun ''attempt numbers must be contiguous and one-based'')
      else if at_state a = AttemptSucceeded \<and> \<not> at_usage_observed a
      then Inl (InvalidAgentRun ''successful attempt requires observed usage'')
      else if at_state a \<in> {AttemptPending, AttemptRunning, AttemptRepairing} \<and> at_usage_observed a
      then Inl (InvalidAgentRun ''non-terminal attempt cannot claim observed usage'')
      else if at_state a \<in> {AttemptFailed, AttemptCancelled} \<and> at_diagnostic_code a \<in> {None, Some []}
      then Inl (InvalidAgentRun ''failed or cancelled attempt requires a diagnostic'')
      else Inr ())"

definition track_check :: "agent_track \<Rightarrow> authoring_error + unit" where
  "track_check t =
     res_then (res_all (\<lambda>(idx, a). attempt_check idx a) (enumerate 0 (ak_attempts t))) (\<lambda>_.
     if ak_candidate_id t \<noteq> None \<and> latest_state t \<noteq> Some AttemptSucceeded
     then Inl (InvalidAgentRun ''candidate identity requires a successful latest attempt'')
     else Inr ())"

definition dual_agent_run_validate :: "dual_agent_run \<Rightarrow> authoring_error + unit" where
  "dual_agent_run_validate r =
     (if set (map ak_kind (da_tracks r)) \<noteq> {EnvironmentTrack, EvaluationTrack} \<or> length (da_tracks r) \<noteq> 2
      then Inl (InvalidAgentRun ''exactly one environment and one evaluation track are required'')
      else res_then (res_all track_check (da_tracks r)) (\<lambda>_.
           res_then (derived_state r) (\<lambda>derived.
           if da_state r = RunCancelling \<and> derived \<noteq> RunRunning \<or> da_state r \<noteq> RunCancelling \<and> da_state r \<noteq> derived
           then Inl (InvalidAgentRun ''declared run state does not match retained track attempts'')
           else Inr ())))"

section \<open>Accepted packages\<close>

lemma package_loop_iff:
  assumes "\<And>q. q \<in> set paths \<Longrightarrow> (\<exists>p. previous = Some p \<and> (q = p \<or> str_less q p))"
  shows "package_loop paths previous fs = Inr () \<longleftrightarrow>
    (\<forall>f \<in> set fs. validate_relative_path (pf_path f) = Inr () \<and> validate_artifact_ref (pf_object f) = Inr ())
    \<and> sorted_wrt str_less (map pf_path fs)
    \<and> (\<forall>p f. previous = Some p \<longrightarrow> f \<in> set fs \<longrightarrow> str_less p (pf_path f))"
  using assms
proof (induction fs arbitrary: paths previous)
  case (Cons f fs)
  have new: "\<exists>p. Some (pf_path f) = Some p \<and> (q = p \<or> str_less q p)"
    if "previous = None \<or> (\<exists>p. previous = Some p \<and> str_less p (pf_path f))" "q \<in> set (pf_path f # paths)" for q
    using that Cons.prems [of q] str_less_trans by fastforce
  have fresh: "pf_path f \<notin> set paths" if "previous = None \<or> (\<exists>p. previous = Some p \<and> str_less p (pf_path f))"
    using that Cons.prems [of "pf_path f"] str_less_trans str_less_irrefl by fastforce
  show ?case
  proof (cases "previous = None \<or> (\<exists>p. previous = Some p \<and> str_less p (pf_path f))")
    case True
    have split: "package_loop paths previous (f # fs) = Inr () \<longleftrightarrow>
        validate_relative_path (pf_path f) = Inr () \<and> validate_artifact_ref (pf_object f) = Inr ()
        \<and> package_loop (pf_path f # paths) (Some (pf_path f)) fs = Inr ()"
      using True fresh [OF True] by (auto simp: res_simps split: option.splits)
    have below: "str_less p (pf_path g)" if "previous = Some p" "str_less (pf_path f) (pf_path g)" for p g
      using True that str_less_trans by auto
    note ih = Cons.IH [of "pf_path f # paths" "Some (pf_path f)", OF new [OF True]]
    show ?thesis unfolding split using True below ih by auto
  next
    case False
    then obtain p where "previous = Some p" "\<not> str_less p (pf_path f)" by auto
    then show ?thesis by (auto simp: res_simps)
  qed
qed simp

text \<open>C19: a problem package is accepted exactly when it has files, its paths are safe and
  strictly increasing, and every object reference is complete; the duplicate
  check of the source never fires on its own.\<close>

theorem problem_package_validate_iff:
  "problem_package_validate p = Inr () \<longleftrightarrow>
     pp_files p \<noteq> [] \<and> sorted_wrt str_less (map pf_path (pp_files p))
     \<and> (\<forall>f \<in> set (pp_files p). validate_relative_path (pf_path f) = Inr ()
          \<and> validate_artifact_ref (pf_object f) = Inr ())"
  using package_loop_iff [of "[]" None "pp_files p"] by (auto simp: problem_package_validate_def)

definition demo_package :: problem_package where
  "demo_package = \<lparr> pp_id = 1, pp_course_id = 2, pp_revision = 1,
     pp_files = map (\<lambda>n. \<lparr> pf_path = n, pf_object = \<lparr> ar_artifact_id = 3, ar_store_binding = ''s'',
       ar_object_version = ''v'', ar_size_bytes = 9, ar_media_type = ''text/plain'' \<rparr> \<rparr>) [''a/b.c'', ''a/d.c''],
     pp_retention = \<lparr> rs_policy_id = 4, rs_policy_revision = 1, rs_class = CourseMaterial, rs_retain_until = 0,
       rs_disposition = RetentionDelete \<rparr>, pp_completed_at = 0 \<rparr>"

theorem problem_package_validate_iff_witness:
  "problem_package_validate demo_package = Inr () \<and> sorted_wrt str_less (map pf_path (pp_files demo_package))"
proof -
  have "problem_package_validate demo_package = Inr ()" by code_simp
  then show ?thesis using problem_package_validate_iff [of demo_package] by blast
qed

section \<open>Run states\<close>

lemma two_tracks:
  assumes "dual_agent_run_validate r = Inr ()"
  obtains t u where "da_tracks r = [t, u]" "ak_kind t \<noteq> ak_kind u" "track_check t = Inr ()" "track_check u = Inr ()"
    "\<exists>d. derived_state r = Inr d \<and> (da_state r = RunCancelling \<longrightarrow> d = RunRunning)
         \<and> (da_state r \<noteq> RunCancelling \<longrightarrow> da_state r = d)"
proof -
  have len: "length (da_tracks r) = 2" "set (map ak_kind (da_tracks r)) = {EnvironmentTrack, EvaluationTrack}"
    and chk: "\<forall>t \<in> set (da_tracks r). track_check t = Inr ()"
    and d: "\<exists>d. derived_state r = Inr d \<and> (da_state r = RunCancelling \<longrightarrow> d = RunRunning)
         \<and> (da_state r \<noteq> RunCancelling \<longrightarrow> da_state r = d)"
    using assms unfolding dual_agent_run_validate_def res_simps by auto
  from len(1) obtain t u where tu: "da_tracks r = [t, u]"
    by (auto simp: length_Suc_conv numeral_2_eq_2)
  then have "ak_kind t \<noteq> ak_kind u" using len(2) by auto
  then show ?thesis using that tu chk d by simp
qed

lemma derived_two:
  assumes "da_tracks r = [t, u]"
  shows "derived_state r = Inr (
    if latest_state t = None \<and> latest_state u = None then RunRequested
    else if latest_state t = Some AttemptSucceeded \<and> latest_state u = Some AttemptSucceeded then RunSucceeded
    else if \<not> (attempt_terminal (latest_state t) \<and> attempt_terminal (latest_state u)) then RunRunning
    else if latest_state t = Some AttemptSucceeded \<or> latest_state u = Some AttemptSucceeded then RunPartiallySucceeded
    else if latest_state t = Some AttemptCancelled \<and> latest_state u = Some AttemptCancelled then RunCancelled
    else RunFailed)"
  by (auto simp: derived_state_def assms Let_def attempt_terminal_def)

lemma candidate_needs_success:
  "track_check t = Inr () \<Longrightarrow> ak_candidate_id t \<noteq> None \<Longrightarrow> latest_state t = Some AttemptSucceeded"
  by (auto simp: track_check_def res_simps)

text \<open>C20: the state a valid run declares is its tracks' state.  It is succeeded exactly
  when the latest attempt of every track succeeded, final only when every track's
  latest attempt is, and a track names a candidate only if its latest attempt
  succeeded.\<close>

theorem dual_agent_run_state:
  assumes "dual_agent_run_validate r = Inr ()"
  shows "(da_state r = RunSucceeded \<longleftrightarrow> list_all (\<lambda>t. latest_state t = Some AttemptSucceeded) (da_tracks r))
    \<and> (da_state r \<in> {RunSucceeded, RunPartiallySucceeded, RunFailed, RunCancelled}
        \<longleftrightarrow> list_all (\<lambda>t. attempt_terminal (latest_state t)) (da_tracks r))
    \<and> (da_state r = RunRequested \<longleftrightarrow> list_all (\<lambda>t. ak_attempts t = []) (da_tracks r))
    \<and> list_all (\<lambda>t. ak_candidate_id t \<noteq> None \<longrightarrow> latest_state t = Some AttemptSucceeded) (da_tracks r)"
  using assms
proof (rule two_tracks)
  fix t u
  assume tu: "da_tracks r = [t, u]" "track_check t = Inr ()" "track_check u = Inr ()"
    and "\<exists>d. derived_state r = Inr d \<and> (da_state r = RunCancelling \<longrightarrow> d = RunRunning)
         \<and> (da_state r \<noteq> RunCancelling \<longrightarrow> da_state r = d)"
  then have d: "da_state r = RunCancelling \<and> derived_state r = Inr RunRunning
      \<or> da_state r \<noteq> RunCancelling \<and> derived_state r = Inr (da_state r)" by auto
  have none: "latest_state x = None \<longleftrightarrow> ak_attempts x = []" for x by (simp add: latest_state_def)
  show ?thesis
    using d candidate_needs_success [OF tu(2)] candidate_needs_success [OF tu(3)]
    unfolding derived_two [OF tu(1)] tu(1) none [symmetric]
    by (auto simp: attempt_terminal_def split: if_splits)
qed

definition demo_attempt :: "agent_attempt" where
  "demo_attempt = \<lparr> at_number = 1, at_state = AttemptSucceeded, at_checkpoint = None,
     at_usage = \<lparr> lu_input_tokens = 5, lu_output_tokens = 6, lu_requests = 1, lu_cost_microusd = 7 \<rparr>,
     at_usage_observed = True, at_diagnostic_code = None \<rparr>"

definition demo_run :: dual_agent_run where
  "demo_run = \<lparr> da_id = 1, da_course_id = 2, da_package_id = 3, da_policy_id = 4, da_policy_revision = 1,
     da_requested_runtime = Container, da_state = RunPartiallySucceeded, da_revision = 3,
     da_tracks = [
       \<lparr> ak_kind = EnvironmentTrack, ak_attempts = [demo_attempt], ak_candidate_id = Some 9 \<rparr>,
       \<lparr> ak_kind = EvaluationTrack, ak_attempts = [demo_attempt \<lparr> at_state := AttemptFailed,
           at_diagnostic_code := Some ''LW_X'' \<rparr>], ak_candidate_id = None \<rparr>] \<rparr>"

theorem dual_agent_run_state_witness:
  "dual_agent_run_validate demo_run = Inr ()
   \<and> list_all (\<lambda>t. attempt_terminal (latest_state t)) (da_tracks demo_run)"
proof -
  have v: "dual_agent_run_validate demo_run = Inr ()" by code_simp
  have "da_state demo_run = RunPartiallySucceeded" by code_simp
  then show ?thesis using dual_agent_run_state [OF v] v by simp
qed

end
