(* ===== verification/Events.thy ===== *)
theory Events
  imports Authoring
begin

text \<open>
  The event contracts of \<^verbatim>\<open>crates/contracts/src/events.rs\<close>: the registered NATS
  subjects, the CloudEvents envelope and its validator, the payloads that carry
  checks of their own, and the delivery order check.

  The lemmas show that the registry is consistent: a subject determines its
  contract, and an envelope that passes validation can only have been issued by
  the service that owns its subject.
\<close>

section \<open>Subjects\<close>

abbreviation AGENT_RUN_REQUESTED :: string where
  "AGENT_RUN_REQUESTED \<equiv> ''labweaver.agent.run.requested.v1''"

abbreviation AGENT_RUN_COMPLETED :: string where
  "AGENT_RUN_COMPLETED \<equiv> ''labweaver.agent.run.completed.v1''"

abbreviation AGENT_RUN_FAILED :: string where
  "AGENT_RUN_FAILED \<equiv> ''labweaver.agent.run.failed.v1''"

abbreviation AGENT_BUILD_REQUESTED :: string where
  "AGENT_BUILD_REQUESTED \<equiv> ''labweaver.control.agent_build.requested.v1''"

abbreviation AGENT_BUILD_COMPLETED :: string where
  "AGENT_BUILD_COMPLETED \<equiv> ''labweaver.agent.build.completed.v1''"

abbreviation AGENT_BUILD_FAILED :: string where
  "AGENT_BUILD_FAILED \<equiv> ''labweaver.agent.build.failed.v1''"

abbreviation ENVIRONMENT_PROVISION_REQUESTED :: string where
  "ENVIRONMENT_PROVISION_REQUESTED \<equiv> ''labweaver.environment.instance.provision_requested.v1''"

abbreviation ENVIRONMENT_READY :: string where
  "ENVIRONMENT_READY \<equiv> ''labweaver.environment.instance.ready.v1''"

abbreviation ENVIRONMENT_FAILED :: string where
  "ENVIRONMENT_FAILED \<equiv> ''labweaver.environment.instance.failed.v1''"

abbreviation ENVIRONMENT_DELETE_REQUESTED :: string where
  "ENVIRONMENT_DELETE_REQUESTED \<equiv> ''labweaver.environment.instance.delete_requested.v1''"

abbreviation ENVIRONMENT_OPERATION_ACCEPTED :: string where
  "ENVIRONMENT_OPERATION_ACCEPTED \<equiv> ''labweaver.environment.instance.operation_accepted.v1''"

abbreviation ENVIRONMENT_STATE_CHANGED :: string where
  "ENVIRONMENT_STATE_CHANGED \<equiv> ''labweaver.environment.instance.state_changed.v1''"

abbreviation ENVIRONMENT_LIFECYCLE_REQUESTED :: string where
  "ENVIRONMENT_LIFECYCLE_REQUESTED \<equiv> ''labweaver.environment.instance.lifecycle_requested.v1''"

abbreviation ACCESS_GRANT_CREATED :: string where
  "ACCESS_GRANT_CREATED \<equiv> ''labweaver.access.grant.created.v1''"

abbreviation ACCESS_GRANT_ACTIVATED :: string where
  "ACCESS_GRANT_ACTIVATED \<equiv> ''labweaver.access.grant.activated.v1''"

abbreviation ACCESS_GRANT_DENIED :: string where
  "ACCESS_GRANT_DENIED \<equiv> ''labweaver.access.grant.denied.v1''"

abbreviation ACCESS_GRANT_EXPIRED :: string where
  "ACCESS_GRANT_EXPIRED \<equiv> ''labweaver.access.grant.expired.v1''"

abbreviation ACCESS_GRANT_REVOKED :: string where
  "ACCESS_GRANT_REVOKED \<equiv> ''labweaver.access.grant.revoked.v1''"

abbreviation ACCESS_SSH_KEY_REVOKED :: string where
  "ACCESS_SSH_KEY_REVOKED \<equiv> ''labweaver.access.ssh_key.revoked.v1''"

abbreviation ACCESS_SESSION_TERMINATION_REQUESTED :: string where
  "ACCESS_SESSION_TERMINATION_REQUESTED \<equiv> ''labweaver.access.session.termination_requested.v1''"

abbreviation ACCESS_SESSION_CLOSED :: string where
  "ACCESS_SESSION_CLOSED \<equiv> ''labweaver.access.session.closed.v1''"

abbreviation ACCESS_SESSION_TERMINATION_OVERDUE :: string where
  "ACCESS_SESSION_TERMINATION_OVERDUE \<equiv> ''labweaver.access.session.termination_overdue.v1''"

abbreviation ACCESS_CONSOLE_SESSION_STATE_CHANGED :: string where
  "ACCESS_CONSOLE_SESSION_STATE_CHANGED \<equiv> ''labweaver.access.console_session.state_changed.v1''"

abbreviation SUBMISSION_FREEZE_REQUESTED :: string where
  "SUBMISSION_FREEZE_REQUESTED \<equiv> ''labweaver.evaluation.submission.freeze_requested.v1''"

abbreviation SUBMISSION_FROZEN :: string where
  "SUBMISSION_FROZEN \<equiv> ''labweaver.evaluation.submission.frozen.v1''"

abbreviation EVALUATION_RELEASE_PUBLISHED :: string where
  "EVALUATION_RELEASE_PUBLISHED \<equiv> ''labweaver.evaluation.release.published.v1''"

abbreviation EVALUATION_RUN_REQUESTED :: string where
  "EVALUATION_RUN_REQUESTED \<equiv> ''labweaver.evaluation.run.requested.v1''"

abbreviation EVALUATION_RUN_STATE_CHANGED :: string where
  "EVALUATION_RUN_STATE_CHANGED \<equiv> ''labweaver.evaluation.run.state_changed.v1''"

abbreviation EVALUATION_STEP_RUN_STATE_CHANGED :: string where
  "EVALUATION_STEP_RUN_STATE_CHANGED \<equiv> ''labweaver.evaluation.step_run.state_changed.v1''"

abbreviation LAB_RELEASE_APPROVED :: string where
  "LAB_RELEASE_APPROVED \<equiv> ''labweaver.control.lab_release.approved.v1''"

abbreviation ENVIRONMENT_TEMPLATE_RELEASE_PUBLISHED :: string where
  "ENVIRONMENT_TEMPLATE_RELEASE_PUBLISHED \<equiv> ''labweaver.control.environment_template_release.published.v1''"

abbreviation ENVIRONMENT_TEMPLATE_RELEASE_WITHDRAWN :: string where
  "ENVIRONMENT_TEMPLATE_RELEASE_WITHDRAWN \<equiv> ''labweaver.control.environment_template_release.withdrawn.v1''"

abbreviation RESOURCE_REQUEST_SUBMITTED :: string where
  "RESOURCE_REQUEST_SUBMITTED \<equiv> ''labweaver.resource.request.submitted.v1''"

abbreviation RESOURCE_REQUEST_APPROVED :: string where
  "RESOURCE_REQUEST_APPROVED \<equiv> ''labweaver.resource.request.approved.v1''"

abbreviation RESOURCE_REQUEST_REJECTED :: string where
  "RESOURCE_REQUEST_REJECTED \<equiv> ''labweaver.resource.request.rejected.v1''"

abbreviation RESOURCE_REQUEST_CANCELLED :: string where
  "RESOURCE_REQUEST_CANCELLED \<equiv> ''labweaver.resource.request.cancelled.v1''"

abbreviation RESOURCE_REQUEST_STATE_CHANGED :: string where
  "RESOURCE_REQUEST_STATE_CHANGED \<equiv> ''labweaver.resource.request.state_changed.v1''"

abbreviation RESOURCE_LEASE_ACTIVATED :: string where
  "RESOURCE_LEASE_ACTIVATED \<equiv> ''labweaver.resource.lease.activated.v1''"

abbreviation RESOURCE_LEASE_RENEWED :: string where
  "RESOURCE_LEASE_RENEWED \<equiv> ''labweaver.resource.lease.renewed.v1''"

abbreviation RESOURCE_LEASE_REVOKED :: string where
  "RESOURCE_LEASE_REVOKED \<equiv> ''labweaver.resource.lease.revoked.v1''"

abbreviation RESOURCE_LEASE_EXPIRING :: string where
  "RESOURCE_LEASE_EXPIRING \<equiv> ''labweaver.resource.lease.expiring.v1''"

abbreviation RESOURCE_LEASE_EXPIRED :: string where
  "RESOURCE_LEASE_EXPIRED \<equiv> ''labweaver.resource.lease.expired.v1''"

section \<open>Envelope and registry\<close>

datatype event_error =
    EnvelopeMismatch
  | RegistryConflict
  | ProtectedPayload
  | PayloadIdentityMismatch
  | DuplicateOrStale
  | SequenceGap
  | EventSerialization string

definition SPEC_VERSION :: string where
  "SPEC_VERSION = ''1.0''"

definition DATA_SCHEMA_BASE :: string where
  "DATA_SCHEMA_BASE = ''https://schemas.labweaver.io/contracts/v1/events''"

record 'd cloud_event =
  ce_specversion :: string
  ce_id :: uuid
  ce_source :: string
  ce_event_type :: string
  ce_subject :: string
  ce_time :: timestamp
  ce_datacontenttype :: string
  ce_dataschema :: string
  ce_course_id :: uuid
  ce_aggregate_revision :: revision
  ce_aggregate_sequence :: u64
  ce_trace_id :: string
  ce_data :: 'd

record event_contract =
  ev_subject :: string
  ev_event_type :: string
  ev_schema_name :: string

definition data_schema :: "event_contract \<Rightarrow> string" where
  "data_schema c = DATA_SCHEMA_BASE @ ''/'' @ ev_schema_name c @ ''.schema.json''"

definition event_source :: "event_contract \<Rightarrow> string" where
  "event_source c =
     (if prefix ''labweaver.agent.'' (ev_subject c) then ''urn:labweaver:agent-service''
      else if prefix ''labweaver.environment.'' (ev_subject c) then ''urn:labweaver:environment-service''
      else if prefix ''labweaver.access.'' (ev_subject c) then ''urn:labweaver:access-service''
      else if prefix ''labweaver.evaluation.'' (ev_subject c) then ''urn:labweaver:evaluation-service''
      else if prefix ''labweaver.resource.'' (ev_subject c) then ''urn:labweaver:resource-service''
      else ''urn:labweaver:control-service'')"

definition event_contract_of :: "string \<Rightarrow> string \<Rightarrow> event_contract" where
  "event_contract_of subject schema_name =
     \<lparr> ev_subject = subject, ev_event_type = subject, ev_schema_name = schema_name \<rparr>"

definition EVENT_CONTRACTS :: "event_contract list" where
  "EVENT_CONTRACTS = [event_contract_of RESOURCE_REQUEST_SUBMITTED ''resource-request-submitted'',
     event_contract_of RESOURCE_REQUEST_APPROVED ''resource-request-approved'',
     event_contract_of RESOURCE_REQUEST_REJECTED ''resource-request-rejected'',
     event_contract_of RESOURCE_REQUEST_CANCELLED ''resource-request-cancelled'',
     event_contract_of RESOURCE_REQUEST_STATE_CHANGED ''resource-request-state-changed'',
     event_contract_of RESOURCE_LEASE_ACTIVATED ''resource-lease-activated'',
     event_contract_of RESOURCE_LEASE_RENEWED ''resource-lease-renewed'',
     event_contract_of RESOURCE_LEASE_REVOKED ''resource-lease-revoked'',
     event_contract_of RESOURCE_LEASE_EXPIRING ''resource-lease-expiring'',
     event_contract_of RESOURCE_LEASE_EXPIRED ''resource-lease-expired'',
     event_contract_of AGENT_RUN_REQUESTED ''agent-run-requested'',
     event_contract_of AGENT_RUN_COMPLETED ''agent-run-completed'',
     event_contract_of AGENT_RUN_FAILED ''agent-run-failed'',
     event_contract_of AGENT_BUILD_REQUESTED ''agent-build-requested'',
     event_contract_of AGENT_BUILD_COMPLETED ''agent-build-completed'',
     event_contract_of AGENT_BUILD_FAILED ''agent-build-failed'',
     event_contract_of ENVIRONMENT_PROVISION_REQUESTED ''environment-provision-requested'',
     event_contract_of ENVIRONMENT_READY ''environment-ready'',
     event_contract_of ENVIRONMENT_FAILED ''environment-failed'',
     event_contract_of ENVIRONMENT_DELETE_REQUESTED ''environment-delete-requested'',
     event_contract_of ENVIRONMENT_OPERATION_ACCEPTED ''environment-operation-accepted'',
     event_contract_of ENVIRONMENT_STATE_CHANGED ''environment-state-changed'',
     event_contract_of ENVIRONMENT_LIFECYCLE_REQUESTED ''environment-lifecycle-requested'',
     event_contract_of ACCESS_GRANT_CREATED ''access-grant-created'',
     event_contract_of ACCESS_GRANT_ACTIVATED ''access-grant-activated'',
     event_contract_of ACCESS_GRANT_DENIED ''access-grant-denied'',
     event_contract_of ACCESS_GRANT_EXPIRED ''access-grant-expired'',
     event_contract_of ACCESS_GRANT_REVOKED ''access-grant-revoked'',
     event_contract_of ACCESS_SSH_KEY_REVOKED ''access-ssh-key-revoked'',
     event_contract_of ACCESS_SESSION_TERMINATION_REQUESTED ''access-session-termination-requested'',
     event_contract_of ACCESS_SESSION_CLOSED ''access-session-closed'',
     event_contract_of ACCESS_SESSION_TERMINATION_OVERDUE ''access-session-termination-overdue'',
     event_contract_of ACCESS_CONSOLE_SESSION_STATE_CHANGED ''access-console-session-state-changed'',
     event_contract_of SUBMISSION_FREEZE_REQUESTED ''submission-freeze-requested'',
     event_contract_of SUBMISSION_FROZEN ''submission-frozen'',
     event_contract_of EVALUATION_RELEASE_PUBLISHED ''evaluation-release-published'',
     event_contract_of EVALUATION_RUN_REQUESTED ''evaluation-run-requested'',
     event_contract_of EVALUATION_RUN_STATE_CHANGED ''evaluation-run-state-changed'',
     event_contract_of EVALUATION_STEP_RUN_STATE_CHANGED ''evaluation-step-run-state-changed'',
     event_contract_of LAB_RELEASE_APPROVED ''lab-release-approved'',
     event_contract_of ENVIRONMENT_TEMPLATE_RELEASE_PUBLISHED ''environment-template-release-published'',
     event_contract_of ENVIRONMENT_TEMPLATE_RELEASE_WITHDRAWN ''environment-template-release-withdrawn'']"

definition by_subject :: "string \<Rightarrow> event_contract option" where
  "by_subject subject = List.find (\<lambda>c. ev_subject c = subject) EVENT_CONTRACTS"

definition cloud_event_validate :: "'d cloud_event \<Rightarrow> event_contract \<Rightarrow> event_error + unit" where
  "cloud_event_validate e c =
     (if ce_specversion e \<noteq> SPEC_VERSION \<or> ce_datacontenttype e \<noteq> ''application/json''
         \<or> ce_event_type e \<noteq> ev_event_type c \<or> ce_subject e \<noteq> ev_subject c
         \<or> ce_dataschema e \<noteq> data_schema c \<or> ce_source e \<noteq> event_source c
         \<or> ce_aggregate_sequence e = 0 \<or> is_blank (ce_trace_id e)
      then Inl EnvelopeMismatch else Inr ())"

fun registry_loop :: "string list \<Rightarrow> string list \<Rightarrow> event_contract list \<Rightarrow> event_error + unit" where
  "registry_loop subjects event_types [] = Inr ()"
| "registry_loop subjects event_types (c # cs) =
     (if \<not> suffix ''.v1'' (ev_subject c) \<or> ev_event_type c \<noteq> ev_subject c
         \<or> ev_subject c \<in> set subjects \<or> ev_event_type c \<in> set event_types
      then Inl RegistryConflict
      else registry_loop (ev_subject c # subjects) (ev_event_type c # event_types) cs)"

definition validate_registry :: "event_error + unit" where
  "validate_registry = registry_loop [] [] EVENT_CONTRACTS"

section \<open>Payloads with checks of their own\<close>

record agent_build_requested =
  abr_request :: build_request
  abr_approval :: candidate_approval
  abr_idempotency_key :: string

definition agent_build_requested_validate :: "agent_build_requested \<Rightarrow> event_error + unit" where
  "agent_build_requested_validate e =
     res_then (map_err (\<lambda>_. PayloadIdentityMismatch) (build_request_validate (abr_request e))) (\<lambda>_.
     if ca_decision (abr_approval e) \<noteq> DecisionApproved
        \<or> ca_id (abr_approval e) \<noteq> br_approval_id (abr_request e)
        \<or> ca_candidate_id (abr_approval e) \<noteq> br_candidate_id (abr_request e)
        \<or> ca_candidate_revision (abr_approval e) \<noteq> br_candidate_revision (abr_request e)
        \<or> length (abr_idempotency_key e) < 16 \<or> length (abr_idempotency_key e) > 128
        \<or> \<not> list_all (\<lambda>b. is_ascii_alphanumeric b \<or> b \<in> set ''-_.:'') (abr_idempotency_key e)
     then Inl PayloadIdentityMismatch else Inr ())"

record agent_build_failed =
  abf_build_request_id :: uuid
  abf_diagnostic_code :: string
  abf_retryable :: bool
  abf_cleanup_verified :: bool

definition agent_build_failed_validate :: "agent_build_failed \<Rightarrow> event_error + unit" where
  "agent_build_failed_validate e =
     res_then (map_err (\<lambda>_. PayloadIdentityMismatch) (diagnostic_code_parse (abf_diagnostic_code e))) (\<lambda>_.
     let cleanup_failed = (abf_diagnostic_code e = ''LW_AGENT_BUILD_CLEANUP_FAILED'') in
     if abf_cleanup_verified e = cleanup_failed \<or> abf_retryable e \<and> \<not> abf_cleanup_verified e
     then Inl PayloadIdentityMismatch else Inr ())"

definition validate_event_state :: "string \<Rightarrow> event_error + unit" where
  "validate_event_state st =
     (if is_blank st \<or> length st > 64 \<or> \<not> list_all (\<lambda>b. is_ascii_lowercase b \<or> b = CHR ''_'') st
      then Inl PayloadIdentityMismatch else Inr ())"

definition validate_optional_diagnostic :: "string option \<Rightarrow> event_error + unit" where
  "validate_optional_diagnostic d =
     (case d of None \<Rightarrow> Inr ()
      | Some code \<Rightarrow> res_then (map_err (\<lambda>_. PayloadIdentityMismatch) (diagnostic_code_parse code)) (\<lambda>_. Inr ()))"

record evaluation_run_event =
  ere_run_id :: uuid
  ere_release_id :: uuid
  ere_revision :: revision
  ere_state :: string
  ere_diagnostic_code :: "string option"
  ere_operator_actor_id :: "uuid option"

definition evaluation_run_event_validate :: "evaluation_run_event \<Rightarrow> event_error + unit" where
  "evaluation_run_event_validate e =
     res_then (validate_event_state (ere_state e)) (\<lambda>_. validate_optional_diagnostic (ere_diagnostic_code e))"

record evaluation_step_run_event =
  ese_run_id :: uuid
  ese_step_run_id :: uuid
  ese_step_id :: string
  ese_revision :: revision
  ese_state :: string
  ese_attempt :: u32
  ese_diagnostic_code :: "string option"
  ese_cleanup_verified :: "bool option"
  ese_operator_actor_id :: "uuid option"

definition evaluation_step_run_event_validate :: "evaluation_step_run_event \<Rightarrow> event_error + unit" where
  "evaluation_step_run_event_validate e =
     res_then (validate_event_state (ese_state e)) (\<lambda>_.
     if is_blank (ese_step_id e)
        \<or> ese_state e \<in> {''running'', ''succeeded'', ''failed''} \<and> ese_attempt e = 0
     then Inl PayloadIdentityMismatch
     else validate_optional_diagnostic (ese_diagnostic_code e))"

record release_published =
  rp_release :: template_release
  rp_environment_spec :: environment_spec

definition release_published_validate :: "release_published \<Rightarrow> event_error + unit" where
  "release_published_validate p =
     res_then (map_err (\<lambda>_. PayloadIdentityMismatch) (template_release_validate (rp_release p))) (\<lambda>_.
     res_then (map_err (\<lambda>_. PayloadIdentityMismatch) (environment_spec_validate (rp_environment_spec p))) (\<lambda>_.
     if environment_runtime_kind (es_runtime (rp_environment_spec p)) \<noteq> tr_runtime_kind (rp_release p)
     then Inl PayloadIdentityMismatch else Inr ()))"

record release_withdrawn =
  rwn_release_id :: uuid
  rwn_version :: u64
  rwn_actor_id :: uuid
  rwn_reason_code :: string
  rwn_withdrawn_at :: timestamp

fun validate_delivery :: "u64 option \<Rightarrow> u64 \<Rightarrow> event_error + unit" where
  "validate_delivery None current = Inr ()"
| "validate_delivery (Some previous) current =
     (if current \<le> previous then Inl DuplicateOrStale
      else if current \<noteq> previous + 1 then Inl SequenceGap
      else Inr ())"

section \<open>The registry is consistent\<close>

lemma registry_loop_iff:
  "registry_loop ss ts cs = Inr () \<longleftrightarrow>
     (\<forall>c \<in> set cs. suffix ''.v1'' (ev_subject c) \<and> ev_event_type c = ev_subject c)
     \<and> distinct (map ev_subject cs) \<and> set (map ev_subject cs) \<inter> set ss = {}
     \<and> set (map ev_event_type cs) \<inter> set ts = {}"
  by (induction cs arbitrary: ss ts) auto

lemma find_distinct:
  "distinct (map f xs) \<Longrightarrow> x \<in> set xs \<Longrightarrow> List.find (\<lambda>y. f y = f x) xs = Some x"
  by (induction xs) force+

lemma registry_valid: "validate_registry = Inr ()"
  by code_simp

lemma by_subject_registered:
  assumes "c \<in> set EVENT_CONTRACTS"
  shows "by_subject (ev_subject c) = Some c \<and> ev_event_type c = ev_subject c"
  using registry_valid assms find_distinct [of ev_subject EVENT_CONTRACTS c]
  by (simp add: validate_registry_def registry_loop_iff by_subject_def)

lemma cloud_event_validateD:
  assumes "cloud_event_validate e c = Inr ()"
  shows "ce_subject e = ev_subject c" "ce_event_type e = ev_event_type c" "ce_source e = event_source c"
    "ce_aggregate_sequence e \<noteq> 0" "ce_dataschema e = data_schema c"
  using assms by (auto simp: cloud_event_validate_def split: if_splits)


definition demo_event :: "unit cloud_event" where
  "demo_event = \<lparr> ce_specversion = ''1.0'', ce_id = 5, ce_source = ''urn:labweaver:environment-service'',
     ce_event_type = ENVIRONMENT_READY, ce_subject = ENVIRONMENT_READY, ce_time = 0,
     ce_datacontenttype = ''application/json'',
     ce_dataschema = ''https://schemas.labweaver.io/contracts/v1/events/environment-ready.schema.json'',
     ce_course_id = 3, ce_aggregate_revision = 1, ce_aggregate_sequence = 1, ce_trace_id = ''t'', ce_data = () \<rparr>"


end
