(* ===== verification/Container_Provider.thy ===== *)
theory Container_Provider
  imports Env_Completion Persistence Events
begin

text \<open>
  The container provider of \<^verbatim>\<open>services/environment-service/src/container_provider.rs\<close>:
  its configuration, the release projection the environment service keeps (fed
  by the inbox), the deterministic Kubernetes resource plan, and the mapping of
  reconcile actions to provider observations.

  Canonical JSON hashing, the text form of identifiers and of timestamps come
  from third-party crates and are the fields of \<open>json_libs\<close>; the backend that
  talks to Kubernetes is a record of functions.
\<close>

section \<open>Documents\<close>

record json_libs =
  jl_id :: "uuid \<Rightarrow> string"
  jl_time :: "timestamp \<Rightarrow> string"
  jl_hash :: "json \<Rightarrow> sha256 option"

definition JList :: "string list \<Rightarrow> json" where
  "JList ss = JArr (map JStr ss)"

definition JU64 :: "u64 \<Rightarrow> json" where
  "JU64 w = JNum (uint w)"

section \<open>Errors and configuration\<close>

datatype release_projection_error =
    ConfigurationInvalid
  | ReleaseNotFound
  | ReleaseContractInvalid
  | ReleaseIdentityMismatch
  | SecurityPostureInvalid
  | ReleaseIsWithdrawn
  | EvidenceExpired
  | TrustRevisionMismatch
  | ReleasePersistenceFailed
  | ReleaseDatabase

definition provider_unavailable :: provider_failure where
  "provider_unavailable = \<lparr> pf_code = Unavailable, pf_retryable = True \<rparr>"

definition invalid_observation :: provider_failure where
  "invalid_observation = \<lparr> pf_code = ObservationInvalid, pf_retryable = False \<rparr>"

definition provider_rejected :: provider_failure where
  "provider_rejected = \<lparr> pf_code = Rejected, pf_retryable = False \<rparr>"

definition cleanup_failed :: provider_failure where
  "cleanup_failed = \<lparr> pf_code = CleanupFailed, pf_retryable = True \<rparr>"

fun projection_failure :: "release_projection_error \<Rightarrow> provider_failure" where
  "projection_failure ReleaseDatabase = provider_unavailable"
| "projection_failure ReleasePersistenceFailed = provider_unavailable"
| "projection_failure ReleaseNotFound = provider_unavailable"
| "projection_failure ConfigurationInvalid = provider_rejected"
| "projection_failure ReleaseContractInvalid = provider_rejected"
| "projection_failure ReleaseIdentityMismatch = provider_rejected"
| "projection_failure SecurityPostureInvalid = provider_rejected"
| "projection_failure ReleaseIsWithdrawn = provider_rejected"
| "projection_failure EvidenceExpired = provider_rejected"
| "projection_failure TrustRevisionMismatch = provider_rejected"

definition valid_provider_binding :: "string \<Rightarrow> bool" where
  "valid_provider_binding val \<longleftrightarrow>
     val \<noteq> [] \<and> length val \<le> 128
     \<and> list_all (\<lambda>b. is_ascii_alphanumeric b \<or> b \<in> set ''-_.:'') val"

definition valid_subject :: "string \<Rightarrow> bool" where
  "valid_subject val \<longleftrightarrow> valid_provider_binding val \<and> CHR ''*'' \<notin> set val \<and> CHR ''>'' \<notin> set val"

definition valid_dns_label :: "string \<Rightarrow> bool" where
  "valid_dns_label val \<longleftrightarrow>
     val \<noteq> [] \<and> length val \<le> 63 \<and> \<not> prefix ''-'' val \<and> \<not> suffix ''-'' val
     \<and> list_all (\<lambda>b. is_ascii_lowercase b \<or> is_ascii_digit b \<or> b = CHR ''-'') val"

definition valid_image_repository_prefix :: "string \<Rightarrow> bool" where
  "valid_image_repository_prefix val \<longleftrightarrow>
     (let parts = split_on CHR ''/'' val;
          registry = (case parts of r # _ \<Rightarrow> r | [] \<Rightarrow> []);
          project = (case parts of _ # p # _ \<Rightarrow> p | _ \<Rightarrow> []) in
      registry \<noteq> [] \<and> \<not> contains_str ''//'' registry \<and> \<not> contains_ws registry
      \<and> CHR ''@'' \<notin> set registry \<and> CHR '':'' \<notin> set registry
      \<and> valid_dns_label project \<and> length parts \<le> 2)"

definition valid_artifact_ref :: "artifact_ref \<Rightarrow> bool" where
  "valid_artifact_ref a \<longleftrightarrow>
     ar_size_bytes a > 0 \<and> \<not> is_blank (ar_store_binding a) \<and> \<not> is_blank (ar_object_version a)
     \<and> \<not> is_blank (ar_media_type a) \<and> \<not> list_ex is_ascii_whitespace (ar_store_binding a)"

record container_release_policy =
  crp_image_policy_id :: uuid
  crp_image_policy_revision :: revision
  crp_trust_revision :: revision

record container_configuration =
  cc_release_policy :: container_release_policy
  cc_image_repository_prefix :: string
  cc_access_namespace :: string
  cc_access_pod_label :: string
  cc_image_pull_secret_name :: string
  cc_workspace_storage_class_name :: string

definition container_configuration_new ::
  "container_release_policy \<Rightarrow> string \<Rightarrow> string \<Rightarrow> string \<Rightarrow> string \<Rightarrow> string
   \<Rightarrow> release_projection_error + container_configuration" where
  "container_configuration_new policy image_prefix access_ns access_label pull_secret storage_class =
     (if \<not> valid_image_repository_prefix image_prefix \<or> \<not> valid_dns_label access_ns
         \<or> \<not> valid_dns_label access_label \<or> \<not> valid_dns_label pull_secret \<or> \<not> valid_dns_label storage_class
      then Inl ConfigurationInvalid
      else Inr \<lparr> cc_release_policy = policy, cc_image_repository_prefix = image_prefix,
             cc_access_namespace = access_ns, cc_access_pod_label = access_label,
             cc_image_pull_secret_name = pull_secret, cc_workspace_storage_class_name = storage_class \<rparr>)"

record container_provider =
  cp_binding :: string
  cp_configuration :: container_configuration

definition container_provider_new ::
  "string \<Rightarrow> container_configuration \<Rightarrow> release_projection_error + container_provider" where
  "container_provider_new binding configuration =
     (if \<not> valid_provider_binding binding then Inl ConfigurationInvalid
      else Inr \<lparr> cp_binding = binding, cp_configuration = configuration \<rparr>)"

section \<open>The release projection\<close>

record resolved_release =
  rl_projection :: release_published
  rl_authority_now :: timestamp
  rl_withdrawn_at :: "timestamp option"

datatype release_projection_decision = ProjectionApplied | ProjectionDuplicate | ProjectionStale | ProjectionGap

record release_row =
  rv_release_id :: uuid
  rv_course_id :: uuid
  rv_release_version :: int
  rv_provider_binding :: string
  rv_projection_sha256 :: string
  rv_contract :: release_published
  rv_projected_event_id :: uuid
  rv_aggregate_sequence :: int
  rv_withdrawn_at :: "timestamp option"
  rv_withdrawal_reason_code :: "string option"
  rv_withdrawal_event_id :: "uuid option"

record projection_db =
  pj_inbox :: inbox_tables
  pj_releases :: "release_row list"

fun release_provider_binding :: "environment_runtime_spec \<Rightarrow> string" where
  "release_provider_binding (ContainerRuntime b _ _ _ _) = b"
| "release_provider_binding (VmRuntime b _ _ _) = b"

text \<open>The hashes of the event and of its payload; both come from the same
  canonicalisation of third-party code.\<close>

record 'd event_hashes =
  eh_event :: "'d cloud_event \<Rightarrow> sha256 option"
  eh_data :: "'d \<Rightarrow> sha256 option"

definition insert_release :: "release_row \<Rightarrow> release_row list \<Rightarrow> release_projection_error + release_row list" where
  "insert_release r rows =
     (if list_ex (\<lambda>q. rv_release_id q = rv_release_id r \<or> rv_projected_event_id q = rv_projected_event_id r) rows
      then Inl ReleaseIdentityMismatch
      else if rv_release_version r \<le> 0 then Inl ReleaseDatabase
      else Inr (rows @ [r]))"

definition release_accept ::
  "release_published event_hashes \<Rightarrow> string \<Rightarrow> release_published cloud_event \<Rightarrow> projection_db
   \<Rightarrow> release_projection_error + (release_projection_decision \<times> projection_db)" where
  "release_accept h consumer event db =
     res_then (ok_or ReleaseContractInvalid (by_subject ENVIRONMENT_TEMPLATE_RELEASE_PUBLISHED)) (\<lambda>contract.
     res_then (map_err (\<lambda>_. ReleaseContractInvalid) (cloud_event_validate event contract)) (\<lambda>_.
     res_then (map_err (\<lambda>_. ReleaseContractInvalid) (release_published_validate (ce_data event))) (\<lambda>_.
     let release = rp_release (ce_data event) in
     if ce_subject event \<noteq> ENVIRONMENT_TEMPLATE_RELEASE_PUBLISHED
        \<or> ce_course_id event \<noteq> tr_course_id release \<or> ce_aggregate_sequence event \<noteq> 1
     then Inl ReleaseIdentityMismatch
     else res_then (map_err (\<lambda>_. ReleaseContractInvalid) (revision_new (tr_version release))) (\<lambda>version.
     if ce_aggregate_revision event \<noteq> version then Inl ReleaseIdentityMismatch
     else res_then (ok_or ReleaseContractInvalid (eh_event h event)) (\<lambda>payload_sha256.
     res_then (map_err (\<lambda>_. ReleasePersistenceFailed)
        (inbox_accept consumer (ce_id event) (tr_id release) (ce_aggregate_sequence event) payload_sha256 (pj_inbox db)))
       (\<lambda>(decision, inbox').
     case decision of
       Accepted \<Rightarrow>
         res_then (ok_or ReleaseContractInvalid (eh_data h (ce_data event))) (\<lambda>projection_sha256.
         if uint (tr_version release) > I64_MAX then Inl ReleaseIdentityMismatch
         else res_then (insert_release \<lparr> rv_release_id = tr_id release, rv_course_id = ce_course_id event,
                rv_release_version = uint (tr_version release),
                rv_provider_binding = release_provider_binding (es_runtime (rp_environment_spec (ce_data event))),
                rv_projection_sha256 = sha256_display projection_sha256, rv_contract = ce_data event,
                rv_projected_event_id = ce_id event, rv_aggregate_sequence = 1, rv_withdrawn_at = None,
                rv_withdrawal_reason_code = None, rv_withdrawal_event_id = None \<rparr> (pj_releases db))
              (\<lambda>rows. Inr (ProjectionApplied, db \<lparr> pj_inbox := inbox', pj_releases := rows \<rparr>)))
     | Duplicate \<Rightarrow> Inr (ProjectionDuplicate, db \<lparr> pj_inbox := inbox' \<rparr>)
     | Stale \<Rightarrow> Inr (ProjectionStale, db \<lparr> pj_inbox := inbox' \<rparr>)
     | Gap \<Rightarrow> Inr (ProjectionGap, db)))))))"

definition withdraw_row :: "release_withdrawn cloud_event \<Rightarrow> release_row \<Rightarrow> release_row" where
  "withdraw_row event r = r \<lparr> rv_aggregate_sequence := 2, rv_withdrawn_at := Some (rwn_withdrawn_at (ce_data event)),
     rv_withdrawal_reason_code := Some (rwn_reason_code (ce_data event)),
     rv_withdrawal_event_id := Some (ce_id event) \<rparr>"

definition release_accept_withdrawal ::
  "release_withdrawn event_hashes \<Rightarrow> string \<Rightarrow> release_withdrawn cloud_event \<Rightarrow> projection_db
   \<Rightarrow> release_projection_error + (release_projection_decision \<times> projection_db)" where
  "release_accept_withdrawal h consumer event db =
     res_then (ok_or ReleaseContractInvalid (by_subject ENVIRONMENT_TEMPLATE_RELEASE_WITHDRAWN)) (\<lambda>contract.
     res_then (map_err (\<lambda>_. ReleaseContractInvalid) (cloud_event_validate event contract)) (\<lambda>_.
     let data = ce_data event in
     if ce_subject event \<noteq> ENVIRONMENT_TEMPLATE_RELEASE_WITHDRAWN \<or> ce_aggregate_sequence event \<noteq> 2
     then Inl ReleaseIdentityMismatch
     else res_then (map_err (\<lambda>_. ReleaseContractInvalid) (revision_new (rwn_version data))) (\<lambda>version.
     if ce_aggregate_revision event \<noteq> version \<or> is_blank (rwn_reason_code data)
        \<or> rwn_withdrawn_at data \<noteq> ce_time event
     then Inl ReleaseIdentityMismatch
     else res_then (ok_or ReleaseContractInvalid (eh_event h event)) (\<lambda>payload_sha256.
     res_then (map_err (\<lambda>_. ReleasePersistenceFailed)
        (inbox_accept consumer (ce_id event) (rwn_release_id data) (ce_aggregate_sequence event) payload_sha256 (pj_inbox db)))
       (\<lambda>(decision, inbox').
     case decision of
       Accepted \<Rightarrow>
         if uint (rwn_version data) > I64_MAX then Inl ReleaseIdentityMismatch
         else (let hit = (\<lambda>r. rv_release_id r = rwn_release_id data \<and> rv_course_id r = ce_course_id event
                     \<and> rv_release_version r = uint (rwn_version data) \<and> rv_aggregate_sequence r = 1
                     \<and> rv_withdrawn_at r = None) in
           if length (filter hit (pj_releases db)) \<noteq> 1 then Inl ReleaseIdentityMismatch
           else Inr (ProjectionApplied, db \<lparr> pj_inbox := inbox',
                  pj_releases := upd_where hit (withdraw_row event) (pj_releases db) \<rparr>))
     | Duplicate \<Rightarrow> Inr (ProjectionDuplicate, db \<lparr> pj_inbox := inbox' \<rparr>)
     | Stale \<Rightarrow> Inr (ProjectionStale, db \<lparr> pj_inbox := inbox' \<rparr>)
     | Gap \<Rightarrow> Inr (ProjectionGap, db))))))"

definition release_resolve ::
  "timestamp \<Rightarrow> projection_db \<Rightarrow> uuid \<Rightarrow> u64 \<Rightarrow> release_projection_error + resolved_release" where
  "release_resolve now db release_id release_version =
     res_then (ok_or ReleaseNotFound (List.find (\<lambda>r. rv_release_id r = release_id) (pj_releases db))) (\<lambda>row.
     if rv_release_version row \<noteq> uint release_version then Inl ReleaseIdentityMismatch
     else let projection = rv_contract row in
     res_then (map_err (\<lambda>_. ReleaseContractInvalid) (release_published_validate projection)) (\<lambda>_.
     if tr_id (rp_release projection) \<noteq> release_id \<or> tr_version (rp_release projection) \<noteq> release_version
     then Inl ReleaseIdentityMismatch
     else Inr \<lparr> rl_projection = projection, rl_authority_now = now, rl_withdrawn_at = rv_withdrawn_at row \<rparr>))"

section \<open>The resource plan\<close>

record container_resource =
  rc_kind :: string
  rc_namespace :: "string option"
  rc_name :: string
  rc_document :: json

record container_resource_plan =
  rpl_environment_id :: uuid
  rpl_namespace :: string
  rpl_image :: string
  rpl_resources :: "container_resource list"
  rpl_plan_sha256 :: sha256

definition resource_doc :: "string \<Rightarrow> string option \<Rightarrow> string \<Rightarrow> json \<Rightarrow> container_resource" where
  "resource_doc kind namespace name document =
     \<lparr> rc_kind = kind, rc_namespace = namespace, rc_name = name, rc_document = document \<rparr>"

definition FREEZE_REQUEST_CPU_MILLICORES :: u32 where "FREEZE_REQUEST_CPU_MILLICORES = 100"
definition FREEZE_LIMIT_CPU_MILLICORES :: u32 where "FREEZE_LIMIT_CPU_MILLICORES = 1000"
definition FREEZE_REQUEST_MEMORY_BYTES :: u64 where "FREEZE_REQUEST_MEMORY_BYTES = 128 * 1024 * 1024"
definition FREEZE_LIMIT_MEMORY_BYTES :: u64 where "FREEZE_LIMIT_MEMORY_BYTES = 1024 * 1024 * 1024"
definition WORKSPACE_ROOT :: string where "WORKSPACE_ROOT = ''/workspace''"

definition WORKSPACE_SEED_COMMAND :: string where
  "WORKSPACE_SEED_COMMAND =
     ''set -eu; '' @
     ''if [ -n '' @ [CHR 0x22] @ ''$(find /workspace -mindepth 1 -maxdepth 1 -print -quit)'' @ [CHR 0x22] @ '' ]; then exit 0; fi; '' @
     ''if [ ! -d /opt/labweaver/workspace-seed ]; then '' @
     ''echo '' @ [CHR 0x27] @ ''LW_ENVIRONMENT_WORKSPACE_SEED_MISSING'' @ [CHR 0x27] @ '' >&2; exit 64; fi; '' @
     ''cp -R /opt/labweaver/workspace-seed/. /workspace/''"

definition display_word :: "'w::len word \<Rightarrow> string" where
  "display_word w = show_nat (unat w)"

definition millicores :: "u32 \<Rightarrow> string" where
  "millicores w = display_word w @ ''m''"

fun container_provider_binding :: "environment_runtime_spec \<Rightarrow> release_projection_error + string" where
  "container_provider_binding (ContainerRuntime b _ _ _ _) = Inr b"
| "container_provider_binding (VmRuntime _ _ _ _) = Inl ReleaseIdentityMismatch"

definition validate_release_use ::
  "container_provider \<Rightarrow> resolved_release \<Rightarrow> reconcile_action \<Rightarrow> release_projection_error + unit" where
  "validate_release_use p resolved action =
     (if action = ActStop then Inr ()
      else if rl_withdrawn_at resolved \<noteq> None then Inl ReleaseIsWithdrawn
      else if ca_trust_revision (tr_approval (rp_release (rl_projection resolved)))
                \<noteq> crp_trust_revision (cc_release_policy (cp_configuration p))
      then Inl TrustRevisionMismatch
      else Inr ())"

definition metadata :: "string \<Rightarrow> string \<Rightarrow> json \<Rightarrow> json" where
  "metadata name namespace labels =
     JObj [(''name'', JStr name), (''namespace'', JStr namespace), (''labels'', labels)]"

definition plan_labels :: "json_libs \<Rightarrow> environment_instance \<Rightarrow> json" where
  "plan_labels lib i = JObj [
     (''app.kubernetes.io/name'', JStr ''labweaver-environment''),
     (''labweaver.io/environment-id'', JStr (jl_id lib (ei_id i))),
     (''labweaver.io/course-id'', JStr (jl_id lib (ei_course_id i))),
     (''labweaver.io/managed'', JStr ''true''),
     (''labweaver.io/environment'', JStr ''true'')]"

definition namespace_doc :: "string \<Rightarrow> json \<Rightarrow> container_resource" where
  "namespace_doc ns labels = resource_doc ''Namespace'' None ns (JObj [
     (''apiVersion'', JStr ''v1''), (''kind'', JStr ''Namespace''),
     (''metadata'', JObj [(''name'', JStr ns), (''labels'', labels),
        (''finalizers'', JList [''labweaver.io/environment-cleanup''])])])"

definition quota_doc :: "string \<Rightarrow> json \<Rightarrow> u32 \<Rightarrow> u32 \<Rightarrow> u64 \<Rightarrow> u64 \<Rightarrow> string \<Rightarrow> container_resource" where
  "quota_doc ns labels request_cpu limit_cpu request_memory limit_memory storage =
     resource_doc ''ResourceQuota'' (Some ns) ''runtime-quota'' (JObj [
     (''apiVersion'', JStr ''v1''), (''kind'', JStr ''ResourceQuota''),
     (''metadata'', JObj [(''name'', JStr ''runtime-quota''), (''namespace'', JStr ns), (''labels'', labels),
        (''annotations'', JObj [
           (''labweaver.io/freeze-request-cpu-millicores'', JStr (display_word FREEZE_REQUEST_CPU_MILLICORES)),
           (''labweaver.io/freeze-limit-cpu-millicores'', JStr (display_word FREEZE_LIMIT_CPU_MILLICORES)),
           (''labweaver.io/freeze-request-memory-bytes'', JStr (display_word FREEZE_REQUEST_MEMORY_BYTES)),
           (''labweaver.io/freeze-limit-memory-bytes'', JStr (display_word FREEZE_LIMIT_MEMORY_BYTES))])]),
     (''spec'', JObj [(''hard'', JObj [
        (''requests.cpu'', JStr (millicores request_cpu)), (''limits.cpu'', JStr (millicores limit_cpu)),
        (''requests.memory'', JStr (display_word request_memory)), (''limits.memory'', JStr (display_word limit_memory)),
        (''requests.storage'', JStr storage), (''persistentvolumeclaims'', JStr ''1''), (''pods'', JStr ''2'')])])])"

definition cpu_memory :: "string \<Rightarrow> string \<Rightarrow> json" where
  "cpu_memory cpu memory = JObj [(''cpu'', JStr cpu), (''memory'', JStr memory)]"

definition limits_doc :: "string \<Rightarrow> json \<Rightarrow> string \<Rightarrow> string \<Rightarrow> container_resource" where
  "limits_doc ns labels cpu memory = resource_doc ''LimitRange'' (Some ns) ''runtime-limits'' (JObj [
     (''apiVersion'', JStr ''v1''), (''kind'', JStr ''LimitRange''),
     (''metadata'', metadata ''runtime-limits'' ns labels),
     (''spec'', JObj [(''limits'', JArr [JObj [(''type'', JStr ''Container''),
        (''default'', cpu_memory cpu memory), (''defaultRequest'', cpu_memory cpu memory)]])])])"

definition service_account_doc :: "string \<Rightarrow> json \<Rightarrow> string \<Rightarrow> container_resource" where
  "service_account_doc ns labels pull_secret = resource_doc ''ServiceAccount'' (Some ns) ''runtime'' (JObj [
     (''apiVersion'', JStr ''v1''), (''kind'', JStr ''ServiceAccount''),
     (''metadata'', metadata ''runtime'' ns labels),
     (''automountServiceAccountToken'', JBool False),
     (''imagePullSecrets'', JArr [JObj [(''name'', JStr pull_secret)]])])"

definition workspace_claim_doc :: "string \<Rightarrow> json \<Rightarrow> string \<Rightarrow> string \<Rightarrow> container_resource" where
  "workspace_claim_doc ns labels storage_class storage =
     resource_doc ''PersistentVolumeClaim'' (Some ns) ''workspace'' (JObj [
     (''apiVersion'', JStr ''v1''), (''kind'', JStr ''PersistentVolumeClaim''),
     (''metadata'', metadata ''workspace'' ns labels),
     (''spec'', JObj [(''accessModes'', JList [''ReadWriteMany'']), (''storageClassName'', JStr storage_class),
        (''resources'', JObj [(''requests'', JObj [(''storage'', JStr storage)])])])])"

definition network_policy_doc :: "string \<Rightarrow> json \<Rightarrow> string \<Rightarrow> (string \<times> json) list \<Rightarrow> container_resource" where
  "network_policy_doc ns labels name spec = resource_doc ''NetworkPolicy'' (Some ns) name (JObj [
     (''apiVersion'', JStr ''networking.k8s.io/v1''), (''kind'', JStr ''NetworkPolicy''),
     (''metadata'', metadata name ns labels), (''spec'', JObj spec)])"

definition runtime_selector :: json where
  "runtime_selector = JObj [(''matchLabels'', JObj [(''app'', JStr ''runtime'')])]"

definition default_deny_ingress_doc :: "string \<Rightarrow> json \<Rightarrow> container_resource" where
  "default_deny_ingress_doc ns labels = network_policy_doc ns labels ''default-deny-ingress''
     [(''podSelector'', JObj []), (''policyTypes'', JList [''Ingress''])]"

definition access_ingress_doc :: "string \<Rightarrow> json \<Rightarrow> string \<Rightarrow> string \<Rightarrow> u16 \<Rightarrow> container_resource" where
  "access_ingress_doc ns labels access_ns access_label service_port =
     network_policy_doc ns labels ''access-service-ingress''
     [(''podSelector'', runtime_selector), (''policyTypes'', JList [''Ingress'']),
      (''ingress'', JArr [JObj [
         (''from'', JArr [JObj [
            (''namespaceSelector'', JObj [(''matchLabels'', JObj [(''kubernetes.io/metadata.name'', JStr access_ns)])]),
            (''podSelector'', JObj [(''matchLabels'', JObj [(''app.kubernetes.io/name'', JStr access_label)])])]]),
         (''ports'', JArr [JObj [(''protocol'', JStr ''TCP''), (''port'', JNum (uint service_port))]])]])]"

definition restricted_container_context :: json where
  "restricted_container_context = JObj [
     (''allowPrivilegeEscalation'', JBool False), (''readOnlyRootFilesystem'', JBool True),
     (''runAsNonRoot'', JBool True), (''capabilities'', JObj [(''drop'', JList [''ALL''])])]"

definition workspace_mount :: json where
  "workspace_mount = JObj [(''name'', JStr ''workspace''), (''mountPath'', JStr WORKSPACE_ROOT)]"

definition seed_container :: "string \<Rightarrow> json" where
  "seed_container img = JObj [
     (''name'', JStr ''workspace-seed''), (''image'', JStr img), (''imagePullPolicy'', JStr ''IfNotPresent''),
     (''command'', JList [''/bin/sh'', ''-c'', WORKSPACE_SEED_COMMAND]),
     (''resources'', JObj [(''requests'', cpu_memory ''50m'' ''64Mi''), (''limits'', cpu_memory ''100m'' ''128Mi'')]),
     (''securityContext'', restricted_container_context),
     (''volumeMounts'', JArr [workspace_mount])]"

definition runtime_container :: "string \<Rightarrow> u16 \<Rightarrow> string \<Rightarrow> string \<Rightarrow> json" where
  "runtime_container img service_port cpu memory = JObj [
     (''name'', JStr ''runtime''), (''image'', JStr img), (''imagePullPolicy'', JStr ''IfNotPresent''),
     (''ports'', JArr [JObj [(''name'', JStr ''service''), (''containerPort'', JNum (uint service_port))]]),
     (''resources'', JObj [(''requests'', cpu_memory cpu memory), (''limits'', cpu_memory cpu memory)]),
     (''securityContext'', restricted_container_context),
     (''volumeMounts'', JArr [workspace_mount,
        JObj [(''name'', JStr ''runtime-tmp''), (''mountPath'', JStr ''/tmp'')]]),
     (''readinessProbe'', JObj [(''tcpSocket'', JObj [(''port'', JStr ''service'')]),
        (''periodSeconds'', JNum 2), (''failureThreshold'', JNum 30)])]"

definition pod_spec :: "string \<Rightarrow> u16 \<Rightarrow> string \<Rightarrow> string \<Rightarrow> json" where
  "pod_spec img service_port cpu memory = JObj [
     (''serviceAccountName'', JStr ''runtime''), (''automountServiceAccountToken'', JBool False),
     (''securityContext'', JObj [(''runAsNonRoot'', JBool True), (''runAsUser'', JNum 65534),
        (''runAsGroup'', JNum 65534), (''fsGroup'', JNum 65534),
        (''seccompProfile'', JObj [(''type'', JStr ''RuntimeDefault'')])]),
     (''initContainers'', JArr [seed_container img]),
     (''containers'', JArr [runtime_container img service_port cpu memory]),
     (''volumes'', JArr [
        JObj [(''name'', JStr ''workspace''), (''persistentVolumeClaim'', JObj [(''claimName'', JStr ''workspace'')])],
        JObj [(''name'', JStr ''runtime-tmp''), (''emptyDir'', JObj [(''sizeLimit'', JStr ''64Mi'')])]])]"

definition deployment_doc ::
  "json_libs \<Rightarrow> environment_instance \<Rightarrow> template_release \<Rightarrow> string \<Rightarrow> json \<Rightarrow> json \<Rightarrow> container_resource" where
  "deployment_doc lib i release ns labels pod = resource_doc ''Deployment'' (Some ns) ''runtime'' (JObj [
     (''apiVersion'', JStr ''apps/v1''), (''kind'', JStr ''Deployment''),
     (''metadata'', metadata ''runtime'' ns labels),
     (''spec'', JObj [(''replicas'', JNum 1), (''selector'', runtime_selector),
        (''template'', JObj [
           (''metadata'', JObj [(''labels'', JObj [
              (''app'', JStr ''runtime''),
              (''labweaver.io/environment-id'', JStr (jl_id lib (ei_id i))),
              (''labweaver.io/course-id'', JStr (jl_id lib (ei_course_id i))),
              (''labweaver.io/release-id'', JStr (jl_id lib (tr_id release))),
              (''labweaver.io/release-version'', JStr (display_word (tr_version release)))])]),
           (''spec'', pod)])])])"

definition service_doc :: "string \<Rightarrow> json \<Rightarrow> container_resource" where
  "service_doc ns labels = resource_doc ''Service'' (Some ns) ''runtime'' (JObj [
     (''apiVersion'', JStr ''v1''), (''kind'', JStr ''Service''),
     (''metadata'', metadata ''runtime'' ns labels),
     (''spec'', JObj [(''type'', JStr ''ClusterIP''), (''selector'', JObj [(''app'', JStr ''runtime'')]),
        (''ports'', JArr [JObj [(''name'', JStr ''http''), (''port'', JNum 8080), (''targetPort'', JStr ''service'')]])])])"

fun egress_docs :: "string \<Rightarrow> json \<Rightarrow> network_policy_spec \<Rightarrow> container_resource list" where
  "egress_docs ns labels NetAllowAll = []"
| "egress_docs ns labels NetDenyAll = [network_policy_doc ns labels ''deny-all-egress''
     [(''podSelector'', runtime_selector), (''policyTypes'', JList [''Egress''])]]"
| "egress_docs ns labels (NetRestricted policy_binding) = [network_policy_doc ns labels ''restricted-egress''
     [(''podSelector'', runtime_selector), (''policyTypes'', JList [''Egress'']),
      (''egress'', JArr [JObj [(''to'', JArr [JObj [(''namespaceSelector'',
         JObj [(''matchLabels'', JObj [(''labweaver.io/egress-policy'', JStr policy_binding)])])]])]])]]"

fun resource_json :: "container_resource \<Rightarrow> json" where
  "resource_json r = JObj [(''kind'', JStr (rc_kind r)),
     (''namespace'', case rc_namespace r of None \<Rightarrow> JNull | Some n \<Rightarrow> JStr n),
     (''name'', JStr (rc_name r)), (''document'', rc_document r)]"

definition environment_namespace :: "json_libs \<Rightarrow> environment_instance \<Rightarrow> string" where
  "environment_namespace lib i = ''lw-env-'' @ jl_id lib (ei_id i)"

definition expected_repository :: "json_libs \<Rightarrow> container_provider \<Rightarrow> template_release \<Rightarrow> string" where
  "expected_repository lib p release =
     cc_image_repository_prefix (cp_configuration p) @ ''/course-'' @ jl_id lib (tr_course_id release)
     @ ''-'' @ jl_id lib (tr_candidate_id release)"

definition plan_documents ::
  "json_libs \<Rightarrow> container_provider \<Rightarrow> environment_instance \<Rightarrow> release_published \<Rightarrow> string \<Rightarrow> u16
   \<Rightarrow> u32 \<Rightarrow> u32 \<Rightarrow> u64 \<Rightarrow> u64 \<Rightarrow> container_resource list" where
  "plan_documents lib p i projection img service_port request_cpu limit_cpu request_memory limit_memory =
     (let ns = environment_namespace lib i; labels = plan_labels lib i; c = cp_configuration p;
          resources = es_resources (rp_environment_spec projection);
          cpu = millicores (rr_cpu_millicores resources); memory = display_word (rr_memory_bytes resources);
          storage = display_word (rr_storage_bytes resources) in
      [namespace_doc ns labels,
       quota_doc ns labels request_cpu limit_cpu request_memory limit_memory storage,
       limits_doc ns labels cpu memory,
       service_account_doc ns labels (cc_image_pull_secret_name c),
       workspace_claim_doc ns labels (cc_workspace_storage_class_name c) storage,
       default_deny_ingress_doc ns labels,
       access_ingress_doc ns labels (cc_access_namespace c) (cc_access_pod_label c) service_port,
       deployment_doc lib i (rp_release projection) ns labels (pod_spec img service_port cpu memory),
       service_doc ns labels]
      @ egress_docs ns labels (es_network (rp_environment_spec projection)))"

definition container_image ::
  "json_libs \<Rightarrow> container_provider \<Rightarrow> template_release \<Rightarrow> release_projection_error + string" where
  "container_image lib p release =
     (case tr_artifact release of
        VmArtifact _ _ _ \<Rightarrow> Inl ReleaseIdentityMismatch
      | ContainerArtifact _ _ repository digest \<Rightarrow>
          if \<not> prefix ''sha256:'' digest \<or> CHR ''@'' \<in> set repository \<or> contains_ws repository
          then Inl ReleaseContractInvalid
          else if repository \<noteq> expected_repository lib p release then Inl ReleaseIdentityMismatch
          else Inr (repository @ ''@'' @ digest))"

definition container_service_port :: "environment_spec \<Rightarrow> release_projection_error + u16" where
  "container_service_port spec =
     (case es_runtime spec of
        VmRuntime _ _ _ _ \<Rightarrow> Inl ReleaseIdentityMismatch
      | ContainerRuntime _ _ _ service_port _ \<Rightarrow>
          if \<not> list_ex (\<lambda>e. en_service_port e = service_port \<and> en_protocol e = Http) (es_entries spec)
          then Inl SecurityPostureInvalid
          else if ss_root_filesystem_policy (es_security spec) \<noteq> ReadOnlyRequired then Inl SecurityPostureInvalid
          else Inr service_port)"

definition container_plan ::
  "json_libs \<Rightarrow> container_provider \<Rightarrow> environment_instance \<Rightarrow> resolved_release \<Rightarrow> reconcile_action
   \<Rightarrow> release_projection_error + container_resource_plan" where
  "container_plan lib p i resolved action =
     (let projection = rl_projection resolved; release = rp_release projection; spec = rp_environment_spec projection;
          resources = es_resources spec in
      res_then (map_err (\<lambda>_. ReleaseContractInvalid) (release_published_validate projection)) (\<lambda>_.
      res_then (validate_release_use p resolved action) (\<lambda>_.
      if ei_runtime_kind i \<noteq> Container \<or> ei_release_id i \<noteq> tr_id release
         \<or> ei_release_version i \<noteq> tr_version release \<or> ei_course_id i \<noteq> tr_course_id release
         \<or> ei_provider_binding i \<noteq> cp_binding p
      then Inl ReleaseIdentityMismatch
      else res_then (container_provider_binding (es_runtime spec)) (\<lambda>bound.
      if bound \<noteq> cp_binding p then Inl ReleaseIdentityMismatch
      else res_then (container_image lib p release) (\<lambda>img.
      res_then (container_service_port spec) (\<lambda>service_port.
      res_then (ok_or SecurityPostureInvalid (checked_add (rr_cpu_millicores resources) FREEZE_REQUEST_CPU_MILLICORES)) (\<lambda>request_cpu.
      res_then (ok_or SecurityPostureInvalid (checked_add (rr_cpu_millicores resources) FREEZE_LIMIT_CPU_MILLICORES)) (\<lambda>limit_cpu.
      res_then (ok_or SecurityPostureInvalid (checked_add (rr_memory_bytes resources) FREEZE_REQUEST_MEMORY_BYTES)) (\<lambda>request_memory.
      res_then (ok_or SecurityPostureInvalid (checked_add (rr_memory_bytes resources) FREEZE_LIMIT_MEMORY_BYTES)) (\<lambda>limit_memory.
      let documents = plan_documents lib p i projection img service_port request_cpu limit_cpu request_memory limit_memory in
      res_then (ok_or ReleaseContractInvalid (jl_hash lib (JObj [
           (''environmentId'', JStr (jl_id lib (ei_id i))), (''releaseId'', JStr (jl_id lib (tr_id release))),
           (''releaseVersion'', JU64 (tr_version release)), (''image'', JStr img),
           (''resources'', JArr (map resource_json documents))]))) (\<lambda>plan_sha256.
      Inr \<lparr> rpl_environment_id = ei_id i, rpl_namespace = environment_namespace lib i, rpl_image = img,
            rpl_resources = documents, rpl_plan_sha256 = plan_sha256 \<rparr>)))))))))))"

definition cleanup_plan ::
  "json_libs \<Rightarrow> container_provider \<Rightarrow> environment_instance \<Rightarrow> release_projection_error + container_resource_plan" where
  "cleanup_plan lib p i =
     (if ei_runtime_kind i \<noteq> Container \<or> ei_provider_binding i \<noteq> cp_binding p then Inl ReleaseIdentityMismatch
      else let ns = environment_namespace lib i in
      res_then (ok_or ReleaseContractInvalid (jl_hash lib (JObj [
           (''environmentId'', JStr (jl_id lib (ei_id i))), (''namespace'', JStr ns), (''action'', JStr ''cleanup'')])))
        (\<lambda>plan_sha256. Inr \<lparr> rpl_environment_id = ei_id i, rpl_namespace = ns, rpl_image = [],
            rpl_resources = [], rpl_plan_sha256 = plan_sha256 \<rparr>))"

section \<open>The provider\<close>

record container_apply_observation =
  ao_ready :: bool
  ao_observed_at :: timestamp

record backend_fence =
  bf_protocol_version :: u8
  bf_environment_id :: uuid
  bf_operation_id :: uuid
  bf_provider_step :: u32
  bf_operation_generation :: u64
  bf_attempt :: u32
  bf_action :: reconcile_action
  bf_request_id :: sha256
  bf_trace_id :: string
  bf_deadline_at :: timestamp

definition CONTAINER_BACKEND_PROTOCOL_VERSION :: u8 where
  "CONTAINER_BACKEND_PROTOCOL_VERSION = 2"

fun reconcile_action_name :: "reconcile_action \<Rightarrow> string" where
  "reconcile_action_name ActValidate = ''validate''"
| "reconcile_action_name ActBuild = ''build''"
| "reconcile_action_name ActProvision = ''provision''"
| "reconcile_action_name ActObserve = ''observe''"
| "reconcile_action_name ActStart = ''start''"
| "reconcile_action_name ActStop = ''stop''"
| "reconcile_action_name ActRestart = ''restart''"
| "reconcile_action_name ActReset = ''reset''"
| "reconcile_action_name ActConfigure = ''configure''"
| "reconcile_action_name ActCleanup = ''cleanup''"

definition fence_identity_json :: "json_libs \<Rightarrow> environment_instance \<Rightarrow> reconcile_action \<Rightarrow> json" where
  "fence_identity_json lib i action = JObj [
     (''protocolVersion'', JNum (uint CONTAINER_BACKEND_PROTOCOL_VERSION)),
     (''environmentId'', JStr (jl_id lib (ei_id i))),
     (''operationId'', JStr (jl_id lib (eo_id (ei_operation i)))),
     (''providerStep'', JNum (uint (eo_provider_step (ei_operation i)))),
     (''operationGeneration'', JNum (uint (ei_generation i))),
     (''attempt'', JNum (uint (eo_attempt (ei_operation i)))),
     (''action'', JStr (reconcile_action_name action))]"

definition fence_for_action ::
  "json_libs \<Rightarrow> environment_instance \<Rightarrow> reconcile_action \<Rightarrow> provider_failure + backend_fence" where
  "fence_for_action lib i action =
     res_then (ok_or invalid_observation (jl_hash lib (fence_identity_json lib i action))) (\<lambda>request_id.
     Inr \<lparr> bf_protocol_version = CONTAINER_BACKEND_PROTOCOL_VERSION, bf_environment_id = ei_id i,
           bf_operation_id = eo_id (ei_operation i), bf_provider_step = eo_provider_step (ei_operation i),
           bf_operation_generation = ei_generation i, bf_attempt = eo_attempt (ei_operation i),
           bf_action = action, bf_request_id = request_id, bf_trace_id = eo_trace_id (ei_operation i),
           bf_deadline_at = eo_deadline_at (ei_operation i) \<rparr>)"

record container_backend =
  cb_apply :: "backend_fence \<Rightarrow> container_resource_plan \<Rightarrow> provider_failure + container_apply_observation"
  cb_observe :: "backend_fence \<Rightarrow> container_resource_plan \<Rightarrow> provider_failure + container_apply_observation"
  cb_scale :: "backend_fence \<Rightarrow> container_resource_plan \<Rightarrow> u32 \<Rightarrow> provider_failure + container_apply_observation"
  cb_restart :: "backend_fence \<Rightarrow> container_resource_plan \<Rightarrow> revision \<Rightarrow> provider_failure + container_apply_observation"
  cb_delete_namespace :: "backend_fence \<Rightarrow> container_resource_plan \<Rightarrow> provider_failure + artifact_ref"

type_synonym release_resolver = "uuid \<Rightarrow> u64 \<Rightarrow> release_projection_error + resolved_release"

definition no_endpoints :: "observed_environment_state \<Rightarrow> bool \<Rightarrow> provider_observation" where
  "no_endpoints next_state complete = \<lparr> po_next_state = next_state, po_endpoints = [],
     po_cleanup_evidence = None, po_operation_complete = complete \<rparr>"

definition container_endpoint_id :: "uuid \<Rightarrow> uuid" where
  "container_endpoint_id environment_id = Bit_Operations.xor environment_id 1"

definition container_ready_observation ::
  "environment_instance \<Rightarrow> container_apply_observation \<Rightarrow> provider_failure + provider_observation" where
  "container_ready_observation i observed =
     (if \<not> ao_ready observed then Inr (no_endpoints Provisioning False)
      else res_then (ok_or invalid_observation
             (Option.bind (checked_add (ei_revision i) 1) (\<lambda>v. case revision_new v of Inr r \<Rightarrow> Some r | Inl _ \<Rightarrow> None)))
           (\<lambda>rv. Inr \<lparr> po_next_state = Ready,
             po_endpoints = [\<lparr> ep_id = container_endpoint_id (ei_id i), ep_protocol = Http, ep_revision = rv,
               ep_health = Healthy, ep_observed_at = ao_observed_at observed \<rparr>],
             po_cleanup_evidence = None, po_operation_complete = True \<rparr>))"

definition container_cleanup ::
  "json_libs \<Rightarrow> container_provider \<Rightarrow> container_backend \<Rightarrow> environment_instance \<Rightarrow> backend_fence
   \<Rightarrow> provider_failure + provider_observation" where
  "container_cleanup lib p backend i fence =
     res_then (map_err projection_failure (cleanup_plan lib p i)) (\<lambda>plan.
     res_then (cb_delete_namespace backend fence plan) (\<lambda>evidence.
     if \<not> valid_artifact_ref evidence then Inl cleanup_failed
     else Inr \<lparr> po_next_state = Deleted, po_endpoints = [], po_cleanup_evidence = Some evidence,
            po_operation_complete = True \<rparr>))"

definition container_act ::
  "container_backend \<Rightarrow> environment_instance \<Rightarrow> backend_fence \<Rightarrow> container_resource_plan \<Rightarrow> reconcile_action
   \<Rightarrow> provider_failure + provider_observation" where
  "container_act backend i fence plan action =
     (let st = ei_observed_state i in
      if action = ActValidate \<and> st = Requested then Inr (no_endpoints Validating False)
      else if action = ActValidate \<and> st = Validating then Inr (no_endpoints Building False)
      else if action = ActBuild \<and> st = Building then Inr (no_endpoints Provisioning False)
      else if action \<in> {ActProvision, ActReset} \<and> st = Provisioning
      then res_then (cb_apply backend fence plan) (container_ready_observation i)
      else if action = ActObserve
      then res_then (cb_observe backend fence plan) (container_ready_observation i)
      else if action = ActStart \<and> st = Stopped
      then res_then (cb_scale backend fence plan 1) (container_ready_observation i)
      else if action = ActRestart \<and> st = Provisioning
      then res_then (cb_restart backend fence plan (ei_revision i)) (container_ready_observation i)
      else if action = ActStop \<and> st \<in> {Stopping, Expiring}
      then res_then (cb_scale backend fence plan 0) (\<lambda>_. Inr (no_endpoints Stopped True))
      else Inl provider_rejected)"

definition container_execute ::
  "json_libs \<Rightarrow> container_provider \<Rightarrow> container_backend \<Rightarrow> release_resolver \<Rightarrow> reconcile_action
   \<Rightarrow> environment_instance \<Rightarrow> provider_failure + provider_observation" where
  "container_execute lib p backend releases action i =
     res_then (fence_for_action lib i action) (\<lambda>fence.
     if action = ActCleanup \<and> ei_observed_state i = Deleting
     then container_cleanup lib p backend i fence
     else res_then (map_err projection_failure (releases (ei_release_id i) (ei_release_version i))) (\<lambda>resolved.
          res_then (map_err projection_failure (container_plan lib p i resolved action)) (\<lambda>plan.
          container_act backend i fence plan action)))"

definition as_provider ::
  "(reconcile_action \<Rightarrow> environment_instance \<Rightarrow> provider_failure + provider_observation) \<Rightarrow> environment_provider" where
  "as_provider execute action i =
     (case execute action i of Inl f \<Rightarrow> ReplyErr f | Inr obs \<Rightarrow> ReplyOk obs)"

section \<open>A healthy backend\<close>

definition container_endpoint :: "timestamp \<Rightarrow> environment_instance \<Rightarrow> revision \<Rightarrow> environment_endpoint" where
  "container_endpoint t i rv = \<lparr> ep_id = container_endpoint_id (ei_id i), ep_protocol = Http, ep_revision = rv,
     ep_health = Healthy, ep_observed_at = t \<rparr>"

definition backend_healthy :: "container_backend \<Rightarrow> timestamp \<Rightarrow> artifact_ref \<Rightarrow> bool" where
  "backend_healthy backend t ev \<longleftrightarrow>
     (\<forall>f q. cb_apply backend f q = Inr \<lparr> ao_ready = True, ao_observed_at = t \<rparr>)
     \<and> (\<forall>f q. cb_observe backend f q = Inr \<lparr> ao_ready = True, ao_observed_at = t \<rparr>)
     \<and> (\<forall>f q n. cb_scale backend f q n = Inr \<lparr> ao_ready = True, ao_observed_at = t \<rparr>)
     \<and> (\<forall>f q r. cb_restart backend f q r = Inr \<lparr> ao_ready = True, ao_observed_at = t \<rparr>)
     \<and> (\<forall>f q. cb_delete_namespace backend f q = Inr ev) \<and> valid_artifact_ref ev"

definition container_ok ::
  "json_libs \<Rightarrow> container_provider \<Rightarrow> container_backend \<Rightarrow> release_resolver \<Rightarrow> timestamp \<Rightarrow> artifact_ref
   \<Rightarrow> environment_instance \<Rightarrow> bool" where
  "container_ok lib p backend releases t ev i \<longleftrightarrow>
     (\<forall>x. jl_hash lib x \<noteq> None) \<and> backend_healthy backend t ev
     \<and> ei_runtime_kind i = Container \<and> ei_provider_binding i = cp_binding p
     \<and> (case releases (ei_release_id i) (ei_release_version i) of
          Inl _ \<Rightarrow> False
        | Inr resolved \<Rightarrow> (\<forall>a. is_ok (container_plan lib p i resolved a)))"

lemma binding_frame:
  assumes "same_binding i j"
  shows "plan_labels lib j = plan_labels lib i" "environment_namespace lib j = environment_namespace lib i"
    "deployment_doc lib j = deployment_doc lib i"
  using assms by (auto simp: same_binding_def plan_labels_def environment_namespace_def deployment_doc_def fun_eq_iff)

lemma container_plan_binding:
  assumes "same_binding i j"
  shows "container_plan lib p j r a = container_plan lib p i r a"
  using assms binding_frame [OF assms]
  unfolding container_plan_def plan_documents_def same_binding_def by (elim conjE) (simp only:)

lemma container_ok_stable:
  assumes "container_ok lib p backend releases t ev i" "same_binding i j"
  shows "container_ok lib p backend releases t ev j"
  using assms container_plan_binding [OF assms(2)] by (auto simp: container_ok_def same_binding_def split: sum.splits)

lemma container_fence_ok:
  assumes "\<forall>x. jl_hash lib x \<noteq> None"
  obtains f where "fence_for_action lib i a = Inr f"
proof -
  obtain x where "jl_hash lib (fence_identity_json lib i a) = Some x" using assms by blast
  then show ?thesis using that by (simp add: fence_for_action_def)
qed

lemma container_ready_reply:
  assumes "revision_next (ei_revision i) = Some rv"
  shows "container_ready_observation i \<lparr> ao_ready = True, ao_observed_at = t \<rparr> = Inr (ready_with (container_endpoint t i rv))"
  using assms revision_next_nonzero [OF assms]
  by (simp add: container_ready_observation_def revision_next_def revision_new_def ready_with_def container_endpoint_def)

lemma container_act_healthy:
  assumes b: "backend_healthy backend t ev" and rv: "revision_next (ei_revision i) = Some rv"
    and nc: "\<not> (a = ActCleanup \<and> ei_observed_state i = Deleting)"
  shows "as_provider (\<lambda>_ i. container_act backend i f plan a) a i
    = healthy_reply (container_endpoint t i rv) ev a (ei_observed_state i)"
  using b nc container_ready_reply [OF rv, of t]
  by (cases a) (simp_all add: container_act_def healthy_reply_def as_provider_def backend_healthy_def no_endpoints_def
      plain_observation_def rejected_reply_def provider_rejected_def Let_def)

lemma container_reply:
  assumes ok: "container_ok lib p backend releases t ev i" and rv: "revision_next (ei_revision i) = Some rv"
  shows "as_provider (container_execute lib p backend releases) a i
    = healthy_reply (container_endpoint t i rv) ev a (ei_observed_state i)"
proof -
  have h: "\<forall>x. jl_hash lib x \<noteq> None" and b: "backend_healthy backend t ev"
    and bind: "ei_runtime_kind i = Container" "ei_provider_binding i = cp_binding p"
    using ok by (auto simp: container_ok_def)
  obtain f where f: "fence_for_action lib i a = Inr f" using container_fence_ok [OF h] .
  show ?thesis
  proof (cases "a = ActCleanup \<and> ei_observed_state i = Deleting")
    case True
    obtain x where "jl_hash lib (JObj [(''environmentId'', JStr (jl_id lib (ei_id i))),
        (''namespace'', JStr (environment_namespace lib i)), (''action'', JStr ''cleanup'')]) = Some x"
      using h by blast
    then show ?thesis using True f b bind
      by (simp add: as_provider_def container_execute_def container_cleanup_def cleanup_plan_def
          healthy_reply_def deleted_with_def backend_healthy_def)
  next
    case False
    obtain resolved where r: "releases (ei_release_id i) (ei_release_version i) = Inr resolved"
      "is_ok (container_plan lib p i resolved a)"
      using ok by (auto simp: container_ok_def split: sum.splits)
    then obtain plan where "container_plan lib p i resolved a = Inr plan" by (auto simp: is_ok_iff)
    then have "container_execute lib p backend releases a i = container_act backend i f plan a"
      using False f r(1) by (auto simp: container_execute_def)
    then show ?thesis using container_act_healthy [OF b rv False, of f plan] by (simp add: as_provider_def)
  qed
qed

interpretation container: completing_provider "container_ok lib p backend releases t ev"
  "as_provider (container_execute lib p backend releases)" "container_endpoint t" ev
  for lib p backend releases t ev
  by unfold_locales (auto simp: container_reply container_endpoint_def intro: container_ok_stable)

end
