(* ===== verification/Container_Safety.thy ===== *)
theory Container_Safety
  imports Container_Provider
begin

text \<open>
  What the container provider guarantees: the security posture of every plan it
  makes, the completion of the operations it can serve (and the two accepted
  commands it can never finish), and the fence a withdrawn release puts around
  its environments.
\<close>

section \<open>The security posture of a plan\<close>

fun json_get :: "string \<Rightarrow> json \<Rightarrow> json" where
  "json_get k (JObj fs) = (case map_of fs k of None \<Rightarrow> JNull | Some v \<Rightarrow> v)"
| "json_get k _ = JNull"

fun json_at :: "string list \<Rightarrow> json \<Rightarrow> json" where
  "json_at [] v = v"
| "json_at (k # ks) v = json_at ks (json_get k v)"

fun json_items :: "json \<Rightarrow> json list" where
  "json_items (JArr vs) = vs"
| "json_items _ = []"

definition hardened_container :: "string \<Rightarrow> json \<Rightarrow> bool" where
  "hardened_container img c \<longleftrightarrow>
     json_get ''image'' c = JStr img
     \<and> json_at [''securityContext'', ''allowPrivilegeEscalation''] c = JBool False
     \<and> json_at [''securityContext'', ''readOnlyRootFilesystem''] c = JBool True
     \<and> json_at [''securityContext'', ''runAsNonRoot''] c = JBool True
     \<and> json_at [''securityContext'', ''privileged''] c = JNull
     \<and> json_at [''securityContext'', ''capabilities'', ''drop''] c = JList [''ALL'']
     \<and> json_at [''securityContext'', ''capabilities'', ''add''] c = JNull"

definition hardened_pod :: "string \<Rightarrow> json \<Rightarrow> bool" where
  "hardened_pod img pod \<longleftrightarrow>
     json_get ''automountServiceAccountToken'' pod = JBool False
     \<and> json_at [''securityContext'', ''runAsNonRoot''] pod = JBool True
     \<and> json_get ''hostNetwork'' pod = JNull \<and> json_get ''hostPID'' pod = JNull
     \<and> json_items (json_get ''containers'' pod) \<noteq> []
     \<and> list_all (hardened_container img) (json_items (json_get ''containers'' pod) @ json_items (json_get ''initContainers'' pod))"

definition denies_all :: "string \<Rightarrow> json \<Rightarrow> container_resource \<Rightarrow> bool" where
  "denies_all direction selector r \<longleftrightarrow>
     rc_kind r = ''NetworkPolicy'' \<and> json_at [''spec'', ''podSelector''] (rc_document r) = selector
     \<and> json_at [''spec'', ''policyTypes''] (rc_document r) = JList [direction]
     \<and> json_at [''spec'', to_ascii_lowercase direction] (rc_document r) = JNull"

definition pinned_image :: "string \<Rightarrow> bool" where
  "pinned_image img \<longleftrightarrow> (\<exists>repository hex. img = repository @ ''@sha256:'' @ hex \<and> length hex = 64
     \<and> list_all is_ascii_hexdigit hex \<and> CHR ''@'' \<notin> set repository)"

lemma container_planE:
  assumes "container_plan lib p i resolved action = Inr plan"
  obtains img port rc lc rm lm where
    "release_published_validate (rl_projection resolved) = Inr ()"
    "container_image lib p (rp_release (rl_projection resolved)) = Inr img"
    "rpl_image plan = img" "rpl_namespace plan = environment_namespace lib i" "rpl_environment_id plan = ei_id i"
    "rpl_resources plan = plan_documents lib p i (rl_projection resolved) img port rc lc rm lm"
  using assms by (auto simp: container_plan_def Let_def res_simps)

lemma container_image_pinned:
  assumes "container_image lib p release = Inr img" "template_release_validate release = Inr ()"
  shows "pinned_image img"
proof -
  obtain a b repository digest where art: "tr_artifact release = ContainerArtifact a b repository digest"
    and img: "img = repository @ ''@'' @ digest" "CHR ''@'' \<notin> set repository"
    using assms(1) by (auto simp: container_image_def split: image_artifact.splits if_splits)
  have "validate_oci_digest digest = Inr ()"
    using assms(2) art by (auto simp: template_release_validate_def res_simps)
  then obtain hex where hex: "strip_prefix ''sha256:'' digest = Some hex" "length hex = 64" "list_all is_ascii_hexdigit hex"
    by (auto simp: validate_oci_digest_def split: option.splits if_splits)
  then have "digest = ''sha256:'' @ hex" by (auto simp: strip_prefix_def prefix_def split: if_splits)
  then show ?thesis using img hex unfolding pinned_image_def by (intro exI [of _ repository] exI [of _ hex]) simp
qed

lemmas plan_doc_defs = resource_doc_def namespace_doc_def quota_doc_def limits_doc_def service_account_doc_def
  workspace_claim_doc_def network_policy_doc_def default_deny_ingress_doc_def access_ingress_doc_def
  deployment_doc_def service_doc_def

lemma pod_spec_hardened: "hardened_pod img (pod_spec img port cpu memory)"
  by (simp add: hardened_pod_def pod_spec_def hardened_container_def seed_container_def runtime_container_def
      restricted_container_context_def)

lemma documents_scoped:
  "list_all (\<lambda>r. (rc_kind r = ''Namespace'' \<and> rc_namespace r = None \<and> rc_name r = environment_namespace lib i)
      \<or> rc_namespace r = Some (environment_namespace lib i))
     (plan_documents lib p i projection img port rc lc rm lm)"
  by (cases "es_network (rp_environment_spec projection)") (simp_all add: plan_documents_def plan_doc_defs Let_def)

lemma documents_hardened:
  "list_all (\<lambda>r. (rc_kind r = ''Deployment'' \<longrightarrow> hardened_pod img (json_at [''spec'', ''template'', ''spec''] (rc_document r)))
      \<and> (rc_kind r = ''Service'' \<longrightarrow> json_at [''spec'', ''type''] (rc_document r) = JStr ''ClusterIP'')
      \<and> rc_kind r \<notin> {''Pod'', ''DaemonSet'', ''StatefulSet'', ''Job'', ''CronJob'', ''ReplicaSet'', ''Ingress'',
          ''Role'', ''ClusterRole'', ''RoleBinding'', ''ClusterRoleBinding''})
     (plan_documents lib p i projection img port rc lc rm lm)"
  by (cases "es_network (rp_environment_spec projection)")
     (simp_all add: plan_documents_def plan_doc_defs Let_def pod_spec_hardened)

lemma documents_ingress:
  "list_ex (denies_all ''Ingress'' (JObj [])) (plan_documents lib p i projection img port rc lc rm lm)"
proof -
  have "denies_all ''Ingress'' (JObj []) (default_deny_ingress_doc ns labels)" for ns labels
    by (simp add: denies_all_def plan_doc_defs to_ascii_lowercase_def is_ascii_uppercase_def byte_def)
  then show ?thesis by (simp add: plan_documents_def Let_def)
qed

lemma documents_egress:
  "es_network (rp_environment_spec projection) = NetDenyAll
   \<Longrightarrow> list_ex (denies_all ''Egress'' runtime_selector) (plan_documents lib p i projection img port rc lc rm lm)"
proof -
  assume *: "es_network (rp_environment_spec projection) = NetDenyAll"
  have "denies_all ''Egress'' runtime_selector (network_policy_doc ns labels ''deny-all-egress''
     [(''podSelector'', runtime_selector), (''policyTypes'', JList [''Egress''])])" for ns labels
    by (simp add: denies_all_def plan_doc_defs to_ascii_lowercase_def is_ascii_uppercase_def byte_def)
  then show ?thesis using * by (simp add: plan_documents_def Let_def)
qed


section \<open>Completion with a healthy backend\<close>

definition demo_lib :: json_libs where
  "demo_lib = \<lparr> jl_id = (\<lambda>u. show_nat (unat u)), jl_time = (\<lambda>_. ''now''), jl_hash = (\<lambda>_. Some (replicate 32 7)) \<rparr>"

definition demo_artifact :: artifact_ref where
  "demo_artifact = \<lparr> ar_artifact_id = 6, ar_store_binding = ''store'', ar_object_version = ''v1'', ar_size_bytes = 10,
     ar_media_type = ''application/json'' \<rparr>"

definition demo_projection :: release_published where
  "demo_projection = \<lparr>
     rp_release = \<lparr> tr_id = 4, tr_course_id = 2, tr_version = 1, tr_candidate_id = 5, tr_agent_run_id = 8,
       tr_candidate_revision = 1, tr_runtime_kind = Container,
       tr_approval = \<lparr> ca_id = 11, ca_candidate_id = 5, ca_candidate_revision = 1, ca_policy_revision = 1,
         ca_trust_revision = 1, ca_actor_id = 3, ca_decision = DecisionApproved, ca_reason = ''ok'', ca_decided_at = 0 \<rparr>,
       tr_artifact = ContainerArtifact 12 13 ''registry.test/labs/course-2-5'' (''sha256:'' @ replicate 64 (CHR ''a'')),
       tr_published_by = 3, tr_published_at = 0 \<rparr>,
     rp_environment_spec = \<lparr> es_name = ''lab'', es_class = Experiment,
       es_resources = \<lparr> rr_cpu_millicores = 500, rr_memory_bytes = 1000, rr_storage_bytes = 1000 \<rparr>,
       es_network = NetDenyAll,
       es_entries = [\<lparr> en_name = ''web'', en_protocol = Http, en_service_port = 8080 \<rparr>],
       es_security = \<lparr> ss_user_policy = NonRootRequired, ss_root_filesystem_policy = ReadOnlyRequired,
         ss_privilege_escalation_policy = EscalationDeny, ss_public_exposure_policy = ExposureDeny,
         ss_security_profile_binding = ''restricted'' \<rparr>,
       es_runtime = ContainerRuntime ''k8s'' demo_artifact ''sha256:base'' 8080 None,
       es_retention = \<lparr> rs_policy_id = 14, rs_policy_revision = 1, rs_class = CourseMaterial, rs_retain_until = 0,
         rs_disposition = RetentionDelete \<rparr> \<rparr> \<rparr>"

definition demo_container :: container_provider where
  "demo_container = \<lparr> cp_binding = ''k8s'', cp_configuration = \<lparr>
     cc_release_policy = \<lparr> crp_image_policy_id = 15, crp_image_policy_revision = 1, crp_trust_revision = 1 \<rparr>,
     cc_image_repository_prefix = ''registry.test/labs'', cc_access_namespace = ''access'',
     cc_access_pod_label = ''access-service'', cc_image_pull_secret_name = ''pull'',
     cc_workspace_storage_class_name = ''fast'' \<rparr> \<rparr>"

definition demo_resolved :: resolved_release where
  "demo_resolved = \<lparr> rl_projection = demo_projection, rl_authority_now = 0, rl_withdrawn_at = None \<rparr>"

definition demo_backend :: container_backend where
  "demo_backend = (let seen = \<lparr> ao_ready = True, ao_observed_at = 5 \<rparr> in
     \<lparr> cb_apply = (\<lambda>_ _. Inr seen), cb_observe = (\<lambda>_ _. Inr seen), cb_scale = (\<lambda>_ _ _. Inr seen),
       cb_restart = (\<lambda>_ _ _. Inr seen), cb_delete_namespace = (\<lambda>_ _. Inr demo_artifact) \<rparr>)"

lemma demo_plan_parts:
  "release_published_validate demo_projection = Inr ()"
  "container_image demo_lib demo_container (rp_release demo_projection)
     = Inr (''registry.test/labs/course-2-5@sha256:'' @ replicate 64 (CHR ''a''))"
  "container_service_port (rp_environment_spec demo_projection) = Inr 8080"
  "checked_add (rr_cpu_millicores (es_resources (rp_environment_spec demo_projection))) FREEZE_REQUEST_CPU_MILLICORES = Some 600"
  "checked_add (rr_cpu_millicores (es_resources (rp_environment_spec demo_projection))) FREEZE_LIMIT_CPU_MILLICORES = Some 1500"
  "checked_add (rr_memory_bytes (es_resources (rp_environment_spec demo_projection))) FREEZE_REQUEST_MEMORY_BYTES = Some 134218728"
  "checked_add (rr_memory_bytes (es_resources (rp_environment_spec demo_projection))) FREEZE_LIMIT_MEMORY_BYTES = Some 1073742824"
  "validate_release_use demo_container demo_resolved a = Inr ()"
  subgoal by code_simp
  subgoal by code_simp
  subgoal by code_simp
  by (simp_all add: demo_projection_def FREEZE_REQUEST_CPU_MILLICORES_def FREEZE_LIMIT_CPU_MILLICORES_def
      FREEZE_REQUEST_MEMORY_BYTES_def FREEZE_LIMIT_MEMORY_BYTES_def checked_add_def validate_release_use_def
      demo_container_def demo_resolved_def)

lemma demo_plan:
  "is_ok (container_plan demo_lib demo_container demo_create demo_resolved a)"
proof -
  have r: "rl_projection demo_resolved = demo_projection" by (simp add: demo_resolved_def)
  have h: "jl_hash demo_lib x = Some (replicate 32 7)" for x by (simp add: demo_lib_def)
  have i: "ei_runtime_kind demo_create = Container" "ei_release_id demo_create = tr_id (rp_release demo_projection)"
    "ei_release_version demo_create = tr_version (rp_release demo_projection)"
    "ei_course_id demo_create = tr_course_id (rp_release demo_projection)"
    "ei_provider_binding demo_create = cp_binding demo_container"
    "container_provider_binding (es_runtime (rp_environment_spec demo_projection)) = Inr (cp_binding demo_container)"
    by (simp_all add: demo_create_def demo_projection_def demo_container_def)
  show ?thesis unfolding container_plan_def Let_def r by (simp add: demo_plan_parts h i)
qed

lemma demo_container_ok:
  "container_ok demo_lib demo_container demo_backend (\<lambda>_ _. Inr demo_resolved) 5 demo_artifact demo_create"
proof -
  have "valid_artifact_ref demo_artifact" by code_simp
  then have "backend_healthy demo_backend 5 demo_artifact"
    by (simp add: backend_healthy_def demo_backend_def Let_def)
  then show ?thesis using demo_plan
    by (simp add: container_ok_def demo_lib_def demo_container_def demo_create_def)
qed




lemma accepted_unserviceable:
  assumes "plan_command_authorized i command oid auth now = Inr j" and inv: "phase_inv i"
    and kind: "lc_kind command = Expire \<or> lc_kind command = Reset \<and> ei_observed_state i = Stopped"
  shows "\<not> serviceable j" "eo_state (ei_operation j) \<in> active_states"
proof -
  obtain phase rv obs gen where a: "accepted_observed_state i (lc_kind command) = Inr obs"
    "j = planned_instance i command oid auth phase rv obs gen" "command_guards i command auth now = Inr phase"
    using assms(1) by (rule planE)
  have "ei_desired_state i = DesiredStopped" if "lc_kind command = Reset" "ei_observed_state i = Stopped"
    using guardsD(6) [OF a(3)] that inv not_terminal_active [of "eo_state (ei_operation i)"]
    by (cases "ei_desired_state i") (auto simp: phase_inv_def Let_def)
  note kind = kind this
  show "eo_state (ei_operation j) \<in> active_states"
    by (auto simp: a(2) planned_instance_def accepted_operation_def)
  have d: "ei_desired_state j = desired_state i (lc_kind command)" "ei_observed_state j = obs"
    by (simp_all add: a(2) planned_instance_def)
  have "obs \<in> (if lc_kind command = Expire then {Expiring} else {Provisioning})"
    using a(1) kind by (auto simp: accepted_observed_state_def accepted_next_def res_simps split: if_splits)
  then show "\<not> serviceable j" using kind d by (auto simp: serviceable_def split: if_splits)
qed


definition demo_expiring :: environment_instance where
  "demo_expiring = planned_instance demo_ready (demo_command Expire 5) 12 None None 6 Expiring 2"

lemmas demo_expiring_defs = demo_expiring_def planned_instance_def accepted_operation_def demo_command_def
  demo_ready_def demo_create_def

lemma demo_expiring_eq:
  "plan_command_authorized demo_ready (demo_command Expire 5) 12 None 10 = Inr demo_expiring"
  "same_binding demo_create demo_expiring" "headroom demo_expiring" "ei_revision demo_expiring = 6"
  "eo_provider_step (ei_operation demo_expiring) = 1" "ei_generation demo_expiring = 2"
  "admissible demo_expiring 20" "ei_observed_state demo_expiring \<notin> {Requested, Validating, Building}"
  "ei_provider_binding demo_expiring = ''k8s''" "lc_kind (demo_command Expire 5) = Expire"
  "reconciler_new 1000000000 = Inr 1000000000" "reconcile_worker_new 1000000000 3000000000 1000000 = Inr demo_config"
  subgoal by code_simp
  subgoal by (simp add: same_binding_def demo_expiring_defs)
  subgoal by (simp add: headroom_def demo_expiring_defs revision_next_def checked_add_def)
  subgoal by (simp add: demo_expiring_defs)
  subgoal by (simp add: demo_expiring_defs)
  subgoal by (simp add: demo_expiring_defs)
  subgoal by (simp add: demo_expiring_defs admissible_def)
  subgoal by (simp add: demo_expiring_defs)
  subgoal by (simp add: demo_expiring_defs)
  subgoal by (simp add: demo_expiring_defs)
  subgoal by code_simp
  subgoal by code_simp
  done

lemma demo_expiring_room: "room_for 1 demo_expiring"
  using demo_expiring_eq(4-6) by (simp add: room_for_def checked_add_def)


section \<open>Withdrawn releases\<close>

inductive projection_step :: "projection_db \<Rightarrow> projection_db \<Rightarrow> bool" where
  step_published: "release_accept h consumer event db = Inr (d, db') \<Longrightarrow> projection_step db db'"
| step_withdrawn: "release_accept_withdrawal h' consumer event' db = Inr (d, db') \<Longrightarrow> projection_step db db'"

inductive_cases projection_stepE: "projection_step db db'"

definition projection_inv :: "projection_db \<Rightarrow> bool" where
  "projection_inv db \<longleftrightarrow> distinct (map rv_release_id (pj_releases db))"

definition withdrawn_in :: "uuid \<Rightarrow> projection_db \<Rightarrow> bool" where
  "withdrawn_in rid db \<longleftrightarrow> list_ex (\<lambda>r. rv_release_id r = rid \<and> rv_withdrawn_at r \<noteq> None) (pj_releases db)"

lemma insert_releaseD:
  "insert_release r rows = Inr rows' \<Longrightarrow> rows' = rows @ [r] \<and> rv_release_id r \<notin> rv_release_id ` set rows"
  by (auto simp: insert_release_def list_ex_iff image_iff split: if_splits)

lemma release_acceptE:
  assumes "release_accept h consumer event db = Inr (d, db')"
  obtains "pj_releases db' = pj_releases db"
  | r where "pj_releases db' = pj_releases db @ [r]" "rv_release_id r \<notin> rv_release_id ` set (pj_releases db)"
proof -
  have "pj_releases db' = pj_releases db
      \<or> (\<exists>r. rv_release_id r \<notin> rv_release_id ` set (pj_releases db) \<and> pj_releases db' = pj_releases db @ [r])"
    using assms
    by (auto simp: release_accept_def Let_def res_simps dest!: insert_releaseD split: inbox_decision.split_asm)
       (metis inbox_decision.exhaust)
  then show ?thesis using that by blast
qed

lemma release_accept_withdrawalE:
  assumes "release_accept_withdrawal h consumer event db = Inr (d, db')"
  obtains "pj_releases db' = pj_releases db" "d \<noteq> ProjectionApplied"
  | hit where "hit = (\<lambda>r. rv_release_id r = rwn_release_id (ce_data event) \<and> rv_course_id r = ce_course_id event
          \<and> rv_release_version r = uint (rwn_version (ce_data event)) \<and> rv_aggregate_sequence r = 1
          \<and> rv_withdrawn_at r = None)"
      "length (filter hit (pj_releases db)) = 1"
      "pj_releases db' = upd_where hit (withdraw_row event) (pj_releases db)"
  using assms
  by (auto simp: release_accept_withdrawal_def Let_def res_simps split: inbox_decision.splits if_splits)
     (metis inbox_decision.exhaust)

lemma withdraw_row_id [simp]: "rv_release_id (withdraw_row event r) = rv_release_id r"
  and withdraw_row_at [simp]: "rv_withdrawn_at (withdraw_row event r) = Some (rwn_withdrawn_at (ce_data event))"
  by (simp_all add: withdraw_row_def)

lemma upd_withdraw_ids [simp]:
  "map rv_release_id (upd_where hit (withdraw_row event) rows) = map rv_release_id rows"
  by (induction rows) auto

lemma upd_withdraw_keeps:
  "list_ex (\<lambda>r. rv_release_id r = rid \<and> rv_withdrawn_at r \<noteq> None) rows
   \<Longrightarrow> list_ex (\<lambda>r. rv_release_id r = rid \<and> rv_withdrawn_at r \<noteq> None) (upd_where hit (withdraw_row event) rows)"
  by (induction rows) auto

lemma projection_step_inv:
  assumes "projection_inv db" "projection_step db db'"
  shows "projection_inv db'" "withdrawn_in rid db \<Longrightarrow> withdrawn_in rid db'"
  using assms(2,1)
  by (auto simp: projection_inv_def withdrawn_in_def upd_withdraw_keeps simp del: not_None_eq
      elim!: projection_stepE release_acceptE release_accept_withdrawalE)

interpretation projection: invariant_machine "\<lambda>db. pj_releases db = []" projection_step projection_inv
  by unfold_locales (auto simp: projection_inv_def intro: projection_step_inv(1) [unfolded projection_inv_def])

interpretation withdrawn: invariant_machine "\<lambda>db. projection_inv db \<and> withdrawn_in rid db" projection_step
  "\<lambda>db. projection_inv db \<and> withdrawn_in rid db" for rid
  by unfold_locales (auto intro: projection_step_inv)

lemma withdrawal_applied:
  assumes "release_accept_withdrawal h consumer event db = Inr (ProjectionApplied, db')"
  shows "withdrawn_in (rwn_release_id (ce_data event)) db'"
  using assms
proof (cases rule: release_accept_withdrawalE)
  case (2 hit)
  then obtain r where r: "r \<in> set (pj_releases db)" "hit r"
    by (metis filter_empty_conv length_0_conv zero_neq_one)
  then have "withdraw_row event r \<in> set (pj_releases db')" using 2(3) by (force simp: upd_where_def)
  then show ?thesis using r(2) 2(1) by (auto simp: withdrawn_in_def list_ex_iff intro!: bexI [of _ "withdraw_row event r"])
qed simp

lemma withdrawn_resolve:
  assumes "projection_inv db" "withdrawn_in rid db"
  shows "case release_resolve now db rid version of Inl e \<Rightarrow> projection_failure e = provider_rejected
    | Inr resolved \<Rightarrow> rl_withdrawn_at resolved \<noteq> None"
proof -
  obtain r where r: "r \<in> set (pj_releases db)" "rv_release_id r = rid" "rv_withdrawn_at r \<noteq> None"
    using assms(2) by (auto simp: withdrawn_in_def list_ex_iff)
  then have "List.find (\<lambda>r. rv_release_id r = rid) (pj_releases db) = Some r"
    using find_distinct [of rv_release_id "pj_releases db" r] assms(1) by (simp add: projection_inv_def)
  then show ?thesis
    using r(3) by (auto simp: release_resolve_def Let_def res_then_def map_err_def split: sum.splits)
qed

lemma withdrawn_plan:
  assumes "rl_withdrawn_at resolved \<noteq> None" "a \<noteq> ActStop"
  shows "\<exists>e. container_plan lib p i resolved a = Inl e \<and> projection_failure e = provider_rejected"
  using assms
  by (cases "release_published_validate (rl_projection resolved)")
     (simp_all add: container_plan_def Let_def validate_release_use_def)

text \<open>C14: a withdrawal takes effect for good.  Once the projection has applied the
  withdrawal of a release, no later sequence of events, duplicated, late or
  replayed, lets the provider call its backend for an environment of that
  release: every action but stopping and cleaning up fails for good.\<close>

theorem withdrawn_release_is_fenced:
  assumes "reach (\<lambda>db. pj_releases db = []) projection_step db"
    and "release_accept_withdrawal h consumer event db = Inr (ProjectionApplied, db1)"
    and "projection_step\<^sup>*\<^sup>* db1 db2"
    and "ei_release_id i = rwn_release_id (ce_data event)"
    and "a \<noteq> ActStop" "\<not> (a = ActCleanup \<and> ei_observed_state i = Deleting)"
  shows "container_execute lib p backend (release_resolve now db2) a i \<in> {Inl provider_rejected, Inl invalid_observation}"
proof -
  have "projection_inv db1"
    using projection.reach_inv [OF assms(1)] step_withdrawn [OF assms(2)] by (rule projection_step_inv)
  then have inv: "projection_inv db2" "withdrawn_in (ei_release_id i) db2"
    using withdrawn.steps_inv [OF assms(3), of "ei_release_id i"] withdrawal_applied [OF assms(2)] assms(4) by auto
  show ?thesis
  proof (cases "fence_for_action lib i a")
    case (Inl f)
    then show ?thesis
      by (auto simp: container_execute_def fence_for_action_def res_then_def ok_or_def split: option.splits)
  next
    case (Inr f)
    note * = withdrawn_resolve [OF inv, of now "ei_release_version i"]
    show ?thesis
    proof (cases "release_resolve now db2 (ei_release_id i) (ei_release_version i)")
      case (Inr resolved)
      then obtain e where "container_plan lib p i resolved a = Inl e" "projection_failure e = provider_rejected"
        using withdrawn_plan [of resolved a lib p i] * assms(5) by auto
      then show ?thesis using Inr \<open>fence_for_action lib i a = Inr f\<close> assms(6) by (auto simp: container_execute_def)
    qed (use * Inr assms(6) in \<open>auto simp: container_execute_def\<close>)
  qed
qed

definition demo_published :: "release_published cloud_event" where
  "demo_published = \<lparr> ce_specversion = ''1.0'', ce_id = 21, ce_source = event_source (event_contract_of ENVIRONMENT_TEMPLATE_RELEASE_PUBLISHED []),
     ce_event_type = ENVIRONMENT_TEMPLATE_RELEASE_PUBLISHED, ce_subject = ENVIRONMENT_TEMPLATE_RELEASE_PUBLISHED, ce_time = 0,
     ce_datacontenttype = ''application/json'',
     ce_dataschema = (case by_subject ENVIRONMENT_TEMPLATE_RELEASE_PUBLISHED of Some c \<Rightarrow> data_schema c | None \<Rightarrow> []),
     ce_course_id = 2, ce_aggregate_revision = 1, ce_aggregate_sequence = 1, ce_trace_id = ''t'', ce_data = demo_projection \<rparr>"

definition demo_withdrawn :: "release_withdrawn cloud_event" where
  "demo_withdrawn = \<lparr> ce_specversion = ''1.0'', ce_id = 22, ce_source = event_source (event_contract_of ENVIRONMENT_TEMPLATE_RELEASE_WITHDRAWN []),
     ce_event_type = ENVIRONMENT_TEMPLATE_RELEASE_WITHDRAWN, ce_subject = ENVIRONMENT_TEMPLATE_RELEASE_WITHDRAWN, ce_time = 9,
     ce_datacontenttype = ''application/json'',
     ce_dataschema = (case by_subject ENVIRONMENT_TEMPLATE_RELEASE_WITHDRAWN of Some c \<Rightarrow> data_schema c | None \<Rightarrow> []),
     ce_course_id = 2, ce_aggregate_revision = 1, ce_aggregate_sequence = 2, ce_trace_id = ''t'',
     ce_data = \<lparr> rwn_release_id = 4, rwn_version = 1, rwn_actor_id = 3, rwn_reason_code = ''unsafe'', rwn_withdrawn_at = 9 \<rparr> \<rparr>"

definition demo_hashes :: "'d event_hashes" where
  "demo_hashes = \<lparr> eh_event = (\<lambda>_. Some (replicate 32 1)), eh_data = (\<lambda>_. Some (replicate 32 2)) \<rparr>"

definition applied_db :: "release_projection_error + (release_projection_decision \<times> projection_db) \<Rightarrow> projection_db option" where
  "applied_db r = (case r of Inr (ProjectionApplied, db) \<Rightarrow> Some db | _ \<Rightarrow> None)"

definition demo_published_db :: projection_db where
  "demo_published_db = the (applied_db (release_accept demo_hashes ''env'' demo_published \<lparr> pj_inbox = empty_inbox, pj_releases = [] \<rparr>))"

definition demo_withdrawn_db :: projection_db where
  "demo_withdrawn_db = the (applied_db (release_accept_withdrawal demo_hashes ''env'' demo_withdrawn demo_published_db))"

lemma applied_db_Some: "applied_db r = Some db \<Longrightarrow> r = Inr (ProjectionApplied, db)"
  by (auto simp: applied_db_def split: sum.splits prod.splits release_projection_decision.splits)

lemma demo_db_applied:
  "case applied_db (release_accept demo_hashes ''env'' demo_published \<lparr> pj_inbox = empty_inbox, pj_releases = [] \<rparr>) of
     None \<Rightarrow> False
   | Some db \<Rightarrow> applied_db (release_accept_withdrawal demo_hashes ''env'' demo_withdrawn db) \<noteq> None"
  by code_simp

lemma demo_db_steps:
  "release_accept demo_hashes ''env'' demo_published \<lparr> pj_inbox = empty_inbox, pj_releases = [] \<rparr> = Inr (ProjectionApplied, demo_published_db)"
  "release_accept_withdrawal demo_hashes ''env'' demo_withdrawn demo_published_db = Inr (ProjectionApplied, demo_withdrawn_db)"
  using demo_db_applied unfolding demo_withdrawn_db_def demo_published_db_def
  by (auto intro: applied_db_Some split: option.splits)

theorem withdrawn_release_is_fenced_witness:
  "container_execute demo_lib demo_container demo_backend (release_resolve 10 demo_withdrawn_db) ActProvision demo_create
     \<in> {Inl provider_rejected, Inl invalid_observation}"
proof (rule withdrawn_release_is_fenced [OF _ demo_db_steps(2) rtranclp.rtrancl_refl])
  have "reach (\<lambda>db. pj_releases db = []) projection_step \<lparr> pj_inbox = empty_inbox, pj_releases = [] \<rparr>"
    by (rule reach_init) simp
  then show "reach (\<lambda>db. pj_releases db = []) projection_step demo_published_db"
    using step_published [OF demo_db_steps(1)] by (rule reach_step)
qed (simp_all add: demo_create_def demo_withdrawn_def)

end
