(* ===== verification/Container_Executor.thy ===== *)
theory Container_Executor
  imports Container_Safety
begin

text \<open>
  The remote executor of \<^verbatim>\<open>services/environment-service/src/container_provider.rs\<close>:
  the request and response messages, the durable fence table an executor
  consults before it touches Kubernetes, the fenced execution of one request,
  the request server and the NATS client that implements the provider's backend.

  The text form of messages comes from \<^verbatim>\<open>serde_json\<close> and is a codec argument; the
  stored response column holds the response itself.  Executions overlap in time,
  so the executor is also given as a step relation over the fence table, the
  clock and the executions in flight.
\<close>

section \<open>Messages\<close>

datatype executor_request =
    ReqApply container_resource_plan
  | ReqObserve container_resource_plan
  | ReqScale container_resource_plan u32
  | ReqRestart container_resource_plan revision
  | ReqDeleteNamespace container_resource_plan

definition matches_action :: "executor_request \<Rightarrow> reconcile_action \<Rightarrow> bool" where
  "matches_action r a = (case r of
      ReqApply _ \<Rightarrow> a \<in> {ActProvision, ActReset}
    | ReqObserve _ \<Rightarrow> a = ActObserve
    | ReqScale _ replicas \<Rightarrow> a = ActStop \<and> replicas = 0 \<or> a = ActStart
    | ReqRestart _ _ \<Rightarrow> a = ActRestart
    | ReqDeleteNamespace _ \<Rightarrow> a = ActCleanup)"

fun container_executor_plan :: "executor_request \<Rightarrow> container_resource_plan" where
  "container_executor_plan (ReqApply plan) = plan"
| "container_executor_plan (ReqObserve plan) = plan"
| "container_executor_plan (ReqScale plan _) = plan"
| "container_executor_plan (ReqRestart plan _) = plan"
| "container_executor_plan (ReqDeleteNamespace plan) = plan"

datatype executor_response =
    RespObserved sha256 container_apply_observation
  | RespDeleted sha256 artifact_ref
  | RespFailed provider_failure

record request_envelope =
  qe_fence :: backend_fence
  qe_request :: executor_request

record response_envelope =
  pe_protocol_version :: u8
  pe_environment_id :: uuid
  pe_operation_id :: uuid
  pe_provider_step :: u32
  pe_operation_generation :: u64
  pe_attempt :: u32
  pe_request_id :: sha256
  pe_action :: reconcile_action
  pe_response :: executor_response

datatype executor_fence_error =
    FenceConfigurationInvalid
  | FenceIdentityMismatch
  | FenceDeadlineExceeded
  | FenceStaleGeneration
  | FenceTombstoned
  | FenceInProgress
  | FenceDatabase
  | FenceTransport

fun container_executor_failure :: "executor_fence_error \<Rightarrow> provider_failure" where
  "container_executor_failure FenceInProgress = \<lparr> pf_code = Unavailable, pf_retryable = True \<rparr>"
| "container_executor_failure FenceDatabase = \<lparr> pf_code = Unavailable, pf_retryable = True \<rparr>"
| "container_executor_failure FenceTransport = \<lparr> pf_code = Unavailable, pf_retryable = True \<rparr>"
| "container_executor_failure FenceConfigurationInvalid = \<lparr> pf_code = Rejected, pf_retryable = False \<rparr>"
| "container_executor_failure FenceIdentityMismatch = \<lparr> pf_code = Rejected, pf_retryable = False \<rparr>"
| "container_executor_failure FenceDeadlineExceeded = \<lparr> pf_code = Rejected, pf_retryable = False \<rparr>"
| "container_executor_failure FenceStaleGeneration = \<lparr> pf_code = Rejected, pf_retryable = False \<rparr>"
| "container_executor_failure FenceTombstoned = \<lparr> pf_code = Rejected, pf_retryable = False \<rparr>"

section \<open>Request identity\<close>

definition plan_json :: "json_libs \<Rightarrow> container_resource_plan \<Rightarrow> json" where
  "plan_json lib plan = JObj [
     (''environmentId'', JStr (jl_id lib (rpl_environment_id plan))), (''namespace'', JStr (rpl_namespace plan)),
     (''image'', JStr (rpl_image plan)), (''resources'', JArr (map resource_json (rpl_resources plan))),
     (''planSha256'', JStr (sha256_display (rpl_plan_sha256 plan)))]"

fun executor_request_json :: "json_libs \<Rightarrow> executor_request \<Rightarrow> json" where
  "executor_request_json lib (ReqApply plan) = JObj [(''backendAction'', JStr ''apply''), (''plan'', plan_json lib plan)]"
| "executor_request_json lib (ReqObserve plan) = JObj [(''backendAction'', JStr ''observe''), (''plan'', plan_json lib plan)]"
| "executor_request_json lib (ReqScale plan replicas) =
     JObj [(''backendAction'', JStr ''scale''), (''plan'', plan_json lib plan), (''replicas'', JNum (uint replicas))]"
| "executor_request_json lib (ReqRestart plan rv) =
     JObj [(''backendAction'', JStr ''restart''), (''plan'', plan_json lib plan), (''operationRevision'', JU64 rv)]"
| "executor_request_json lib (ReqDeleteNamespace plan) =
     JObj [(''backendAction'', JStr ''delete_namespace''), (''plan'', plan_json lib plan)]"

definition container_executor_request_id ::
  "json_libs \<Rightarrow> backend_fence \<Rightarrow> executor_request \<Rightarrow> executor_fence_error + sha256" where
  "container_executor_request_id lib fence request =
     ok_or FenceIdentityMismatch (jl_hash lib (JObj [
       (''protocolVersion'', JNum (uint (bf_protocol_version fence))),
       (''environmentId'', JStr (jl_id lib (bf_environment_id fence))),
       (''operationId'', JStr (jl_id lib (bf_operation_id fence))),
       (''providerStep'', JNum (uint (bf_provider_step fence))),
       (''operationGeneration'', JNum (uint (bf_operation_generation fence))),
       (''attempt'', JNum (uint (bf_attempt fence))),
       (''action'', JStr (reconcile_action_name (bf_action fence))),
       (''deadlineAt'', JStr (jl_time lib (bf_deadline_at fence))),
       (''request'', executor_request_json lib request)]))"

definition bind_container_executor_request ::
  "json_libs \<Rightarrow> backend_fence \<Rightarrow> executor_request \<Rightarrow> provider_failure + backend_fence" where
  "bind_container_executor_request lib fence request =
     res_then (map_err (\<lambda>_. invalid_observation) (container_executor_request_id lib fence request)) (\<lambda>request_id.
     Inr (fence \<lparr> bf_request_id := request_id \<rparr>))"

definition validate_container_executor_request ::
  "json_libs \<Rightarrow> request_envelope \<Rightarrow> executor_fence_error + unit" where
  "validate_container_executor_request lib envelope =
     (let fence = qe_fence envelope in
      res_then (container_executor_request_id lib fence (qe_request envelope)) (\<lambda>expected_request_id.
      if bf_protocol_version fence \<noteq> CONTAINER_BACKEND_PROTOCOL_VERSION
         \<or> bf_operation_generation fence = 0
         \<or> bf_request_id fence \<noteq> expected_request_id
         \<or> \<not> matches_action (qe_request envelope) (bf_action fence)
         \<or> rpl_environment_id (container_executor_plan (qe_request envelope)) \<noteq> bf_environment_id fence
      then Inl FenceIdentityMismatch
      else Inr ()))"

section \<open>The fence table\<close>

record fence_row =
  fr_environment_id :: uuid
  fr_highest_generation :: int
  fr_operation_id :: uuid
  fr_provider_step :: int
  fr_attempt :: int
  fr_tombstoned :: bool
  fr_last_action :: string
  fr_last_request_id :: string
  fr_last_response :: "executor_response option"
  fr_deadline_at :: timestamp

definition I32_MAX :: int where
  "I32_MAX = 2147483647"

datatype executor_admission = Execute int | Replay executor_response

fun is_deleted_response :: "executor_response option \<Rightarrow> bool" where
  "is_deleted_response (Some (RespDeleted _ _)) = True"
| "is_deleted_response _ = False"

text \<open>The refusals of a stored fence, in the order of the source.\<close>

definition fence_check ::
  "timestamp \<Rightarrow> backend_fence \<Rightarrow> fence_row \<Rightarrow> executor_fence_error + executor_response option" where
  "fence_check authority_now fence row =
     (if fr_last_request_id row = sha256_display (bf_request_id fence)
      then (case fr_last_response row of Some r \<Rightarrow> Inr (Some r) | None \<Rightarrow> Inl FenceInProgress)
      else if fr_last_response row = None \<and> authority_now < fr_deadline_at row then Inl FenceInProgress
      else if fr_tombstoned row \<and> is_deleted_response (fr_last_response row)
      then (if bf_action fence = ActCleanup then Inr (fr_last_response row) else Inl FenceTombstoned)
      else if uint (bf_operation_generation fence) < fr_highest_generation row
         \<or> uint (bf_operation_generation fence) = fr_highest_generation row
           \<and> (uint (bf_provider_step fence) < fr_provider_step row
              \<or> uint (bf_provider_step fence) = fr_provider_step row \<and> uint (bf_attempt fence) < fr_attempt row)
      then Inl FenceStaleGeneration
      else if uint (bf_operation_generation fence) = fr_highest_generation row
         \<and> bf_operation_id fence \<noteq> fr_operation_id row
      then Inl FenceIdentityMismatch
      else Inr None)"

definition fence_row_of :: "backend_fence \<Rightarrow> executor_fence_error + fence_row" where
  "fence_row_of fence =
     (if uint (bf_operation_generation fence) > I64_MAX \<or> uint (bf_provider_step fence) > I32_MAX
         \<or> uint (bf_attempt fence) > I32_MAX
      then Inl FenceIdentityMismatch
      else if uint (bf_operation_generation fence) \<le> 0 \<or> uint (bf_attempt fence) \<le> 0 then Inl FenceDatabase
      else Inr \<lparr> fr_environment_id = bf_environment_id fence,
             fr_highest_generation = uint (bf_operation_generation fence),
             fr_operation_id = bf_operation_id fence, fr_provider_step = uint (bf_provider_step fence),
             fr_attempt = uint (bf_attempt fence), fr_tombstoned = False,
             fr_last_action = reconcile_action_name (bf_action fence),
             fr_last_request_id = sha256_display (bf_request_id fence), fr_last_response = None,
             fr_deadline_at = bf_deadline_at fence \<rparr>)"

definition executor_admit ::
  "json_libs \<Rightarrow> timestamp \<Rightarrow> request_envelope \<Rightarrow> fence_row list
   \<Rightarrow> executor_fence_error + (executor_admission \<times> fence_row list)" where
  "executor_admit lib authority_now envelope rows =
     res_then (validate_container_executor_request lib envelope) (\<lambda>_.
     let fence = qe_fence envelope in
     if authority_now \<ge> bf_deadline_at fence then Inl FenceDeadlineExceeded
     else let remaining = bf_deadline_at fence - authority_now in
     case List.find (\<lambda>r. fr_environment_id r = bf_environment_id fence) rows of
       Some row \<Rightarrow>
         res_then (fence_check authority_now fence row) (\<lambda>replay.
         case replay of
           Some r \<Rightarrow> Inr (Replay r, rows)
         | None \<Rightarrow> res_then (fence_row_of fence) (\<lambda>row'.
             Inr (Execute remaining,
                  upd_where (\<lambda>r. fr_environment_id r = bf_environment_id fence) (\<lambda>_. row') rows)))
     | None \<Rightarrow> res_then (fence_row_of fence) (\<lambda>row'. Inr (Execute remaining, rows @ [row'])))"

definition completion_hit :: "backend_fence \<Rightarrow> fence_row \<Rightarrow> bool" where
  "completion_hit fence r \<longleftrightarrow> fr_environment_id r = bf_environment_id fence
     \<and> fr_highest_generation r = uint (bf_operation_generation fence)
     \<and> fr_operation_id r = bf_operation_id fence
     \<and> fr_provider_step r = uint (bf_provider_step fence)
     \<and> fr_attempt r = uint (bf_attempt fence)
     \<and> fr_last_request_id r = sha256_display (bf_request_id fence)
     \<and> fr_last_response r = None"

definition completed_row :: "executor_response \<Rightarrow> fence_row \<Rightarrow> fence_row" where
  "completed_row response r = r \<lparr> fr_last_response := Some response,
     fr_tombstoned := (is_deleted_response (Some response) \<or> fr_tombstoned r) \<rparr>"

definition executor_complete ::
  "backend_fence \<Rightarrow> executor_response \<Rightarrow> fence_row list \<Rightarrow> executor_fence_error + fence_row list" where
  "executor_complete fence response rows =
     (if uint (bf_operation_generation fence) > I64_MAX \<or> uint (bf_provider_step fence) > I32_MAX
         \<or> uint (bf_attempt fence) > I32_MAX
      then Inl FenceIdentityMismatch
      else if list_ex (\<lambda>r. completion_hit fence r \<and> is_deleted_response (Some response)
              \<and> fr_last_action r \<noteq> ''cleanup'') rows
      then Inl FenceDatabase
      else if length (filter (completion_hit fence) rows) \<noteq> 1 then Inl FenceStaleGeneration
      else Inr (upd_where (completion_hit fence) (completed_row response) rows))"

section \<open>Executing a request\<close>

definition executor_reply :: "backend_fence \<Rightarrow> executor_response \<Rightarrow> response_envelope" where
  "executor_reply fence response =
     \<lparr> pe_protocol_version = bf_protocol_version fence, pe_environment_id = bf_environment_id fence,
       pe_operation_id = bf_operation_id fence, pe_provider_step = bf_provider_step fence,
       pe_operation_generation = bf_operation_generation fence, pe_attempt = bf_attempt fence,
       pe_request_id = bf_request_id fence, pe_action = bf_action fence, pe_response = response \<rparr>"

text \<open>The Kubernetes adapter answers, or is cancelled when the deadline passes.\<close>

type_synonym executor_backend = "backend_fence \<Rightarrow> executor_request \<Rightarrow> executor_response option"

definition fenced_execute ::
  "json_libs \<Rightarrow> executor_backend \<Rightarrow> timestamp \<Rightarrow> request_envelope \<Rightarrow> fence_row list
   \<Rightarrow> (executor_fence_error + response_envelope) \<times> fence_row list" where
  "fenced_execute lib backend authority_now envelope rows =
     (let fence = qe_fence envelope in
      case executor_admit lib authority_now envelope rows of
        Inl e \<Rightarrow> (Inl e, rows)
      | Inr (Replay r, _) \<Rightarrow> (Inr (executor_reply fence r), rows)
      | Inr (Execute _, rows1) \<Rightarrow>
          (case backend fence (qe_request envelope) of
             None \<Rightarrow> (Inl FenceDeadlineExceeded, rows1)
           | Some response \<Rightarrow>
               (case executor_complete fence response rows1 of
                  Inl e \<Rightarrow> (Inl e, rows1)
                | Inr rows2 \<Rightarrow> (Inr (executor_reply fence response), rows2))))"

definition serve_request ::
  "json_libs \<Rightarrow> executor_backend \<Rightarrow> timestamp \<Rightarrow> request_envelope \<Rightarrow> fence_row list
   \<Rightarrow> response_envelope \<times> fence_row list" where
  "serve_request lib backend authority_now envelope rows =
     (case fenced_execute lib backend authority_now envelope rows of
        (Inr r, rows') \<Rightarrow> (r, rows')
      | (Inl e, rows') \<Rightarrow> (executor_reply (qe_fence envelope) (RespFailed (container_executor_failure e)), rows'))"

section \<open>The request server and its client\<close>

definition MAX_CONTAINER_EXECUTOR_MESSAGE_BYTES :: nat where
  "MAX_CONTAINER_EXECUTOR_MESSAGE_BYTES = 1024 * 1024"

type_synonym payload = "u8 list"

record executor_codec =
  ec_write_request :: "request_envelope \<Rightarrow> payload option"
  ec_read_request :: "payload \<Rightarrow> request_envelope option"
  ec_write_response :: "response_envelope \<Rightarrow> payload option"
  ec_read_response :: "payload \<Rightarrow> response_envelope option"

text \<open>One received message: whether it names a reply subject, and its bytes.  The
  result is the reply that is published, if any.\<close>

definition serve_message ::
  "json_libs \<Rightarrow> executor_codec \<Rightarrow> executor_backend \<Rightarrow> timestamp \<Rightarrow> bool \<times> payload \<Rightarrow> fence_row list
   \<Rightarrow> payload option \<times> fence_row list" where
  "serve_message lib codec backend authority_now message rows =
     (if \<not> fst message then (None, rows)
      else if length (snd message) > MAX_CONTAINER_EXECUTOR_MESSAGE_BYTES then (None, rows)
      else case ec_read_request codec (snd message) of
        None \<Rightarrow> (None, rows)
      | Some envelope \<Rightarrow>
          (case serve_request lib backend authority_now envelope rows of
             (r, rows') \<Rightarrow> (ec_write_response codec r, rows')))"

definition ns_per_min :: int where
  "ns_per_min = 60000000000"

definition nats_backend_new :: "string \<Rightarrow> int \<Rightarrow> release_projection_error + (string \<times> int)" where
  "nats_backend_new subject request_timeout =
     (if \<not> valid_subject subject \<or> request_timeout = 0 \<or> request_timeout > 5 * ns_per_min
      then Inl ConfigurationInvalid
      else Inr (subject, request_timeout))"

definition executor_server_new :: "string \<Rightarrow> executor_fence_error + string" where
  "executor_server_new subject =
     (if \<not> valid_subject subject then Inl FenceConfigurationInvalid else Inr subject)"

text \<open>The transport carries a payload to the server and brings an answer back, or
  fails.\<close>

definition nats_request ::
  "json_libs \<Rightarrow> executor_codec \<Rightarrow> (payload \<Rightarrow> payload option) \<Rightarrow> backend_fence \<Rightarrow> executor_request
   \<Rightarrow> provider_failure + executor_response" where
  "nats_request lib codec send fence0 request =
     (if \<not> matches_action request (bf_action fence0) then Inl invalid_observation
      else res_then (bind_container_executor_request lib fence0 request) (\<lambda>fence.
      res_then (ok_or invalid_observation (ec_write_request codec \<lparr> qe_fence = fence, qe_request = request \<rparr>)) (\<lambda>payload.
      res_then (ok_or provider_unavailable (send payload)) (\<lambda>message.
      if length message > MAX_CONTAINER_EXECUTOR_MESSAGE_BYTES then Inl invalid_observation
      else res_then (ok_or invalid_observation (ec_read_response codec message)) (\<lambda>response.
      if pe_protocol_version response \<noteq> bf_protocol_version fence
         \<or> pe_environment_id response \<noteq> bf_environment_id fence
         \<or> pe_operation_id response \<noteq> bf_operation_id fence
         \<or> pe_provider_step response \<noteq> bf_provider_step fence
         \<or> pe_operation_generation response \<noteq> bf_operation_generation fence
         \<or> pe_attempt response \<noteq> bf_attempt fence
         \<or> pe_request_id response \<noteq> bf_request_id fence
         \<or> pe_action response \<noteq> bf_action fence
      then Inl invalid_observation
      else Inr (pe_response response))))))"

definition observed_reply ::
  "container_resource_plan \<Rightarrow> executor_response \<Rightarrow> provider_failure + container_apply_observation" where
  "observed_reply plan response = (case response of
      RespObserved plan_sha256 observation \<Rightarrow>
        if plan_sha256 = rpl_plan_sha256 plan then Inr observation else Inl invalid_observation
    | RespFailed failure \<Rightarrow> Inl failure
    | RespDeleted _ _ \<Rightarrow> Inl invalid_observation)"

definition deleted_reply ::
  "container_resource_plan \<Rightarrow> executor_response \<Rightarrow> provider_failure + artifact_ref" where
  "deleted_reply plan response = (case response of
      RespDeleted plan_sha256 cleanup_evidence \<Rightarrow>
        if plan_sha256 = rpl_plan_sha256 plan \<and> valid_artifact_ref cleanup_evidence
        then Inr cleanup_evidence else Inl cleanup_failed
    | RespFailed failure \<Rightarrow> Inl failure
    | RespObserved _ _ \<Rightarrow> Inl cleanup_failed)"

definition nats_apply where
  "nats_apply request fence plan = res_then (request fence (ReqApply plan)) (observed_reply plan)"

definition nats_observe where
  "nats_observe request fence plan = res_then (request fence (ReqObserve plan)) (observed_reply plan)"

definition nats_scale where
  "nats_scale request fence plan replicas = res_then (request fence (ReqScale plan replicas)) (observed_reply plan)"

definition nats_restart where
  "nats_restart request fence plan rv = res_then (request fence (ReqRestart plan rv)) (observed_reply plan)"

definition nats_delete_namespace where
  "nats_delete_namespace request fence plan =
     res_then (request fence (ReqDeleteNamespace plan)) (deleted_reply plan)"

definition nats_backend ::
  "(backend_fence \<Rightarrow> executor_request \<Rightarrow> provider_failure + executor_response) \<Rightarrow> container_backend" where
  "nats_backend request = \<lparr> cb_apply = nats_apply request, cb_observe = nats_observe request,
     cb_scale = nats_scale request, cb_restart = nats_restart request,
     cb_delete_namespace = nats_delete_namespace request \<rparr>"

end
