(* ===== verification/Executor_Safety.thy ===== *)
theory Executor_Safety
  imports Container_Executor
begin

text \<open>
  Safety of the remote executor under concurrency: calls in flight exclude each
  other, deletion is permanent, no request is executed twice, the fences of a
  lifecycle history advance, and a call through NATS is the call itself.
\<close>

section \<open>Executions in flight\<close>

text \<open>
  The executor serves requests concurrently.  Its state is the clock, the fence
  table and the admitted requests whose Kubernetes call has not returned; the
  call is cancelled when its deadline passes, and a crash of the process drops
  every call in flight.  \<open>xs_log\<close> records the admitted requests, latest first.
\<close>

record executor_state =
  xs_now :: timestamp
  xs_rows :: "fence_row list"
  xs_running :: "request_envelope list"
  xs_log :: "request_envelope list"

abbreviation envelope_env :: "request_envelope \<Rightarrow> uuid" where
  "envelope_env e \<equiv> bf_environment_id (qe_fence e)"

abbreviation envelope_deadline :: "request_envelope \<Rightarrow> timestamp" where
  "envelope_deadline e \<equiv> bf_deadline_at (qe_fence e)"

inductive executor_step :: "json_libs \<Rightarrow> executor_state \<Rightarrow> executor_state \<Rightarrow> bool" for lib where
  exec_tick: "xs_now s \<le> now' \<Longrightarrow> executor_step lib s (s \<lparr> xs_now := now' \<rparr>)"
| exec_admit: "executor_admit lib (xs_now s) e (xs_rows s) = Inr (Execute remaining, rows') \<Longrightarrow>
    executor_step lib s (s \<lparr> xs_rows := rows', xs_running := e # xs_running s, xs_log := e # xs_log s \<rparr>)"
| exec_complete: "e \<in> set (xs_running s) \<Longrightarrow> xs_now s < envelope_deadline e \<Longrightarrow>
    executor_complete (qe_fence e) response (xs_rows s) = Inr rows' \<Longrightarrow>
    executor_step lib s (s \<lparr> xs_rows := rows', xs_running := remove1 e (xs_running s) \<rparr>)"
| exec_lost: "e \<in> set (xs_running s) \<Longrightarrow>
    executor_step lib s (s \<lparr> xs_running := remove1 e (xs_running s) \<rparr>)"
| exec_crash: "executor_step lib s (s \<lparr> xs_running := [] \<rparr>)"

inductive_cases executor_stepE: "executor_step lib s t"

definition executor_init :: "executor_state \<Rightarrow> bool" where
  "executor_init s \<longleftrightarrow> xs_rows s = [] \<and> xs_running s = [] \<and> xs_log s = []"

text \<open>The requests of an environment that still act on Kubernetes.\<close>

definition live :: "executor_state \<Rightarrow> uuid \<Rightarrow> request_envelope list" where
  "live s x = filter (\<lambda>e. envelope_env e = x \<and> xs_now s < envelope_deadline e) (xs_running s)"

definition row_of :: "executor_state \<Rightarrow> uuid \<Rightarrow> fence_row option" where
  "row_of s x = List.find (\<lambda>r. fr_environment_id r = x) (xs_rows s)"

definition awaits :: "fence_row \<Rightarrow> request_envelope \<Rightarrow> bool" where
  "awaits r e \<longleftrightarrow> fr_last_response r = None \<and> fr_last_request_id r = sha256_display (bf_request_id (qe_fence e))
     \<and> fr_deadline_at r = envelope_deadline e"

type_synonym fence_key = "int \<times> int \<times> int"

definition row_key :: "fence_row \<Rightarrow> fence_key" where
  "row_key r = (fr_highest_generation r, fr_provider_step r, fr_attempt r)"

definition envelope_key :: "request_envelope \<Rightarrow> fence_key" where
  "envelope_key e = (uint (bf_operation_generation (qe_fence e)), uint (bf_provider_step (qe_fence e)), uint (bf_attempt (qe_fence e)))"

fun key_le :: "fence_key \<Rightarrow> fence_key \<Rightarrow> bool" where
  "key_le (g, s, a) (g', s', a') \<longleftrightarrow> g < g' \<or> g = g' \<and> (s < s' \<or> s = s' \<and> a \<le> a')"

lemma key_le_refl [simp]: "key_le k k"
  by (cases k rule: prod_cases3) simp

lemma key_le_trans: "key_le a b \<Longrightarrow> key_le b c \<Longrightarrow> key_le a c"
  by (cases a rule: prod_cases3; cases b rule: prod_cases3; cases c rule: prod_cases3) auto

lemma key_le_antisym: "key_le a b \<Longrightarrow> key_le b a \<Longrightarrow> a = b"
  by (cases a rule: prod_cases3; cases b rule: prod_cases3) auto

section \<open>One operation on the table\<close>

lemma find_env_upd:
  assumes "fr_environment_id r' = y" "List.find (\<lambda>r. fr_environment_id r = y) rows \<noteq> None"
  shows "List.find (\<lambda>r. fr_environment_id r = x) (upd_where (\<lambda>r. fr_environment_id r = y) (\<lambda>_. r') rows)
    = (if x = y then Some r' else List.find (\<lambda>r. fr_environment_id r = x) rows)"
proof (cases "x = y")
  case True
  then show ?thesis using assms by (induction rows) auto
next
  case False
  then show ?thesis using assms(1) by (simp add: find_upd_where_other)
qed

lemma find_snoc:
  "List.find P (xs @ [x]) = (case List.find P xs of Some y \<Rightarrow> Some y | None \<Rightarrow> if P x then Some x else None)"
  by (induction xs) auto

lemma fence_row_ofD:
  assumes "fence_row_of fence = Inr row"
  shows "fr_environment_id row = bf_environment_id fence" "\<not> fr_tombstoned row"
    "fr_last_response row = None" "fr_last_request_id row = sha256_display (bf_request_id fence)"
    "fr_deadline_at row = bf_deadline_at fence" "row_key row = envelope_key \<lparr> qe_fence = fence, qe_request = q \<rparr>"
    "fr_operation_id row = bf_operation_id fence"
  using assms by (auto simp: fence_row_of_def row_key_def envelope_key_def split: if_splits)

lemma executor_admitE:
  assumes "executor_admit lib now e rows = Inr (Execute remaining, rows')"
  obtains row' where "now < envelope_deadline e" "fence_row_of (qe_fence e) = Inr row'"
    "\<And>x. List.find (\<lambda>r. fr_environment_id r = x) rows'
      = (if x = envelope_env e then Some row' else List.find (\<lambda>r. fr_environment_id r = x) rows)"
    "\<And>row. List.find (\<lambda>r. fr_environment_id r = envelope_env e) rows = Some row \<Longrightarrow>
      fence_check now (qe_fence e) row = Inr None"
proof -
  from assms obtain row' where r: "now < envelope_deadline e" "fence_row_of (qe_fence e) = Inr row'"
    and c: "\<And>row. List.find (\<lambda>r. fr_environment_id r = envelope_env e) rows = Some row \<Longrightarrow>
      fence_check now (qe_fence e) row = Inr None \<and> rows' = upd_where (\<lambda>r. fr_environment_id r = envelope_env e) (\<lambda>_. row') rows"
    and n: "List.find (\<lambda>r. fr_environment_id r = envelope_env e) rows = None \<Longrightarrow> rows' = rows @ [row']"
    by (auto simp: executor_admit_def Let_def res_simps split: option.splits)
  note id = fence_row_ofD(1) [OF r(2)]
  have "List.find (\<lambda>r. fr_environment_id r = x) rows'
      = (if x = envelope_env e then Some row' else List.find (\<lambda>r. fr_environment_id r = x) rows)" for x
    using c n id find_env_upd [OF id, of rows x]
    by (cases "List.find (\<lambda>r. fr_environment_id r = envelope_env e) rows") (auto simp: find_snoc split: option.splits)
  then show ?thesis using that r c by blast
qed

lemma fence_checkD:
  assumes "fence_check now fence row = Inr None"
  shows "fr_last_request_id row \<noteq> sha256_display (bf_request_id fence)"
    "fr_last_response row = None \<Longrightarrow> fr_deadline_at row \<le> now"
    "\<not> (fr_tombstoned row \<and> is_deleted_response (fr_last_response row))"
    "key_le (row_key row) (envelope_key \<lparr> qe_fence = fence, qe_request = q \<rparr>)"
    "uint (bf_operation_generation fence) = fr_highest_generation row \<Longrightarrow> bf_operation_id fence = fr_operation_id row"
  using assms
  by (auto simp: fence_check_def row_key_def envelope_key_def split: if_splits option.splits)

lemma executor_completeD:
  "executor_complete fence response rows = Inr rows'
   \<Longrightarrow> rows' = upd_where (completion_hit fence) (completed_row response) rows"
  by (auto simp: executor_complete_def split: if_splits)

lemma completed_row_simps [simp]:
  "fr_environment_id (completed_row response r) = fr_environment_id r"
  "fr_last_response (completed_row response r) = Some response"
  "fr_tombstoned (completed_row response r) \<longleftrightarrow> is_deleted_response (Some response) \<or> fr_tombstoned r"
  "row_key (completed_row response r) = row_key r"
  "fr_last_request_id (completed_row response r) = fr_last_request_id r"
  by (simp_all add: completed_row_def row_key_def)

lemma find_env_upd_same:
  assumes "\<And>r. fr_environment_id (f r) = fr_environment_id r"
  shows "List.find (\<lambda>r. fr_environment_id r = x) (upd_where hit f rows)
    = map_option (\<lambda>r. if hit r then f r else r) (List.find (\<lambda>r. fr_environment_id r = x) rows)"
  using assms by (induction rows) auto

section \<open>The invariant of the executor\<close>

definition honest_requests :: "request_envelope set \<Rightarrow> bool" where
  "honest_requests es \<longleftrightarrow> (\<forall>e \<in> es. \<forall>f \<in> es. envelope_env e = envelope_env f \<and> envelope_key e = envelope_key f
     \<longrightarrow> bf_request_id (qe_fence e) = bf_request_id (qe_fence f))"

definition rows_inv :: "executor_state \<Rightarrow> bool" where
  "rows_inv s \<longleftrightarrow> (\<forall>x r. row_of s x = Some r \<longrightarrow>
     (fr_tombstoned r \<longrightarrow> is_deleted_response (fr_last_response r))
     \<and> (\<exists>e \<in> set (xs_log s). envelope_env e = x \<and> envelope_key e = row_key r
           \<and> fr_last_request_id r = sha256_display (bf_request_id (qe_fence e))))"

definition live_inv :: "executor_state \<Rightarrow> bool" where
  "live_inv s \<longleftrightarrow> (\<forall>x. length (live s x) \<le> 1 \<and> (\<forall>e \<in> set (live s x). \<exists>r. row_of s x = Some r \<and> awaits r e))"

definition log_inv :: "executor_state \<Rightarrow> bool" where
  "log_inv s \<longleftrightarrow> (\<forall>e \<in> set (xs_log s). \<exists>r. row_of s (envelope_env e) = Some r \<and> key_le (envelope_key e) (row_key r))
     \<and> (honest_requests (set (xs_log s)) \<longrightarrow> distinct (xs_log s))"

definition executor_inv :: "executor_state \<Rightarrow> bool" where
  "executor_inv s \<longleftrightarrow> rows_inv s \<and> live_inv s \<and> log_inv s"

lemma executor_inv_init: "executor_init s \<Longrightarrow> executor_inv s"
  by (simp add: executor_init_def executor_inv_def rows_inv_def live_inv_def log_inv_def row_of_def live_def)

lemma envelope_key_fence [simp]: "envelope_key \<lparr> qe_fence = qe_fence e, qe_request = q \<rparr> = envelope_key e"
  by (simp add: envelope_key_def)

lemma executor_invD:
  assumes "executor_inv s"
  shows "row_of s x = Some r \<Longrightarrow> fr_tombstoned r \<Longrightarrow> is_deleted_response (fr_last_response r)"
    "row_of s x = Some r \<Longrightarrow> \<exists>e \<in> set (xs_log s). envelope_env e = x \<and> envelope_key e = row_key r
       \<and> fr_last_request_id r = sha256_display (bf_request_id (qe_fence e))"
    "length (live s x) \<le> 1"
    "e \<in> set (live s x) \<Longrightarrow> \<exists>r. row_of s x = Some r \<and> awaits r e"
    "e \<in> set (xs_log s) \<Longrightarrow> \<exists>r. row_of s (envelope_env e) = Some r \<and> key_le (envelope_key e) (row_key r)"
    "honest_requests (set (xs_log s)) \<Longrightarrow> distinct (xs_log s)"
  using assms by (simp_all add: executor_inv_def rows_inv_def live_inv_def log_inv_def)

lemma honest_requests_mono: "honest_requests A \<Longrightarrow> B \<subseteq> A \<Longrightarrow> honest_requests B"
  unfolding honest_requests_def by blast

lemma honest_requestsD:
  "honest_requests A \<Longrightarrow> e \<in> A \<Longrightarrow> f \<in> A \<Longrightarrow> envelope_env e = envelope_env f \<Longrightarrow> envelope_key e = envelope_key f
   \<Longrightarrow> bf_request_id (qe_fence e) = bf_request_id (qe_fence f)"
  unfolding honest_requests_def by blast

text \<open>Steps that leave the table and the log alone only drop executions.\<close>

lemma executor_inv_drop:
  assumes "executor_inv s" "xs_rows t = xs_rows s" "xs_log t = xs_log s"
    and "\<And>x. \<exists>P. live t x = filter P (live s x)"
  shows "executor_inv t"
proof -
  have r: "row_of t = row_of s" using assms(2) by (simp add: row_of_def fun_eq_iff)
  have "length (live t x) \<le> 1" "e \<in> set (live t x) \<Longrightarrow> e \<in> set (live s x)" for x e
  proof -
    obtain P where P: "live t x = filter P (live s x)" using assms(4) by blast
    have "length (live s x) \<le> 1" using assms(1) by (auto simp: executor_inv_def live_inv_def)
    then show "length (live t x) \<le> 1" using P length_filter_le [of P "live s x"] by (metis le_trans)
    show "e \<in> set (live t x) \<Longrightarrow> e \<in> set (live s x)" using P by simp
  qed
  then have "live_inv t" using executor_invD(4) [OF assms(1)] r by (auto simp: live_inv_def)
  then show ?thesis using assms(1,3) r by (simp add: executor_inv_def rows_inv_def log_inv_def)
qed

lemma filter_remove1_live:
  assumes "length (filter P xs) \<le> 1"
  shows "\<exists>Q. filter P (remove1 e xs) = filter Q (filter P xs)"
proof (cases "filter P xs")
  case Nil
  then have "filter P (remove1 e xs) = []" by (auto simp: filter_empty_conv dest: notin_set_remove1)
  then show ?thesis using Nil by auto
next
  case (Cons y ys)
  then have y: "filter P xs = [y]" using assms by simp
  have "filter P (remove1 e xs) = remove1 e (filter P xs)" if "P e" using that by (induction xs) auto
  moreover have "filter P (remove1 e xs) = filter P xs" if "\<not> P e" using that by (induction xs) auto
  ultimately have "filter P (remove1 e xs) = [] \<or> filter P (remove1 e xs) = [y]"
    using y by (metis remove1.simps(1) remove1.simps(2))
  then show ?thesis
  proof
    assume "filter P (remove1 e xs) = []"
    then show ?thesis by (intro exI [of _ "\<lambda>_. False"]) simp
  next
    assume "filter P (remove1 e xs) = [y]"
    then show ?thesis using y by (intro exI [of _ "\<lambda>_. True"]) simp
  qed
qed

lemma executor_inv_admit:
  assumes inv: "executor_inv s" and a: "executor_admit lib (xs_now s) e (xs_rows s) = Inr (Execute remaining, rows')"
  shows "executor_inv (s \<lparr> xs_rows := rows', xs_running := e # xs_running s, xs_log := e # xs_log s \<rparr>)" (is "executor_inv ?t")
proof -
  from a obtain row' where d: "xs_now s < envelope_deadline e" and r: "fence_row_of (qe_fence e) = Inr row'"
    and f: "\<And>x. row_of ?t x = (if x = envelope_env e then Some row' else row_of s x)"
    and c: "\<And>row. row_of s (envelope_env e) = Some row \<Longrightarrow> fence_check (xs_now s) (qe_fence e) row = Inr None"
    unfolding row_of_def by (rule executor_admitE) auto
  note row' = fence_row_ofD [OF r]
  have quiet: "live s (envelope_env e) = []"
  proof (rule ccontr)
    assume "live s (envelope_env e) \<noteq> []"
    then obtain g where g: "g \<in> set (live s (envelope_env e))" by (cases "live s (envelope_env e)") auto
    then obtain row where row: "row_of s (envelope_env e) = Some row" "awaits row g"
      using executor_invD(4) [OF inv g] by blast
    then have "fr_deadline_at row \<le> xs_now s" using fence_checkD(2) [OF c] by (simp add: awaits_def)
    then show False using row(2) g by (simp add: awaits_def live_def)
  qed
  have lv: "live ?t x = (if x = envelope_env e then [e] else live s x)" for x
    using quiet d by (auto simp: live_def)
  have "rows_inv ?t"
    using executor_invD(1,2) [OF inv] row'(1-5) row'(6) [of "qe_request e"] f by (auto simp: rows_inv_def)
  moreover have "live_inv ?t"
    using executor_invD(3,4) [OF inv] row' f lv by (auto simp: live_inv_def awaits_def)
  moreover have "log_inv ?t"
  proof -
    have le: "key_le (envelope_key g) (envelope_key e)" if g: "g \<in> set (xs_log s)" "envelope_env g = envelope_env e" for g
    proof -
      obtain row where row: "row_of s (envelope_env e) = Some row" "key_le (envelope_key g) (row_key row)"
        using executor_invD(5) [OF inv g(1)] g(2) by auto
      then show ?thesis using key_le_trans [OF row(2) fence_checkD(4) [OF c [OF row(1)]]] by simp
    qed
    have "distinct (e # xs_log s)" if h: "honest_requests (set (e # xs_log s))"
    proof -
      have "honest_requests (set (xs_log s))" using h by (rule honest_requests_mono) auto
      moreover have "e \<notin> set (xs_log s)"
      proof
        assume m: "e \<in> set (xs_log s)"
        then obtain row where row: "row_of s (envelope_env e) = Some row" "key_le (envelope_key e) (row_key row)"
          using executor_invD(5) [OF inv m] by auto
        note ck = fence_checkD [OF c [OF row(1)]]
        have k: "row_key row = envelope_key e" using key_le_antisym row(2) ck(4) by simp
        obtain g where g: "g \<in> set (xs_log s)" "envelope_env g = envelope_env e" "envelope_key g = row_key row"
          "fr_last_request_id row = sha256_display (bf_request_id (qe_fence g))"
          using executor_invD(2) [OF inv row(1)] by blast
        have "bf_request_id (qe_fence g) = bf_request_id (qe_fence e)"
          by (rule honest_requestsD [OF h _ _ g(2)]) (use g(1,3) k in auto)
        then show False using ck(1) g(4) by simp
      qed
      ultimately show ?thesis using executor_invD(6) [OF inv] by simp
    qed
    moreover have "\<exists>r. row_of ?t (envelope_env g) = Some r \<and> key_le (envelope_key g) (row_key r)"
      if g: "g \<in> set (e # xs_log s)" for g
      using executor_invD(5) [OF inv, of g] le [of g] f [of "envelope_env g"] row'(6) [of "qe_request e"] g
      by (cases "envelope_env g = envelope_env e") auto
    ultimately show ?thesis unfolding log_inv_def by simp
  qed
  ultimately show ?thesis by (simp add: executor_inv_def)
qed

lemma executor_inv_complete:
  assumes inv: "executor_inv s" and e: "e \<in> set (xs_running s)" "xs_now s < envelope_deadline e"
    and c: "executor_complete (qe_fence e) response (xs_rows s) = Inr rows'"
  shows "executor_inv (s \<lparr> xs_rows := rows', xs_running := remove1 e (xs_running s) \<rparr>)" (is "executor_inv ?t")
proof -
  note rows' = executor_completeD [OF c]
  have f: "row_of ?t x = map_option (\<lambda>r. if completion_hit (qe_fence e) r then completed_row response r else r) (row_of s x)" for x
    unfolding row_of_def by (simp add: rows' find_env_upd_same)
  have m: "e \<in> set (live s (envelope_env e))" using e by (simp add: live_def)
  have only: "live s (envelope_env e) = [e]"
    using executor_invD(3) [OF inv, of "envelope_env e"] m by (cases "live s (envelope_env e)") auto
  have lv: "live ?t x = (if x = envelope_env e then [] else live s x)" for x
  proof -
    have "filter P (remove1 e xs) = (if P e then remove1 e (filter P xs) else filter P xs)" for P and xs :: "request_envelope list"
      by (induction xs) auto
    then show ?thesis using only e(2) by (auto simp: live_def)
  qed
  have hit: "fr_environment_id r = envelope_env e" if "completion_hit (qe_fence e) r" for r
    using that by (simp add: completion_hit_def)
  have row_id: "fr_environment_id r = x" if "row_of s x = Some r" for r x
    using find_SomeD [of _ "xs_rows s"] that by (auto simp: row_of_def)
  have tomb: "row_of s x = Some r \<Longrightarrow> fr_tombstoned r \<Longrightarrow> is_deleted_response (fr_last_response r)" for x r
    using executor_invD(1) [OF inv] .
  have key: "row_of ?t x = Some r' \<Longrightarrow> \<exists>r. row_of s x = Some r \<and> row_key r' = row_key r
      \<and> fr_last_request_id r' = fr_last_request_id r \<and> (r' = r \<or> r' = completed_row response r \<and> \<not> fr_tombstoned r)" for x r'
    using f [of x] tomb by (fastforce simp: completion_hit_def split: if_splits)
  have "rows_inv ?t"
    unfolding rows_inv_def
  proof (intro allI impI)
    fix x r'
    assume "row_of ?t x = Some r'"
    from key [OF this] obtain r where r: "row_of s x = Some r" "row_key r' = row_key r"
      "fr_last_request_id r' = fr_last_request_id r" "r' = r \<or> r' = completed_row response r \<and> \<not> fr_tombstoned r" by blast
    then have "fr_tombstoned r' \<longrightarrow> is_deleted_response (fr_last_response r')"
      using tomb by auto
    then show "(fr_tombstoned r' \<longrightarrow> is_deleted_response (fr_last_response r'))
      \<and> (\<exists>e\<in>set (xs_log ?t). envelope_env e = x \<and> envelope_key e = row_key r'
           \<and> fr_last_request_id r' = sha256_display (bf_request_id (qe_fence e)))"
      using executor_invD(2) [OF inv r(1)] r(2,3) by simp
  qed
  moreover have "live_inv ?t"
    unfolding live_inv_def
  proof (intro allI conjI ballI)
    fix x g
    show "length (live ?t x) \<le> 1" using executor_invD(3) [OF inv, of x] lv [of x] by simp
    assume g: "g \<in> set (live ?t x)"
    then have x: "x \<noteq> envelope_env e" "g \<in> set (live s x)" using lv [of x] by (auto split: if_splits)
    then obtain r where r: "row_of s x = Some r" "awaits r g" using executor_invD(4) [OF inv x(2)] by blast
    then show "\<exists>r. row_of ?t x = Some r \<and> awaits r g" using f [of x] hit [of r] row_id [OF r(1)] x(1) by auto
  qed
  moreover have "log_inv ?t"
    unfolding log_inv_def
  proof (intro conjI ballI)
    fix g
    assume "g \<in> set (xs_log ?t)"
    then obtain r where r: "row_of s (envelope_env g) = Some r" "key_le (envelope_key g) (row_key r)"
      using executor_invD(5) [OF inv, of g] by auto
    show "\<exists>r. row_of ?t (envelope_env g) = Some r \<and> key_le (envelope_key g) (row_key r)"
      using f [of "envelope_env g"] r by (cases "completion_hit (qe_fence e) r") simp_all
  qed (use executor_invD(6) [OF inv] in simp)
  ultimately show ?thesis by (simp add: executor_inv_def)
qed

lemma executor_step_inv:
  assumes "executor_inv s" "executor_step lib s t"
  shows "executor_inv t"
  using assms(2)
proof cases
  case (exec_tick now')
  show ?thesis
  proof (rule executor_inv_drop [OF assms(1)])
    show "\<exists>P. live t x = filter P (live s x)" for x
      using exec_tick by (intro exI [of _ "\<lambda>e. now' < envelope_deadline e"]) (auto simp: live_def intro!: filter_cong)
  qed (use exec_tick in auto)
next
  case (exec_admit e remaining rows')
  then show ?thesis using executor_inv_admit [OF assms(1)] by simp
next
  case (exec_complete e response rows')
  then show ?thesis using executor_inv_complete [OF assms(1)] by simp
next
  case (exec_lost e)
  show ?thesis
  proof (rule executor_inv_drop [OF assms(1)])
    have le: "length (live s x) \<le> 1" for x using executor_invD(3) [OF assms(1)] .
    show "\<exists>P. live t x = filter P (live s x)" for x
      using filter_remove1_live [OF le [unfolded live_def]] exec_lost by (simp add: live_def del: filter_filter)
  qed (use exec_lost in auto)
next
  case exec_crash
  show ?thesis
  proof (rule executor_inv_drop [OF assms(1)])
    show "\<exists>P. live t x = filter P (live s x)" for x
      using exec_crash by (intro exI [of _ "\<lambda>_. False"]) (simp add: live_def)
  qed (use exec_crash in auto)
qed

interpretation executor: invariant_machine executor_init "executor_step lib" executor_inv for lib
  by unfold_locales (auto intro: executor_inv_init executor_step_inv)

section \<open>Deletion is permanent\<close>

lemma tombstone_step:
  assumes inv: "executor_inv s" and r: "row_of s x = Some r" "fr_tombstoned r" and st: "executor_step lib s t"
  shows "row_of t x = Some r \<and> filter (\<lambda>e. envelope_env e = x) (xs_log t) = filter (\<lambda>e. envelope_env e = x) (xs_log s)"
proof -
  have del: "is_deleted_response (fr_last_response r)" using executor_invD(1) [OF inv r] .
  show ?thesis
    using st
  proof cases
    case (exec_admit e remaining rows')
    from executor_admitE [OF exec_admit(2)] obtain row' where
      f: "\<And>y. List.find (\<lambda>r. fr_environment_id r = y) rows'
        = (if y = envelope_env e then Some row' else List.find (\<lambda>r. fr_environment_id r = y) (xs_rows s))"
      and c: "\<And>row. List.find (\<lambda>r. fr_environment_id r = envelope_env e) (xs_rows s) = Some row \<Longrightarrow>
        fence_check (xs_now s) (qe_fence e) row = Inr None"
      by metis
    have "row_of t y = (if y = envelope_env e then Some row' else row_of s y)" for y
      using f by (simp add: row_of_def exec_admit(1))
    moreover have "x \<noteq> envelope_env e" using fence_checkD(3) [OF c] r del by (auto simp: row_of_def)
    ultimately show ?thesis using exec_admit(1) r(1) by simp
  next
    case (exec_complete e response rows')
    have "\<not> completion_hit (qe_fence e) r" using del by (cases "fr_last_response r") (auto simp: completion_hit_def)
    then show ?thesis
      using exec_complete(1) executor_completeD [OF exec_complete(4)] r(1)
      by (simp add: row_of_def find_env_upd_same)
  qed (use r(1) in \<open>auto simp: row_of_def\<close>)
qed

definition buried :: "uuid \<Rightarrow> fence_row \<Rightarrow> request_envelope list \<Rightarrow> executor_state \<Rightarrow> bool" where
  "buried x r admitted s \<longleftrightarrow> executor_inv s \<and> row_of s x = Some r \<and> fr_tombstoned r
     \<and> filter (\<lambda>e. envelope_env e = x) (xs_log s) = admitted"

lemma buried_step: "buried x r l s \<Longrightarrow> executor_step lib s t \<Longrightarrow> buried x r l t"
  using tombstone_step [of s x r lib t] executor_step_inv [of s lib t] by (simp add: buried_def)

interpretation tombstone: invariant_machine "buried x r l" "executor_step lib" "buried x r l" for lib x r l
  by unfold_locales (auto intro: buried_step)

lemma tombstone_quiet:
  assumes "executor_inv s" "row_of s x = Some r" "fr_tombstoned r"
  shows "live s x = []"
proof (rule ccontr)
  assume "live s x \<noteq> []"
  then obtain e where "e \<in> set (live s x)" by (cases "live s x") auto
  then have "fr_last_response r = None"
    using executor_invD(4) [OF assms(1)] assms(2) by (fastforce simp: awaits_def)
  then show False using executor_invD(1) [OF assms] by simp
qed

text \<open>C26: at any moment at most one Kubernetes call acts on an environment, and it is the
  one the fence table waits for, however requests are duplicated, reordered,
  delayed, lost or cut off by crashes.\<close>

theorem executor_mutual_exclusion:
  assumes "reach executor_init (executor_step lib) s"
  shows "length (live s x) \<le> 1
    \<and> list_all (\<lambda>e. case row_of s x of None \<Rightarrow> False | Some r \<Rightarrow> awaits r e) (live s x)"
  using executor_invD(3,4) [OF executor.reach_inv [OF assms], where x = x] by (force simp: list_all_iff)

text \<open>C27: cleanup is permanent.  Once the deletion of an environment's namespace has been
  recorded, no request of that environment is ever admitted or running again.\<close>

theorem executor_tombstone_permanent:
  assumes "reach executor_init (executor_step lib) s" "row_of s x = Some r" "fr_tombstoned r"
    and "(executor_step lib)\<^sup>*\<^sup>* s t"
  shows "row_of t x = Some r \<and> live t x = []
    \<and> filter (\<lambda>e. envelope_env e = x) (xs_log t) = filter (\<lambda>e. envelope_env e = x) (xs_log s)"
proof -
  have "buried x r (filter (\<lambda>e. envelope_env e = x) (xs_log s)) s"
    using executor.reach_inv [OF assms(1)] assms(2,3) by (simp add: buried_def)
  then have "buried x r (filter (\<lambda>e. envelope_env e = x) (xs_log s)) t" by (rule tombstone.steps_inv [OF assms(4)])
  then show ?thesis using tombstone_quiet by (simp add: buried_def)
qed


section \<open>The fences of one environment\<close>

definition instance_key :: "environment_instance \<Rightarrow> fence_key" where
  "instance_key i = (uint (ei_generation i), uint (eo_provider_step (ei_operation i)), uint (eo_attempt (ei_operation i)))"

definition fence_advances :: "environment_instance \<Rightarrow> environment_instance \<Rightarrow> bool" where
  "fence_advances i j \<longleftrightarrow> ei_id j = ei_id i \<and> key_le (instance_key i) (instance_key j)
     \<and> (ei_generation j = ei_generation i \<longrightarrow> eo_id (ei_operation j) = eo_id (ei_operation i))"

definition thawed_step :: "environment_instance \<Rightarrow> environment_instance \<Rightarrow> bool" where
  "thawed_step i j \<longleftrightarrow> lifecycle_step i j \<and> eo_kind (ei_operation j) \<noteq> Freeze"

lemma checked_add_1_uint: "checked_add a 1 = Some c \<Longrightarrow> uint c = uint a + 1" for a :: "'w::len word"
  using iffD1 [OF uint_add_lem, of a 1] by (auto simp: checked_add_def split: if_splits)

lemma uint_plus_1: "a < b \<Longrightarrow> uint (a + 1) = uint a + 1" for a b :: "'w::len word"
  using unat_plus_1 [of a b] by (metis add.commute of_nat_Suc uint_nat)

lemma fence_advances_refl [simp]: "fence_advances i i"
  by (simp add: fence_advances_def)

lemma fence_advances_trans:
  assumes "fence_advances i j" "fence_advances j k"
  shows "fence_advances i k"
proof -
  have "uint (ei_generation i) \<le> uint (ei_generation j)" "uint (ei_generation j) \<le> uint (ei_generation k)"
    using assms by (auto simp: fence_advances_def instance_key_def)
  then have "ei_generation k = ei_generation i \<Longrightarrow> ei_generation j = ei_generation i"
    by (metis order_antisym word_uint_eq_iff)
  then show ?thesis using assms key_le_trans unfolding fence_advances_def by (metis (no_types, lifting))
qed

lemma fence_advances_step:
  assumes "thawed_step i j"
  shows "fence_advances i j"
proof -
  have k: "eo_kind (ei_operation j) \<noteq> Freeze" and s: "lifecycle_step i j" using assms by (auto simp: thawed_step_def)
  from s show ?thesis
  proof cases
    case (step_plan command oid auth now)
    then show ?thesis
      using k checked_add_1_uint checked_add_1_less
      by (auto simp: plan_command_authorized_def Let_def res_simps planned_instance_def accepted_operation_def
          increments_generation_def fence_advances_def instance_key_def dest!: checked_add_1_uint split: if_splits)
  next
    case (step_observation oid obs)
    then show ?thesis
      by (auto simp: apply_provider_observation_def res_simps observed_instance_def Let_def fence_advances_def
          instance_key_def dest!: checked_add_1_uint split: if_splits)
  next
    case (step_timeout started deadline)
    then show ?thesis
      by (auto simp: begin_timeout_cleanup_def Let_def res_simps timeout_instance_def fence_advances_def
          instance_key_def dest!: checked_add_1_uint split: if_splits)
  next
    case (step_retry oid code due)
    then show ?thesis
      by (elim retryE) (simp add: retried_instance_def fence_advances_def instance_key_def uint_plus_1)
  next
    case (step_provider_failure oid code)
    then show ?thesis
      by (elim failureE) (simp add: failed_instance_def fence_advances_def instance_key_def)
  qed
qed

lemma fence_advances_steps: "thawed_step\<^sup>*\<^sup>* i j \<Longrightarrow> fence_advances i j"
  by (induction rule: rtranclp_induct) (auto intro: fence_advances_step fence_advances_trans)

definition recorded_for :: "environment_instance \<Rightarrow> fence_row \<Rightarrow> bool" where
  "recorded_for i r \<longleftrightarrow> fr_environment_id r = ei_id i \<and> row_key r = instance_key i
     \<and> fr_operation_id r = eo_id (ei_operation i)"

lemma bound_fence:
  assumes "fence_for_action lib j a = Inr f" "bind_container_executor_request lib f request = Inr fence"
  shows "bf_environment_id fence = ei_id j" "bf_operation_id fence = eo_id (ei_operation j)"
    "bf_provider_step fence = eo_provider_step (ei_operation j)" "bf_operation_generation fence = ei_generation j"
    "bf_attempt fence = eo_attempt (ei_operation j)" "bf_action fence = a"
    "bf_deadline_at fence = eo_deadline_at (ei_operation j)"
    "bf_protocol_version fence = CONTAINER_BACKEND_PROTOCOL_VERSION"
  using assms by (auto simp: fence_for_action_def bind_container_executor_request_def res_simps)

lemma fence_check_current:
  assumes "\<not> (uint (bf_operation_generation fence) < fr_highest_generation r
      \<or> uint (bf_operation_generation fence) = fr_highest_generation r
        \<and> (uint (bf_provider_step fence) < fr_provider_step r
          \<or> uint (bf_provider_step fence) = fr_provider_step r \<and> uint (bf_attempt fence) < fr_attempt r))"
    and "\<not> (uint (bf_operation_generation fence) = fr_highest_generation r \<and> bf_operation_id fence \<noteq> fr_operation_id r)"
  shows "fence_check now fence r \<notin> {Inl FenceStaleGeneration, Inl FenceIdentityMismatch}"
  unfolding fence_check_def if_not_P [OF assms(1)] if_not_P [OF assms(2)] by (simp split: option.split)

text \<open>C29: the lifecycle and the executor agree on what is current.  After any lifecycle
  steps that do not freeze the environment, a request for the new aggregate is
  refused neither as stale nor as foreign by the fence an earlier aggregate
  left.\<close>

theorem current_request_not_stale:
  assumes "thawed_step\<^sup>*\<^sup>* i j" "recorded_for i r"
    and "fence_for_action lib j a = Inr f" "bind_container_executor_request lib f request = Inr fence"
  shows "fence_check now fence r \<notin> {Inl FenceStaleGeneration, Inl FenceIdentityMismatch}"
proof -
  have adv: "fence_advances i j" using assms(1) by (rule fence_advances_steps)
  note b = bound_fence [OF assms(3,4)]
  have r: "fr_highest_generation r = uint (ei_generation i)" "fr_provider_step r = uint (eo_provider_step (ei_operation i))"
    "fr_attempt r = uint (eo_attempt (ei_operation i))" "fr_operation_id r = eo_id (ei_operation i)"
    using assms(2) by (simp_all add: recorded_for_def row_key_def instance_key_def)
  show ?thesis
  proof (rule fence_check_current)
    show "\<not> (uint (bf_operation_generation fence) = fr_highest_generation r \<and> bf_operation_id fence \<noteq> fr_operation_id r)"
      using adv by (auto simp: b r fence_advances_def word_uint_eq_iff [symmetric])
  qed (use adv in \<open>simp add: b r fence_advances_def instance_key_def; linarith\<close>)
qed

text \<open>C30: a freeze never gets past the executor.  Freeze keeps the generation of the
  settled operation but starts a new one, so the fence the settled operation left
  refuses its requests for good, whatever Kubernetes would answer.\<close>

theorem freeze_is_refused:
  assumes "plan_command_authorized i command oid auth at = Inr j" "lc_kind command = Freeze" "oid \<noteq> eo_id (ei_operation i)"
    and "List.find (\<lambda>r. fr_environment_id r = ei_id i) rows = Some r" "recorded_for i r"
    and "fr_last_response r = Some response" "\<not> is_deleted_response (Some response)"
    and "fence_for_action lib j a = Inr f" "bind_container_executor_request lib f request = Inr fence"
    and "fr_last_request_id r \<noteq> sha256_display (bf_request_id fence)" "now < bf_deadline_at fence"
  shows "serve_request lib backend now \<lparr> qe_fence = fence, qe_request = request \<rparr> rows
    = (executor_reply fence (RespFailed \<lparr> pf_code = Rejected, pf_retryable = False \<rparr>), rows)"
proof -
  note b = bound_fence [OF assms(8,9)]
  obtain phase rv obs gen where j: "j = planned_instance i command oid auth phase rv obs gen"
    using assms(1) by (rule planE)
  have gen: "ei_generation j = ei_generation i"
    using assms(1,2) by (auto simp: plan_command_authorized_def Let_def res_simps planned_instance_def increments_generation_def)
  have id: "ei_id j = ei_id i" "eo_id (ei_operation j) = oid" by (simp_all add: j planned_instance_def accepted_operation_def)
  have g: "fr_highest_generation r = uint (ei_generation i)" "fr_operation_id r = eo_id (ei_operation i)"
    using assms(5) by (auto simp: recorded_for_def row_key_def instance_key_def)
  have "fence_check now fence r \<in> {Inl FenceStaleGeneration, Inl FenceIdentityMismatch}"
    using assms(3,6,7,10) g by (auto simp: fence_check_def b gen id)
  then have "executor_admit lib now \<lparr> qe_fence = fence, qe_request = request \<rparr> rows
      \<in> {Inl FenceStaleGeneration, Inl FenceIdentityMismatch}"
    using assms(4,11) b(1) id
    by (cases "validate_container_executor_request lib \<lparr> qe_fence = fence, qe_request = request \<rparr>")
       (auto simp: executor_admit_def Let_def validate_container_executor_request_def res_then_def
          container_executor_request_id_def ok_or_def split: option.splits if_splits)
  then show ?thesis by (auto simp: serve_request_def fenced_execute_def Let_def)
qed

section \<open>The remote call\<close>

text \<open>C31: a call through NATS is the call itself.  When both messages survive encoding
  within the size limit, the client returns exactly what the server's fenced
  execution of the bound request answers.\<close>

theorem nats_request_transparent:
  assumes "matches_action request (bf_action fence)" "bind_container_executor_request lib fence request = Inr bound"
    and "serve_request lib backend now \<lparr> qe_fence = bound, qe_request = request \<rparr> rows = (reply, rows')"
    and "ec_write_request codec \<lparr> qe_fence = bound, qe_request = request \<rparr> = Some p"
    and "ec_read_request codec p = Some \<lparr> qe_fence = bound, qe_request = request \<rparr>"
    and "ec_write_response codec reply = Some q" "ec_read_response codec q = Some reply"
    and "length p \<le> MAX_CONTAINER_EXECUTOR_MESSAGE_BYTES" "length q \<le> MAX_CONTAINER_EXECUTOR_MESSAGE_BYTES"
  shows "nats_request lib codec (\<lambda>m. fst (serve_message lib codec backend now (True, m) rows)) fence request
    = Inr (pe_response reply)"
proof -
  obtain r where "reply = executor_reply bound r"
    using assms(3) by (auto simp: serve_request_def fenced_execute_def Let_def
        split: prod.splits sum.splits executor_admission.splits option.splits)
  then show ?thesis
    using assms by (simp add: nats_request_def serve_message_def executor_reply_def not_less)
qed

section \<open>A run of the executor\<close>

definition demo_fence :: backend_fence where
  "demo_fence = \<lparr> bf_protocol_version = 2, bf_environment_id = 1, bf_operation_id = 12, bf_provider_step = 1,
     bf_operation_generation = 2, bf_attempt = 1, bf_action = ActCleanup, bf_request_id = replicate 32 7,
     bf_trace_id = ''t2'', bf_deadline_at = 2000 \<rparr>"

definition demo_request :: request_envelope where
  "demo_request = \<lparr> qe_fence = demo_fence, qe_request = ReqDeleteNamespace \<lparr> rpl_environment_id = 1,
     rpl_namespace = ''lw-env-1'', rpl_image = [], rpl_resources = [], rpl_plan_sha256 = replicate 32 7 \<rparr> \<rparr>"

definition demo_row :: fence_row where
  "demo_row = \<lparr> fr_environment_id = 1, fr_highest_generation = 2, fr_operation_id = 12, fr_provider_step = 1,
     fr_attempt = 1, fr_tombstoned = False, fr_last_action = ''cleanup'',
     fr_last_request_id = sha256_display (replicate 32 7), fr_last_response = None, fr_deadline_at = 2000 \<rparr>"

definition demo_deletion :: executor_response where
  "demo_deletion = RespDeleted (replicate 32 7) demo_artifact"

definition demo_idle :: executor_state where
  "demo_idle = \<lparr> xs_now = 20, xs_rows = [], xs_running = [], xs_log = [] \<rparr>"

definition demo_admitted :: executor_state where
  "demo_admitted = \<lparr> xs_now = 20, xs_rows = [demo_row], xs_running = [demo_request], xs_log = [demo_request] \<rparr>"

definition demo_cleaned :: executor_state where
  "demo_cleaned = \<lparr> xs_now = 20, xs_rows = [completed_row demo_deletion demo_row], xs_running = [], xs_log = [demo_request] \<rparr>"

lemma demo_admit: "executor_admit demo_lib 20 demo_request [] = Inr (Execute 1980, [demo_row])"
  by (simp add: executor_admit_def validate_container_executor_request_def container_executor_request_id_def
      demo_request_def demo_fence_def demo_lib_def CONTAINER_BACKEND_PROTOCOL_VERSION_def matches_action_def
      fence_row_of_def I64_MAX_def I32_MAX_def demo_row_def Let_def)

lemma demo_complete:
  "executor_complete demo_fence demo_deletion [demo_row] = Inr [completed_row demo_deletion demo_row]"
  by (simp add: executor_complete_def completion_hit_def demo_fence_def demo_row_def I64_MAX_def I32_MAX_def)

lemma demo_executor_reach:
  "reach executor_init (executor_step demo_lib) demo_admitted" "reach executor_init (executor_step demo_lib) demo_cleaned"
proof -
  have "reach executor_init (executor_step demo_lib) demo_idle"
    by (rule reach_init) (simp add: executor_init_def demo_idle_def)
  moreover have "executor_step demo_lib demo_idle demo_admitted"
    using exec_admit [of demo_lib demo_idle demo_request 1980 "[demo_row]"] demo_admit
    by (simp add: demo_idle_def demo_admitted_def)
  ultimately show a: "reach executor_init (executor_step demo_lib) demo_admitted" by (rule reach_step)
  have "executor_step demo_lib demo_admitted demo_cleaned"
    using exec_complete [of demo_request demo_admitted demo_deletion "[completed_row demo_deletion demo_row]" demo_lib] demo_complete
    by (simp add: demo_cleaned_def demo_admitted_def demo_request_def demo_fence_def)
  with a show "reach executor_init (executor_step demo_lib) demo_cleaned" by (rule reach_step)
qed

theorem executor_mutual_exclusion_witness:
  "live demo_admitted 1 = [demo_request] \<and> length (live demo_admitted 1) \<le> 1"
  using executor_mutual_exclusion [OF demo_executor_reach(1), of 1]
  by (simp add: live_def demo_admitted_def demo_request_def demo_fence_def)

theorem executor_tombstone_permanent_witness:
  "live demo_cleaned 1 = [] \<and> row_of demo_cleaned 1 = Some (completed_row demo_deletion demo_row)"
proof -
  have "row_of demo_cleaned 1 = Some (completed_row demo_deletion demo_row)"
    by (simp add: row_of_def demo_cleaned_def demo_row_def)
  moreover have "fr_tombstoned (completed_row demo_deletion demo_row)"
    by (simp add: demo_deletion_def)
  ultimately show ?thesis
    using executor_tombstone_permanent [OF demo_executor_reach(2), of 1 "completed_row demo_deletion demo_row" demo_cleaned] by simp
qed


definition demo_settled_row :: fence_row where
  "demo_settled_row = demo_row \<lparr> fr_highest_generation := 1, fr_operation_id := 9, fr_provider_step := 4,
     fr_last_action := ''provision'', fr_last_request_id := sha256_display (replicate 32 8),
     fr_last_response := Some (RespObserved (replicate 32 7) \<lparr> ao_ready = True, ao_observed_at = 5 \<rparr>) \<rparr>"

lemma demo_settled: "recorded_for demo_ready demo_settled_row"
  by (simp add: recorded_for_def demo_settled_row_def demo_row_def demo_ready_def demo_create_def row_key_def instance_key_def)

lemma demo_bound:
  "fence_for_action demo_lib i a = Inr f \<Longrightarrow> bind_container_executor_request demo_lib f request = Inr f"
  "\<exists>f. fence_for_action demo_lib i a = Inr f \<and> bf_request_id f = replicate 32 7"
  by (auto simp: fence_for_action_def bind_container_executor_request_def container_executor_request_id_def demo_lib_def)

theorem current_request_not_stale_witness:
  "\<exists>f. fence_for_action demo_lib demo_deleting ActCleanup = Inr f
    \<and> fence_check 20 f demo_settled_row \<notin> {Inl FenceStaleGeneration, Inl FenceIdentityMismatch}"
proof -
  obtain f where f: "fence_for_action demo_lib demo_deleting ActCleanup = Inr f" using demo_bound(2) by blast
  have "eo_kind (ei_operation demo_deleting) = Delete" by code_simp
  then have "thawed_step demo_ready demo_deleting"
    using step_plan [OF demo_deleting_eq] by (simp add: thawed_step_def)
  then have "thawed_step\<^sup>*\<^sup>* demo_ready demo_deleting" by blast
  then show ?thesis using current_request_not_stale [OF _ demo_settled f demo_bound(1) [OF f]] f by blast
qed

definition demo_frozen :: environment_instance where
  "demo_frozen = planned_instance demo_ready (demo_command Freeze 5) 12 None None 6 Updating 1"

lemma demo_frozen_eq: "plan_command_authorized demo_ready (demo_command Freeze 5) 12 None 10 = Inr demo_frozen"
  by code_simp

theorem freeze_is_refused_witness:
  "\<exists>f. fence_for_action demo_lib demo_frozen ActObserve = Inr f
    \<and> serve_request demo_lib (\<lambda>_ _. None) 20 \<lparr> qe_fence = f, qe_request = qe_request demo_request \<rparr> [demo_settled_row]
      = (executor_reply f (RespFailed \<lparr> pf_code = Rejected, pf_retryable = False \<rparr>), [demo_settled_row])"
proof -
  obtain f where f: "fence_for_action demo_lib demo_frozen ActObserve = Inr f" "bf_request_id f = replicate 32 7"
    using demo_bound(2) by blast
  have d: "bf_deadline_at f = 2000"
    using bound_fence(7) [OF f(1) demo_bound(1) [OF f(1)]]
    by (simp add: demo_frozen_def planned_instance_def accepted_operation_def demo_command_def)
  have "serve_request demo_lib (\<lambda>_ _. None) 20 \<lparr> qe_fence = f, qe_request = qe_request demo_request \<rparr> [demo_settled_row]
      = (executor_reply f (RespFailed \<lparr> pf_code = Rejected, pf_retryable = False \<rparr>), [demo_settled_row])"
    by (rule freeze_is_refused [where response = "RespObserved (replicate 32 7) \<lparr> ao_ready = True, ao_observed_at = 5 \<rparr>",
        OF demo_frozen_eq _ _ _ demo_settled _ _ f(1) demo_bound(1) [OF f(1)]])
       (simp_all add: demo_command_def demo_ready_def demo_create_def demo_settled_row_def demo_row_def
          f(2) d)
  then show ?thesis using f(1) by blast
qed

definition demo_codec :: executor_codec where
  "demo_codec = \<lparr> ec_write_request = (\<lambda>_. Some [1]), ec_read_request = (\<lambda>_. Some demo_request),
     ec_write_response = (\<lambda>_. Some [2]), ec_read_response = (\<lambda>_. Some (executor_reply demo_fence demo_deletion)) \<rparr>"

theorem nats_request_transparent_witness:
  "nats_request demo_lib demo_codec
      (\<lambda>m. fst (serve_message demo_lib demo_codec (\<lambda>_ _. Some demo_deletion) 20 (True, m) [])) demo_fence (qe_request demo_request)
    = Inr demo_deletion"
proof -
  have e: "\<lparr> qe_fence = demo_fence, qe_request = qe_request demo_request \<rparr> = demo_request" by (simp add: demo_request_def)
  have f: "qe_fence demo_request = demo_fence" by (simp add: demo_request_def)
  have s: "serve_request demo_lib (\<lambda>_ _. Some demo_deletion) 20 demo_request []
      = (executor_reply demo_fence demo_deletion, [completed_row demo_deletion demo_row])"
    using demo_complete by (simp add: serve_request_def fenced_execute_def demo_admit Let_def f)
  have "nats_request demo_lib demo_codec
      (\<lambda>m. fst (serve_message demo_lib demo_codec (\<lambda>_ _. Some demo_deletion) 20 (True, m) [])) demo_fence (qe_request demo_request)
    = Inr (pe_response (executor_reply demo_fence demo_deletion))"
    by (rule nats_request_transparent [where bound = demo_fence and request = "qe_request demo_request" and p = "[1]" and q = "[2]", unfolded e, OF _ _ s])
       (simp_all add: demo_codec_def matches_action_def demo_request_def demo_fence_def bind_container_executor_request_def
          container_executor_request_id_def demo_lib_def MAX_CONTAINER_EXECUTOR_MESSAGE_BYTES_def)
  then show ?thesis by (simp add: executor_reply_def)
qed

end
