(* ===== verification/Evaluation_Spec.thy ===== *)
theory Evaluation_Spec
  imports Complex_Main Foundation
begin

text \<open>
  Evaluation definitions (\<^verbatim>\<open>crates/contracts/src/evaluation\<close>: \<^verbatim>\<open>spec.rs\<close>, \<^verbatim>\<open>validation.rs\<close>
  and \<^verbatim>\<open>review.rs\<close>): the document, its validation with the cycle check on the step
  graph and the score total, and the advisory review document.  A \<^verbatim>\<open>BTreeMap\<close> is
  an association list ordered by key and a \<^verbatim>\<open>BTreeSet\<close> an ordered list.  The counter
  of the cycle check is a \<^verbatim>\<open>usize\<close> whose decrement panics at zero; the loop returns
  \<^const>\<open>None\<close> there.
\<close>

section \<open>Ordered maps and sets\<close>

fun bt_insert :: "string \<Rightarrow> 'v \<Rightarrow> (string \<times> 'v) list \<Rightarrow> (string \<times> 'v) list" where
  "bt_insert k v [] = [(k, v)]"
| "bt_insert k v ((k', v') # m) =
     (if k = k' then (k, v) # m
      else if str_less k k' then (k, v) # (k', v') # m
      else (k', v') # bt_insert k v m)"

definition bt_set :: "string list \<Rightarrow> string list" where
  "bt_set xs = map fst (fold (\<lambda>x. bt_insert x ()) xs [])"

section \<open>The document\<close>

record evaluation_metadata =
  em_name :: string
  em_version :: string

datatype collector_spec =
    WorkspaceSnapshot (ws_include: "string list") (ws_exclude: "string list") (ws_max_bytes: u64)
  | SystemFacts (sf_facts: "string list") (sf_max_bytes: u64)

record submission_spec =
  ss_collector :: collector_spec
  ss_llm_readable :: "string list"

datatype program_phase = Compile | Test

record test_group =
  tg_name :: string
  tg_source :: string
  tg_max_points :: u32

record execution_limits =
  el_wall_time_seconds :: u64
  el_memory_bytes :: u64
  el_output_bytes :: u64

record fact_assertion =
  fa_fact :: string
  fa_expected :: json

datatype deterministic_runner_spec =
    FileAssertion "string list"
  | Program string program_phase string "test_group list" execution_limits
  | AnsibleProbe string "string list" bool "fact_assertion list"

datatype advisory_output_mode = GoalAssessment

datatype advisory_runner_spec = LlmReview "string list" string advisory_output_mode

datatype expected_service_state = Active | Inactive

datatype checker_spec =
    Exact
  | Token
  | ExitCode "32 word"
  | JsonSchema string
  | ServiceState string expected_service_state

datatype gate_failure_policy = GateStop

datatype score_failure_policy = ScoreStop | ScoreContinue

datatype advisory_failure_policy = AdvisoryContinue

record gate_step =
  gs_id :: string
  gs_depends_on :: "string list"
  gs_runner :: deterministic_runner_spec
  gs_checker :: checker_spec
  gs_failure_policy :: gate_failure_policy

record score_step =
  sc_id :: string
  sc_depends_on :: "string list"
  sc_runner :: deterministic_runner_spec
  sc_checker :: checker_spec
  sc_score_max :: u32
  sc_failure_policy :: score_failure_policy

record advisory_step =
  as_id :: string
  as_depends_on :: "string list"
  as_runner :: advisory_runner_spec
  as_failure_policy :: advisory_failure_policy

datatype evaluation_step = Gate gate_step | Score score_step | Advisory advisory_step

datatype required_status = Passed

record aggregation_gate =
  ag_step :: string
  ag_required_status :: required_status

datatype aggregation_kind = DeterministicSum

record aggregation_spec =
  agg_kind :: aggregation_kind
  agg_max_score :: u32
  agg_gates :: "aggregation_gate list"

datatype manual_review_reason = InfrastructureError | InvalidEvidence

record review_policy =
  rp_teacher_approval_required_for_release :: bool
  rp_force_manual_when :: "manual_review_reason list"

record evaluation_body =
  eb_submission :: submission_spec
  eb_steps :: "evaluation_step list"
  eb_aggregation :: aggregation_spec
  eb_review :: review_policy

record evaluation_spec =
  es_metadata :: evaluation_metadata
  es_spec :: evaluation_body

datatype step_failure_policy = PolicyStop | PolicyContinue | PolicyContinueAdvisory

section \<open>Accessors\<close>

fun included_paths :: "collector_spec \<Rightarrow> string list option" where
  "included_paths (WorkspaceSnapshot inc _ _) = Some inc"
| "included_paths (SystemFacts _ _) = None"

fun excluded_paths :: "collector_spec \<Rightarrow> string list option" where
  "excluded_paths (WorkspaceSnapshot _ exc _) = Some exc"
| "excluded_paths (SystemFacts _ _) = None"

fun has_inputs :: "collector_spec \<Rightarrow> bool" where
  "has_inputs (WorkspaceSnapshot inc _ _) \<longleftrightarrow> inc \<noteq> []"
| "has_inputs (SystemFacts facts _) \<longleftrightarrow> facts \<noteq> []"

fun collector_max_bytes :: "collector_spec \<Rightarrow> u64" where
  "collector_max_bytes (WorkspaceSnapshot _ _ n) = n"
| "collector_max_bytes (SystemFacts _ n) = n"

fun step_id :: "evaluation_step \<Rightarrow> string" where
  "step_id (Gate s) = gs_id s"
| "step_id (Score s) = sc_id s"
| "step_id (Advisory s) = as_id s"

fun dependencies :: "evaluation_step \<Rightarrow> string list" where
  "dependencies (Gate s) = gs_depends_on s"
| "dependencies (Score s) = sc_depends_on s"
| "dependencies (Advisory s) = as_depends_on s"

fun is_gate :: "evaluation_step \<Rightarrow> bool" where
  "is_gate (Gate _) \<longleftrightarrow> True"
| "is_gate (Score _) \<longleftrightarrow> False"
| "is_gate (Advisory _) \<longleftrightarrow> False"

fun step_score :: "evaluation_step \<Rightarrow> u32 option" where
  "step_score (Score s) = Some (sc_score_max s)"
| "step_score (Gate _) = None"
| "step_score (Advisory _) = None"

fun failure_policy :: "evaluation_step \<Rightarrow> step_failure_policy" where
  "failure_policy (Gate _) = PolicyStop"
| "failure_policy (Score s) = (case sc_failure_policy s of
      ScoreStop \<Rightarrow> PolicyStop | ScoreContinue \<Rightarrow> PolicyContinue)"
| "failure_policy (Advisory _) = PolicyContinueAdvisory"

fun deterministic_runner :: "evaluation_step \<Rightarrow> deterministic_runner_spec option" where
  "deterministic_runner (Gate s) = Some (gs_runner s)"
| "deterministic_runner (Score s) = Some (sc_runner s)"
| "deterministic_runner (Advisory _) = None"

fun advisory_runner :: "evaluation_step \<Rightarrow> advisory_runner_spec option" where
  "advisory_runner (Advisory s) = Some (as_runner s)"
| "advisory_runner (Gate _) = None"
| "advisory_runner (Score _) = None"

fun deterministic_checker :: "evaluation_step \<Rightarrow> checker_spec option" where
  "deterministic_checker (Gate s) = Some (gs_checker s)"
| "deterministic_checker (Score s) = Some (sc_checker s)"
| "deterministic_checker (Advisory _) = None"

fun submission_paths :: "deterministic_runner_spec \<Rightarrow> string list" where
  "submission_paths (FileAssertion required_files) = required_files"
| "submission_paths (Program _ _ input _ _) = [input]"
| "submission_paths (AnsibleProbe _ _ _ _) = []"

fun advisory_included_paths :: "advisory_runner_spec \<Rightarrow> string list" where
  "advisory_included_paths (LlmReview inc _ _) = inc"

section \<open>Validation\<close>

datatype evaluation_spec_error =
    InvalidDocument string
  | InvalidMetadata
  | EmptySteps
  | DuplicateStepId string
  | MissingDependency string string
  | DependencyCycle
  | UnsafePath string string
  | InvalidCollector string
  | LlmReadableNotCollected string
  | LlmIncludeNotAllowed string string
  | InvalidStepConfiguration string string
  | AggregationScoreMismatch u32 u32
  | AggregationScoreOverflow string
  | InvalidAggregationGate string
  | TeacherApprovalRequired

fun spec_diagnostic_code :: "evaluation_spec_error \<Rightarrow> string" where
  "spec_diagnostic_code (InvalidDocument _) = ''LW_EVAL_SPEC_DOCUMENT_INVALID''"
| "spec_diagnostic_code InvalidMetadata = ''LW_EVAL_METADATA_INVALID''"
| "spec_diagnostic_code EmptySteps = ''LW_EVAL_STEPS_EMPTY''"
| "spec_diagnostic_code (DuplicateStepId _) = ''LW_EVAL_STEP_DUPLICATE''"
| "spec_diagnostic_code (MissingDependency _ _) = ''LW_EVAL_DEPENDENCY_MISSING''"
| "spec_diagnostic_code DependencyCycle = ''LW_EVAL_DAG_CYCLE''"
| "spec_diagnostic_code (UnsafePath _ _) = ''LW_EVAL_SUBMISSION_PATH_UNSAFE''"
| "spec_diagnostic_code (InvalidCollector _) = ''LW_EVAL_COLLECTOR_INVALID''"
| "spec_diagnostic_code (LlmReadableNotCollected _) = ''LW_EVAL_LLM_READABLE_NOT_COLLECTED''"
| "spec_diagnostic_code (LlmIncludeNotAllowed _ _) = ''LW_EVAL_LLM_INCLUDE_NOT_ALLOWED''"
| "spec_diagnostic_code (InvalidStepConfiguration _ _) = ''LW_EVAL_STEP_CONFIG_INVALID''"
| "spec_diagnostic_code (AggregationScoreMismatch _ _) = ''LW_EVAL_AGGREGATION_SCORE_MISMATCH''"
| "spec_diagnostic_code (AggregationScoreOverflow _) = ''LW_EVAL_AGGREGATION_SCORE_OVERFLOW''"
| "spec_diagnostic_code (InvalidAggregationGate _) = ''LW_EVAL_AGGREGATION_GATE_INVALID''"
| "spec_diagnostic_code TeacherApprovalRequired = ''LW_EVAL_TEACHER_APPROVAL_REQUIRED''"

definition is_allowed_probe_module :: "string \<Rightarrow> bool" where
  "is_allowed_probe_module m \<longleftrightarrow> m \<in> {''ansible.builtin.service_facts'', ''ansible.builtin.stat'',
     ''ansible.builtin.package_facts''}"

fun runner_validate :: "string \<Rightarrow> deterministic_runner_spec \<Rightarrow> evaluation_spec_error + unit" where
  "runner_validate sid (FileAssertion required_files) =
     (if required_files = []
      then Inl (InvalidStepConfiguration sid ''file_assertion requires at least one file'') else Inr ())"
| "runner_validate sid (Program profile phase input groups limits) =
     (if is_blank profile \<or> is_blank input
      then Inl (InvalidStepConfiguration sid ''program runner requires a toolchain profile and input'')
      else if phase = Test \<and> groups = []
      then Inl (InvalidStepConfiguration sid ''program test phase requires test groups'')
      else if phase = Compile \<and> groups \<noteq> []
      then Inl (InvalidStepConfiguration sid ''program compile phase cannot contain test groups'')
      else if list_ex (\<lambda>g. is_blank (tg_name g) \<or> is_blank (tg_source g) \<or> tg_max_points g = 0) groups
      then Inl (InvalidStepConfiguration sid ''test groups require a name, source, and non-zero maxPoints'')
      else if el_wall_time_seconds limits = 0 \<or> el_memory_bytes limits = 0 \<or> el_output_bytes limits = 0
      then Inl (InvalidStepConfiguration sid ''execution limits must be non-zero'')
      else Inr ())"
| "runner_validate sid (AnsibleProbe profile modules read_only assertions) =
     (if is_blank profile \<or> modules = [] \<or> assertions = []
      then Inl (InvalidStepConfiguration sid ''ansible_probe requires a profile, allowlist, and assertions'')
      else if \<not> read_only
      then Inl (InvalidStepConfiguration sid ''v1 ansible_probe must be read-only'')
      else if list_ex (\<lambda>m. \<not> is_allowed_probe_module m) modules
      then Inl (InvalidStepConfiguration sid ''ansible_probe contains a module outside the v1 allowlist'')
      else Inr ())"

fun checker_compatible :: "deterministic_runner_spec \<Rightarrow> checker_spec \<Rightarrow> bool" where
  "checker_compatible (FileAssertion _) (ExitCode _) \<longleftrightarrow> True"
| "checker_compatible (Program _ Compile _ _ _) (ExitCode _) \<longleftrightarrow> True"
| "checker_compatible (Program _ Test _ _ _) Exact \<longleftrightarrow> True"
| "checker_compatible (Program _ Test _ _ _) Token \<longleftrightarrow> True"
| "checker_compatible (Program _ Test _ _ _) (JsonSchema _) \<longleftrightarrow> True"
| "checker_compatible (AnsibleProbe _ _ _ _) (ExitCode _) \<longleftrightarrow> True"
| "checker_compatible (AnsibleProbe _ _ _ _) (JsonSchema _) \<longleftrightarrow> True"
| "checker_compatible (AnsibleProbe _ _ _ _) (ServiceState _ _) \<longleftrightarrow> True"
| "checker_compatible _ _ \<longleftrightarrow> False"

definition invalid_checker :: "string \<Rightarrow> string \<Rightarrow> evaluation_spec_error" where
  "invalid_checker sid detail = InvalidStepConfiguration sid detail"

definition checker_validate_for ::
  "checker_spec \<Rightarrow> deterministic_runner_spec \<Rightarrow> string \<Rightarrow> evaluation_spec_error + unit" where
  "checker_validate_for c runner sid =
     (if (case c of JsonSchema schema_ref \<Rightarrow> is_blank schema_ref | _ \<Rightarrow> False)
      then Inl (invalid_checker sid ''json_schema requires schemaRef'')
      else if (case c of ServiceState service _ \<Rightarrow> is_blank service | _ \<Rightarrow> False)
      then Inl (invalid_checker sid ''service_state requires a service name'')
      else if checker_compatible runner c then Inr ()
      else Inl (invalid_checker sid ''checker is incompatible with the selected runner and phase''))"

definition is_normalized_safe_relative_path :: "string \<Rightarrow> bool" where
  "is_normalized_safe_relative_path val \<longleftrightarrow>
     \<not> is_blank val \<and> is_trimmed val \<and> \<not> prefix ''/'' val \<and> CHR 0x5C \<notin> set val
     \<and> \<not> list_ex (\<lambda>c. c \<in> set ''*?[]{}'') val
     \<and> list_all (\<lambda>seg. seg \<noteq> [] \<and> seg \<noteq> ''.'' \<and> seg \<noteq> ''..'') (split_on CHR ''/'' val)"

fun validate_paths :: "string \<Rightarrow> string list \<Rightarrow> evaluation_spec_error + unit" where
  "validate_paths location [] = Inr ()"
| "validate_paths location (p # ps) =
     (if \<not> is_normalized_safe_relative_path p then Inl (UnsafePath location p)
      else validate_paths location ps)"

definition path_is_excluded :: "string \<Rightarrow> string \<Rightarrow> bool" where
  "path_is_excluded path excluded \<longleftrightarrow> path = excluded
     \<or> (case strip_prefix excluded path of None \<Rightarrow> False | Some rest \<Rightarrow> prefix ''/'' rest)"

definition validate_submission :: "submission_spec \<Rightarrow> evaluation_spec_error + string list" where
  "validate_submission s =
     (if collector_max_bytes (ss_collector s) = 0
      then Inl (InvalidCollector ''maxBytes must be non-zero'')
      else if \<not> has_inputs (ss_collector s)
      then Inl (InvalidCollector ''collector input list must not be empty'')
      else
        res_then (case included_paths (ss_collector s) of
            Some paths \<Rightarrow> validate_paths ''submission.collector.include'' paths | None \<Rightarrow> Inr ()) (\<lambda>_.
        res_then (case excluded_paths (ss_collector s) of
            Some paths \<Rightarrow> validate_paths ''submission.collector.exclude'' paths | None \<Rightarrow> Inr ()) (\<lambda>_.
        res_then (validate_paths ''submission.llmReadable'' (ss_llm_readable s)) (\<lambda>_.
        let llm_readable = bt_set (ss_llm_readable s) in
        if length llm_readable \<noteq> length (ss_llm_readable s)
        then Inl (InvalidCollector ''submission.llmReadable must not contain duplicate paths'')
        else (case included_paths (ss_collector s) of
            Some collected \<Rightarrow>
              let excluded = bt_set (case excluded_paths (ss_collector s) of None \<Rightarrow> [] | Some e \<Rightarrow> e) in
              (case List.find (\<lambda>path. path \<notin> set (bt_set collected) \<or> list_ex (path_is_excluded path) excluded)
                  llm_readable of
                 Some path \<Rightarrow> Inl (LlmReadableNotCollected path)
               | None \<Rightarrow> Inr llm_readable)
          | None \<Rightarrow>
              (case llm_readable of
                 path # _ \<Rightarrow> Inl (LlmReadableNotCollected path)
               | [] \<Rightarrow> Inr llm_readable))))))"

definition validate_step ::
  "string list \<Rightarrow> evaluation_step \<Rightarrow> evaluation_spec_error + unit" where
  "validate_step llm_readable s =
     res_then (case deterministic_runner s of
         None \<Rightarrow> Inr ()
       | Some runner \<Rightarrow>
           res_then (runner_validate (step_id s) runner) (\<lambda>_.
           res_then (validate_paths (step_id s) (submission_paths runner)) (\<lambda>_.
           case deterministic_checker s of
             None \<Rightarrow> Inl (InvalidStepConfiguration (step_id s) ''deterministic step requires a checker'')
           | Some checker \<Rightarrow> checker_validate_for checker runner (step_id s)))) (\<lambda>_.
     if step_score s = Some 0
     then Inl (InvalidStepConfiguration (step_id s) ''score step max must be non-zero'')
     else (case advisory_runner s of
         None \<Rightarrow> Inr ()
       | Some runner \<Rightarrow>
           let paths = advisory_included_paths runner in
           if paths = []
           then Inl (InvalidStepConfiguration (step_id s) ''llm_review include must not be empty'')
           else res_then (validate_paths (step_id s) paths) (\<lambda>_.
             case List.find (\<lambda>path. path \<notin> set llm_readable) paths of
               Some path \<Rightarrow> Inl (LlmIncludeNotAllowed (step_id s) path)
             | None \<Rightarrow> Inr ())))"

fun steps_loop ::
  "string list \<Rightarrow> (string \<times> evaluation_step) list \<Rightarrow> evaluation_step list
   \<Rightarrow> evaluation_spec_error + (string \<times> evaluation_step) list" where
  "steps_loop llm_readable steps [] = Inr steps"
| "steps_loop llm_readable steps (s # ss) =
     (if is_blank (step_id s)
      then Inl (InvalidStepConfiguration (step_id s) ''step id must not be empty'')
      else if map_of steps (step_id s) \<noteq> None then Inl (DuplicateStepId (step_id s))
      else res_then (validate_step llm_readable s) (\<lambda>_.
             steps_loop llm_readable (bt_insert (step_id s) s steps) ss))"

section \<open>The dependency graph\<close>

fun dependency_loop ::
  "(string \<times> evaluation_step) list \<Rightarrow> string \<Rightarrow> string list \<Rightarrow> (string \<times> string list) list \<Rightarrow> string list
   \<Rightarrow> evaluation_spec_error + (string \<times> string list) list" where
  "dependency_loop steps sid unique outgoing [] = Inr outgoing"
| "dependency_loop steps sid unique outgoing (d # ds) =
     (if map_of steps d = None then Inl (MissingDependency sid d)
      else if d \<in> set unique
      then Inl (InvalidStepConfiguration sid (''duplicate dependency: '' @ d))
      else dependency_loop steps sid (d # unique)
             (bt_insert d ((case map_of outgoing d of None \<Rightarrow> [] | Some v \<Rightarrow> v) @ [sid]) outgoing) ds)"

fun graph_loop ::
  "(string \<times> evaluation_step) list \<Rightarrow> (string \<times> nat) list \<Rightarrow> (string \<times> string list) list \<Rightarrow> evaluation_step list
   \<Rightarrow> evaluation_spec_error + ((string \<times> nat) list \<times> (string \<times> string list) list)" where
  "graph_loop steps incoming outgoing [] = Inr (incoming, outgoing)"
| "graph_loop steps incoming outgoing (s # ss) =
     res_then (dependency_loop steps (step_id s) [] outgoing (dependencies s)) (\<lambda>outgoing'.
       graph_loop steps (bt_insert (step_id s) (length (dependencies s)) incoming) outgoing' ss)"

fun release_dependents ::
  "(string \<times> nat) list \<Rightarrow> string list \<Rightarrow> string list \<Rightarrow> ((string \<times> nat) list \<times> string list) option" where
  "release_dependents incoming ready [] = Some (incoming, ready)"
| "release_dependents incoming ready (d # ds) = (case map_of incoming d of
      None \<Rightarrow> release_dependents incoming ready ds
    | Some 0 \<Rightarrow> None
    | Some (Suc n) \<Rightarrow> release_dependents (upd_where (\<lambda>(k, _). k = d) (\<lambda>(k, c). (k, c - 1)) incoming)
        (if n = 0 then ready @ [d] else ready) ds)"

lemma sum_upd_where_le:
  "sum_list (map snd (upd_where p (\<lambda>(k, c). (k, c - 1)) m)) \<le> sum_list (map snd m)" for m :: "('a \<times> nat) list"
  by (induction m) (auto split: prod.splits intro: add_mono)

lemma sum_decrement:
  "map_of m d = Some (Suc n)
   \<Longrightarrow> sum_list (map snd (upd_where (\<lambda>(k, _). k = d) (\<lambda>(k, c). (k, c - 1)) m)) < sum_list (map snd m)"
proof (induction m)
  case (Cons e m)
  show ?case
  proof (cases "fst e = d")
    case True
    then show ?thesis
      using Cons.prems sum_upd_where_le [of "\<lambda>(k, _). k = d" m] by (cases e) simp
  qed (use Cons in \<open>cases e; auto\<close>)
qed simp

lemma release_dependents_measure:
  "release_dependents incoming ready ds = Some (incoming', ready')
   \<Longrightarrow> sum_list (map snd incoming') + length ready' \<le> sum_list (map snd incoming) + length ready"
proof (induction incoming ready ds rule: release_dependents.induct)
  case (2 incoming ready d ds)
  show ?case
  proof (cases "map_of incoming d")
    case (Some c)
    then obtain n where n: "c = Suc n" using 2 by (cases c) auto
    show ?thesis using 2(2) [OF Some n] 2(3) sum_decrement [of incoming d n] Some n
      by (auto split: if_splits)
  qed (use 2 in simp)
qed simp

function kahn ::
  "(string \<times> nat) list \<Rightarrow> (string \<times> string list) list \<Rightarrow> string list \<Rightarrow> nat \<Rightarrow> nat option" where
  "kahn incoming outgoing [] visited = Some visited"
| "kahn incoming outgoing (x # ready) visited = (case map_of outgoing x of
      None \<Rightarrow> kahn incoming outgoing ready (Suc visited)
    | Some dependents \<Rightarrow> (case release_dependents incoming ready dependents of
        None \<Rightarrow> None
      | Some (incoming', ready') \<Rightarrow> kahn incoming' outgoing ready' (Suc visited)))"
  by pat_completeness auto
termination
  by (relation "measure (\<lambda>(incoming, _, ready, _). sum_list (map snd incoming) + length ready)")
     (auto dest: release_dependents_measure)

definition validate_dependencies ::
  "evaluation_step list \<Rightarrow> (string \<times> evaluation_step) list \<Rightarrow> (evaluation_spec_error + unit) option" where
  "validate_dependencies ordered_steps steps =
     (case graph_loop steps [] [] ordered_steps of
        Inl e \<Rightarrow> Some (Inl e)
      | Inr (incoming, outgoing) \<Rightarrow>
          (case kahn incoming outgoing (map fst (filter (\<lambda>(_, c). c = 0) incoming)) 0 of
             None \<Rightarrow> None
           | Some visited \<Rightarrow>
               Some (if visited \<noteq> length ordered_steps then Inl DependencyCycle else Inr ())))"

section \<open>Aggregation and the whole document\<close>

fun score_total :: "u32 \<Rightarrow> evaluation_step list \<Rightarrow> evaluation_spec_error + u32" where
  "score_total tot [] = Inr tot"
| "score_total tot (s # ss) = (case step_score s of
      None \<Rightarrow> score_total tot ss
    | Some score \<Rightarrow> res_then (ok_or (AggregationScoreOverflow (step_id s)) (checked_add tot score)) (\<lambda>tot'.
        score_total tot' ss))"

definition validate_aggregation ::
  "evaluation_spec \<Rightarrow> (string \<times> evaluation_step) list \<Rightarrow> evaluation_spec_error + unit" where
  "validate_aggregation spec steps =
     (let aggregation = eb_aggregation (es_spec spec) in
      res_then (score_total 0 (eb_steps (es_spec spec))) (\<lambda>tot.
      if tot \<noteq> agg_max_score aggregation
      then Inl (AggregationScoreMismatch tot (agg_max_score aggregation))
      else res_all (\<lambda>gate. ensure_else (InvalidAggregationGate (ag_step gate))
             (case map_of steps (ag_step gate) of None \<Rightarrow> False | Some s \<Rightarrow> is_gate s))
           (agg_gates aggregation)))"

definition validate_spec :: "evaluation_spec \<Rightarrow> (evaluation_spec_error + unit) option" where
  "validate_spec spec =
     (let metadata = es_metadata spec; body = es_spec spec in
      if is_blank (em_name metadata) \<or> is_blank (em_version metadata) then Some (Inl InvalidMetadata)
      else if eb_steps body = [] then Some (Inl EmptySteps)
      else if \<not> rp_teacher_approval_required_for_release (eb_review body)
      then Some (Inl TeacherApprovalRequired)
      else (case res_then (validate_submission (eb_submission body)) (\<lambda>llm_readable.
                   steps_loop llm_readable [] (eb_steps body)) of
          Inl e \<Rightarrow> Some (Inl e)
        | Inr steps \<Rightarrow> (case validate_dependencies (eb_steps body) steps of
              None \<Rightarrow> None
            | Some (Inl e) \<Rightarrow> Some (Inl e)
            | Some (Inr _) \<Rightarrow> Some (validate_aggregation spec steps))))"

definition from_yaml :: "(string \<Rightarrow> string + evaluation_spec) \<Rightarrow> string \<Rightarrow> (evaluation_spec_error + evaluation_spec) option" where
  "from_yaml serde_yaml input = (case serde_yaml input of
      Inl e \<Rightarrow> Some (Inl (InvalidDocument e))
    | Inr spec \<Rightarrow> map_option (\<lambda>r. res_then r (\<lambda>_. Inr spec)) (validate_spec spec))"

section \<open>Advisory reviews\<close>

datatype goal_assessment = GoalMet | GoalPartiallyMet | GoalNotMet | GoalInsufficientEvidence

datatype finding_result = FindingMet | FindingPartial | FindingMissing | FindingUnclear

record evidence_location =
  el_path :: string
  el_start_line :: u32
  el_end_line :: u32

record goal_finding =
  gf_criterion :: string
  gf_result :: finding_result
  gf_evidence :: "evidence_location list"
  gf_suggestion :: string

text \<open>The confidence is a floating point number, that is, a fraction, or \<^const>\<open>None\<close> when it is not finite.\<close>

record goal_review =
  gr_assessment :: goal_assessment
  gr_confidence :: "rat option"
  gr_findings :: "goal_finding list"
  gr_requires_teacher_attention :: bool

datatype goal_review_error =
    ReviewDocument string
  | InvalidConfidence "rat option"
  | InvalidFinding nat string
  | LimitExceeded string nat nat
  | UnsafeEvidencePath string
  | EvidencePathNotAllowed string
  | InvalidEvidenceRange string u32 u32

fun review_diagnostic_code :: "goal_review_error \<Rightarrow> string" where
  "review_diagnostic_code (ReviewDocument _) = ''LW_EVAL_LLM_REVIEW_INVALID''"
| "review_diagnostic_code (InvalidConfidence _) = ''LW_EVAL_LLM_CONFIDENCE_INVALID''"
| "review_diagnostic_code (InvalidFinding _ _) = ''LW_EVAL_LLM_FINDING_INVALID''"
| "review_diagnostic_code (LimitExceeded _ _ _) = ''LW_EVAL_LLM_LIMIT_EXCEEDED''"
| "review_diagnostic_code (UnsafeEvidencePath _) = ''LW_EVAL_LLM_EVIDENCE_PATH_UNSAFE''"
| "review_diagnostic_code (EvidencePathNotAllowed _) = ''LW_EVAL_LLM_EVIDENCE_PATH_NOT_ALLOWED''"
| "review_diagnostic_code (InvalidEvidenceRange _ _ _) = ''LW_EVAL_LLM_EVIDENCE_RANGE_INVALID''"

definition MAX_FINDINGS :: nat where "MAX_FINDINGS = 64"
definition MAX_EVIDENCE_PER_FINDING :: nat where "MAX_EVIDENCE_PER_FINDING = 16"
definition MAX_CRITERION_BYTES :: nat where "MAX_CRITERION_BYTES = 1024"
definition MAX_SUGGESTION_BYTES :: nat where "MAX_SUGGESTION_BYTES = 4096"
definition MAX_EVIDENCE_PATH_BYTES :: nat where "MAX_EVIDENCE_PATH_BYTES = 1024"

definition validate_non_empty :: "nat \<Rightarrow> string \<Rightarrow> string \<Rightarrow> goal_review_error + unit" where
  "validate_non_empty index field val =
     (if is_blank val
      then Inl (InvalidFinding index
             (if field = ''criterion'' then ''criterion must not be empty''
              else if field = ''suggestion'' then ''suggestion must not be empty''
              else ''required field must not be empty''))
      else Inr ())"

definition validate_length :: "string \<Rightarrow> string \<Rightarrow> nat \<Rightarrow> goal_review_error + unit" where
  "validate_length field val max_len =
     (if length val > max_len then Inl (LimitExceeded field (length val) max_len) else Inr ())"

definition evidence_validate :: "evidence_location \<Rightarrow> goal_review_error + unit" where
  "evidence_validate e =
     res_then (validate_length ''evidence.path'' (el_path e) MAX_EVIDENCE_PATH_BYTES) (\<lambda>_.
     if \<not> is_normalized_safe_relative_path (el_path e) then Inl (UnsafeEvidencePath (el_path e))
     else if el_start_line e = 0 \<or> el_end_line e < el_start_line e
     then Inl (InvalidEvidenceRange (el_path e) (el_start_line e) (el_end_line e))
     else Inr ())"

definition finding_validate :: "nat \<Rightarrow> goal_finding \<Rightarrow> goal_review_error + unit" where
  "finding_validate index f =
     res_then (validate_non_empty index ''criterion'' (gf_criterion f)) (\<lambda>_.
     res_then (validate_length ''criterion'' (gf_criterion f) MAX_CRITERION_BYTES) (\<lambda>_.
     res_then (validate_non_empty index ''suggestion'' (gf_suggestion f)) (\<lambda>_.
     res_then (validate_length ''suggestion'' (gf_suggestion f) MAX_SUGGESTION_BYTES) (\<lambda>_.
     if gf_evidence f = [] then Inl (InvalidFinding index ''evidence must not be empty'')
     else if length (gf_evidence f) > MAX_EVIDENCE_PER_FINDING
     then Inl (LimitExceeded ''evidence'' (length (gf_evidence f)) MAX_EVIDENCE_PER_FINDING)
     else res_all evidence_validate (gf_evidence f)))))"

definition goal_review_validate :: "goal_review \<Rightarrow> goal_review_error + unit" where
  "goal_review_validate r =
     (if \<not> (case gr_confidence r of None \<Rightarrow> False | Some c \<Rightarrow> 0 \<le> c \<and> c \<le> 1)
      then Inl (InvalidConfidence (gr_confidence r))
      else if length (gr_findings r) > MAX_FINDINGS
      then Inl (LimitExceeded ''findings'' (length (gr_findings r)) MAX_FINDINGS)
      else res_all (\<lambda>(index, f). finding_validate index f) (enumerate 0 (gr_findings r)))"

definition goal_review_validate_against :: "goal_review \<Rightarrow> string list \<Rightarrow> goal_review_error + unit" where
  "goal_review_validate_against r allowed_paths =
     res_then (goal_review_validate r) (\<lambda>_.
     res_all (\<lambda>e. ensure_else (EvidencePathNotAllowed (el_path e)) (el_path e \<in> set (bt_set allowed_paths)))
       (concat (map gf_evidence (gr_findings r))))"

definition goal_review_from_json :: "(string \<Rightarrow> string + goal_review) \<Rightarrow> string \<Rightarrow> goal_review_error + goal_review" where
  "goal_review_from_json serde_json input =
     res_then (map_err ReviewDocument (serde_json input)) (\<lambda>r.
     res_then (goal_review_validate r) (\<lambda>_. Inr r))"

definition goal_review_from_json_against ::
  "(string \<Rightarrow> string + goal_review) \<Rightarrow> string \<Rightarrow> string list \<Rightarrow> goal_review_error + goal_review" where
  "goal_review_from_json_against serde_json input allowed_paths =
     res_then (goal_review_from_json serde_json input) (\<lambda>r.
     res_then (goal_review_validate_against r allowed_paths) (\<lambda>_. Inr r))"

end
