(* ===== verification/Evaluation_Graph.thy ===== *)
theory Evaluation_Graph
  imports Evaluation_Spec
begin

text \<open>
  Correctness of evaluation document validation: the step graph is accepted
  exactly when it is closed and acyclic, the score total is exact, and an
  advisory step sees only files the submission discloses.
\<close>

section \<open>Ordered maps\<close>

definition bt_ok :: "(string \<times> 'v) list \<Rightarrow> bool" where
  "bt_ok m \<longleftrightarrow> sorted_wrt str_less (map fst m)"

lemma str_less_total: "a \<noteq> b \<Longrightarrow> \<not> str_less a b \<Longrightarrow> str_less b a"
proof (induction a b rule: str_less.induct)
  case (1 x)
  then show ?case by (cases x) auto
next
  case (3 a as b bs)
  then show ?case by (auto simp: byte_def)
qed auto

lemma keys_bt_insert [simp]: "fst ` set (bt_insert k v m) = insert k (fst ` set m)"
  by (induction k v m rule: bt_insert.induct) auto

lemma map_of_bt_insert [simp]: "map_of (bt_insert k v m) x = (if x = k then Some v else map_of m x)"
  by (induction k v m rule: bt_insert.induct) auto

lemma bt_ok_insert: "bt_ok m \<Longrightarrow> bt_ok (bt_insert k v m)"
proof (induction k v m rule: bt_insert.induct)
  case (2 k v k' v' m)
  show ?case
  proof (cases "k = k'")
    case False
    show ?thesis
    proof (cases "str_less k k'")
      case True
      then show ?thesis using 2(2) False by (auto simp: bt_ok_def intro: str_less_trans)
    next
      case less: False
      then have "str_less k' k" using str_less_total False by blast
      then show ?thesis using 2 False less keys_bt_insert [of k v m] by (simp add: bt_ok_def)
    qed
  qed (use 2 in \<open>auto simp: bt_ok_def\<close>)
qed (simp add: bt_ok_def)

lemma bt_ok_distinct: "bt_ok m \<Longrightarrow> distinct (map fst m)"
  unfolding bt_ok_def
  by (induction m) (auto simp: str_less_irrefl)

lemma set_bt_fold: "fst ` set (fold (\<lambda>x. bt_insert x ()) xs m) = set xs \<union> fst ` set m"
  by (induction xs arbitrary: m) auto

lemma set_bt_set [simp]: "set (bt_set xs) = set xs"
  using set_bt_fold [of xs "[]"] by (simp add: bt_set_def)

section \<open>Building the graph\<close>

definition edges :: "evaluation_step list \<Rightarrow> (string \<times> string) set" where
  "edges ss = {(d, step_id s) | d s. s \<in> set ss \<and> d \<in> set (dependencies s)}"

definition dependents :: "evaluation_step list \<Rightarrow> string \<Rightarrow> string list" where
  "dependents ss d = map step_id (filter (\<lambda>s. d \<in> set (dependencies s)) ss)"

definition outgoing_of :: "(string \<times> string list) list \<Rightarrow> string \<Rightarrow> string list" where
  "outgoing_of outgoing d = (case map_of outgoing d of None \<Rightarrow> [] | Some v \<Rightarrow> v)"

lemma dependency_loop_iff:
  "dependency_loop steps sid unique outgoing ds = Inr outgoing'
   \<Longrightarrow> set ds \<subseteq> dom (map_of steps) \<and> distinct ds \<and> set ds \<inter> set unique = {}
     \<and> (\<forall>x. outgoing_of outgoing' x = outgoing_of outgoing x @ (if x \<in> set ds then [sid] else []))"
proof (induction steps sid unique outgoing ds arbitrary: outgoing' rule: dependency_loop.induct)
  case (2 steps sid unique outgoing d ds)
  then have ih: "set ds \<subseteq> dom (map_of steps) \<and> distinct ds \<and> set ds \<inter> set (d # unique) = {}
     \<and> (\<forall>x. outgoing_of outgoing' x = outgoing_of (bt_insert d (outgoing_of outgoing d @ [sid]) outgoing) x
             @ (if x \<in> set ds then [sid] else []))"
    and d: "map_of steps d \<noteq> None" "d \<notin> set unique"
    by (auto simp: outgoing_of_def split: if_splits)
  then show ?case by (auto simp: outgoing_of_def)
qed simp

lemma dependency_loop_ok:
  "set ds \<subseteq> dom (map_of steps) \<Longrightarrow> distinct ds \<Longrightarrow> set ds \<inter> set unique = {}
   \<Longrightarrow> \<exists>outgoing'. dependency_loop steps sid unique outgoing ds = Inr outgoing'"
  by (induction steps sid unique outgoing ds rule: dependency_loop.induct) auto

lemma graph_loop_Inr:
  assumes "graph_loop steps incoming outgoing ss = Inr (incoming', outgoing')"
    and "distinct (map step_id ss)" "bt_ok incoming"
  shows "(\<forall>s \<in> set ss. set (dependencies s) \<subseteq> dom (map_of steps) \<and> distinct (dependencies s))
     \<and> bt_ok incoming'
     \<and> map_of incoming' = map_of incoming ++ map_of (map (\<lambda>s. (step_id s, length (dependencies s))) ss)
     \<and> (\<forall>x. outgoing_of outgoing' x = outgoing_of outgoing x @ dependents ss x)"
  using assms
proof (induction steps incoming outgoing ss rule: graph_loop.induct)
  case (2 steps incoming outgoing s ss)
  obtain out where out: "dependency_loop steps (step_id s) [] outgoing (dependencies s) = Inr out"
    and rest: "graph_loop steps (bt_insert (step_id s) (length (dependencies s)) incoming) out ss = Inr (incoming', outgoing')"
    using 2(2) by (auto simp: res_then_Inr)
  have d: "distinct (map step_id ss)" and fresh: "step_id s \<notin> set (map step_id ss)" using 2(3) by auto
  note ih = 2(1) [OF rest d bt_ok_insert [OF 2(4)]]
  note dl = dependency_loop_iff [OF out]
  have "map_of (map (\<lambda>s. (step_id s, length (dependencies s))) ss) (step_id s) = None"
    using fresh by (auto simp: map_of_eq_None_iff)
  then have m: "map_of incoming' = map_of incoming ++ map_of (map (\<lambda>s. (step_id s, length (dependencies s))) (s # ss))"
    using ih by (auto simp: fun_eq_iff map_add_def split: option.splits)
  have "\<forall>x. outgoing_of outgoing' x = outgoing_of outgoing x @ dependents (s # ss) x"
    and "\<forall>s \<in> set (s # ss). set (dependencies s) \<subseteq> dom (map_of steps) \<and> distinct (dependencies s)"
    using ih dl by (auto simp: dependents_def)
  then show ?case using m ih by blast
qed (simp add: dependents_def)

lemma dependency_loop_Inl:
  "dependency_loop steps sid unique outgoing ds = Inl e \<Longrightarrow> e \<noteq> DependencyCycle"
  by (induction steps sid unique outgoing ds rule: dependency_loop.induct) (auto split: if_splits)

lemma graph_loop_Inl: "graph_loop steps incoming outgoing ss = Inl e \<Longrightarrow> e \<noteq> DependencyCycle"
proof (induction steps incoming outgoing ss rule: graph_loop.induct)
  case (2 steps incoming outgoing s ss)
  then show ?case
    by (cases "dependency_loop steps (step_id s) [] outgoing (dependencies s)")
       (auto dest: dependency_loop_Inl)
qed simp

lemma graph_loop_ok:
  "\<forall>s \<in> set ss. set (dependencies s) \<subseteq> dom (map_of steps) \<and> distinct (dependencies s)
   \<Longrightarrow> \<exists>r. graph_loop steps incoming outgoing ss = Inr r"
proof (induction steps incoming outgoing ss rule: graph_loop.induct)
  case (2 steps incoming outgoing s ss)
  obtain out where "dependency_loop steps (step_id s) [] outgoing (dependencies s) = Inr out"
    using dependency_loop_ok [of "dependencies s" steps "[]" "step_id s" outgoing] 2(2) by auto
  then show ?case using 2 by simp
qed simp

section \<open>The loop\<close>

lemma map_of_decrement:
  "map_of (upd_where (\<lambda>(k, _). k = d) (\<lambda>(k, c). (k, c - 1)) m) x
   = (if x = d then map_option (\<lambda>c. c - 1) (map_of m x) else map_of m x)" for m :: "(string \<times> nat) list"
  by (induction m) auto

lemmas map_of_decrement_simps = map_of_decrement map_of_decrement [unfolded One_nat_def]

lemma release_dependents_spec:
  assumes "distinct ds" and "\<And>d. d \<in> set ds \<Longrightarrow> \<exists>n. map_of incoming d = Some (Suc n)"
  shows "\<exists>incoming'. release_dependents incoming ready ds
           = Some (incoming', ready @ filter (\<lambda>d. map_of incoming d = Some 1) ds)
     \<and> (\<forall>x. map_of incoming' x =
            (if x \<in> set ds then map_option (\<lambda>c. c - 1) (map_of incoming x) else map_of incoming x))"
  using assms
proof (induction ds arbitrary: incoming ready)
  case (Cons d ds)
  obtain n where n: "map_of incoming d = Some (Suc n)" using Cons.prems(2) by auto
  let ?inc = "upd_where (\<lambda>(k, _). k = d) (\<lambda>(k, c). (k, c - 1)) incoming"
  have same: "map_of ?inc x = map_of incoming x" if "x \<in> set ds" for x
    using that Cons.prems(1) by (auto simp: map_of_decrement_simps)
  have f: "filter (\<lambda>x. map_of ?inc x = Some 1) ds = filter (\<lambda>x. map_of incoming x = Some 1) ds"
    by (rule filter_cong [OF refl]) (simp only: same)
  have ih: "\<exists>incoming'. release_dependents ?inc (if n = 0 then ready @ [d] else ready) ds
           = Some (incoming', (if n = 0 then ready @ [d] else ready) @ filter (\<lambda>d. map_of ?inc d = Some 1) ds)
     \<and> (\<forall>x. map_of incoming' x =
            (if x \<in> set ds then map_option (\<lambda>c. c - 1) (map_of ?inc x) else map_of ?inc x))"
    by (rule Cons.IH) (use Cons.prems same in auto)
  then show ?case using n Cons.prems(1) unfolding f by (auto simp: map_of_decrement_simps)
qed simp

text \<open>
  The state of the loop: \<open>vis\<close> are the steps popped so far, in order, \<open>n\<close> of them.
\<close>

definition graph_closed :: "evaluation_step list \<Rightarrow> bool" where
  "graph_closed ss \<longleftrightarrow> distinct (map step_id ss)
     \<and> (\<forall>s \<in> set ss. distinct (dependencies s) \<and> set (dependencies s) \<subseteq> set (map step_id ss))"

definition open_deps :: "string list \<Rightarrow> evaluation_step \<Rightarrow> string list" where
  "open_deps vis s = filter (\<lambda>d. d \<notin> set vis) (dependencies s)"

definition kahn_inv :: "evaluation_step list \<Rightarrow> string list \<Rightarrow> (string \<times> nat) list \<Rightarrow> string list \<Rightarrow> bool" where
  "kahn_inv ss vis incoming ready \<longleftrightarrow>
     distinct (vis @ ready) \<and> set (vis @ ready) \<subseteq> set (map step_id ss)
     \<and> (\<forall>s \<in> set ss. map_of incoming (step_id s) = Some (length (open_deps vis s))
          \<and> (open_deps vis s = [] \<longleftrightarrow> step_id s \<in> set (vis @ ready)))
     \<and> (\<forall>k < length vis. \<forall>s \<in> set ss. step_id s = vis ! k \<longrightarrow> set (dependencies s) \<subseteq> set (take k vis))"

lemma length_filter_neq:
  "distinct l \<Longrightarrow> length (filter (\<lambda>d. d \<noteq> x) l) = (if x \<in> set l then length l - 1 else length l)"
proof (induction l)
  case (Cons a l)
  have "filter (\<lambda>d. d \<noteq> a) l = l" using Cons.prems by (auto intro: filter_True)
  then show ?case using Cons by (cases l) auto
qed simp

lemma open_deps_snoc: "open_deps (vis @ [x]) s = filter (\<lambda>d. d \<noteq> x) (open_deps vis s)"
  by (auto simp: open_deps_def intro: filter_cong)

lemma kahn_inv_pop:
  assumes inv: "kahn_inv ss vis incoming (x # ready)" and closed: "graph_closed ss"
    and m: "\<And>y. map_of incoming' y = (if y \<in> set (dependents ss x)
        then map_option (\<lambda>c. c - 1) (map_of incoming y) else map_of incoming y)"
  shows "kahn_inv ss (vis @ [x]) incoming'
      (ready @ filter (\<lambda>d. map_of incoming d = Some 1) (dependents ss x))"
proof -
  let ?new = "filter (\<lambda>d. map_of incoming d = Some 1) (dependents ss x)"
  have dv: "distinct (vis @ x # ready)" and sub: "set (vis @ x # ready) \<subseteq> set (map step_id ss)"
    and cnt: "\<And>s. s \<in> set ss \<Longrightarrow> map_of incoming (step_id s) = Some (length (open_deps vis s))"
    and mem: "\<And>s. s \<in> set ss \<Longrightarrow> open_deps vis s = [] \<longleftrightarrow> step_id s \<in> set (vis @ x # ready)"
    and topo: "\<And>k s. k < length vis \<Longrightarrow> s \<in> set ss \<Longrightarrow> step_id s = vis ! k \<Longrightarrow> set (dependencies s) \<subseteq> set (take k vis)"
    using inv by (auto simp: kahn_inv_def)
  have inj: "s = t" if "s \<in> set ss" "t \<in> set ss" "step_id s = step_id t" for s t
    using closed that by (auto simp: graph_closed_def distinct_map inj_on_def)
  have dep: "step_id s \<in> set (dependents ss x) \<longleftrightarrow> x \<in> set (dependencies s)" if "s \<in> set ss" for s
    using that inj by (auto simp: dependents_def)
  have new: "step_id s \<in> set ?new \<longleftrightarrow> x \<in> set (dependencies s) \<and> length (open_deps vis s) = 1" if "s \<in> set ss" for s
    using dep [OF that] cnt [OF that] by auto
  have xo: "x \<in> set (open_deps vis s) \<longleftrightarrow> x \<in> set (dependencies s)" for s
    using dv by (auto simp: open_deps_def)
  have len: "length (open_deps (vis @ [x]) s)
      = (if x \<in> set (dependencies s) then length (open_deps vis s) - 1 else length (open_deps vis s))"
    if "s \<in> set ss" for s
    using closed that length_filter_neq [of "open_deps vis s" x] unfolding open_deps_snoc
    by (simp add: xo graph_closed_def) (simp add: open_deps_def)
  have ids: "set (dependents ss x) \<subseteq> set (map step_id ss)" by (auto simp: dependents_def)
  have fresh: "set ?new \<inter> set (vis @ x # ready) = {}"
  proof -
    have "d \<notin> set (vis @ x # ready)" if dn: "d \<in> set ?new" for d
    proof -
      obtain s where s: "s \<in> set ss" "d = step_id s" using dn ids by auto
      then have "open_deps vis s \<noteq> []" using new dn by auto
      then show ?thesis using mem s by simp
    qed
    then show ?thesis by blast
  qed
  have "distinct (dependents ss x)"
    using closed unfolding graph_closed_def dependents_def by (blast intro: distinct_map_filter)
  then have "distinct ((vis @ [x]) @ (ready @ ?new))" using dv fresh by auto
  moreover have "set ((vis @ [x]) @ (ready @ ?new)) \<subseteq> set (map step_id ss)" using sub ids by auto
  moreover have "map_of incoming' (step_id s) = Some (length (open_deps (vis @ [x]) s))" if "s \<in> set ss" for s
    using that by (simp add: m dep cnt len)
  moreover have "open_deps (vis @ [x]) s = [] \<longleftrightarrow> step_id s \<in> set ((vis @ [x]) @ (ready @ ?new))"
    if "s \<in> set ss" for s
  proof (cases "x \<in> set (dependencies s)")
    case True
    then have "open_deps vis s \<noteq> []" using xo [of s] by auto
    then show ?thesis using len [OF that] new [OF that] mem [OF that] True
      by (cases "open_deps vis s") auto
  next
    case False
    then show ?thesis using len [OF that] new [OF that] mem [OF that] by auto
  qed
  moreover have "set (dependencies s) \<subseteq> set (take k (vis @ [x]))"
    if "k < length (vis @ [x])" "s \<in> set ss" "step_id s = (vis @ [x]) ! k" for k s
  proof (cases "k < length vis")
    case True
    then show ?thesis using topo [OF True that(2)] that(3) by (simp add: nth_append)
  next
    case False
    then have "k = length vis" "step_id s = x" using that by (auto simp: nth_append)
    moreover then have "open_deps vis s = []" using mem [OF that(2)] by simp
    ultimately show ?thesis by (auto simp: open_deps_def filter_empty_conv)
  qed
  ultimately show ?thesis unfolding kahn_inv_def by blast
qed

lemma release_dependents_Some:
  assumes inv: "kahn_inv ss vis incoming (x # ready)" and closed: "graph_closed ss"
  shows "\<exists>incoming' ready'. release_dependents incoming ready (dependents ss x) = Some (incoming', ready')
     \<and> kahn_inv ss (vis @ [x]) incoming' ready'"
proof -
  have dist: "distinct (dependents ss x)"
    using closed unfolding graph_closed_def dependents_def by (blast intro: distinct_map_filter)
  have pos: "\<exists>n. map_of incoming d = Some (Suc n)" if d: "d \<in> set (dependents ss x)" for d
  proof -
    obtain s where s: "s \<in> set ss" "step_id s = d" "x \<in> set (dependencies s)"
      using d by (auto simp: dependents_def)
    then have "x \<in> set (open_deps vis s)" using inv by (auto simp: open_deps_def kahn_inv_def)
    moreover have "map_of incoming d = Some (length (open_deps vis s))" using inv s by (auto simp: kahn_inv_def)
    ultimately show ?thesis by (cases "open_deps vis s") auto
  qed
  obtain incoming' where "release_dependents incoming ready (dependents ss x)
        = Some (incoming', ready @ filter (\<lambda>d. map_of incoming d = Some 1) (dependents ss x))"
    and "\<And>y. map_of incoming' y = (if y \<in> set (dependents ss x)
        then map_option (\<lambda>c. c - 1) (map_of incoming y) else map_of incoming y)"
    using release_dependents_spec [OF dist pos, of ready] by blast
  then show ?thesis using kahn_inv_pop [OF inv closed] by blast
qed

lemma kahn_total:
  assumes "kahn_inv ss vis incoming ready" "graph_closed ss" "\<And>x. outgoing_of outgoing x = dependents ss x"
  shows "\<exists>vis' incoming'. kahn incoming outgoing ready (length vis) = Some (length vis') \<and> kahn_inv ss vis' incoming' []"
  using assms
proof (induction incoming outgoing ready "length vis" arbitrary: vis rule: kahn.induct)
  case (2 incoming outgoing x ready)
  obtain incoming' ready' where r: "release_dependents incoming ready (dependents ss x) = Some (incoming', ready')"
    and inv: "kahn_inv ss (vis @ [x]) incoming' ready'"
    using release_dependents_Some [OF 2(3,4)] by blast
  have out: "outgoing_of outgoing x = dependents ss x" by (rule 2(5))
  have len: "Suc (length vis) = length (vis @ [x])" by simp
  show ?case
  proof (cases "map_of outgoing x")
    case None
    then have "incoming' = incoming" "ready' = ready" using r out by (auto simp: outgoing_of_def)
    then show ?thesis using 2(1) [OF None len] inv 2(4,5) None by simp
  next
    case (Some ds)
    then have "ds = dependents ss x" using out by (simp add: outgoing_of_def)
    then show ?thesis using 2(2) [OF Some _ refl len] r inv 2(4,5) Some by simp
  qed
qed (auto)

lemma kahn_final:
  assumes inv: "kahn_inv ss vis incoming []" and closed: "graph_closed ss"
  shows "length vis = length ss \<longleftrightarrow> acyclic (edges ss)"
proof
  assume len: "length vis = length ss"
  have d: "distinct vis" and sub: "set vis \<subseteq> set (map step_id ss)" using inv by (auto simp: kahn_inv_def)
  have "card (set vis) = card (set (map step_id ss))"
    using len d closed distinct_card by (metis graph_closed_def length_map)
  then have all: "set vis = set (map step_id ss)" using sub by (simp add: card_subset_eq)
  define pos where "pos = (\<lambda>x. THE k. k < length vis \<and> vis ! k = x)"
  have pos: "pos (vis ! k) = k" if "k < length vis" for k
    unfolding pos_def using that d by (auto simp: nth_eq_iff_index_eq)
  have "(a, b) \<in> measure pos" if "(a, b) \<in> edges ss" for a b
  proof -
    obtain s where s: "s \<in> set ss" "b = step_id s" "a \<in> set (dependencies s)" using \<open>(a, b) \<in> edges ss\<close> by (auto simp: edges_def)
    then have "b \<in> set vis" using all by simp
    then obtain k where k: "k < length vis" "vis ! k = b" by (auto simp: in_set_conv_nth)
    then have "set (dependencies s) \<subseteq> set (take k vis)" using inv s unfolding kahn_inv_def by metis
    then have "a \<in> set (take k vis)" using s by blast
    then obtain j where "j < k" "vis ! j = a" using k by (auto simp: in_set_conv_nth)
    then show ?thesis using pos [of j] pos [of k] k by auto
  qed
  then have "edges ss \<subseteq> measure pos" by auto
  then show "acyclic (edges ss)" by (meson wf_measure wf_acyclic acyclic_subset)
next
  assume acy: "acyclic (edges ss)"
  have "finite (edges ss)"
    by (rule finite_subset [of _ "(\<Union>s \<in> set ss. set (dependencies s)) \<times> (step_id ` set ss)"]) (auto simp: edges_def)
  then have wf: "wf (edges ss)" using acy by (rule finite_acyclic_wf)
  have "step_id s \<in> set vis" if "s \<in> set ss" for s
    using wf that
  proof (induction "step_id s" arbitrary: s rule: wf_induct_rule)
    case (less s)
    have "d \<in> set vis" if "d \<in> set (dependencies s)" for d
    proof -
      have "d \<in> set (map step_id ss)" using closed less.prems that by (auto simp: graph_closed_def)
      then obtain t where "t \<in> set ss" "d = step_id t" by auto
      moreover have "(d, step_id s) \<in> edges ss" using less.prems that by (auto simp: edges_def)
      ultimately show ?thesis using less.hyps by auto
    qed
    then have "open_deps vis s = []" by (auto simp: open_deps_def filter_empty_conv)
    then show ?case using inv less.prems by (auto simp: kahn_inv_def)
  qed
  then have "set vis = set (map step_id ss)" using inv by (auto simp: kahn_inv_def)
  then show "length vis = length ss"
    using inv closed distinct_card by (metis graph_closed_def kahn_inv_def append_Nil2 length_map)
qed

lemma steps_loop_Inr:
  assumes "steps_loop llm steps ss = Inr steps'"
  shows "distinct (map step_id ss) \<and> set (map step_id ss) \<inter> dom (map_of steps) = {}
     \<and> map_of steps' = map_of steps ++ map_of (map (\<lambda>s. (step_id s, s)) ss)
     \<and> (\<forall>s \<in> set ss. \<not> is_blank (step_id s) \<and> validate_step llm s = Inr ())"
  using assms
proof (induction llm steps ss arbitrary: steps' rule: steps_loop.induct)
  case (2 llm steps s ss)
  then have s: "map_of steps (step_id s) = None" "\<not> is_blank (step_id s)" "validate_step llm s = Inr ()"
    and rest: "steps_loop llm (bt_insert (step_id s) s steps) ss = Inr steps'"
    by (auto simp: res_then_Inr split: if_splits)
  have ih: "distinct (map step_id ss)" "set (map step_id ss) \<inter> dom (map_of (bt_insert (step_id s) s steps)) = {}"
      "map_of steps' = map_of (bt_insert (step_id s) s steps) ++ map_of (map (\<lambda>s. (step_id s, s)) ss)"
      "\<forall>s \<in> set ss. \<not> is_blank (step_id s) \<and> validate_step llm s = Inr ()"
    using 2(1) [OF s(2) _ rest] s(1) by blast+
  have "map_of (map (\<lambda>s. (step_id s, s)) ss) (step_id s) = None"
    using ih(2) by (auto simp: map_of_eq_None_iff)
  then have "map_of steps' = map_of steps ++ map_of (map (\<lambda>s. (step_id s, s)) (s # ss))"
    using ih(3) by (auto simp: fun_eq_iff map_add_def split: option.splits)
  moreover have "distinct (map step_id (s # ss)) \<and> set (map step_id (s # ss)) \<inter> dom (map_of steps) = {}"
    using ih(1,2) s(1) by auto
  moreover have "\<forall>t \<in> set (s # ss). \<not> is_blank (step_id t) \<and> validate_step llm t = Inr ()"
    using ih(4) s by simp
  ultimately show ?case by blast
qed simp

lemma steps_loop_dom:
  assumes "steps_loop llm [] ss = Inr steps"
  shows "dom (map_of steps) = set (map step_id ss)"
  using steps_loop_Inr [OF assms] by (auto simp: dom_map_of_conv_image_fst image_image)

lemma kahn_start:
  assumes closed: "graph_closed ss" and m: "\<And>x. map_of incoming x = map_of (map (\<lambda>s. (step_id s, length (dependencies s))) ss) x"
    and ok: "bt_ok incoming"
  shows "kahn_inv ss [] incoming (map fst (filter (\<lambda>(_, c). c = 0) incoming))"
proof -
  let ?ready = "map fst (filter (\<lambda>(_, c). c = 0) incoming)"
  have dist: "distinct (map fst incoming)" using ok by (rule bt_ok_distinct)
  have cnt: "map_of incoming (step_id s) = Some (length (dependencies s))" if "s \<in> set ss" for s
    using closed that unfolding m graph_closed_def
    by (intro map_of_is_SomeI) (auto simp: comp_def image_iff)
  have "distinct ?ready" using dist by (rule distinct_map_filter)
  moreover have "set ?ready \<subseteq> set (map step_id ss)"
  proof
    fix x assume "x \<in> set ?ready"
    then have "map_of incoming x = Some 0" using dist by (auto intro: map_of_is_SomeI)
    then have "(x, 0) \<in> set (map (\<lambda>s. (step_id s, length (dependencies s))) ss)"
      unfolding m by (rule map_of_SomeD)
    then show "x \<in> set (map step_id ss)" by auto
  qed
  moreover have "open_deps [] s = [] \<longleftrightarrow> step_id s \<in> set ?ready" if "s \<in> set ss" for s
  proof -
    have "step_id s \<in> set ?ready \<longleftrightarrow> map_of incoming (step_id s) = Some 0"
      using dist by (force intro: map_of_is_SomeI dest: map_of_SomeD)
    then show ?thesis using cnt [OF that] by (simp add: open_deps_def)
  qed
  ultimately show ?thesis using cnt by (auto simp: kahn_inv_def open_deps_def)
qed

lemma validate_dependencies_closed:
  assumes steps: "steps_loop llm [] ss = Inr steps" and closed: "graph_closed ss"
  shows "validate_dependencies ss steps = Some (if acyclic (edges ss) then Inr () else Inl DependencyCycle)"
proof -
  have dom: "dom (map_of steps) = set (map step_id ss)" by (rule steps_loop_dom [OF steps])
  then have "\<forall>s \<in> set ss. set (dependencies s) \<subseteq> dom (map_of steps) \<and> distinct (dependencies s)"
    using closed by (simp add: graph_closed_def)
  then obtain incoming outgoing where g: "graph_loop steps [] [] ss = Inr (incoming, outgoing)"
    using graph_loop_ok [of ss steps "[]" "[]"] by auto
  have g': "bt_ok incoming" "map_of incoming = map_of (map (\<lambda>s. (step_id s, length (dependencies s))) ss)"
      "\<And>x. outgoing_of outgoing x = dependents ss x"
    using graph_loop_Inr [OF g] closed by (auto simp: graph_closed_def bt_ok_def outgoing_of_def)
  have start: "kahn_inv ss [] incoming (map fst (filter (\<lambda>(_, c). c = 0) incoming))"
    by (rule kahn_start [OF closed _ g'(1)]) (simp add: g'(2))
  obtain vis incoming' where k: "kahn incoming outgoing (map fst (filter (\<lambda>(_, c). c = 0) incoming)) 0 = Some (length vis)"
    and fin: "kahn_inv ss vis incoming' []"
    using kahn_total [OF start closed g'(3)] by auto
  show ?thesis using kahn_final [OF fin closed] by (simp add: validate_dependencies_def g k)
qed

lemma validate_dependencies_open:
  assumes steps: "steps_loop llm [] ss = Inr steps" and "\<not> graph_closed ss"
  shows "\<exists>e. validate_dependencies ss steps = Some (Inl e) \<and> e \<noteq> DependencyCycle"
proof -
  have dist: "distinct (map step_id ss)" using steps_loop_Inr [OF steps] by blast
  have "\<not> (\<exists>r. graph_loop steps [] [] ss = Inr r)"
  proof
    assume "\<exists>r. graph_loop steps [] [] ss = Inr r"
    then obtain incoming outgoing where "graph_loop steps [] [] ss = Inr (incoming, outgoing)" by auto
    from graph_loop_Inr [OF this dist] steps_loop_dom [OF steps] dist
    have "graph_closed ss" by (simp add: graph_closed_def bt_ok_def)
    then show False using assms(2) by blast
  qed
  then obtain e where e: "graph_loop steps [] [] ss = Inl e"
    by (cases "graph_loop steps [] [] ss") auto
  then have "e \<noteq> DependencyCycle" using graph_loop_Inl by blast
  then show ?thesis using e by (simp add: validate_dependencies_def)
qed

section \<open>Excluded paths\<close>

lemma split_on_append_sep: "split_on d (e @ d # r) = split_on d e @ split_on d r"
  by (induction e) (auto split: list.splits)

fun join_on :: "char \<Rightarrow> string list \<Rightarrow> string" where
  "join_on d [] = []"
| "join_on d [w] = w"
| "join_on d (w # v # ws) = w @ d # join_on d (v # ws)"

lemma join_split: "join_on d (split_on d s) = s"
proof (induction s)
  case (Cons c s)
  obtain w ws where w: "split_on d s = w # ws" by (cases "split_on d s") auto
  show ?case
    using Cons w by (cases ws) auto
qed simp

lemma join_on_append: "xs \<noteq> [] \<Longrightarrow> ys \<noteq> [] \<Longrightarrow> join_on d (xs @ ys) = join_on d xs @ d # join_on d ys"
proof (induction d xs rule: join_on.induct)
  case (2 d w)
  then show ?case by (cases ys) auto
qed auto

text \<open>A path is excluded exactly when the excluded path is one of its leading directories or itself.\<close>

lemma path_is_excluded_iff:
  "path_is_excluded p e \<longleftrightarrow> prefix (split_on CHR ''/'' e) (split_on CHR ''/'' p)"
proof
  assume "path_is_excluded p e"
  then consider "p = e" | r where "p = e @ CHR ''/'' # r"
    by (auto simp: path_is_excluded_def strip_prefix_def prefix_def split: option.splits if_splits)
  then show "prefix (split_on CHR ''/'' e) (split_on CHR ''/'' p)"
    by cases (auto simp: split_on_append_sep)
next
  assume "prefix (split_on CHR ''/'' e) (split_on CHR ''/'' p)"
  then obtain zs where z: "split_on CHR ''/'' p = split_on CHR ''/'' e @ zs" by (auto simp: prefix_def)
  have p: "p = join_on CHR ''/'' (split_on CHR ''/'' e @ zs)" using join_split [of "CHR ''/''" p] z by simp
  show "path_is_excluded p e"
  proof (cases zs)
    case Nil
    then show ?thesis using p by (simp add: path_is_excluded_def join_split)
  next
    case (Cons a zs')
    then have "p = e @ CHR ''/'' # join_on CHR ''/'' zs"
      using p by (simp add: join_on_append join_split)
    then show ?thesis by (simp add: path_is_excluded_def strip_prefix_def)
  qed
qed

section \<open>Accepted documents\<close>

lemma validate_paths_Inr: "validate_paths loc ps = Inr () \<longleftrightarrow> (\<forall>p \<in> set ps. is_normalized_safe_relative_path p)"
  by (induction loc ps rule: validate_paths.induct) auto

lemma validate_submission_paths:
  assumes "validate_submission s = Inr llm"
  shows "llm = bt_set (ss_llm_readable s)" "validate_paths ''submission.llmReadable'' (ss_llm_readable s) = Inr ()"
  using assms unfolding validate_submission_def Let_def
  by (simp_all add: res_then_Inr split: if_splits option.splits list.splits)

lemma validate_submission_collected:
  assumes "validate_submission s = Inr llm" "p \<in> set llm"
  obtains inc exc n where "ss_collector s = WorkspaceSnapshot inc exc n" "p \<in> set inc"
    "\<forall>e \<in> set exc. \<not> path_is_excluded p e"
proof (cases "ss_collector s")
  case (WorkspaceSnapshot inc exc n)
  have llm: "llm = bt_set (ss_llm_readable s)" by (rule validate_submission_paths [OF assms(1)])
  have "List.find (\<lambda>path. path \<notin> set (bt_set inc) \<or> list_ex (path_is_excluded path) (bt_set exc))
      (bt_set (ss_llm_readable s)) = None"
    using assms(1) unfolding validate_submission_def Let_def WorkspaceSnapshot
    by (simp add: res_then_Inr split: if_splits option.splits)
  then show ?thesis using that [OF WorkspaceSnapshot] assms(2)
    unfolding llm find_None_iff list_ex_iff by fastforce
next
  case (SystemFacts facts n)
  have llm: "llm = bt_set (ss_llm_readable s)" by (rule validate_submission_paths [OF assms(1)])
  have "bt_set (ss_llm_readable s) = []"
    using assms(1) unfolding validate_submission_def Let_def SystemFacts
    by (simp add: res_then_Inr split: if_splits list.splits)
  then show ?thesis using assms(2) llm by simp
qed

lemma validate_specD:
  assumes "validate_spec spec = Some (Inr ())"
  obtains llm steps where "validate_submission (eb_submission (es_spec spec)) = Inr llm"
    "steps_loop llm [] (eb_steps (es_spec spec)) = Inr steps"
    "validate_dependencies (eb_steps (es_spec spec)) steps = Some (Inr ())"
    "validate_aggregation spec steps = Inr ()"
proof -
  have body: "(case res_then (validate_submission (eb_submission (es_spec spec))) (\<lambda>llm_readable.
                   steps_loop llm_readable [] (eb_steps (es_spec spec))) of
          Inl e \<Rightarrow> Some (Inl e)
        | Inr steps \<Rightarrow> (case validate_dependencies (eb_steps (es_spec spec)) steps of
              None \<Rightarrow> None
            | Some (Inl e) \<Rightarrow> Some (Inl e)
            | Some (Inr _) \<Rightarrow> Some (validate_aggregation spec steps))) = Some (Inr ())"
    using assms unfolding validate_spec_def Let_def by (simp split: if_splits)
  then obtain steps where loop: "res_then (validate_submission (eb_submission (es_spec spec))) (\<lambda>llm_readable.
        steps_loop llm_readable [] (eb_steps (es_spec spec))) = Inr steps"
    by (cases "res_then (validate_submission (eb_submission (es_spec spec))) (\<lambda>llm_readable.
        steps_loop llm_readable [] (eb_steps (es_spec spec)))") auto
  then obtain llm where "validate_submission (eb_submission (es_spec spec)) = Inr llm"
      "steps_loop llm [] (eb_steps (es_spec spec)) = Inr steps"
    by (auto simp: res_then_Inr)
  moreover have "validate_dependencies (eb_steps (es_spec spec)) steps = Some (Inr ())"
      "validate_aggregation spec steps = Inr ()"
    using body unfolding loop by (auto split: option.splits sum.splits)
  ultimately show thesis by (rule that)
qed

lemma validate_spec_total: "validate_spec spec \<noteq> None"
proof (cases "res_then (validate_submission (eb_submission (es_spec spec))) (\<lambda>llm_readable.
        steps_loop llm_readable [] (eb_steps (es_spec spec)))")
  case (Inr steps)
  then obtain llm where "steps_loop llm [] (eb_steps (es_spec spec)) = Inr steps" by (auto simp: res_then_Inr)
  then have "validate_dependencies (eb_steps (es_spec spec)) steps \<noteq> None"
    using validate_dependencies_closed validate_dependencies_open by fastforce
  then show ?thesis using Inr by (auto simp: validate_spec_def Let_def split: option.splits sum.splits)
qed (simp add: validate_spec_def Let_def)

lemma score_total_sum:
  "score_total tot ss = Inr r \<Longrightarrow>
   unat r = unat tot + sum_list (map (\<lambda>s. case step_score s of None \<Rightarrow> 0 | Some m \<Rightarrow> unat m) ss)"
  by (induction tot ss rule: score_total.induct)
     (auto simp: res_then_Inr ok_or_Inr split: option.splits dest: checked_add_unat)

text \<open>C32: the cycle check is exact.  For steps with distinct identifiers it never
  panics, accepts exactly the graphs in which every dependency is a step, is
  listed once and lies on no cycle, and reports a cycle exactly when the graph
  is well formed but cyclic.\<close>

theorem validate_dependencies_iff:
  assumes "steps_loop llm [] ss = Inr steps"
  shows "validate_dependencies ss steps \<noteq> None
     \<and> (validate_dependencies ss steps = Some (Inr ()) \<longleftrightarrow> graph_closed ss \<and> acyclic (edges ss))
     \<and> (validate_dependencies ss steps = Some (Inl DependencyCycle) \<longleftrightarrow> graph_closed ss \<and> \<not> acyclic (edges ss))"
  using validate_dependencies_closed [OF assms] validate_dependencies_open [OF assms]
  by (cases "graph_closed ss") auto

text \<open>C33: what an accepted document discloses to a language model.  Every path an
  advisory step includes is declared readable, is collected by name, lies under
  no excluded path, and stays below any directory the submission is unpacked in.\<close>

theorem advisory_disclosure_confined:
  assumes "validate_spec spec = Some (Inr ())"
    and "Advisory a \<in> set (eb_steps (es_spec spec))"
    and "p \<in> set (advisory_included_paths (as_runner a))"
  shows "\<exists>inc exc n. ss_collector (eb_submission (es_spec spec)) = WorkspaceSnapshot inc exc n
     \<and> p \<in> set (ss_llm_readable (eb_submission (es_spec spec))) \<and> p \<in> set inc
     \<and> (\<forall>e \<in> set exc. \<not> prefix (split_on CHR ''/'' e) (split_on CHR ''/'' p))
     \<and> posix_resolve dir p = dir @ split_on CHR ''/'' p"
proof -
  obtain llm steps where sub: "validate_submission (eb_submission (es_spec spec)) = Inr llm"
    and loop: "steps_loop llm [] (eb_steps (es_spec spec)) = Inr steps"
    using validate_specD [OF assms(1)] by metis
  have "validate_step llm (Advisory a) = Inr ()" using steps_loop_Inr [OF loop] assms(2) by blast
  then have p: "p \<in> set llm" using assms(3)
    by (auto simp: validate_step_def Let_def res_then_Inr find_None_iff split: if_splits option.splits)
  obtain inc exc n where c: "ss_collector (eb_submission (es_spec spec)) = WorkspaceSnapshot inc exc n" "p \<in> set inc"
      "\<forall>e \<in> set exc. \<not> path_is_excluded p e"
    using validate_submission_collected [OF sub p] by blast
  have readable: "p \<in> set (ss_llm_readable (eb_submission (es_spec spec)))"
    using p validate_submission_paths(1) [OF sub] by simp
  then have safe: "is_normalized_safe_relative_path p"
    using validate_submission_paths(2) [OF sub] by (simp add: validate_paths_Inr)
  have "posix_resolve dir p = dir @ split_on CHR ''/'' p"
    using safe by (simp add: is_normalized_safe_relative_path_def posix_resolve_def foldl_posix_step_normal)
  then show ?thesis using c readable by (auto simp: path_is_excluded_iff)
qed

text \<open>C34: the maximum score of an accepted document is exactly the sum of the
  maxima of its score steps, computed without wrap-around, and every
  aggregation gate names a gate step.\<close>

theorem accepted_score_exact:
  assumes "validate_spec spec = Some (Inr ())"
  shows "unat (agg_max_score (eb_aggregation (es_spec spec)))
      = sum_list (map (\<lambda>s. case step_score s of None \<Rightarrow> 0 | Some m \<Rightarrow> unat m) (eb_steps (es_spec spec)))
     \<and> (\<forall>g \<in> set (agg_gates (eb_aggregation (es_spec spec))).
          \<exists>s. Gate s \<in> set (eb_steps (es_spec spec)) \<and> gs_id s = ag_step g)"
proof -
  obtain llm steps where loop: "steps_loop llm [] (eb_steps (es_spec spec)) = Inr steps"
    and agg: "validate_aggregation spec steps = Inr ()"
    using validate_specD [OF assms] by metis
  have m: "map_of steps = map_of (map (\<lambda>s. (step_id s, s)) (eb_steps (es_spec spec)))"
    using steps_loop_Inr [OF loop] by simp
  have "score_total 0 (eb_steps (es_spec spec)) = Inr (agg_max_score (eb_aggregation (es_spec spec)))"
    using agg by (auto simp: validate_aggregation_def Let_def res_then_Inr split: if_splits)
  moreover have "\<exists>s. Gate s \<in> set (eb_steps (es_spec spec)) \<and> gs_id s = ag_step g"
    if g: "g \<in> set (agg_gates (eb_aggregation (es_spec spec)))" for g
  proof -
    obtain s where s: "map_of steps (ag_step g) = Some s" "is_gate s"
      using agg g by (auto simp: validate_aggregation_def Let_def res_then_Inr res_all_Inr ensure_else_Inr
          split: if_splits option.splits)
    then have "(ag_step g, s) \<in> set (map (\<lambda>s. (step_id s, s)) (eb_steps (es_spec spec)))"
      unfolding m by (blast dest: map_of_SomeD)
    then have "s \<in> set (eb_steps (es_spec spec))" "step_id s = ag_step g" by auto
    moreover obtain gs where "s = Gate gs" using s(2) by (cases s) auto
    ultimately show ?thesis by force
  qed
  ultimately show ?thesis using score_total_sum [of 0] by fastforce
qed

section \<open>An accepted document\<close>

definition demo_steps :: "evaluation_step list" where
  "demo_steps =
    [Gate \<lparr> gs_id = ''files'', gs_depends_on = [], gs_runner = FileAssertion [''src/main.c''],
        gs_checker = ExitCode 0, gs_failure_policy = GateStop \<rparr>,
     Score \<lparr> sc_id = ''tests'', sc_depends_on = [''files''],
        sc_runner = Program ''gcc'' Test ''src/main.c''
          [\<lparr> tg_name = ''basic'', tg_source = ''t1'', tg_max_points = 10 \<rparr>]
          \<lparr> el_wall_time_seconds = 5, el_memory_bytes = 1024, el_output_bytes = 1024 \<rparr>,
        sc_checker = Exact, sc_score_max = 10, sc_failure_policy = ScoreStop \<rparr>,
     Advisory \<lparr> as_id = ''review'', as_depends_on = [''files''],
        as_runner = LlmReview [''src/main.c''] ''rubric'' GoalAssessment, as_failure_policy = AdvisoryContinue \<rparr>]"

definition demo_spec :: evaluation_spec where
  "demo_spec = \<lparr> es_metadata = \<lparr> em_name = ''lab'', em_version = ''1'' \<rparr>,
     es_spec = \<lparr> eb_submission = \<lparr> ss_collector = WorkspaceSnapshot [''src/main.c''] [''src/secret''] 4096,
          ss_llm_readable = [''src/main.c''] \<rparr>,
        eb_steps = demo_steps,
        eb_aggregation = \<lparr> agg_kind = DeterministicSum, agg_max_score = 10,
          agg_gates = [\<lparr> ag_step = ''files'', ag_required_status = Passed \<rparr>] \<rparr>,
        eb_review = \<lparr> rp_teacher_approval_required_for_release = True, rp_force_manual_when = [] \<rparr> \<rparr> \<rparr>"

lemma demo_spec_ok: "validate_spec demo_spec = Some (Inr ())"
  by code_simp

lemma demo_loop_ok: "is_ok (steps_loop [''src/main.c''] [] demo_steps)"
  by code_simp

theorem validate_dependencies_iff_witness:
  "case steps_loop [''src/main.c''] [] demo_steps of Inl _ \<Rightarrow> False | Inr steps \<Rightarrow> validate_dependencies demo_steps steps \<noteq> None"
  using demo_loop_ok validate_dependencies_iff [of "[''src/main.c'']" demo_steps]
  by (auto simp: is_ok_iff)

theorem advisory_disclosure_confined_witness:
  "posix_resolve [''ws''] ''src/main.c'' = [''ws'', ''src'', ''main.c'']"
  using advisory_disclosure_confined [OF demo_spec_ok, of
      "\<lparr> as_id = ''review'', as_depends_on = [''files''],
        as_runner = LlmReview [''src/main.c''] ''rubric'' GoalAssessment, as_failure_policy = AdvisoryContinue \<rparr>"
      "''src/main.c''" "[''ws'']"]
  by (simp add: demo_spec_def demo_steps_def)

theorem accepted_score_exact_witness:
  "unat (agg_max_score (eb_aggregation (es_spec demo_spec))) = 10
   \<and> sum_list (map (\<lambda>s. case step_score s of None \<Rightarrow> 0 | Some m \<Rightarrow> unat m) demo_steps) = 10"
  using accepted_score_exact [OF demo_spec_ok] by (simp add: demo_spec_def)

end
