(* ===== verification/Evaluation_Control.thy ===== *)
theory Evaluation_Control
  imports Evaluation_Graph Events
begin

text \<open>
  The public records of the evaluation authority
  (\<^verbatim>\<open>crates/contracts/src/evaluation/control.rs\<close>): releases, runs, step runs,
  worker completions and the projection a student sees, each with its validator.
\<close>

section \<open>Errors and shared checks\<close>

datatype control_contract_error =
    SchemaVersionInvalid
  | SpecInvalid
  | RuntimeIdentityInvalid
  | ControlIdentityMismatch
  | ScoreInvalid
  | TerminalStateInvalid

fun control_diagnostic_code :: "control_contract_error \<Rightarrow> string" where
  "control_diagnostic_code SchemaVersionInvalid = ''LW_EVALUATION_SCHEMA_VERSION_INVALID''"
| "control_diagnostic_code SpecInvalid = ''LW_EVALUATION_SPEC_INVALID''"
| "control_diagnostic_code RuntimeIdentityInvalid = ''LW_EVALUATION_RUNTIME_IDENTITY_INVALID''"
| "control_diagnostic_code ControlIdentityMismatch = ''LW_EVALUATION_IDENTITY_MISMATCH''"
| "control_diagnostic_code ScoreInvalid = ''LW_EVALUATION_SCORE_INVALID''"
| "control_diagnostic_code TerminalStateInvalid = ''LW_EVALUATION_STATE_CONFLICT''"

definition EVALUATION_RELEASE_SCHEMA_VERSION :: string where
  "EVALUATION_RELEASE_SCHEMA_VERSION = ''evaluation.labweaver.io/evaluation-release/v1''"

definition EVALUATION_RUN_SCHEMA_VERSION :: string where
  "EVALUATION_RUN_SCHEMA_VERSION = ''evaluation.labweaver.io/evaluation-run/v1''"

definition rsplit_once_str :: "string \<Rightarrow> string \<Rightarrow> (string \<times> string) option" where
  "rsplit_once_str sep s = (case filter (\<lambda>n. prefix sep (drop n s)) [0..<Suc (length s)] of
      [] \<Rightarrow> None
    | n # ns \<Rightarrow> Some (take (last (n # ns)) s, drop (last (n # ns) + length sep) s))"

definition is_digest_pinned_image :: "string \<Rightarrow> bool" where
  "is_digest_pinned_image val = (case rsplit_once_str ''@sha256:'' val of
      None \<Rightarrow> False
    | Some (name, digest) \<Rightarrow> \<not> is_blank name \<and> \<not> contains_ws name \<and> length digest = 64
        \<and> list_all (\<lambda>b. is_ascii_digit b \<or> 97 \<le> byte b \<and> byte b \<le> 102) digest)"

definition control_validate_token :: "string \<Rightarrow> nat \<Rightarrow> control_contract_error + unit" where
  "control_validate_token val max_len =
     (if is_blank val \<or> length val > max_len \<or> has_control val then Inl ControlIdentityMismatch else Inr ())"

section \<open>Releases\<close>

record runtime_identity =
  ri_provider_binding :: string
  ri_runner_image :: string

definition runtime_identity_validate :: "runtime_identity \<Rightarrow> control_contract_error + unit" where
  "runtime_identity_validate r =
     res_then (control_validate_token (ri_provider_binding r) 128) (\<lambda>_.
     if \<not> is_digest_pinned_image (ri_runner_image r) then Inl RuntimeIdentityInvalid else Inr ())"

datatype release_state = ReleaseActive | ReleaseWithdrawn

record evaluation_release =
  rl_schema_version :: string
  rl_id :: uuid
  rl_course_id :: uuid
  rl_candidate_id :: uuid
  rl_candidate_revision :: revision
  rl_approval_id :: uuid
  rl_approval_revision :: revision
  rl_evaluation_spec :: evaluation_spec
  rl_runtime_identity :: runtime_identity
  rl_state :: release_state
  rl_revision :: revision
  rl_published_by :: uuid
  rl_published_at :: timestamp
  rl_withdrawn_at :: "timestamp option"
  rl_withdrawal_diagnostic_code :: "string option"

definition spec_valid :: "evaluation_spec \<Rightarrow> bool" where
  "spec_valid spec \<longleftrightarrow> validate_spec spec = Some (Inr ())"

definition release_validate :: "evaluation_release \<Rightarrow> control_contract_error + unit" where
  "release_validate r =
     (if rl_schema_version r \<noteq> EVALUATION_RELEASE_SCHEMA_VERSION then Inl SchemaVersionInvalid
      else if \<not> spec_valid (rl_evaluation_spec r) then Inl SpecInvalid
      else res_then (runtime_identity_validate (rl_runtime_identity r)) (\<lambda>_.
        case rl_state r of
          ReleaseActive \<Rightarrow>
            (if rl_withdrawn_at r = None \<and> rl_withdrawal_diagnostic_code r = None
             then Inr () else Inl TerminalStateInvalid)
        | ReleaseWithdrawn \<Rightarrow>
            (if rl_withdrawn_at r \<noteq> None \<and> rl_withdrawal_diagnostic_code r \<noteq> None
             then Inr () else Inl TerminalStateInvalid)))"

section \<open>Step runs\<close>

datatype step_role = RoleGate | RoleScore | RoleAdvisory

datatype step_run_state =
    StepPending | StepRunning | StepRetryable | StepSucceeded | StepFailed | StepCancelled | StepSkipped

record step_run =
  sr_id :: uuid
  sr_run_id :: uuid
  sr_step_id :: string
  sr_position :: u32
  sr_role :: step_role
  sr_failure_policy :: step_failure_policy
  sr_depends_on :: "string list"
  sr_state :: step_run_state
  sr_revision :: revision
  sr_current_attempt :: u32
  sr_max_score :: u32
  sr_awarded_score :: "u32 option"
  sr_diagnostic_code :: "string option"
  sr_cleanup_verified :: bool
  sr_started_at :: "timestamp option"
  sr_completed_at :: "timestamp option"

fun role_policy_ok :: "step_role \<Rightarrow> step_failure_policy \<Rightarrow> bool" where
  "role_policy_ok RoleGate PolicyStop \<longleftrightarrow> True"
| "role_policy_ok RoleScore PolicyStop \<longleftrightarrow> True"
| "role_policy_ok RoleScore PolicyContinue \<longleftrightarrow> True"
| "role_policy_ok RoleAdvisory PolicyContinueAdvisory \<longleftrightarrow> True"
| "role_policy_ok _ _ \<longleftrightarrow> False"

definition step_state_ok :: "step_run \<Rightarrow> bool" where
  "step_state_ok s \<longleftrightarrow> (case sr_state s of
      StepPending \<Rightarrow> sr_completed_at s = None
    | StepRetryable \<Rightarrow> sr_completed_at s = None
    | StepRunning \<Rightarrow> sr_completed_at s = None
    | StepSucceeded \<Rightarrow> sr_completed_at s \<noteq> None \<and> sr_diagnostic_code s = None \<and> sr_cleanup_verified s
        \<and> (sr_role s = RoleScore \<and> sr_awarded_score s \<noteq> None
           \<or> sr_role s \<noteq> RoleScore \<and> sr_awarded_score s = None)
    | _ \<Rightarrow> sr_completed_at s \<noteq> None \<and> sr_diagnostic_code s \<noteq> None \<and> sr_awarded_score s = None)"

definition step_run_validate :: "uuid \<Rightarrow> step_run \<Rightarrow> control_contract_error + unit" where
  "step_run_validate run_id s =
     (if sr_run_id s \<noteq> run_id \<or> is_blank (sr_step_id s) \<or> length (sr_step_id s) > 96
         \<or> has_control (sr_step_id s) \<or> sr_position s = 0
      then Inl ControlIdentityMismatch
      else res_then (res_all (\<lambda>d. control_validate_token d 96) (sr_depends_on s)) (\<lambda>_.
        if sr_role s \<noteq> RoleScore \<and> sr_max_score s \<noteq> 0 then Inl ScoreInvalid
        else if \<not> role_policy_ok (sr_role s) (sr_failure_policy s) then Inl TerminalStateInvalid
        else if (case sr_awarded_score s of None \<Rightarrow> False | Some score \<Rightarrow> score > sr_max_score s)
                \<or> sr_role s \<noteq> RoleScore \<and> sr_awarded_score s \<noteq> None
        then Inl ScoreInvalid
        else if step_state_ok s then Inr () else Inl TerminalStateInvalid))"

record step_completion =
  cm_state :: step_run_state
  cm_awarded_score :: "u32 option"
  cm_diagnostic_code :: "string option"
  cm_cleanup_verified :: bool

definition completion_validate :: "step_completion \<Rightarrow> step_role \<Rightarrow> u32 \<Rightarrow> control_contract_error + unit" where
  "completion_validate c role max_score = (case cm_state c of
      StepSucceeded \<Rightarrow>
        (if cm_diagnostic_code c = None \<and> cm_cleanup_verified c
            \<and> (role = RoleScore \<and> cm_awarded_score c \<noteq> None \<or> role \<noteq> RoleScore \<and> cm_awarded_score c = None)
            \<and> (case cm_awarded_score c of None \<Rightarrow> 0 | Some x \<Rightarrow> x) \<le> max_score
         then Inr () else Inl TerminalStateInvalid)
    | StepFailed \<Rightarrow>
        (if cm_diagnostic_code c \<noteq> None \<and> cm_awarded_score c = None then Inr () else Inl TerminalStateInvalid)
    | StepCancelled \<Rightarrow>
        (if cm_diagnostic_code c \<noteq> None \<and> cm_awarded_score c = None then Inr () else Inl TerminalStateInvalid)
    | _ \<Rightarrow> Inl TerminalStateInvalid)"

section \<open>Runs\<close>

record run_identity =
  rn_runtime_identity :: runtime_identity
  rn_trace_id :: string

definition run_identity_validate :: "run_identity \<Rightarrow> control_contract_error + unit" where
  "run_identity_validate i =
     res_then (runtime_identity_validate (rn_runtime_identity i)) (\<lambda>_. control_validate_token (rn_trace_id i) 128)"

datatype run_state = RunQueued | RunRunning | RunCancelling | RunSucceeded | RunFailed | RunCancelled

record evaluation_run =
  er_schema_version :: string
  er_id :: uuid
  er_course_id :: uuid
  er_release_id :: uuid
  er_release_revision :: revision
  er_frozen_submission_id :: uuid
  er_actor_id :: uuid
  er_state :: run_state
  er_revision :: revision
  er_identity :: run_identity
  er_max_score :: u32
  er_awarded_score :: u32
  er_steps :: "step_run list"
  er_diagnostic_code :: "string option"
  er_cancellation_requested :: bool
  er_cleanup_verified :: bool
  er_created_at :: timestamp
  er_updated_at :: timestamp
  er_completed_at :: "timestamp option"

fun run_steps_loop ::
  "uuid \<Rightarrow> string list \<Rightarrow> uuid list \<Rightarrow> u32 \<Rightarrow> u32 \<Rightarrow> step_run list \<Rightarrow> control_contract_error + (u32 \<times> u32)" where
  "run_steps_loop run_id step_ids step_run_ids summed_max summed_awarded [] = Inr (summed_max, summed_awarded)"
| "run_steps_loop run_id step_ids step_run_ids summed_max summed_awarded (s # ss) =
     res_then (step_run_validate run_id s) (\<lambda>_.
     if sr_step_id s \<in> set step_ids \<or> sr_id s \<in> set step_run_ids then Inl ControlIdentityMismatch
     else if sr_role s = RoleScore
     then res_then (ok_or ScoreInvalid (checked_add summed_max (sr_max_score s))) (\<lambda>m.
          res_then (ok_or ScoreInvalid (checked_add summed_awarded
              (case sr_awarded_score s of None \<Rightarrow> 0 | Some x \<Rightarrow> x))) (\<lambda>a.
          run_steps_loop run_id (sr_step_id s # step_ids) (sr_id s # step_run_ids) m a ss))
     else run_steps_loop run_id (sr_step_id s # step_ids) (sr_id s # step_run_ids) summed_max summed_awarded ss)"

definition run_state_ok :: "evaluation_run \<Rightarrow> bool" where
  "run_state_ok r \<longleftrightarrow> (case er_state r of
      RunSucceeded \<Rightarrow> er_completed_at r \<noteq> None \<and> er_diagnostic_code r = None \<and> er_cleanup_verified r
    | RunFailed \<Rightarrow> er_diagnostic_code r \<noteq> None \<and> (er_cleanup_verified r = (er_completed_at r \<noteq> None))
    | RunCancelled \<Rightarrow> er_diagnostic_code r \<noteq> None \<and> (er_cleanup_verified r = (er_completed_at r \<noteq> None))
    | _ \<Rightarrow> er_completed_at r = None)"

definition run_validate :: "evaluation_run \<Rightarrow> control_contract_error + unit" where
  "run_validate r =
     (if er_schema_version r \<noteq> EVALUATION_RUN_SCHEMA_VERSION then Inl SchemaVersionInvalid
      else res_then (run_identity_validate (er_identity r)) (\<lambda>_.
        if er_awarded_score r > er_max_score r \<or> er_steps r = [] then Inl ScoreInvalid
        else res_then (run_steps_loop (er_id r) [] [] 0 0 (er_steps r)) (\<lambda>(summed_max, summed_awarded).
          if summed_max \<noteq> er_max_score r \<or> summed_awarded \<noteq> er_awarded_score r then Inl ScoreInvalid
          else if run_state_ok r then Inr () else Inl TerminalStateInvalid)))"

section \<open>What a student sees\<close>

datatype student_result_state = ResultSucceeded | ResultFailed | ResultCancelled

fun student_result_state_of :: "run_state \<Rightarrow> control_contract_error + student_result_state" where
  "student_result_state_of RunSucceeded = Inr ResultSucceeded"
| "student_result_state_of RunFailed = Inr ResultFailed"
| "student_result_state_of RunCancelled = Inr ResultCancelled"
| "student_result_state_of _ = Inl TerminalStateInvalid"

record student_step_result =
  ssr_position :: u32
  ssr_role :: step_role
  ssr_state :: step_run_state
  ssr_max_score :: u32
  ssr_awarded_score :: "u32 option"
  ssr_diagnostic_code :: "string option"

record student_result =
  sre_run_id :: uuid
  sre_course_id :: uuid
  sre_release_id :: uuid
  sre_frozen_submission_id :: uuid
  sre_state :: student_result_state
  sre_revision :: revision
  sre_max_score :: u32
  sre_awarded_score :: "u32 option"
  sre_steps :: "student_step_result list"
  sre_diagnostic_code :: "string option"
  sre_created_at :: timestamp
  sre_updated_at :: timestamp
  sre_completed_at :: timestamp

definition student_step_of :: "evaluation_run \<Rightarrow> step_run \<Rightarrow> student_step_result" where
  "student_step_of r s = \<lparr> ssr_position = sr_position s, ssr_role = sr_role s, ssr_state = sr_state s,
     ssr_max_score = sr_max_score s,
     ssr_awarded_score = (if er_state r = RunSucceeded then sr_awarded_score s else None),
     ssr_diagnostic_code = sr_diagnostic_code s \<rparr>"

definition from_terminal :: "evaluation_run \<Rightarrow> control_contract_error + student_result" where
  "from_terminal r =
     res_then (run_validate r) (\<lambda>_.
     res_then (student_result_state_of (er_state r)) (\<lambda>st.
     res_then (ok_or TerminalStateInvalid (er_completed_at r)) (\<lambda>completed_at.
     Inr \<lparr> sre_run_id = er_id r, sre_course_id = er_course_id r, sre_release_id = er_release_id r,
           sre_frozen_submission_id = er_frozen_submission_id r, sre_state = st,
           sre_revision = er_revision r, sre_max_score = er_max_score r,
           sre_awarded_score = (if er_state r = RunSucceeded then Some (er_awarded_score r) else None),
           sre_steps = map (student_step_of r) (er_steps r),
           sre_diagnostic_code = er_diagnostic_code r, sre_created_at = er_created_at r,
           sre_updated_at = er_updated_at r, sre_completed_at = completed_at \<rparr>)))"

section \<open>Names\<close>

fun run_state_name :: "run_state \<Rightarrow> string" where
  "run_state_name RunQueued = ''queued''"
| "run_state_name RunRunning = ''running''"
| "run_state_name RunCancelling = ''cancelling''"
| "run_state_name RunSucceeded = ''succeeded''"
| "run_state_name RunFailed = ''failed''"
| "run_state_name RunCancelled = ''cancelled''"

fun step_state_name :: "step_run_state \<Rightarrow> string" where
  "step_state_name StepPending = ''pending''"
| "step_state_name StepRunning = ''running''"
| "step_state_name StepRetryable = ''retryable''"
| "step_state_name StepSucceeded = ''succeeded''"
| "step_state_name StepFailed = ''failed''"
| "step_state_name StepCancelled = ''cancelled''"
| "step_state_name StepSkipped = ''skipped''"

section \<open>What the validators accept\<close>

definition awarded :: "step_run \<Rightarrow> nat" where
  "awarded s = (case sr_awarded_score s of None \<Rightarrow> 0 | Some x \<Rightarrow> unat x)"

definition score_steps :: "step_run list \<Rightarrow> step_run list" where
  "score_steps ss = filter (\<lambda>s. sr_role s = RoleScore) ss"

lemma unat_opt_0: "unat (case x of None \<Rightarrow> 0 | Some y \<Rightarrow> y) = (case x of None \<Rightarrow> 0 | Some y \<Rightarrow> unat y)"
  by (cases x) simp_all

lemma run_steps_loop_Inr:
  assumes "run_steps_loop rid sids ids m a ss = Inr (m', a')"
  shows "(\<forall>s \<in> set ss. step_run_validate rid s = Inr ())
    \<and> distinct (map sr_step_id ss) \<and> set (map sr_step_id ss) \<inter> set sids = {}
    \<and> distinct (map sr_id ss) \<and> set (map sr_id ss) \<inter> set ids = {}
    \<and> unat m' = unat m + sum_list (map (\<lambda>s. unat (sr_max_score s)) (score_steps ss))
    \<and> unat a' = unat a + sum_list (map awarded (score_steps ss))"
  using assms
proof (induction rid sids ids m a ss rule: run_steps_loop.induct)
  case (2 rid sids ids m a s ss)
  have v: "step_run_validate rid s = Inr ()" "sr_step_id s \<notin> set sids" "sr_id s \<notin> set ids"
    using 2(3) by (auto simp: res_then_Inr split: if_splits)
  show ?case
  proof (cases "sr_role s = RoleScore")
    case True
    obtain m1 a1 where m1: "checked_add m (sr_max_score s) = Some m1"
      and a1: "checked_add a (case sr_awarded_score s of None \<Rightarrow> 0 | Some x \<Rightarrow> x) = Some a1"
      and rest: "run_steps_loop rid (sr_step_id s # sids) (sr_id s # ids) m1 a1 ss = Inr (m', a')"
      using 2(3) v True by (auto simp: res_then_Inr ok_or_Inr)
    show ?thesis
      using 2(1) [OF _ True rest] v m1 a1 True
        checked_add_unat [OF m1] checked_add_unat [OF a1]
      by (auto simp: score_steps_def awarded_def unat_opt_0 ok_or_Inr)
  next
    case False
    then have rest: "run_steps_loop rid (sr_step_id s # sids) (sr_id s # ids) m a ss = Inr (m', a')"
      using 2(3) v by simp
    show ?thesis using 2(2) [OF _ False rest] v False by (auto simp: score_steps_def)
  qed
qed (simp add: score_steps_def)

end
