(* ===== verification/Evaluation_Store.thy ===== *)
theory Evaluation_Store
  imports Evaluation_Control Persistence
begin

text \<open>
  The evaluation authority (\<^verbatim>\<open>services/evaluation-service/src/control_plane.rs\<close>): releases,
  runs, step leases and their recovery as transactions on the tables of the
  evaluation schema.  A row of a contract table is its contract, since the
  columns beside it are copies written in the same statement.  A transaction
  is a function from the tables to an error, which rolls it back, or to its result
  and the new tables; row locks make transactions on one run atomic, so they are
  modelled one after the other.  Identifiers drawn from the random source, the
  clock and the hash function are arguments; the identifier of an event is a
  function of how many events were stored before it.
\<close>

section \<open>Errors\<close>

datatype control_store_error =
    CourseMismatch
  | ContractInvalid
  | StoreIdentityMismatch
  | StoreScoreInvalid
  | ReleaseNotFound
  | ReleaseIsWithdrawn
  | RunNotFound
  | StepNotFound
  | FrozenSubmissionNotFound
  | IdempotencyConflict
  | RequestInProgress
  | StateConflict
  | RevisionConflict
  | LeaseLost
  | ClockInvalid
  | WorkerIdentityInvalid
  | AttemptOverflow
  | StoreDatabase
  | StoreEvent event_error
  | StorePersistence persistence_error
  | StoreContract control_contract_error

fun store_diagnostic_code :: "control_store_error \<Rightarrow> string" where
  "store_diagnostic_code CourseMismatch = ''LW_AUTH_COURSE_SCOPE_DENIED''"
| "store_diagnostic_code ContractInvalid = ''LW_EVALUATION_SPEC_INVALID''"
| "store_diagnostic_code (StoreContract _) = ''LW_EVALUATION_SPEC_INVALID''"
| "store_diagnostic_code StoreIdentityMismatch = ''LW_EVALUATION_IDENTITY_MISMATCH''"
| "store_diagnostic_code StoreScoreInvalid = ''LW_EVALUATION_SCORE_INVALID''"
| "store_diagnostic_code ReleaseNotFound = ''LW_EVALUATION_RELEASE_NOT_FOUND''"
| "store_diagnostic_code ReleaseIsWithdrawn = ''LW_EVALUATION_RELEASE_WITHDRAWN''"
| "store_diagnostic_code RunNotFound = ''LW_EVALUATION_RUN_NOT_FOUND''"
| "store_diagnostic_code StepNotFound = ''LW_EVALUATION_RUN_NOT_FOUND''"
| "store_diagnostic_code FrozenSubmissionNotFound = ''LW_COLLECT_SUBMISSION_NOT_FOUND''"
| "store_diagnostic_code IdempotencyConflict = ''LW_IDEMPOTENCY_CONFLICT''"
| "store_diagnostic_code RequestInProgress = ''LW_OPERATION_IN_PROGRESS''"
| "store_diagnostic_code StateConflict = ''LW_EVALUATION_STATE_CONFLICT''"
| "store_diagnostic_code RevisionConflict = ''LW_EVALUATION_REVISION_CONFLICT''"
| "store_diagnostic_code LeaseLost = ''LW_EVALUATION_STEP_LEASE_LOST''"
| "store_diagnostic_code ClockInvalid = ''LW_EVALUATION_CLOCK_INVALID''"
| "store_diagnostic_code WorkerIdentityInvalid = ''LW_EVALUATION_WORKER_IDENTITY_INVALID''"
| "store_diagnostic_code AttemptOverflow = ''LW_EVALUATION_ATTEMPT_OVERFLOW''"
| "store_diagnostic_code StoreDatabase = ''LW_EVALUATION_DATABASE_FAILED''"
| "store_diagnostic_code (StorePersistence _) = ''LW_EVALUATION_DATABASE_FAILED''"
| "store_diagnostic_code (StoreEvent _) = ''LW_EVALUATION_OUTBOX_IDENTITY_INVALID''"

section \<open>Requests\<close>

record publish_request =
  pq_course_id :: uuid
  pq_candidate_id :: uuid
  pq_candidate_revision :: revision
  pq_approval_id :: uuid
  pq_approval_revision :: revision
  pq_evaluation_spec :: evaluation_spec
  pq_runtime_identity :: runtime_identity
  pq_published_by :: uuid

definition publish_request_validate :: "publish_request \<Rightarrow> bool" where
  "publish_request_validate q \<longleftrightarrow> spec_valid (pq_evaluation_spec q)
     \<and> runtime_identity_validate (pq_runtime_identity q) = Inr ()"

record withdraw_request =
  wq_course_id :: uuid
  wq_expected_revision :: revision
  wq_withdrawn_by :: uuid
  wq_reason_code :: string

record create_run_request =
  cq_course_id :: uuid
  cq_release_id :: uuid
  cq_release_revision :: revision
  cq_frozen_submission_id :: uuid
  cq_actor_id :: uuid
  cq_identity :: run_identity

definition create_run_request_validate :: "create_run_request \<Rightarrow> bool" where
  "create_run_request_validate q \<longleftrightarrow> run_identity_validate (cq_identity q) = Inr ()"

record mutation_request =
  mq_course_id :: uuid
  mq_expected_revision :: revision
  mq_actor_id :: uuid

datatype control_request =
    PublishRequest publish_request
  | WithdrawRequest uuid withdraw_request
  | CreateRequest create_run_request
  | MutationRequest uuid "uuid option" mutation_request

record evaluation_release_published =
  erp_release_id :: uuid
  erp_revision :: revision
  erp_published_by :: uuid

datatype control_event_data =
    ReleasePublishedData evaluation_release_published
  | RunData evaluation_run_event
  | StepData evaluation_step_run_event

type_synonym control_event = "control_event_data cloud_event"

datatype control_document =
    DocRequest control_request
  | DocSpec evaluation_spec
  | DocRuntime runtime_identity
  | DocRelease evaluation_release
  | DocRunIdentity run_identity
  | DocEvent control_event

record control_libs =
  lb_hash :: "control_document \<Rightarrow> sha256 option"
  lb_hash_bytes :: "string \<Rightarrow> sha256"
  lb_event_id :: "nat \<Rightarrow> uuid"

section \<open>Tables\<close>

record release_row =
  rw_release :: evaluation_release
  rw_identity_sha256 :: string

record withdrawal_row =
  wd_release_id :: uuid
  wd_course_id :: uuid
  wd_release_revision :: revision
  wd_withdrawn_by :: uuid
  wd_reason_code :: string
  wd_idempotency_key :: string
  wd_request_sha256 :: string
  wd_trace_id :: string
  wd_withdrawn_at :: timestamp

record run_row =
  rr_run :: evaluation_run
  rr_idempotency_key :: string

record step_attempt =
  sa_step_run_id :: uuid
  sa_attempt :: int
  sa_state :: step_run_state
  sa_worker_id :: string
  sa_worker_san_uri :: string
  sa_provider_binding :: string
  sa_runner_image :: string
  sa_runtime_artifact_sha256 :: string
  sa_runtime_identity_sha256 :: string
  sa_lease_token :: "uuid option"
  sa_lease_expires_at :: "timestamp option"
  sa_diagnostic_code :: "string option"
  sa_evidence_sha256 :: "string option"
  sa_cleanup_verified :: bool
  sa_completed_at :: "timestamp option"

datatype control_result = ReleaseResult evaluation_release | RunResult evaluation_run

record control_db =
  db_releases :: "release_row list"
  db_withdrawals :: "withdrawal_row list"
  db_frozen :: "(uuid \<times> uuid) list"
  db_runs :: "run_row list"
  db_steps :: "step_run list"
  db_attempts :: "step_attempt list"
  db_ledger :: "control_result idem_row list"
  db_outbox :: "control_event outbox_event list"

definition i32_try_from :: "u32 \<Rightarrow> int option" where
  "i32_try_from x = (if uint x \<le> 2147483647 then Some (uint x) else None)"

section \<open>Small helpers\<close>

definition PUBLISH_RELEASE_OPERATION :: string where "PUBLISH_RELEASE_OPERATION = ''publish_evaluation_release_v1''"
definition WITHDRAW_RELEASE_OPERATION :: string where "WITHDRAW_RELEASE_OPERATION = ''withdraw_evaluation_release_v1''"
definition CREATE_RUN_OPERATION :: string where "CREATE_RUN_OPERATION = ''create_evaluation_run_v1''"
definition CANCEL_RUN_OPERATION :: string where "CANCEL_RUN_OPERATION = ''cancel_evaluation_run_v1''"
definition RETRY_STEP_OPERATION :: string where "RETRY_STEP_OPERATION = ''retry_evaluation_step_v1''"
definition VERIFY_STEP_CLEANUP_OPERATION :: string where
  "VERIFY_STEP_CLEANUP_OPERATION = ''verify_evaluation_step_cleanup_v1''"
definition WORKER_SERVICE_SAN_PREFIX :: string where
  "WORKER_SERVICE_SAN_PREFIX = ''spiffe://labweaver/evaluation-worker/''"

definition validate_trace :: "string \<Rightarrow> control_store_error + unit" where
  "validate_trace trace_id =
     (if is_blank trace_id \<or> length trace_id > 128 \<or> has_control trace_id then Inl ContractInvalid else Inr ())"

definition validate_worker_id :: "string \<Rightarrow> control_store_error + unit" where
  "validate_worker_id worker_id =
     (if is_blank worker_id \<or> length worker_id > 96
         \<or> \<not> list_all (\<lambda>b. is_ascii_alphanumeric b \<or> b \<in> set ''-_.:'') worker_id
      then Inl WorkerIdentityInvalid else Inr ())"

definition validate_worker :: "string \<Rightarrow> int \<Rightarrow> control_store_error + unit" where
  "validate_worker worker_id lease_duration =
     res_then (validate_worker_id worker_id) (\<lambda>_.
     let millis = lease_duration div 1000000 in
     if \<not> (30000 \<le> millis \<and> millis \<le> 1800000) then Inl WorkerIdentityInvalid else Inr ())"

definition worker_service_san :: "string \<Rightarrow> control_store_error + string" where
  "worker_service_san worker_id =
     res_then (validate_worker_id worker_id) (\<lambda>_. Inr (WORKER_SERVICE_SAN_PREFIX @ worker_id))"

definition validate_worker_san :: "string \<Rightarrow> string \<Rightarrow> control_store_error + unit" where
  "validate_worker_san worker_id worker_san_uri =
     res_then (worker_service_san worker_id) (\<lambda>san.
     if san \<noteq> worker_san_uri then Inl WorkerIdentityInvalid else Inr ())"

fun is_terminal_run :: "run_state \<Rightarrow> bool" where
  "is_terminal_run RunSucceeded \<longleftrightarrow> True"
| "is_terminal_run RunFailed \<longleftrightarrow> True"
| "is_terminal_run RunCancelled \<longleftrightarrow> True"
| "is_terminal_run _ \<longleftrightarrow> False"

definition failure_stops_dependency_successors :: "step_run \<Rightarrow> bool" where
  "failure_stops_dependency_successors s \<longleftrightarrow>
     sr_state s \<in> {StepFailed, StepCancelled} \<and> sr_failure_policy s = PolicyStop"

definition failure_breaks_run :: "bool \<Rightarrow> step_run \<Rightarrow> bool" where
  "failure_breaks_run cancellation_requested s \<longleftrightarrow> sr_failure_policy s = PolicyStop
     \<and> (sr_state s = StepFailed \<or> sr_state s = StepCancelled \<and> \<not> cancellation_requested)"

definition push_step_change :: "uuid list \<Rightarrow> uuid \<Rightarrow> uuid list" where
  "push_step_change changed i = (if i \<in> set changed then changed else changed @ [i])"

fun push_run_step_changes :: "(uuid \<times> uuid list) list \<Rightarrow> uuid \<Rightarrow> uuid list \<Rightarrow> (uuid \<times> uuid list) list" where
  "push_run_step_changes [] run_id changed = [(run_id, changed)]"
| "push_run_step_changes ((r, existing) # rest) run_id changed =
     (if r = run_id then (r, foldl push_step_change existing changed) # rest
      else (r, existing) # push_run_step_changes rest run_id changed)"

definition runtime_identity_sha256 :: "control_libs \<Rightarrow> runtime_identity \<Rightarrow> control_store_error + sha256" where
  "runtime_identity_sha256 libs i = ok_or StoreIdentityMismatch (lb_hash libs (DocRuntime i))"

fun decode_release :: "control_result \<Rightarrow> control_store_error + evaluation_release" where
  "decode_release (ReleaseResult r) = res_then (map_err StoreContract (release_validate r)) (\<lambda>_. Inr r)"
| "decode_release (RunResult _) = Inl ContractInvalid"

fun decode_run :: "control_result \<Rightarrow> control_store_error + evaluation_run" where
  "decode_run (RunResult r) = res_then (map_err StoreContract (run_validate r)) (\<lambda>_. Inr r)"
| "decode_run (ReleaseResult _) = Inl ContractInvalid"

definition decode_step :: "step_run \<Rightarrow> control_store_error + step_run" where
  "decode_step s = res_then (map_err StoreContract (step_run_validate (sr_run_id s) s)) (\<lambda>_. Inr s)"

section \<open>Row access\<close>

definition load_release_for_update :: "control_db \<Rightarrow> uuid \<Rightarrow> control_store_error + evaluation_release" where
  "load_release_for_update db i =
     res_then (ok_or ReleaseNotFound (List.find (\<lambda>r. rl_id (rw_release r) = i) (db_releases db))) (\<lambda>row.
     decode_release (ReleaseResult (rw_release row)))"

definition load_run_for_update :: "control_db \<Rightarrow> uuid \<Rightarrow> control_store_error + evaluation_run" where
  "load_run_for_update db i =
     res_then (ok_or RunNotFound (List.find (\<lambda>r. er_id (rr_run r) = i) (db_runs db))) (\<lambda>row.
     decode_run (RunResult (rr_run row)))"

definition load_step_for_update :: "control_db \<Rightarrow> uuid \<Rightarrow> control_store_error + step_run" where
  "load_step_for_update db i =
     res_then (ok_or StepNotFound (List.find (\<lambda>s. sr_id s = i) (db_steps db))) decode_step"

definition run_step_rows :: "control_db \<Rightarrow> uuid \<Rightarrow> step_run list" where
  "run_step_rows db run_id = sort_key (\<lambda>s. uint (sr_position s)) (filter (\<lambda>s. sr_run_id s = run_id) (db_steps db))"

definition load_steps :: "control_db \<Rightarrow> uuid \<Rightarrow> control_store_error + step_run list" where
  "load_steps db run_id =
     res_then (res_all (\<lambda>s. res_then (decode_step s) (\<lambda>_. Inr ())) (run_step_rows db run_id)) (\<lambda>_.
     Inr (run_step_rows db run_id))"

text \<open>The \<^verbatim>\<open>CHECK\<close> constraints of the step table that the validator does not imply.\<close>

definition step_row_checks :: "step_run \<Rightarrow> bool" where
  "step_row_checks s \<longleftrightarrow> length (sr_depends_on s) \<le> 64 \<and> (sr_state s = StepSucceeded \<or> sr_awarded_score s = None)"

definition save_new_step :: "control_db \<Rightarrow> step_run \<Rightarrow> control_store_error + control_db" where
  "save_new_step db s =
     res_then (map_err StoreContract (step_run_validate (sr_run_id s) s)) (\<lambda>_.
     res_then (ok_or ContractInvalid (i32_try_from (sr_position s))) (\<lambda>_.
     res_then (ok_or ContractInvalid (revision_to_i64 (sr_revision s))) (\<lambda>_.
     res_then (ok_or StoreScoreInvalid (i32_try_from (sr_max_score s))) (\<lambda>_.
     if \<not> step_row_checks s
        \<or> list_ex (\<lambda>t. sr_id t = sr_id s \<or> sr_run_id t = sr_run_id s
             \<and> (sr_position t = sr_position s \<or> sr_step_id t = sr_step_id s)) (db_steps db)
     then Inl StoreDatabase
     else Inr (db \<lparr> db_steps := db_steps db @ [s] \<rparr>)))))"

fun save_new_steps :: "control_db \<Rightarrow> step_run list \<Rightarrow> control_store_error + control_db" where
  "save_new_steps db [] = Inr db"
| "save_new_steps db (s # ss) = res_then (save_new_step db s) (\<lambda>db'. save_new_steps db' ss)"

definition save_step :: "control_db \<Rightarrow> step_run \<Rightarrow> control_store_error + control_db" where
  "save_step db s =
     res_then (map_err StoreContract (step_run_validate (sr_run_id s) s)) (\<lambda>_.
     res_then (case sr_awarded_score s of None \<Rightarrow> Inr ()
         | Some a \<Rightarrow> res_then (ok_or StoreScoreInvalid (i32_try_from a)) (\<lambda>_. Inr ())) (\<lambda>_.
     res_then (ok_or ContractInvalid (revision_to_i64 (sr_revision s))) (\<lambda>_.
     res_then (ok_or AttemptOverflow (i32_try_from (sr_current_attempt s))) (\<lambda>_.
     if \<not> step_row_checks s then Inl StoreDatabase
     else if length (filter (\<lambda>t. sr_id t = sr_id s) (db_steps db)) \<noteq> 1 then Inl StateConflict
     else Inr (db \<lparr> db_steps := upd_where (\<lambda>t. sr_id t = sr_id s) (\<lambda>_. s) (db_steps db) \<rparr>)))))"

section \<open>Events\<close>

definition next_outbox_sequence :: "control_db \<Rightarrow> uuid \<Rightarrow> control_store_error + u64" where
  "next_outbox_sequence db aggregate_id =
     (let m = foldl max 0 (map ox_aggregate_sequence (filter (\<lambda>e. ox_aggregate_id e = aggregate_id) (db_outbox db))) + 1 in
      if m \<le> I64_MAX then Inr (of_int m) else Inl StoreDatabase)"

definition event_envelope ::
  "uuid \<Rightarrow> event_contract \<Rightarrow> uuid \<Rightarrow> revision \<Rightarrow> u64 \<Rightarrow> timestamp \<Rightarrow> string \<Rightarrow> control_event_data
   \<Rightarrow> control_store_error + control_event" where
  "event_envelope event_id contract course_id rv sequence now trace_id data =
     (let event = \<lparr> ce_specversion = SPEC_VERSION, ce_id = event_id, ce_source = event_source contract,
        ce_event_type = ev_event_type contract, ce_subject = ev_subject contract, ce_time = now,
        ce_datacontenttype = ''application/json'', ce_dataschema = data_schema contract,
        ce_course_id = course_id, ce_aggregate_revision = rv, ce_aggregate_sequence = sequence,
        ce_trace_id = trace_id, ce_data = data \<rparr> in
      res_then (map_err StoreEvent (cloud_event_validate event contract)) (\<lambda>_. Inr event))"

definition enqueue_event ::
  "control_libs \<Rightarrow> control_db \<Rightarrow> event_contract \<Rightarrow> uuid \<Rightarrow> u64 \<Rightarrow> control_event \<Rightarrow> control_store_error + control_db" where
  "enqueue_event libs db contract aggregate_id sequence event =
     res_then (ok_or ContractInvalid (lb_hash libs (DocEvent event))) (\<lambda>payload_hash.
     res_then (map_err StorePersistence (outbox_enqueue (ce_time event) (ce_id event) (ev_subject contract)
         (ev_event_type contract) aggregate_id sequence event payload_hash (db_outbox db))) (\<lambda>rows.
     Inr (db \<lparr> db_outbox := rows \<rparr>)))"

definition enqueue_release_published ::
  "control_libs \<Rightarrow> control_db \<Rightarrow> evaluation_release \<Rightarrow> timestamp \<Rightarrow> string \<Rightarrow> control_store_error + control_db" where
  "enqueue_release_published libs db r now trace_id =
     res_then (ok_or ContractInvalid (by_subject EVALUATION_RELEASE_PUBLISHED)) (\<lambda>contract.
     res_then (event_envelope (lb_event_id libs (length (db_outbox db))) contract (rl_course_id r) (rl_revision r) 1 now
         trace_id (ReleasePublishedData \<lparr> erp_release_id = rl_id r, erp_revision = rl_revision r,
           erp_published_by = rl_published_by r \<rparr>)) (\<lambda>event.
     enqueue_event libs db contract (rl_id r) 1 event))"

definition enqueue_run_event ::
  "control_libs \<Rightarrow> control_db \<Rightarrow> evaluation_run \<Rightarrow> string \<Rightarrow> timestamp \<Rightarrow> string \<Rightarrow> uuid option
   \<Rightarrow> control_store_error + control_db" where
  "enqueue_run_event libs db run subject now trace_id operator =
     res_then (ok_or ContractInvalid (by_subject subject)) (\<lambda>contract.
     res_then (next_outbox_sequence db (er_id run)) (\<lambda>sequence.
     let data = \<lparr> ere_run_id = er_id run, ere_release_id = er_release_id run, ere_revision = er_revision run,
        ere_state = run_state_name (er_state run), ere_diagnostic_code = er_diagnostic_code run,
        ere_operator_actor_id = operator \<rparr> in
     res_then (map_err StoreEvent (evaluation_run_event_validate data)) (\<lambda>_.
     res_then (event_envelope (lb_event_id libs (length (db_outbox db))) contract (er_course_id run) (er_revision run)
         sequence now trace_id (RunData data)) (\<lambda>event.
     enqueue_event libs db contract (er_id run) sequence event))))"

definition enqueue_step_event ::
  "control_libs \<Rightarrow> control_db \<Rightarrow> evaluation_run \<Rightarrow> step_run \<Rightarrow> timestamp \<Rightarrow> string \<Rightarrow> uuid option
   \<Rightarrow> control_store_error + control_db" where
  "enqueue_step_event libs db run s now trace_id operator =
     res_then (ok_or ContractInvalid (by_subject EVALUATION_STEP_RUN_STATE_CHANGED)) (\<lambda>contract.
     res_then (next_outbox_sequence db (sr_id s)) (\<lambda>sequence.
     let data = \<lparr> ese_run_id = er_id run, ese_step_run_id = sr_id s, ese_step_id = sr_step_id s,
        ese_revision = sr_revision s, ese_state = step_state_name (sr_state s), ese_attempt = sr_current_attempt s,
        ese_diagnostic_code = sr_diagnostic_code s, ese_cleanup_verified = Some (sr_cleanup_verified s),
        ese_operator_actor_id = operator \<rparr> in
     res_then (map_err StoreEvent (evaluation_step_run_event_validate data)) (\<lambda>_.
     res_then (event_envelope (lb_event_id libs (length (db_outbox db))) contract (er_course_id run) (sr_revision s)
         sequence now trace_id (StepData data)) (\<lambda>event.
     enqueue_event libs db contract (sr_id s) sequence event))))"

fun enqueue_step_events ::
  "control_libs \<Rightarrow> evaluation_run \<Rightarrow> timestamp \<Rightarrow> string \<Rightarrow> uuid option \<Rightarrow> control_db \<Rightarrow> uuid list
   \<Rightarrow> control_store_error + control_db" where
  "enqueue_step_events libs run now trace_id operator db [] = Inr db"
| "enqueue_step_events libs run now trace_id operator db (i # changed) =
     res_then (ok_or StepNotFound (List.find (\<lambda>s. sr_id s = i) (er_steps run))) (\<lambda>s.
     res_then (enqueue_step_event libs db run s now trace_id operator) (\<lambda>db'.
     enqueue_step_events libs run now trace_id operator db' changed))"

section \<open>The state of a run follows its steps\<close>

fun score_sum :: "u32 \<Rightarrow> step_run list \<Rightarrow> u32 option" where
  "score_sum acc [] = Some acc"
| "score_sum acc (s # ss) =
     (if sr_role s = RoleScore
      then (case checked_add acc (case sr_awarded_score s of None \<Rightarrow> 0 | Some a \<Rightarrow> a) of
              None \<Rightarrow> None | Some acc' \<Rightarrow> score_sum acc' ss)
      else score_sum acc ss)"

definition step_unfinished :: "step_run \<Rightarrow> bool" where
  "step_unfinished s \<longleftrightarrow> sr_state s \<in> {StepPending, StepRunning, StepRetryable}"

definition all_cleaned :: "step_run list \<Rightarrow> bool" where
  "all_cleaned ss \<longleftrightarrow> list_all sr_cleanup_verified (filter (\<lambda>s. sr_state s \<noteq> StepSkipped) ss)"

definition derive_run_state :: "timestamp \<Rightarrow> evaluation_run \<Rightarrow> evaluation_run" where
  "derive_run_state now r =
     (let steps = er_steps r; non_terminal = list_ex step_unfinished steps; cleaned = all_cleaned steps in
      case List.find (failure_breaks_run (er_cancellation_requested r)) steps of
        Some s \<Rightarrow>
          (if non_terminal
           then r \<lparr> er_diagnostic_code := sr_diagnostic_code s,
                    er_state := (if er_cancellation_requested r then RunCancelling else RunRunning),
                    er_cleanup_verified := False, er_completed_at := None \<rparr>
           else r \<lparr> er_diagnostic_code := sr_diagnostic_code s, er_state := RunFailed,
                    er_cleanup_verified := cleaned, er_completed_at := (if cleaned then Some now else None) \<rparr>)
      | None \<Rightarrow>
          (if er_cancellation_requested r \<and> \<not> non_terminal
           then r \<lparr> er_state := RunCancelled, er_diagnostic_code := Some ''LW_EVALUATION_CANCELLED'',
                    er_cleanup_verified := cleaned, er_completed_at := (if cleaned then Some now else None) \<rparr>
           else if \<not> non_terminal
           then (if cleaned
                 then r \<lparr> er_state := RunSucceeded, er_diagnostic_code := None, er_cleanup_verified := True,
                          er_completed_at := Some now \<rparr>
                 else r \<lparr> er_state := RunRunning, er_diagnostic_code := None, er_cleanup_verified := False,
                          er_completed_at := None \<rparr>)
           else if er_cancellation_requested r
           then r \<lparr> er_state := RunCancelling, er_cleanup_verified := False, er_completed_at := None \<rparr>
           else if list_ex (\<lambda>s. sr_state s = StepRunning) steps
           then r \<lparr> er_state := RunRunning, er_diagnostic_code := None, er_cleanup_verified := False,
                    er_completed_at := None \<rparr>
           else r))"

definition refresh_run :: "timestamp \<Rightarrow> step_run list \<Rightarrow> evaluation_run \<Rightarrow> control_store_error + evaluation_run" where
  "refresh_run now steps r =
     res_then (ok_or StoreScoreInvalid (score_sum 0 steps)) (\<lambda>total_awarded.
     let r' = (derive_run_state now (r \<lparr> er_steps := steps, er_awarded_score := total_awarded \<rparr>)) \<lparr> er_updated_at := now \<rparr> in
     res_then (map_err StoreContract (run_validate r')) (\<lambda>_. Inr r'))"

definition refresh_and_save_run ::
  "control_libs \<Rightarrow> control_db \<Rightarrow> evaluation_run \<Rightarrow> timestamp \<Rightarrow> uuid list \<Rightarrow> string \<Rightarrow> uuid option
   \<Rightarrow> control_store_error + (evaluation_run \<times> control_db)" where
  "refresh_and_save_run libs db run now changed trace_id operator =
     res_then (load_steps db (er_id run)) (\<lambda>steps.
     res_then (refresh_run now steps run) (\<lambda>r.
     res_then (ok_or ContractInvalid (revision_to_i64 (er_revision r))) (\<lambda>_.
     res_then (ok_or StoreScoreInvalid (i32_try_from (er_awarded_score r))) (\<lambda>_.
     if length (filter (\<lambda>row. er_id (rr_run row) = er_id r) (db_runs db)) \<noteq> 1 then Inl StateConflict
     else
       let db1 = db \<lparr> db_runs := upd_where (\<lambda>row. er_id (rr_run row) = er_id r) (\<lambda>row. row \<lparr> rr_run := r \<rparr>) (db_runs db) \<rparr> in
       res_then (enqueue_run_event libs db1 r EVALUATION_RUN_STATE_CHANGED now trace_id operator) (\<lambda>db2.
       res_then (enqueue_step_events libs r now trace_id operator db2 changed) (\<lambda>db3.
       Inr (r, db3)))))))"

end
