(* ===== verification/Evaluation_Ops.thy ===== *)
theory Evaluation_Ops
  imports Evaluation_Store
begin

text \<open>
  The operations of the evaluation authority on the tables of the store: publishing and withdrawing
  releases, creating and mutating runs, claiming and completing steps under a lease, recovering expired
  leases, and the pages a course or a student reads.
\<close>

section \<open>Following dependencies\<close>

text \<open>
  A failed step skips the unstarted steps that depend on it and a retry restores
  the ones that were skipped for it.  Both repeat passes over the steps of the run
  in position order until a pass adds no step to the set of affected ones; they
  differ in what they do to a step that depends on an affected one.
\<close>

datatype visit = VisitPass | VisitMark | VisitSave step_run

definition depends_on_any :: "string list \<Rightarrow> step_run \<Rightarrow> bool" where
  "depends_on_any affected s \<longleftrightarrow> list_ex (\<lambda>d. d \<in> set affected) (sr_depends_on s)"

definition dependency_skipped :: "step_run \<Rightarrow> bool" where
  "dependency_skipped s \<longleftrightarrow> sr_state s = StepSkipped
     \<and> sr_diagnostic_code s = Some ''LW_EVALUATION_DEPENDENCY_FAILED''"

definition skip_visit :: "timestamp \<Rightarrow> string list \<Rightarrow> step_run \<Rightarrow> visit" where
  "skip_visit now blocked s =
     (if \<not> depends_on_any blocked s then VisitPass
      else if sr_state s \<in> {StepPending, StepRetryable}
      then VisitSave (s \<lparr> sr_state := StepSkipped, sr_awarded_score := None,
             sr_diagnostic_code := Some ''LW_EVALUATION_DEPENDENCY_FAILED'', sr_cleanup_verified := True,
             sr_completed_at := Some now \<rparr>)
      else if dependency_skipped s then VisitMark
      else VisitPass)"

definition restore_visit :: "string list \<Rightarrow> step_run \<Rightarrow> visit" where
  "restore_visit restored s =
     (if \<not> dependency_skipped s \<or> \<not> depends_on_any restored s then VisitPass
      else VisitSave (s \<lparr> sr_state := StepPending, sr_awarded_score := None, sr_diagnostic_code := None,
             sr_cleanup_verified := False, sr_started_at := None, sr_completed_at := None \<rparr>))"

record propagation =
  pg_affected :: "string list"
  pg_changed :: "uuid list"
  pg_progressed :: bool
  pg_db :: control_db

definition mark_affected :: "string \<Rightarrow> propagation \<Rightarrow> propagation" where
  "mark_affected sid p = p \<lparr> pg_progressed := (pg_progressed p \<or> sid \<notin> set (pg_affected p)),
     pg_affected := (if sid \<in> set (pg_affected p) then pg_affected p else sid # pg_affected p) \<rparr>"

datatype propagation_mode = SkipSuccessors timestamp | RestoreSuccessors

fun visit_step :: "propagation_mode \<Rightarrow> string list \<Rightarrow> step_run \<Rightarrow> visit" where
  "visit_step (SkipSuccessors now) = skip_visit now"
| "visit_step RestoreSuccessors = restore_visit"

fun propagate_pass ::
  "propagation_mode \<Rightarrow> propagation \<Rightarrow> step_run list \<Rightarrow> control_store_error + (step_run list \<times> propagation)" where
  "propagate_pass mode p [] = Inr ([], p)"
| "propagate_pass mode p (s # ss) = (case visit_step mode (pg_affected p) s of
      VisitPass \<Rightarrow> res_then (propagate_pass mode p ss) (\<lambda>(ss', p'). Inr (s # ss', p'))
    | VisitMark \<Rightarrow> res_then (propagate_pass mode (mark_affected (sr_step_id s) p) ss) (\<lambda>(ss', p'). Inr (s # ss', p'))
    | VisitSave s1 \<Rightarrow>
        res_then (ok_or ContractInvalid (revision_next (sr_revision s))) (\<lambda>rv.
        let s2 = s1 \<lparr> sr_revision := rv \<rparr> in
        res_then (save_step (pg_db p) s2) (\<lambda>db'.
        res_then (propagate_pass mode (mark_affected (sr_step_id s)
            (p \<lparr> pg_db := db', pg_changed := push_step_change (pg_changed p) (sr_id s) \<rparr>)) ss) (\<lambda>(ss', p').
        Inr (s2 # ss', p')))))"

lemma mark_affected_simps [simp]:
  "set (pg_affected (mark_affected sid p)) = insert sid (set (pg_affected p))"
  "pg_progressed (mark_affected sid p) \<longleftrightarrow> pg_progressed p \<or> sid \<notin> set (pg_affected p)"
  "pg_db (mark_affected sid p) = pg_db p"
  "pg_changed (mark_affected sid p) = pg_changed p"
  by (auto simp: mark_affected_def)

text \<open>What no transition of a step ever changes.\<close>

definition same_step :: "step_run \<Rightarrow> step_run \<Rightarrow> bool" where
  "same_step s t \<longleftrightarrow> sr_id s = sr_id t \<and> sr_run_id s = sr_run_id t \<and> sr_step_id s = sr_step_id t
     \<and> sr_position s = sr_position t \<and> sr_role s = sr_role t \<and> sr_failure_policy s = sr_failure_policy t
     \<and> sr_depends_on s = sr_depends_on t \<and> sr_max_score s = sr_max_score t"

lemma same_step_refl [simp]: "same_step s s"
  by (simp add: same_step_def)

lemma same_step_trans [trans]: "same_step s t \<Longrightarrow> same_step t u \<Longrightarrow> same_step s u"
  by (simp add: same_step_def)

lemma visit_step_same: "visit_step mode a s = VisitSave s' \<Longrightarrow> same_step s (s' \<lparr> sr_revision := rv \<rparr>)"
  by (cases mode) (auto simp: skip_visit_def restore_visit_def same_step_def split: if_splits)

text \<open>The three ways a pass takes one step.\<close>

lemma propagate_pass_ConsE:
  assumes "propagate_pass mode p (s # ss) = Inr (ss', p')"
  obtains (quiet) ss1 where "visit_step mode (pg_affected p) s = VisitPass"
      "propagate_pass mode p ss = Inr (ss1, p')" "ss' = s # ss1"
  | (mark) ss1 where "visit_step mode (pg_affected p) s = VisitMark"
      "propagate_pass mode (mark_affected (sr_step_id s) p) ss = Inr (ss1, p')" "ss' = s # ss1"
  | (save) s1 rv db' ss1 where "visit_step mode (pg_affected p) s = VisitSave s1"
      "revision_next (sr_revision s) = Some rv" "save_step (pg_db p) (s1 \<lparr> sr_revision := rv \<rparr>) = Inr db'"
      "propagate_pass mode (mark_affected (sr_step_id s)
         (p \<lparr> pg_db := db', pg_changed := push_step_change (pg_changed p) (sr_id s) \<rparr>)) ss = Inr (ss1, p')"
      "ss' = s1 \<lparr> sr_revision := rv \<rparr> # ss1"
proof (cases "visit_step mode (pg_affected p) s")
  case VisitPass
  then show ?thesis using assms that(1) by (auto simp: res_then_Inr)
next
  case VisitMark
  then show ?thesis using assms that(2) by (auto simp: res_then_Inr)
next
  case (VisitSave s1)
  then obtain rv db' ss1 where "revision_next (sr_revision s) = Some rv" "save_step (pg_db p) (s1 \<lparr> sr_revision := rv \<rparr>) = Inr db'"
      "propagate_pass mode (mark_affected (sr_step_id s)
         (p \<lparr> pg_db := db', pg_changed := push_step_change (pg_changed p) (sr_id s) \<rparr>)) ss = Inr (ss1, p')"
      "ss' = s1 \<lparr> sr_revision := rv \<rparr> # ss1"
    using assms unfolding propagate_pass.simps VisitSave visit.case Let_def res_then_Inr ok_or_Inr by auto
  then show ?thesis using that(3) VisitSave by blast
qed

lemma propagate_pass_affected:
  assumes "propagate_pass mode p ss = Inr (ss', p')"
  shows "list_all2 same_step ss ss' \<and> set (pg_affected p) \<subseteq> set (pg_affected p')
     \<and> set (pg_affected p') \<subseteq> set (pg_affected p) \<union> sr_step_id ` set ss
     \<and> (pg_progressed p' \<longleftrightarrow> pg_progressed p \<or> set (pg_affected p') \<noteq> set (pg_affected p))"
  using assms
proof (induction ss arbitrary: ss' p p')
  case (Cons s ss)
  from Cons.prems show ?case
  proof (cases rule: propagate_pass_ConsE)
    case (quiet ss1)
    then show ?thesis using Cons.IH [OF quiet(2)] by auto
  next
    case (mark ss1)
    then show ?thesis using Cons.IH [OF mark(2)] by auto
  next
    case (save s1 rv db' ss1)
    then show ?thesis using Cons.IH [OF save(4)] visit_step_same [OF save(1)] by auto
  qed
qed simp

lemma same_step_ids: "list_all2 same_step ss ss' \<Longrightarrow> map sr_step_id ss' = map sr_step_id ss"
  by (induction ss ss' rule: list_all2_induct) (auto simp: same_step_def)

text \<open>A pass that makes progress adds the identifier of a step, so the step
  identifiers outside the affected set bound the number of passes.\<close>

function propagate ::
  "propagation_mode \<Rightarrow> propagation \<Rightarrow> step_run list \<Rightarrow> control_store_error + propagation" where
  "propagate mode p ss = (case propagate_pass mode (p \<lparr> pg_progressed := False \<rparr>) ss of
      Inl e \<Rightarrow> Inl e
    | Inr (ss', p') \<Rightarrow> if pg_progressed p' then propagate mode p' ss' else Inr p')"
  by pat_completeness auto
termination
proof (relation "measure (\<lambda>(_, p, ss). card (sr_step_id ` set ss - set (pg_affected p)))", goal_cases)
  case (2 mode p ss r ss' p')
  then have pass: "propagate_pass mode (p \<lparr> pg_progressed := False \<rparr>) ss = Inr (ss', p')" by simp
  note aff = propagate_pass_affected [OF pass]
  have ids: "sr_step_id ` set ss' = sr_step_id ` set ss" using aff same_step_ids by (metis list.set_map)
  have "sr_step_id ` set ss' - set (pg_affected p') \<subset> sr_step_id ` set ss - set (pg_affected p)"
    using aff ids 2(3) by auto
  then have "card (sr_step_id ` set ss' - set (pg_affected p')) < card (sr_step_id ` set ss - set (pg_affected p))"
    by (intro psubset_card_mono) auto
  then show ?case by simp
qed simp

declare propagate.simps [simp del]

definition skip_dependency_successors ::
  "control_db \<Rightarrow> uuid \<Rightarrow> string \<Rightarrow> timestamp \<Rightarrow> control_store_error + (uuid list \<times> control_db)" where
  "skip_dependency_successors db run_id failed_step_id now =
     res_then (load_steps db run_id) (\<lambda>steps.
     res_then (propagate (SkipSuccessors now) \<lparr> pg_affected = [failed_step_id], pg_changed = [],
         pg_progressed = True, pg_db = db \<rparr> steps) (\<lambda>p. Inr (pg_changed p, pg_db p)))"

definition restore_dependency_skipped_successors ::
  "control_db \<Rightarrow> uuid \<Rightarrow> string \<Rightarrow> control_store_error + (uuid list \<times> control_db)" where
  "restore_dependency_skipped_successors db run_id retried_step_id =
     res_then (load_steps db run_id) (\<lambda>steps.
     res_then (propagate RestoreSuccessors \<lparr> pg_affected = [retried_step_id], pg_changed = [],
         pg_progressed = True, pg_db = db \<rparr> steps) (\<lambda>p. Inr (pg_changed p, pg_db p)))"

section \<open>Releases\<close>

text \<open>The reservation every command starts with: a stored result is replayed.\<close>

definition reserve_or_replay ::
  "string \<Rightarrow> string \<Rightarrow> sha256 \<Rightarrow> control_db \<Rightarrow> control_store_error + (control_result option \<times> control_db)" where
  "reserve_or_replay operation key request_hash db =
     res_then (map_err StorePersistence (idem_reserve operation key request_hash (db_ledger db))) (\<lambda>(d, rows).
     case d of
       IdemReplay v \<Rightarrow> Inr (Some v, db)
     | IdemConflict \<Rightarrow> Inl IdempotencyConflict
     | IdemInProgress \<Rightarrow> Inl RequestInProgress
     | IdemReserved \<Rightarrow> Inr (None, db \<lparr> db_ledger := rows \<rparr>))"

definition complete_reservation ::
  "string \<Rightarrow> string \<Rightarrow> control_result \<Rightarrow> control_db \<Rightarrow> control_store_error + control_db" where
  "complete_reservation operation key v db =
     res_then (map_err StorePersistence (idem_complete operation key v (db_ledger db))) (\<lambda>rows.
     Inr (db \<lparr> db_ledger := rows \<rparr>))"

definition document_hash :: "control_libs \<Rightarrow> control_document \<Rightarrow> control_store_error + sha256" where
  "document_hash libs d = ok_or ContractInvalid (lb_hash libs d)"

definition column_revision :: "revision \<Rightarrow> control_store_error + int" where
  "column_revision rv = ok_or ContractInvalid (revision_to_i64 rv)"

definition insert_release :: "control_db \<Rightarrow> release_row \<Rightarrow> control_store_error + control_db" where
  "insert_release db row =
     (let r = rw_release row in
      if list_ex (\<lambda>t. rl_id (rw_release t) = rl_id r
           \<or> rl_course_id (rw_release t) = rl_course_id r
             \<and> (rl_candidate_id (rw_release t) = rl_candidate_id r \<and> rl_approval_id (rw_release t) = rl_approval_id r
                \<or> rw_identity_sha256 t = rw_identity_sha256 row)) (db_releases db)
      then Inl StoreIdentityMismatch
      else Inr (db \<lparr> db_releases := db_releases db @ [row] \<rparr>))"

datatype release_reservation = ReleaseCreated evaluation_release | ReleaseReplayed evaluation_release

definition publish_transaction ::
  "control_libs \<Rightarrow> publish_request \<Rightarrow> string \<Rightarrow> timestamp \<Rightarrow> string \<Rightarrow> uuid \<Rightarrow> control_db
   \<Rightarrow> control_store_error + (release_reservation \<times> control_db)" where
  "publish_transaction libs q key now trace_id release_id db =
     (if \<not> publish_request_validate q then Inl ContractInvalid
      else res_then (validate_trace trace_id) (\<lambda>_.
      res_then (document_hash libs (DocRequest (PublishRequest q))) (\<lambda>request_hash.
      res_then (document_hash libs (DocSpec (pq_evaluation_spec q))) (\<lambda>_.
      res_then (document_hash libs (DocRuntime (pq_runtime_identity q))) (\<lambda>_.
      res_then (reserve_or_replay PUBLISH_RELEASE_OPERATION key request_hash db) (\<lambda>(replay, db1).
      case replay of
        Some v \<Rightarrow> res_then (decode_release v) (\<lambda>r. Inr (ReleaseReplayed r, db))
      | None \<Rightarrow>
          let r = \<lparr> rl_schema_version = EVALUATION_RELEASE_SCHEMA_VERSION, rl_id = release_id,
              rl_course_id = pq_course_id q, rl_candidate_id = pq_candidate_id q,
              rl_candidate_revision = pq_candidate_revision q, rl_approval_id = pq_approval_id q,
              rl_approval_revision = pq_approval_revision q, rl_evaluation_spec = pq_evaluation_spec q,
              rl_runtime_identity = pq_runtime_identity q, rl_state = ReleaseActive, rl_revision = 1,
              rl_published_by = pq_published_by q, rl_published_at = now, rl_withdrawn_at = None,
              rl_withdrawal_diagnostic_code = None \<rparr> in
          res_then (document_hash libs (DocRelease r)) (\<lambda>identity_hash.
          res_then (column_revision (rl_candidate_revision r)) (\<lambda>_.
          res_then (column_revision (rl_approval_revision r)) (\<lambda>_.
          res_then (insert_release db1 \<lparr> rw_release = r, rw_identity_sha256 = sha256_display identity_hash \<rparr>) (\<lambda>db2.
          res_then (enqueue_release_published libs db2 r now trace_id) (\<lambda>db3.
          res_then (complete_reservation PUBLISH_RELEASE_OPERATION key (ReleaseResult r) db3) (\<lambda>db4.
          Inr (ReleaseCreated r, db4)))))))))))))"

text \<open>Publishing validates the stored release once more after the commit.\<close>

definition publish_release ::
  "control_libs \<Rightarrow> publish_request \<Rightarrow> string \<Rightarrow> timestamp \<Rightarrow> string \<Rightarrow> uuid \<Rightarrow> control_db
   \<Rightarrow> (control_store_error + release_reservation) \<times> control_db" where
  "publish_release libs q key now trace_id release_id db =
     (case publish_transaction libs q key now trace_id release_id db of
        Inl e \<Rightarrow> (Inl e, db)
      | Inr (ReleaseReplayed r, db') \<Rightarrow> (Inr (ReleaseReplayed r), db')
      | Inr (ReleaseCreated r, db') \<Rightarrow>
          (res_then (map_err StoreContract (release_validate r)) (\<lambda>_. Inr (ReleaseCreated r)), db'))"

definition withdrawn_release :: "withdraw_request \<Rightarrow> timestamp \<Rightarrow> revision \<Rightarrow> evaluation_release \<Rightarrow> evaluation_release" where
  "withdrawn_release q now rv r = r \<lparr> rl_state := ReleaseWithdrawn, rl_revision := rv,
     rl_withdrawn_at := Some now, rl_withdrawal_diagnostic_code := Some (wq_reason_code q) \<rparr>"

definition withdraw_release ::
  "control_libs \<Rightarrow> uuid \<Rightarrow> withdraw_request \<Rightarrow> string \<Rightarrow> timestamp \<Rightarrow> string \<Rightarrow> control_db
   \<Rightarrow> control_store_error + (evaluation_release \<times> control_db)" where
  "withdraw_release libs release_id q key now trace_id db =
     res_then (validate_trace trace_id) (\<lambda>_.
     res_then (document_hash libs (DocRequest (WithdrawRequest release_id q))) (\<lambda>request_hash.
     res_then (reserve_or_replay WITHDRAW_RELEASE_OPERATION key request_hash db) (\<lambda>(replay, db1).
     case replay of
       Some v \<Rightarrow> res_then (decode_release v) (\<lambda>r. Inr (r, db))
     | None \<Rightarrow>
         res_then (load_release_for_update db1 release_id) (\<lambda>r0.
         if rl_course_id r0 \<noteq> wq_course_id q then Inl CourseMismatch
         else if rl_revision r0 \<noteq> wq_expected_revision q then Inl RevisionConflict
         else if rl_state r0 \<noteq> ReleaseActive then Inl StateConflict
         else res_then (ok_or ContractInvalid (revision_next (rl_revision r0))) (\<lambda>rv.
         let r = withdrawn_release q now rv r0 in
         res_then (map_err StoreContract (release_validate r)) (\<lambda>_.
         res_then (column_revision rv) (\<lambda>_.
         let db2 = db1 \<lparr> db_releases := upd_where (\<lambda>t. rl_id (rw_release t) = rl_id r)
             (\<lambda>t. t \<lparr> rw_release := r \<rparr>) (db_releases db1) \<rparr> in
         if list_ex (\<lambda>w. wd_release_id w = rl_id r) (db_withdrawals db2)
            \<or> \<not> (1 \<le> length (wq_reason_code q) \<and> length (wq_reason_code q) \<le> 128) then Inl StoreDatabase
         else
         let db3 = db2 \<lparr> db_withdrawals := db_withdrawals db2 @ [\<lparr> wd_release_id = rl_id r,
             wd_course_id = rl_course_id r, wd_release_revision = rv, wd_withdrawn_by = wq_withdrawn_by q,
             wd_reason_code = wq_reason_code q, wd_idempotency_key = key,
             wd_request_sha256 = sha256_display request_hash, wd_trace_id = trace_id, wd_withdrawn_at = now \<rparr>] \<rparr> in
         res_then (complete_reservation WITHDRAW_RELEASE_OPERATION key (ReleaseResult r) db3) (\<lambda>db4.
         Inr (r, db4)))))))))"

definition load_release :: "control_db \<Rightarrow> uuid \<Rightarrow> control_store_error + evaluation_release" where
  "load_release db i =
     res_then (ok_or ReleaseNotFound (List.find (\<lambda>t. rl_id (rw_release t) = i) (db_releases db))) (\<lambda>row.
     decode_release (ReleaseResult (rw_release row)))"

definition published_after :: "evaluation_release \<Rightarrow> evaluation_release \<Rightarrow> bool" where
  "published_after a b \<longleftrightarrow> rl_published_at a > rl_published_at b
     \<or> rl_published_at a = rl_published_at b \<and> rl_id a > rl_id b"

fun release_insert :: "evaluation_release \<Rightarrow> evaluation_release list \<Rightarrow> evaluation_release list" where
  "release_insert r [] = [r]"
| "release_insert r (q # qs) = (if published_after r q then r # q # qs else q # release_insert r qs)"

fun release_page :: "evaluation_release list \<Rightarrow> control_store_error + evaluation_release list" where
  "release_page [] = Inr []"
| "release_page (r # rs) =
     res_then (decode_release (ReleaseResult r)) (\<lambda>x. res_then (release_page rs) (\<lambda>xs. Inr (x # xs)))"

definition list_releases ::
  "control_db \<Rightarrow> uuid \<Rightarrow> uuid option \<Rightarrow> u16 \<Rightarrow> control_store_error + (evaluation_release list \<times> uuid option)" where
  "list_releases db course_id cursor limit =
     (if limit < 1 \<or> limit > 100 then Inl ContractInvalid
      else
      let releases = filter (\<lambda>r. rl_course_id r = course_id) (map rw_release (db_releases db));
          start = (case cursor of None \<Rightarrow> None | Some c \<Rightarrow> List.find (\<lambda>r. rl_id r = c) releases) in
      if cursor \<noteq> None \<and> start = None then Inl ContractInvalid
      else
      let after = filter (\<lambda>r. case start of None \<Rightarrow> True | Some c \<Rightarrow> published_after c r) releases;
          page = take (Suc (unat limit)) (foldr release_insert after []) in
      res_then (release_page page) (\<lambda>items.
      let shown = take (unat limit) items in
      Inr (shown, if length items > unat limit then map_option rl_id (if shown = [] then None else Some (last shown))
                  else None)))"

section \<open>Runs\<close>

fun step_role_of :: "evaluation_step \<Rightarrow> step_role" where
  "step_role_of (Gate _) = RoleGate"
| "step_role_of (Score _) = RoleScore"
| "step_role_of (Advisory _) = RoleAdvisory"

definition step_run_for :: "uuid \<Rightarrow> uuid \<Rightarrow> u32 \<Rightarrow> evaluation_step \<Rightarrow> step_run" where
  "step_run_for run_id step_run_id position s =
     \<lparr> sr_id = step_run_id, sr_run_id = run_id, sr_step_id = step_id s, sr_position = position,
       sr_role = step_role_of s, sr_failure_policy = failure_policy s, sr_depends_on = dependencies s,
       sr_state = StepPending, sr_revision = 1, sr_current_attempt = 0,
       sr_max_score = (case step_score s of None \<Rightarrow> 0 | Some m \<Rightarrow> m), sr_awarded_score = None,
       sr_diagnostic_code = None, sr_cleanup_verified = False, sr_started_at = None, sr_completed_at = None \<rparr>"

fun step_runs_loop ::
  "uuid \<Rightarrow> (nat \<Rightarrow> uuid) \<Rightarrow> nat \<Rightarrow> evaluation_step list \<Rightarrow> control_store_error + step_run list" where
  "step_runs_loop run_id ids index [] = Inr []"
| "step_runs_loop run_id ids index (s # ss) =
     (if int index + 1 \<ge> 4294967296 then Inl ContractInvalid
      else res_then (step_runs_loop run_id ids (Suc index) ss) (\<lambda>rest.
        Inr (step_run_for run_id (ids index) (of_nat (Suc index)) s # rest)))"

definition step_runs_for ::
  "evaluation_release \<Rightarrow> uuid \<Rightarrow> (nat \<Rightarrow> uuid) \<Rightarrow> control_store_error + step_run list" where
  "step_runs_for r run_id ids = step_runs_loop run_id ids 0 (eb_steps (es_spec (rl_evaluation_spec r)))"

definition verify_frozen_submission :: "control_db \<Rightarrow> create_run_request \<Rightarrow> control_store_error + unit" where
  "verify_frozen_submission db q = (case map_of (db_frozen db) (cq_frozen_submission_id q) of
      None \<Rightarrow> Inl FrozenSubmissionNotFound
    | Some course \<Rightarrow> if course \<noteq> cq_course_id q then Inl StoreIdentityMismatch else Inr ())"

definition insert_run :: "control_db \<Rightarrow> run_row \<Rightarrow> control_store_error + control_db" where
  "insert_run db row =
     (if list_ex (\<lambda>t. er_id (rr_run t) = er_id (rr_run row)
          \<or> er_course_id (rr_run t) = er_course_id (rr_run row) \<and> rr_idempotency_key t = rr_idempotency_key row)
        (db_runs db)
      then Inl StoreIdentityMismatch
      else Inr (db \<lparr> db_runs := db_runs db @ [row] \<rparr>))"

datatype run_reservation = RunCreated evaluation_run | RunReplayed evaluation_run

definition new_run ::
  "create_run_request \<Rightarrow> evaluation_release \<Rightarrow> uuid \<Rightarrow> step_run list \<Rightarrow> timestamp \<Rightarrow> evaluation_run" where
  "new_run q r run_id steps now =
     \<lparr> er_schema_version = EVALUATION_RUN_SCHEMA_VERSION, er_id = run_id, er_course_id = cq_course_id q,
       er_release_id = rl_id r, er_release_revision = rl_revision r,
       er_frozen_submission_id = cq_frozen_submission_id q, er_actor_id = cq_actor_id q,
       er_state = RunQueued, er_revision = 1, er_identity = cq_identity q,
       er_max_score = agg_max_score (eb_aggregation (es_spec (rl_evaluation_spec r))), er_awarded_score = 0,
       er_steps = steps, er_diagnostic_code = None, er_cancellation_requested = False,
       er_cleanup_verified = False, er_created_at = now, er_updated_at = now, er_completed_at = None \<rparr>"

definition create_run ::
  "control_libs \<Rightarrow> create_run_request \<Rightarrow> string \<Rightarrow> timestamp \<Rightarrow> string \<Rightarrow> uuid \<Rightarrow> (nat \<Rightarrow> uuid) \<Rightarrow> control_db
   \<Rightarrow> control_store_error + (run_reservation \<times> control_db)" where
  "create_run libs q key now trace_id run_id step_ids db =
     (if \<not> create_run_request_validate q then Inl ContractInvalid
      else res_then (validate_trace trace_id) (\<lambda>_.
      if rn_trace_id (cq_identity q) \<noteq> trace_id then Inl StoreIdentityMismatch
      else res_then (document_hash libs (DocRequest (CreateRequest q))) (\<lambda>request_hash.
      res_then (document_hash libs (DocRunIdentity (cq_identity q))) (\<lambda>_.
      res_then (reserve_or_replay CREATE_RUN_OPERATION key request_hash db) (\<lambda>(replay, db1).
      case replay of
        Some v \<Rightarrow> res_then (decode_run v) (\<lambda>r. Inr (RunReplayed r, db))
      | None \<Rightarrow>
          res_then (load_release_for_update db1 (cq_release_id q)) (\<lambda>release.
          if rl_course_id release \<noteq> cq_course_id q \<or> rl_revision release \<noteq> cq_release_revision q
             \<or> rl_state release \<noteq> ReleaseActive
          then Inl (if rl_state release = ReleaseActive then StoreIdentityMismatch else ReleaseIsWithdrawn)
          else if rl_runtime_identity release \<noteq> rn_runtime_identity (cq_identity q) then Inl StoreIdentityMismatch
          else res_then (verify_frozen_submission db1 q) (\<lambda>_.
          res_then (step_runs_for release run_id step_ids) (\<lambda>steps.
          let run = new_run q release run_id steps now in
          res_then (map_err StoreContract (run_validate run)) (\<lambda>_.
          res_then (column_revision (er_release_revision run)) (\<lambda>_.
          res_then (ok_or StoreScoreInvalid (i32_try_from (er_max_score run))) (\<lambda>_.
          res_then (insert_run db1 \<lparr> rr_run = run, rr_idempotency_key = key \<rparr>) (\<lambda>db2.
          res_then (save_new_steps db2 (er_steps run)) (\<lambda>db3.
          res_then (enqueue_run_event libs db3 run EVALUATION_RUN_REQUESTED now trace_id None) (\<lambda>db4.
          res_then (complete_reservation CREATE_RUN_OPERATION key (RunResult run) db4) (\<lambda>db5.
          Inr (RunCreated run, db5))))))))))))))))"

section \<open>Mutations of a run\<close>

datatype mutation_kind = MutCancel | MutRetryStep | MutVerifyStepCleanup

fun cancel_unstarted_steps ::
  "timestamp \<Rightarrow> uuid list \<Rightarrow> control_db \<Rightarrow> step_run list \<Rightarrow> control_store_error + (uuid list \<times> control_db)" where
  "cancel_unstarted_steps now changed db [] = Inr (changed, db)"
| "cancel_unstarted_steps now changed db (s # ss) =
     (if sr_state s \<in> {StepPending, StepRetryable}
      then res_then (ok_or ContractInvalid (revision_next (sr_revision s))) (\<lambda>rv.
           res_then (save_step db (s \<lparr> sr_state := StepCancelled, sr_revision := rv,
               sr_diagnostic_code := Some ''LW_EVALUATION_CANCELLED'', sr_cleanup_verified := True,
               sr_completed_at := Some now \<rparr>)) (\<lambda>db'.
           cancel_unstarted_steps now (push_step_change changed (sr_id s)) db' ss))
      else cancel_unstarted_steps now changed db ss)"

definition mark_attempt_cleanup_verified :: "control_db \<Rightarrow> step_run \<Rightarrow> control_store_error + control_db" where
  "mark_attempt_cleanup_verified db s =
     res_then (ok_or AttemptOverflow (i32_try_from (sr_current_attempt s))) (\<lambda>n.
     let hit = (\<lambda>a. sa_step_run_id a = sr_id s \<and> sa_attempt a = n
         \<and> sa_state a \<in> {StepFailed, StepCancelled} \<and> \<not> sa_cleanup_verified a) in
     if length (filter hit (db_attempts db)) \<noteq> 1 then Inl StateConflict
     else Inr (db \<lparr> db_attempts := upd_where hit (\<lambda>a. a \<lparr> sa_cleanup_verified := True \<rparr>) (db_attempts db) \<rparr>))"

definition mutate_cancel ::
  "timestamp \<Rightarrow> evaluation_run \<Rightarrow> control_db \<Rightarrow> control_store_error + (evaluation_run \<times> uuid list \<times> control_db)" where
  "mutate_cancel now run db =
     (if is_terminal_run (er_state run) then Inl StateConflict
      else
      let cancelled = \<not> list_ex (\<lambda>s. sr_state s = StepRunning) (er_steps run) in
      res_then (ok_or ContractInvalid (revision_next (er_revision run))) (\<lambda>rv.
      res_then (cancel_unstarted_steps now [] db (er_steps run)) (\<lambda>(changed, db').
      let run1 = run \<lparr> er_cancellation_requested := True,
          er_state := (if cancelled then RunCancelled else RunCancelling), er_revision := rv, er_updated_at := now \<rparr> in
      Inr (if cancelled
           then run1 \<lparr> er_diagnostic_code := Some ''LW_EVALUATION_CANCELLED'', er_cleanup_verified := True,
                        er_completed_at := Some now \<rparr>
           else run1, changed, db'))))"

definition mutate_retry_step ::
  "timestamp \<Rightarrow> uuid option \<Rightarrow> evaluation_run \<Rightarrow> control_db
   \<Rightarrow> control_store_error + (evaluation_run \<times> uuid list \<times> control_db)" where
  "mutate_retry_step now step_run_id run db =
     res_then (ok_or ContractInvalid step_run_id) (\<lambda>i.
     res_then (ok_or StepNotFound (List.find (\<lambda>s. sr_id s = i) (er_steps run))) (\<lambda>s0.
     if er_cancellation_requested run \<or> sr_state s0 \<noteq> StepFailed \<or> \<not> sr_cleanup_verified s0
     then Inl StateConflict
     else res_then (ok_or ContractInvalid (revision_next (sr_revision s0))) (\<lambda>srv.
     res_then (save_step db (s0 \<lparr> sr_state := StepRetryable, sr_revision := srv, sr_awarded_score := None,
         sr_diagnostic_code := None, sr_started_at := None, sr_completed_at := None \<rparr>)) (\<lambda>db1.
     res_then (restore_dependency_skipped_successors db1 (er_id run) (sr_step_id s0)) (\<lambda>(restored, db2).
     res_then (ok_or ContractInvalid (revision_next (er_revision run))) (\<lambda>rv.
     Inr (run \<lparr> er_state := RunRunning, er_cancellation_requested := False, er_diagnostic_code := None,
            er_completed_at := None, er_cleanup_verified := False, er_revision := rv, er_updated_at := now \<rparr>,
          sr_id s0 # restored, db2)))))))"

definition mutate_verify_cleanup ::
  "timestamp \<Rightarrow> uuid option \<Rightarrow> evaluation_run \<Rightarrow> control_db
   \<Rightarrow> control_store_error + (evaluation_run \<times> uuid list \<times> control_db)" where
  "mutate_verify_cleanup now step_run_id run db =
     res_then (ok_or ContractInvalid step_run_id) (\<lambda>i.
     res_then (ok_or StepNotFound (List.find (\<lambda>s. sr_id s = i) (er_steps run))) (\<lambda>s0.
     if sr_state s0 \<notin> {StepFailed, StepCancelled} \<or> sr_cleanup_verified s0 then Inl StateConflict
     else res_then (ok_or ContractInvalid (revision_next (sr_revision s0))) (\<lambda>srv.
     let s = s0 \<lparr> sr_cleanup_verified := True, sr_revision := srv \<rparr> in
     res_then (mark_attempt_cleanup_verified db s) (\<lambda>db1.
     res_then (save_step db1 s) (\<lambda>db2.
     res_then (ok_or ContractInvalid (revision_next (er_revision run))) (\<lambda>rv.
     Inr (run \<lparr> er_revision := rv, er_updated_at := now \<rparr>, [sr_id s], db2)))))))"

fun mutate ::
  "mutation_kind \<Rightarrow> timestamp \<Rightarrow> uuid option \<Rightarrow> evaluation_run \<Rightarrow> control_db
   \<Rightarrow> control_store_error + (evaluation_run \<times> uuid list \<times> control_db)" where
  "mutate MutCancel now step_run_id = mutate_cancel now"
| "mutate MutRetryStep now step_run_id = mutate_retry_step now step_run_id"
| "mutate MutVerifyStepCleanup now step_run_id = mutate_verify_cleanup now step_run_id"

definition revisioned_mutation ::
  "control_libs \<Rightarrow> string \<Rightarrow> uuid \<Rightarrow> uuid option \<Rightarrow> mutation_request \<Rightarrow> string \<Rightarrow> timestamp \<Rightarrow> string
   \<Rightarrow> mutation_kind \<Rightarrow> control_db \<Rightarrow> control_store_error + (evaluation_run \<times> control_db)" where
  "revisioned_mutation libs operation run_id step_run_id q key now trace_id kind db =
     res_then (validate_trace trace_id) (\<lambda>_.
     res_then (document_hash libs (DocRequest (MutationRequest run_id step_run_id q))) (\<lambda>request_hash.
     res_then (reserve_or_replay operation key request_hash db) (\<lambda>(replay, db1).
     case replay of
       Some v \<Rightarrow> res_then (decode_run v) (\<lambda>r. Inr (r, db))
     | None \<Rightarrow>
         res_then (load_run_for_update db1 run_id) (\<lambda>run.
         if er_course_id run \<noteq> mq_course_id q \<or> er_revision run \<noteq> mq_expected_revision q then Inl StateConflict
         else res_then (mutate kind now step_run_id run db1) (\<lambda>(run1, changed, db2).
         res_then (refresh_and_save_run libs db2 run1 now changed trace_id (Some (mq_actor_id q))) (\<lambda>(run2, db3).
         res_then (complete_reservation operation key (RunResult run2) db3) (\<lambda>db4.
         Inr (run2, db4))))))))"

definition request_cancellation where
  "request_cancellation libs run_id q key now trace_id =
     revisioned_mutation libs CANCEL_RUN_OPERATION run_id None q key now trace_id MutCancel"

definition retry_step where
  "retry_step libs run_id step_run_id q key now trace_id =
     revisioned_mutation libs RETRY_STEP_OPERATION run_id (Some step_run_id) q key now trace_id MutRetryStep"

definition verify_step_cleanup where
  "verify_step_cleanup libs run_id step_run_id q key now trace_id =
     revisioned_mutation libs VERIFY_STEP_CLEANUP_OPERATION run_id (Some step_run_id) q key now trace_id MutVerifyStepCleanup"

section \<open>Step leases\<close>

record step_lease =
  sl_course_id :: uuid
  sl_run_id :: uuid
  sl_step_run_id :: uuid
  sl_step_id :: string
  sl_role :: step_role
  sl_max_score :: u32
  sl_attempt :: u32
  sl_worker_id :: string
  sl_worker_san_uri :: string
  sl_runtime_identity :: runtime_identity
  sl_trace_id :: string
  sl_lease_token :: uuid

definition dependency_satisfied :: "step_run \<Rightarrow> bool" where
  "dependency_satisfied d \<longleftrightarrow> sr_state d = StepSucceeded
     \<or> sr_role d = RoleScore \<and> sr_failure_policy d = PolicyContinue \<and> sr_state d \<in> {StepFailed, StepCancelled}
     \<or> sr_role d = RoleAdvisory \<and> sr_failure_policy d = PolicyContinueAdvisory
       \<and> sr_state d \<in> {StepFailed, StepCancelled}"

definition claimable :: "control_db \<Rightarrow> evaluation_run \<Rightarrow> step_run \<Rightarrow> bool" where
  "claimable db run s \<longleftrightarrow> er_state run \<in> {RunQueued, RunRunning} \<and> \<not> er_cancellation_requested run
     \<and> (sr_state s = StepPending \<or> sr_state s = StepRetryable \<and> sr_cleanup_verified s)
     \<and> \<not> list_ex (\<lambda>d. sr_run_id d = sr_run_id s \<and> sr_step_id d \<in> set (sr_depends_on s)
          \<and> \<not> dependency_satisfied d) (db_steps db)"

definition claim_candidates :: "control_db \<Rightarrow> (evaluation_run \<times> step_run) list" where
  "claim_candidates db = concat (map (\<lambda>s. map (\<lambda>row. (rr_run row, s))
      (filter (\<lambda>row. er_id (rr_run row) = sr_run_id s \<and> claimable db (rr_run row) s) (db_runs db))) (db_steps db))"

definition claim_before :: "evaluation_run \<times> step_run \<Rightarrow> evaluation_run \<times> step_run \<Rightarrow> bool" where
  "claim_before a b \<longleftrightarrow> er_created_at (fst a) < er_created_at (fst b)
     \<or> er_created_at (fst a) = er_created_at (fst b) \<and> sr_position (snd a) \<le> sr_position (snd b)"

fun claim_first :: "(evaluation_run \<times> step_run) list \<Rightarrow> (evaluation_run \<times> step_run) option" where
  "claim_first [] = None"
| "claim_first (c # cs) = (case claim_first cs of None \<Rightarrow> Some c | Some m \<Rightarrow> Some (if claim_before c m then c else m))"

definition insert_attempt :: "control_db \<Rightarrow> step_attempt \<Rightarrow> control_store_error + control_db" where
  "insert_attempt db a =
     (if list_ex (\<lambda>t. sa_step_run_id t = sa_step_run_id a
          \<and> (sa_attempt t = sa_attempt a \<or> sa_state t = StepRunning)) (db_attempts db)
      then Inl StoreDatabase
      else Inr (db \<lparr> db_attempts := db_attempts db @ [a] \<rparr>))"

definition claimed_step :: "timestamp \<Rightarrow> u32 \<Rightarrow> revision \<Rightarrow> step_run \<Rightarrow> step_run" where
  "claimed_step now attempt rv s = s \<lparr> sr_state := StepRunning, sr_revision := rv, sr_current_attempt := attempt,
     sr_awarded_score := None, sr_diagnostic_code := None, sr_cleanup_verified := False,
     sr_started_at := Some now, sr_completed_at := None \<rparr>"

definition leased_attempt ::
  "control_libs \<Rightarrow> evaluation_run \<Rightarrow> uuid \<Rightarrow> int \<Rightarrow> string \<Rightarrow> string \<Rightarrow> sha256 \<Rightarrow> uuid \<Rightarrow> timestamp \<Rightarrow> step_attempt" where
  "leased_attempt libs run step_run_id n worker_id san runtime_hash lease_token lease_expires_at =
     \<lparr> sa_step_run_id = step_run_id, sa_attempt = n, sa_state = StepRunning,
       sa_worker_id = worker_id, sa_worker_san_uri = san,
       sa_provider_binding = ri_provider_binding (rn_runtime_identity (er_identity run)),
       sa_runner_image = ri_runner_image (rn_runtime_identity (er_identity run)),
       sa_runtime_artifact_sha256 = sha256_display (lb_hash_bytes libs ''runtime-artifact''),
       sa_runtime_identity_sha256 = sha256_display runtime_hash, sa_lease_token = Some lease_token,
       sa_lease_expires_at = Some lease_expires_at, sa_diagnostic_code = None,
       sa_evidence_sha256 = None, sa_cleanup_verified = False, sa_completed_at = None \<rparr>"

definition claim_next_step ::
  "control_libs \<Rightarrow> string \<Rightarrow> int \<Rightarrow> timestamp \<Rightarrow> uuid \<Rightarrow> control_db
   \<Rightarrow> control_store_error + (step_lease option \<times> control_db)" where
  "claim_next_step libs worker_id lease_duration now lease_token db =
     res_then (validate_worker worker_id lease_duration) (\<lambda>_.
     res_then (worker_service_san worker_id) (\<lambda>san.
     case claim_first (claim_candidates db) of
       None \<Rightarrow> Inr (None, db)
     | Some (run_row, step_row) \<Rightarrow>
         res_then (load_run_for_update db (er_id run_row)) (\<lambda>run.
         res_then (load_step_for_update db (sr_id step_row)) (\<lambda>s0.
         res_then (ok_or AttemptOverflow (checked_add (sr_current_attempt s0) 1)) (\<lambda>attempt.
         res_then (runtime_identity_sha256 libs (rn_runtime_identity (er_identity run))) (\<lambda>runtime_hash.
         res_then (ok_or ContractInvalid (revision_next (sr_revision s0))) (\<lambda>srv.
         let s = claimed_step now attempt srv s0 in
         res_then (save_step db s) (\<lambda>db1.
         res_then (ok_or AttemptOverflow (i32_try_from attempt)) (\<lambda>n.
         res_then (insert_attempt db1 (leased_attempt libs run (sr_id step_row) n worker_id san runtime_hash lease_token
             (now + lease_duration div 1000000))) (\<lambda>db2.
         res_then (ok_or ContractInvalid (revision_next (er_revision run))) (\<lambda>rv.
         let run1 = run \<lparr> er_state := (if er_state run = RunQueued then RunRunning else er_state run),
             er_revision := rv, er_updated_at := now \<rparr> in
         res_then (refresh_and_save_run libs db2 run1 now [sr_id s] (rn_trace_id (er_identity run)) None) (\<lambda>(run2, db3).
         Inr (Some \<lparr> sl_course_id = er_course_id run2, sl_run_id = er_id run_row, sl_step_run_id = sr_id step_row,
             sl_step_id = sr_step_id s, sl_role = sr_role s, sl_max_score = sr_max_score s, sl_attempt = attempt,
             sl_worker_id = worker_id, sl_worker_san_uri = san,
             sl_runtime_identity = rn_runtime_identity (er_identity run2), sl_trace_id = rn_trace_id (er_identity run2),
             sl_lease_token = lease_token \<rparr>, db3)))))))))))))"

record completion_call =
  cc_course_id :: uuid
  cc_run_id :: uuid
  cc_step_run_id :: uuid
  cc_attempt :: u32
  cc_worker_id :: string
  cc_worker_san_uri :: string
  cc_runtime_identity :: runtime_identity
  cc_lease_token :: uuid
  cc_completion :: step_completion
  cc_trace_id :: string

definition lease_hit :: "control_libs \<Rightarrow> timestamp \<Rightarrow> sha256 \<Rightarrow> int \<Rightarrow> completion_call \<Rightarrow> step_attempt \<Rightarrow> bool" where
  "lease_hit libs completed_at runtime_hash n c a \<longleftrightarrow>
     sa_step_run_id a = cc_step_run_id c \<and> sa_attempt a = n \<and> sa_worker_id a = cc_worker_id c
     \<and> sa_worker_san_uri a = cc_worker_san_uri c \<and> sa_lease_token a = Some (cc_lease_token c)
     \<and> sa_state a = StepRunning
     \<and> sa_provider_binding a = ri_provider_binding (cc_runtime_identity c)
     \<and> sa_runner_image a = ri_runner_image (cc_runtime_identity c)
     \<and> sa_runtime_artifact_sha256 a = sha256_display (lb_hash_bytes libs ''runtime-artifact'')
     \<and> sa_runtime_identity_sha256 a = sha256_display runtime_hash
     \<and> (case sa_lease_expires_at a of None \<Rightarrow> False | Some t \<Rightarrow> t > completed_at)"

definition finished_attempt :: "control_libs \<Rightarrow> timestamp \<Rightarrow> step_completion \<Rightarrow> step_attempt \<Rightarrow> step_attempt" where
  "finished_attempt libs completed_at m a = a \<lparr> sa_state := cm_state m, sa_lease_token := None,
     sa_lease_expires_at := None, sa_diagnostic_code := cm_diagnostic_code m,
     sa_evidence_sha256 := Some (sha256_display (lb_hash_bytes libs ''evidence'')),
     sa_cleanup_verified := cm_cleanup_verified m, sa_completed_at := Some completed_at \<rparr>"

definition finished_step :: "timestamp \<Rightarrow> revision \<Rightarrow> step_completion \<Rightarrow> step_run \<Rightarrow> step_run" where
  "finished_step completed_at rv m s = s \<lparr> sr_state := cm_state m, sr_revision := rv,
     sr_awarded_score := cm_awarded_score m, sr_diagnostic_code := cm_diagnostic_code m,
     sr_cleanup_verified := cm_cleanup_verified m, sr_completed_at := Some completed_at \<rparr>"

definition complete_step ::
  "control_libs \<Rightarrow> completion_call \<Rightarrow> timestamp \<Rightarrow> control_db \<Rightarrow> control_store_error + (evaluation_run \<times> control_db)" where
  "complete_step libs c completed_at db =
     res_then (validate_worker_san (cc_worker_id c) (cc_worker_san_uri c)) (\<lambda>_.
     res_then (validate_trace (cc_trace_id c)) (\<lambda>_.
     if cc_attempt c = 0 then Inl ContractInvalid
     else res_then (load_run_for_update db (cc_run_id c)) (\<lambda>run.
     if er_course_id run \<noteq> cc_course_id c then Inl CourseMismatch
     else res_then (map_err StoreContract (runtime_identity_validate (cc_runtime_identity c))) (\<lambda>_.
     if cc_runtime_identity c \<noteq> rn_runtime_identity (er_identity run) then Inl StoreIdentityMismatch
     else res_then (runtime_identity_sha256 libs (cc_runtime_identity c)) (\<lambda>runtime_hash.
     res_then (load_step_for_update db (cc_step_run_id c)) (\<lambda>s0.
     if sr_run_id s0 \<noteq> cc_run_id c \<or> sr_current_attempt s0 \<noteq> cc_attempt c then Inl StoreIdentityMismatch
     else res_then (map_err StoreContract (completion_validate (cc_completion c) (sr_role s0) (sr_max_score s0))) (\<lambda>_.
     res_then (ok_or AttemptOverflow (i32_try_from (cc_attempt c))) (\<lambda>n.
     if filter (lease_hit libs completed_at runtime_hash n c) (db_attempts db) = [] then Inl LeaseLost
     else
       let db1 = db \<lparr> db_attempts := upd_where (lease_hit libs completed_at runtime_hash n c)
           (finished_attempt libs completed_at (cc_completion c)) (db_attempts db) \<rparr> in
       res_then (ok_or ContractInvalid (revision_next (sr_revision s0))) (\<lambda>srv.
       let s = finished_step completed_at srv (cc_completion c) s0 in
       res_then (save_step db1 s) (\<lambda>db2.
       res_then (if sr_state s \<in> {StepFailed, StepCancelled} \<and> failure_stops_dependency_successors s
                 then skip_dependency_successors db2 (cc_run_id c) (sr_step_id s) completed_at
                 else Inr ([], db2)) (\<lambda>(skipped, db3).
       res_then (ok_or ContractInvalid (revision_next (er_revision run))) (\<lambda>rv.
       refresh_and_save_run libs db3 (run \<lparr> er_revision := rv, er_updated_at := completed_at \<rparr>) completed_at
         (sr_id s # skipped) (cc_trace_id c) None))))))))))))"

section \<open>Recovery of expired leases\<close>

definition expired_step :: "timestamp \<Rightarrow> revision \<Rightarrow> step_run \<Rightarrow> step_run" where
  "expired_step now rv s = s \<lparr> sr_state := StepFailed, sr_revision := rv,
     sr_diagnostic_code := Some ''LW_EVALUATION_STEP_LEASE_EXPIRED'', sr_cleanup_verified := False,
     sr_completed_at := Some now \<rparr>"

definition expired_attempt :: "control_libs \<Rightarrow> timestamp \<Rightarrow> step_attempt \<Rightarrow> step_attempt" where
  "expired_attempt libs now a = a \<lparr> sa_state := StepFailed, sa_lease_token := None, sa_lease_expires_at := None,
     sa_diagnostic_code := Some ''LW_EVALUATION_STEP_LEASE_EXPIRED'',
     sa_evidence_sha256 := Some (sha256_display (lb_hash_bytes libs ''expired-step-lease'')),
     sa_cleanup_verified := False, sa_completed_at := Some now \<rparr>"

definition expired_before :: "step_attempt \<Rightarrow> step_attempt \<Rightarrow> bool" where
  "expired_before a b \<longleftrightarrow> (let ta = sa_lease_expires_at a; tb = sa_lease_expires_at b in
     case ta of None \<Rightarrow> False | Some x \<Rightarrow> (case tb of None \<Rightarrow> True | Some y \<Rightarrow>
       x < y \<or> x = y \<and> sa_step_run_id a \<le> sa_step_run_id b))"

fun expired_insert :: "step_attempt \<Rightarrow> step_attempt list \<Rightarrow> step_attempt list" where
  "expired_insert a [] = [a]"
| "expired_insert a (b # bs) = (if expired_before a b then a # b # bs else b # expired_insert a bs)"

definition expired_attempts :: "timestamp \<Rightarrow> nat \<Rightarrow> control_db \<Rightarrow> step_attempt list" where
  "expired_attempts clock limit db = take limit (foldr expired_insert (filter (\<lambda>a. sa_state a = StepRunning
       \<and> (case sa_lease_expires_at a of None \<Rightarrow> False | Some t \<Rightarrow> t \<le> clock)
       \<and> list_ex (\<lambda>s. sr_id s = sa_step_run_id a
            \<and> list_ex (\<lambda>row. er_id (rr_run row) = sr_run_id s) (db_runs db)) (db_steps db)) (db_attempts db)) [])"

definition recover_one ::
  "control_libs \<Rightarrow> timestamp \<Rightarrow> step_attempt \<Rightarrow> control_db
   \<Rightarrow> control_store_error + ((uuid \<times> uuid list) option \<times> control_db)" where
  "recover_one libs now a db =
     (let hit = (\<lambda>t. sa_step_run_id t = sa_step_run_id a \<and> sa_attempt t = sa_attempt a \<and> sa_state t = StepRunning) in
      if length (filter hit (db_attempts db)) \<noteq> 1
      then Inr (None, db \<lparr> db_attempts := upd_where hit (expired_attempt libs now) (db_attempts db) \<rparr>)
      else
        let db1 = db \<lparr> db_attempts := upd_where hit (expired_attempt libs now) (db_attempts db) \<rparr> in
        res_then (load_step_for_update db1 (sa_step_run_id a)) (\<lambda>s0.
        res_then (ok_or ContractInvalid (revision_next (sr_revision s0))) (\<lambda>srv.
        let s = expired_step now srv s0 in
        res_then (save_step db1 s) (\<lambda>db2.
        res_then (if failure_stops_dependency_successors s
                  then skip_dependency_successors db2 (sr_run_id s0) (sr_step_id s) now
                  else Inr ([], db2)) (\<lambda>(skipped, db3).
        Inr (Some (sr_run_id s0, sr_id s # skipped), db3))))))"

fun recover_attempts ::
  "control_libs \<Rightarrow> timestamp \<Rightarrow> u64 \<Rightarrow> (uuid \<times> uuid list) list \<Rightarrow> control_db \<Rightarrow> step_attempt list
   \<Rightarrow> control_store_error + (u64 \<times> (uuid \<times> uuid list) list \<times> control_db)" where
  "recover_attempts libs now recovered affected db [] = Inr (recovered, affected, db)"
| "recover_attempts libs now recovered affected db (a # as) =
     res_then (recover_one libs now a db) (\<lambda>(r, db').
     case r of
       None \<Rightarrow> recover_attempts libs now recovered affected db' as
     | Some (run_id, changed) \<Rightarrow>
         res_then (ok_or ContractInvalid (checked_add recovered 1)) (\<lambda>recovered'.
         recover_attempts libs now recovered' (push_run_step_changes affected run_id changed) db' as))"

fun refresh_affected ::
  "control_libs \<Rightarrow> timestamp \<Rightarrow> control_db \<Rightarrow> (uuid \<times> uuid list) list \<Rightarrow> control_store_error + control_db" where
  "refresh_affected libs now db [] = Inr db"
| "refresh_affected libs now db ((run_id, changed) # rest) =
     res_then (load_run_for_update db run_id) (\<lambda>run.
     res_then (ok_or ContractInvalid (revision_next (er_revision run))) (\<lambda>rv.
     res_then (refresh_and_save_run libs db (run \<lparr> er_revision := rv \<rparr>) now changed (rn_trace_id (er_identity run)) None) (\<lambda>(_, db').
     refresh_affected libs now db' rest)))"

definition recover_expired_step_attempts ::
  "control_libs \<Rightarrow> int \<Rightarrow> timestamp \<Rightarrow> timestamp \<Rightarrow> control_db \<Rightarrow> control_store_error + (u64 \<times> control_db)" where
  "recover_expired_step_attempts libs limit clock now db =
     (if \<not> (1 \<le> limit \<and> limit \<le> 64) then Inl ContractInvalid
      else res_then (recover_attempts libs now 0 [] db (expired_attempts clock (nat limit) db)) (\<lambda>(recovered, affected, db1).
      res_then (refresh_affected libs now db1 affected) (\<lambda>db2. Inr (recovered, db2))))"

section \<open>Results for students\<close>

definition load_run :: "control_db \<Rightarrow> uuid \<Rightarrow> control_store_error + evaluation_run" where
  "load_run db i =
     res_then (ok_or RunNotFound (List.find (\<lambda>row. er_id (rr_run row) = i) (db_runs db))) (\<lambda>row.
     decode_run (RunResult (rr_run row)))"


definition student_runs :: "control_db \<Rightarrow> uuid \<Rightarrow> uuid \<Rightarrow> evaluation_run list" where
  "student_runs db course_id actor_id = filter (\<lambda>r. er_course_id r = course_id \<and> er_actor_id r = actor_id
      \<and> is_terminal_run (er_state r)) (map rr_run (db_runs db))"

definition result_after :: "evaluation_run \<Rightarrow> evaluation_run \<Rightarrow> bool" where
  "result_after a b \<longleftrightarrow> er_updated_at a > er_updated_at b
     \<or> er_updated_at a = er_updated_at b \<and> er_id a > er_id b"

fun result_insert :: "evaluation_run \<Rightarrow> evaluation_run list \<Rightarrow> evaluation_run list" where
  "result_insert r [] = [r]"
| "result_insert r (q # qs) = (if result_after r q then r # q # qs else q # result_insert r qs)"

fun student_page :: "evaluation_run list \<Rightarrow> control_store_error + student_result list" where
  "student_page [] = Inr []"
| "student_page (r # rs) =
     res_then (decode_run (RunResult r)) (\<lambda>run.
     res_then (map_err StoreContract (from_terminal run)) (\<lambda>x.
     res_then (student_page rs) (\<lambda>xs. Inr (x # xs))))"

text \<open>A page and the identifier the next page starts after.\<close>

definition student_results ::
  "control_db \<Rightarrow> uuid \<Rightarrow> uuid \<Rightarrow> uuid option \<Rightarrow> u16 \<Rightarrow> control_store_error + (student_result list \<times> uuid option)" where
  "student_results db course_id actor_id cursor limit =
     (if limit < 1 \<or> limit > 100 then Inl ContractInvalid
      else
      let runs = student_runs db course_id actor_id;
          start = (case cursor of None \<Rightarrow> None | Some c \<Rightarrow> List.find (\<lambda>r. er_id r = c) runs) in
      if cursor \<noteq> None \<and> start = None then Inl ContractInvalid
      else
      let joined = filter (\<lambda>r. list_ex (\<lambda>t. rl_id (rw_release t) = er_release_id r) (db_releases db)
             \<and> (case start of None \<Rightarrow> True | Some c \<Rightarrow> result_after c r)) runs;
          page = take (Suc (unat limit)) (foldr result_insert joined []) in
      res_then (student_page page) (\<lambda>items.
      let shown = take (unat limit) items in
      Inr (shown, if length items > unat limit then map_option sre_run_id (if shown = [] then None else Some (last shown))
                  else None)))"

definition student_result_of ::
  "control_db \<Rightarrow> uuid \<Rightarrow> uuid \<Rightarrow> uuid \<Rightarrow> control_store_error + student_result" where
  "student_result_of db course_id actor_id run_id =
     res_then (ok_or RunNotFound (List.find (\<lambda>r. er_id r = run_id
         \<and> list_ex (\<lambda>t. rl_id (rw_release t) = er_release_id r) (db_releases db)) (student_runs db course_id actor_id))) (\<lambda>r.
     res_then (decode_run (RunResult r)) (\<lambda>run. map_err StoreContract (from_terminal run)))"

end
