(* ===== verification/Spec2Isabelle.thy ===== *)
theory Spec2Isabelle
  imports Agent_Run Executor_Safety Evaluation_Ops
begin

text \<open>
  LabWeaver is a cloud-native laboratory platform: an agent drafts laboratory
  environments, an environment service drives their lifecycle through
  providers, a resource service owns capacity requests, leases and claims, and
  an evaluation service grades submissions.  This library models the parts of
  that system whose behaviour is decided by its own code.

  \<^item> \<^verbatim>\<open>LW_Prelude\<close>: results, machine integers, strings and tables.
\<close>

end
